(* ===== verification/Signer_Prelude.thy ===== *)
theory Signer_Prelude
  imports Main "HOL-Library.Word" "HOL-Library.Sublist" "HOL-Library.AList"
begin

text \<open>
  Shared vocabulary of the development: what the signer uses of Rust and of its standard
  library.

  \<^item> \<open>outcome\<close>: a computation that returns a value (\<open>Ok\<close>), returns an error (\<open>Err\<close>: a
    \<^verbatim>\<open>Result::Err\<close>, a \<^verbatim>\<open>bail!\<close>, an early return) or panics (\<open>Panic\<close>: a failed \<^verbatim>\<open>expect\<close>, an
    index out of range, an overflowing \<^verbatim>\<open>Instant + Duration\<close>).
  \<^item> strings as UTF-8 byte lists (\<open>char\<close> is a byte, so \<open>length\<close> is \<^verbatim>\<open>str::len\<close>), with the
    \<^verbatim>\<open>str\<close> methods the sources call;
  \<^item> saturating arithmetic on machine words;
  \<^item> monotonic clock readings (\<^verbatim>\<open>std::time::Instant\<close>) and \<^verbatim>\<open>Duration\<close>s in nanoseconds;
  \<^item> \<^verbatim>\<open>for\<close> loops with an early return, as folds over an outcome.
\<close>

named_theorems outcome_simps \<open>unfolding equations for outcomes and loops\<close>
named_theorems str_simps \<open>evaluation of the string operations on literals\<close>
named_theorems time_simps \<open>clock arithmetic\<close>

type_synonym u16 = "16 word"
type_synonym u32 = "32 word"
type_synonym u64 = "64 word"
type_synonym u128 = "128 word"

section \<open>Outcomes\<close>

datatype ('e, 'a) outcome = Ok 'a | Err 'e | Panic

fun and_then :: "('e, 'a) outcome \<Rightarrow> ('a \<Rightarrow> ('e, 'b) outcome) \<Rightarrow> ('e, 'b) outcome" where
  "and_then (Ok a) f = f a"
| "and_then (Err e) f = Err e"
| "and_then Panic f = Panic"

fun map_err :: "('e \<Rightarrow> 'd) \<Rightarrow> ('e, 'a) outcome \<Rightarrow> ('d, 'a) outcome" where
  "map_err f (Ok a) = Ok a"
| "map_err f (Err e) = Err (f e)"
| "map_err f Panic = Panic"

definition ok_or :: "'e \<Rightarrow> 'a option \<Rightarrow> ('e, 'a) outcome" where
  "ok_or e x = (case x of None \<Rightarrow> Err e | Some a \<Rightarrow> Ok a)"

definition ensure :: "bool \<Rightarrow> 'e \<Rightarrow> ('e, unit) outcome" where
  \<comment> \<open>\<^verbatim>\<open>if !condition { bail!(..) }\<close>\<close>
  "ensure c e = (if c then Ok () else Err e)"

fun is_ok :: "('e, 'a) outcome \<Rightarrow> bool" where
  "is_ok (Ok a) = True"
| "is_ok (Err e) = False"
| "is_ok Panic = False"

lemma ok_or_simps [simp]:
  "ok_or e None = Err e" "ok_or e (Some a) = Ok a"
  by (simp_all add: ok_or_def)

lemma ok_or_eq_Ok [simp]: "ok_or e x = Ok a \<longleftrightarrow> x = Some a"
  by (cases x) simp_all

lemma ok_or_not_Panic [simp]: "ok_or e x \<noteq> Panic"
  by (cases x) simp_all

lemma and_then_eq_Err:
  "and_then m f = Err e \<longleftrightarrow> m = Err e \<or> (\<exists>a. m = Ok a \<and> f a = Err e)"
  by (cases m) simp_all

lemma map_err_eq_Err: "map_err f m = Err e \<longleftrightarrow> (\<exists>e'. m = Err e' \<and> e = f e')"
  by (cases m) auto

lemma ok_or_eq_Err: "ok_or e x = Err e' \<longleftrightarrow> x = None \<and> e' = e"
  by (cases x) auto

lemma and_then_eq_Ok [simp]: "and_then m f = Ok b \<longleftrightarrow> (\<exists>a. m = Ok a \<and> f a = Ok b)"
  by (cases m) simp_all

lemma and_then_eq_Panic [simp]:
  "and_then m f = Panic \<longleftrightarrow> m = Panic \<or> (\<exists>a. m = Ok a \<and> f a = Panic)"
  by (cases m) simp_all

lemma and_then_Ok_right [simp]: "and_then m Ok = m"
  by (cases m) simp_all

lemma map_err_eq_Ok [simp]: "map_err f m = Ok a \<longleftrightarrow> m = Ok a"
  by (cases m) simp_all

lemma map_err_eq_Panic [simp]: "map_err f m = Panic \<longleftrightarrow> m = Panic"
  by (cases m) simp_all

lemma ensure_eq_Ok [simp]: "ensure c e = Ok u \<longleftrightarrow> c"
  by (simp add: ensure_def)

lemma ensure_not_Panic [simp]: "ensure c e \<noteq> Panic"
  by (simp add: ensure_def)

lemma ensure_eq_Err [simp]: "ensure c e = Err e' \<longleftrightarrow> \<not> c \<and> e' = e"
  by (auto simp: ensure_def)

lemma ensure_simps [simp]: "ensure True e = Ok ()" "ensure False e = Err e"
  by (simp_all add: ensure_def)

lemma is_ok_iff: "is_ok m \<longleftrightarrow> (\<exists>a. m = Ok a)"
  by (cases m) simp_all

lemma not_is_ok_iff: "\<not> is_ok m \<longleftrightarrow> m = Panic \<or> (\<exists>e. m = Err e)"
  by (cases m) simp_all

subsection \<open>Loops with early return\<close>

text \<open>\<^verbatim>\<open>for x in xs { .. }\<close> over loop state \<open>s\<close>: the first iteration that does not end normally
  ends the loop.\<close>

fun for_each :: "('a \<Rightarrow> 's \<Rightarrow> ('e, 's) outcome) \<Rightarrow> 'a list \<Rightarrow> 's \<Rightarrow> ('e, 's) outcome" where
  "for_each f [] s = Ok s"
| "for_each f (x # xs) s = and_then (f x s) (for_each f xs)"

text \<open>A loop that only checks, without state.\<close>

definition check_each :: "('a \<Rightarrow> ('e, unit) outcome) \<Rightarrow> 'a list \<Rightarrow> ('e, unit) outcome" where
  "check_each f xs = for_each (\<lambda>x _. f x) xs ()"

lemma for_each_append:
  "for_each f (xs @ ys) s = and_then (for_each f xs s) (for_each f ys)"
proof (induction xs arbitrary: s)
  case Nil
  then show ?case by simp
next
  case (Cons x xs)
  then show ?case by (cases "f x s") simp_all
qed

lemma for_each_not_Panic:
  "(\<And>x s. x \<in> set xs \<Longrightarrow> f x s \<noteq> Panic) \<Longrightarrow> for_each f xs s \<noteq> Panic"
  by (induction xs arbitrary: s) auto

lemma for_each_invariant:
  assumes "for_each f xs s = Ok t" and "P s"
    and "\<And>x s t. x \<in> set xs \<Longrightarrow> P s \<Longrightarrow> f x s = Ok t \<Longrightarrow> P t"
  shows "P t"
  using assms by (induction xs arbitrary: s) auto

lemma check_each_simps [simp]:
  "check_each f [] = Ok ()"
  "check_each f (x # xs) = and_then (f x) (\<lambda>_. check_each f xs)"
  by (simp_all add: check_each_def)

lemma check_each_eq_Ok [simp]: "check_each f xs = Ok u \<longleftrightarrow> (\<forall>x\<in>set xs. f x = Ok ())"
  by (induction xs) auto

lemma check_each_not_Panic:
  "(\<And>x. x \<in> set xs \<Longrightarrow> f x \<noteq> Panic) \<Longrightarrow> check_each f xs \<noteq> Panic"
  by (induction xs) auto

text \<open>
  A loop that inserts every element into a \<^verbatim>\<open>HashSet\<close> and fails on the first element that was
  already there: it succeeds exactly on lists without repetition.
\<close>

definition insert_new :: "'e \<Rightarrow> 'a \<Rightarrow> 'a list \<Rightarrow> ('e, 'a list) outcome" where
  "insert_new e x seen = (if x \<in> set seen then Err e else Ok (x # seen))"

lemma insert_new_eq_Ok [simp]:
  "insert_new e x seen = Ok seen' \<longleftrightarrow> x \<notin> set seen \<and> seen' = x # seen"
  by (auto simp: insert_new_def)

lemma insert_new_not_Panic [simp]: "insert_new e x seen \<noteq> Panic"
  by (simp add: insert_new_def)

text \<open>\<^verbatim>\<open>collect\<close> into a \<^verbatim>\<open>Result\<close>: all elements or an error.\<close>

fun all_some :: "'a option list \<Rightarrow> 'a list option" where
  "all_some [] = Some []"
| "all_some (x # xs) = Option.bind x (\<lambda>a. map_option (Cons a) (all_some xs))"

lemma all_some_map: "(\<And>x. f (g x) = Some x) \<Longrightarrow> all_some (map f (map g xs)) = Some xs"
  by (induction xs) simp_all

section \<open>Strings\<close>

abbreviation byte :: "char \<Rightarrow> nat" where
  "byte c \<equiv> of_char c"

definition is_ascii_digit :: "char \<Rightarrow> bool" where
  "is_ascii_digit c \<longleftrightarrow> 48 \<le> byte c \<and> byte c \<le> 57"

definition is_ascii_lowercase :: "char \<Rightarrow> bool" where
  "is_ascii_lowercase c \<longleftrightarrow> 97 \<le> byte c \<and> byte c \<le> 122"

definition is_ascii_uppercase :: "char \<Rightarrow> bool" where
  "is_ascii_uppercase c \<longleftrightarrow> 65 \<le> byte c \<and> byte c \<le> 90"

definition is_ascii_alphanumeric :: "char \<Rightarrow> bool" where
  "is_ascii_alphanumeric c \<longleftrightarrow>
     is_ascii_digit c \<or> is_ascii_lowercase c \<or> is_ascii_uppercase c"

definition is_ascii_hexdigit :: "char \<Rightarrow> bool" where
  "is_ascii_hexdigit c \<longleftrightarrow>
     is_ascii_digit c \<or> (97 \<le> byte c \<and> byte c \<le> 102) \<or> (65 \<le> byte c \<and> byte c \<le> 70)"

definition to_ascii_lowercase :: "char \<Rightarrow> char" where
  "to_ascii_lowercase c = (if is_ascii_uppercase c then char_of (byte c + 32) else c)"

definition eq_ignore_ascii_case :: "string \<Rightarrow> string \<Rightarrow> bool" where
  "eq_ignore_ascii_case a b \<longleftrightarrow> map to_ascii_lowercase a = map to_ascii_lowercase b"

definition starts_with :: "string \<Rightarrow> string \<Rightarrow> bool" where
  "starts_with p s \<longleftrightarrow> prefix p s"

definition ends_with :: "string \<Rightarrow> string \<Rightarrow> bool" where
  "ends_with p s \<longleftrightarrow> prefix (rev p) (rev s)"

definition contains_str :: "string \<Rightarrow> string \<Rightarrow> bool" where
  "contains_str p s \<longleftrightarrow> sublist p s"

definition strip_prefix :: "string \<Rightarrow> string \<Rightarrow> string option" where
  "strip_prefix p s = (if prefix p s then Some (drop (length p) s) else None)"

text \<open>\<^verbatim>\<open>str::split_once\<close> at the first occurrence of a one-byte separator.\<close>

fun split_once :: "char \<Rightarrow> string \<Rightarrow> (string \<times> string) option" where
  "split_once c [] = None"
| "split_once c (x # xs) =
     (if x = c then Some ([], xs)
      else map_option (\<lambda>(a, b). (x # a, b)) (split_once c xs))"

text \<open>Non-overlapping occurrences of a nonempty needle (\<^verbatim>\<open>str::matches(..).count()\<close>).\<close>

function count_matches :: "string \<Rightarrow> string \<Rightarrow> nat" where
  "count_matches p s =
     (if s = [] \<or> p = [] then 0
      else if prefix p s then Suc (count_matches p (drop (length p) s))
      else count_matches p (tl s))"
  by pat_completeness auto
termination
  by (relation "measure (\<lambda>(p, s). length s)") (auto simp: length_greater_0_conv)

declare count_matches.simps [simp del]

text \<open>
  The UTF-8 encodings of the code points for which \<^verbatim>\<open>char::is_whitespace\<close> holds (the Unicode
  property \<open>White_Space\<close>). No encoding is a proper part of the encoding of another code point, so on
  a well-formed UTF-8 string a whitespace character occurs exactly where one of these byte strings
  does.
\<close>

definition white_space :: "string list" where
  "white_space =
     [[CHR 0x09], [CHR 0x0A], [CHR 0x0B], [CHR 0x0C], [CHR 0x0D], [CHR 0x20],
      [CHR 0xC2, CHR 0x85], [CHR 0xC2, CHR 0xA0], [CHR 0xE1, CHR 0x9A, CHR 0x80]]
     @ map (\<lambda>b. [CHR 0xE2, CHR 0x80, b])
         [CHR 0x80, CHR 0x81, CHR 0x82, CHR 0x83, CHR 0x84, CHR 0x85, CHR 0x86, CHR 0x87,
          CHR 0x88, CHR 0x89, CHR 0x8A, CHR 0xA8, CHR 0xA9, CHR 0xAF]
     @ [[CHR 0xE2, CHR 0x81, CHR 0x9F], [CHR 0xE3, CHR 0x80, CHR 0x80]]"

definition has_whitespace :: "string \<Rightarrow> bool" where
  \<comment> \<open>\<^verbatim>\<open>s.chars().any(char::is_whitespace)\<close>\<close>
  "has_whitespace s \<longleftrightarrow> list_ex (\<lambda>w. sublist w s) white_space"

function strip_front :: "string list \<Rightarrow> string \<Rightarrow> string" where
  "strip_front ws s =
     (case find (\<lambda>w. w \<noteq> [] \<and> prefix w s) ws of
        None \<Rightarrow> s
      | Some w \<Rightarrow> strip_front ws (drop (length w) s))"
  by pat_completeness auto
termination
proof (relation "measure (\<lambda>(ws, s). length s)", goal_cases)
  case 1
  then show ?case by simp
next
  case (2 ws s w)
  then have "w \<noteq> []" and "prefix w s"
    by (auto simp: find_Some_iff)
  then have "0 < length w" and "length w \<le> length s"
    by (auto dest: prefix_length_le)
  then have "length s - length w < length s" by linarith
  then show ?case by simp
qed

declare strip_front.simps [simp del]

definition trim_start :: "string \<Rightarrow> string" where
  "trim_start s = strip_front white_space s"

definition trim_end :: "string \<Rightarrow> string" where
  "trim_end s = rev (strip_front (map rev white_space) (rev s))"

definition trim :: "string \<Rightarrow> string" where
  "trim s = trim_end (trim_start s)"

lemma split_once_Some:
  "split_once c s = Some (a, b) \<longleftrightarrow> s = a @ c # b \<and> c \<notin> set a"
proof (induction s arbitrary: a)
  case Nil
  then show ?case by simp
next
  case (Cons x xs)
  show ?case
  proof (cases "x = c")
    case True
    then show ?thesis by (cases a) auto
  next
    case False
    then show ?thesis using Cons.IH by (cases a) auto
  qed
qed

lemma split_once_None: "split_once c s = None \<longleftrightarrow> c \<notin> set s"
  by (induction s) auto

lemma strip_prefix_Some: "strip_prefix p s = Some t \<longleftrightarrow> s = p @ t"
  by (auto simp: strip_prefix_def prefix_def)

lemma strip_prefix_None: "strip_prefix p s = None \<longleftrightarrow> \<not> prefix p s"
  by (simp add: strip_prefix_def)

lemma eq_ignore_ascii_case_refl [simp]: "eq_ignore_ascii_case s s"
  by (simp add: eq_ignore_ascii_case_def)

lemma eq_ignore_ascii_case_sym: "eq_ignore_ascii_case a b \<Longrightarrow> eq_ignore_ascii_case b a"
  by (simp add: eq_ignore_ascii_case_def)

lemma eq_ignore_ascii_case_trans:
  "eq_ignore_ascii_case a b \<Longrightarrow> eq_ignore_ascii_case b c \<Longrightarrow> eq_ignore_ascii_case a c"
  by (simp add: eq_ignore_ascii_case_def)

lemma ends_with_snoc: "ends_with [c] s \<longleftrightarrow> s \<noteq> [] \<and> last s = c"
  by (cases s rule: rev_cases) (auto simp: ends_with_def)

lemma starts_with_append [simp]: "starts_with p (p @ s)"
  by (simp add: starts_with_def)

lemma has_whitespace_blank: "CHR '' '' \<in> set s \<Longrightarrow> has_whitespace s"
proof -
  assume "CHR '' '' \<in> set s"
  then obtain a b where "s = a @ CHR '' '' # b" by (auto simp: in_set_conv_decomp)
  then have "sublist [CHR '' ''] s" by (auto simp: sublist_def)
  moreover have "[CHR '' ''] \<in> set white_space" by (simp add: white_space_def)
  ultimately show ?thesis by (auto simp: has_whitespace_def list_ex_iff)
qed

subsection \<open>Decimal rendering of integers\<close>

fun decimal :: "nat \<Rightarrow> string" where
  "decimal n = (if n < 10 then [char_of (48 + n)] else decimal (n div 10) @ [char_of (48 + n mod 10)])"

declare decimal.simps [simp del]

definition u64_to_string :: "u64 \<Rightarrow> string" where
  "u64_to_string w = decimal (unat w)"

definition undecimal :: "string \<Rightarrow> nat" where
  "undecimal s = foldl (\<lambda>n c. 10 * n + (byte c - 48)) 0 s"

lemma byte_char_of [simp]: "n < 256 \<Longrightarrow> byte (char_of n) = n"
  by (simp add: of_char_mod_256)

lemma undecimal_decimal [simp]: "undecimal (decimal n) = n"
proof (induction n rule: decimal.induct)
  case (1 n)
  show ?case
  proof (cases "n < 10")
    case True
    then show ?thesis by (simp add: undecimal_def decimal.simps [of n])
  next
    case False
    with 1 have "undecimal (decimal (n div 10)) = n div 10" by simp
    moreover have "n mod 10 < 10" by simp
    ultimately show ?thesis using False
      by (simp add: undecimal_def decimal.simps [of n] del: mod_less_divisor)
  qed
qed

lemma decimal_digits: "c \<in> set (decimal n) \<Longrightarrow> is_ascii_digit c"
proof (induction n rule: decimal.induct)
  case (1 n)
  have "n mod 10 < 10" by simp
  then show ?case using 1
    by (auto simp: decimal.simps [of n] is_ascii_digit_def split: if_splits)
qed

lemma u64_to_string_inject [simp]: "u64_to_string a = u64_to_string b \<longleftrightarrow> a = b"
  by (metis u64_to_string_def undecimal_decimal word_unat_eq_iff)

section \<open>Saturating word arithmetic\<close>

definition saturating_add :: "'w::len word \<Rightarrow> 'w word \<Rightarrow> 'w word" where
  "saturating_add a b = (if unat a + unat b < 2 ^ LENGTH('w) then a + b else - 1)"

definition saturating_sub :: "'w::len word \<Rightarrow> 'w word \<Rightarrow> 'w word" where
  "saturating_sub a b = (if b \<le> a then a - b else 0)"

lemma unat_saturating_add:
  "unat (saturating_add a (b :: 'w::len word)) = min (unat a + unat b) (2 ^ LENGTH('w) - 1)"
proof (cases "unat a + unat b < 2 ^ LENGTH('w)")
  case True
  then show ?thesis by (simp add: saturating_add_def unat_word_ariths)
next
  case False
  moreover have "unat (- 1 :: 'w word) = 2 ^ LENGTH('w) - 1"
    by (simp add: unsigned_minus_1_eq_mask mask_eq_exp_minus_1)
  ultimately show ?thesis by (simp add: saturating_add_def)
qed

lemma unat_saturating_sub: "unat (saturating_sub a b) = unat a - unat b"
  by (auto simp: saturating_sub_def unat_sub word_le_nat_alt not_le)

section \<open>Clocks\<close>

text \<open>
  An \<^verbatim>\<open>Instant\<close> is a reading of the monotonic clock, in nanoseconds, kept by the standard library
  on Unix as a signed 64-bit number of seconds and a fraction. Adding a \<^verbatim>\<open>Duration\<close> that leaves
  that range panics; \<^verbatim>\<open>checked_sub\<close> answers \<^verbatim>\<open>None\<close> there; \<^verbatim>\<open>elapsed\<close> saturates at zero.
\<close>

type_synonym instant = int
type_synonym duration = nat

definition NANOS :: nat where
  "NANOS = 1000000000"

definition INSTANT_LIMIT :: int where
  "INSTANT_LIMIT = 2 ^ 63 * int NANOS"

definition from_secs :: "u64 \<Rightarrow> duration" where
  "from_secs s = unat s * NANOS"

definition instant_add :: "instant \<Rightarrow> duration \<Rightarrow> instant option" where
  "instant_add t d = (if t + int d < INSTANT_LIMIT then Some (t + int d) else None)"

definition checked_sub :: "instant \<Rightarrow> duration \<Rightarrow> instant option" where
  "checked_sub t d = (if - INSTANT_LIMIT \<le> t - int d then Some (t - int d) else None)"

definition elapsed :: "instant \<Rightarrow> instant \<Rightarrow> duration" where
  \<comment> \<open>\<^verbatim>\<open>at.elapsed()\<close> read at \<open>now\<close>\<close>
  "elapsed now at = nat (now - at)"

lemma NANOS_pos [simp]: "0 < NANOS"
  by (simp add: NANOS_def)

lemma instant_add_Some [time_simps]:
  "instant_add t d = Some u \<longleftrightarrow> t + int d < INSTANT_LIMIT \<and> u = t + int d"
  by (auto simp: instant_add_def)

lemma checked_sub_nonneg [time_simps]:
  "0 \<le> t \<Longrightarrow> int d \<le> INSTANT_LIMIT \<Longrightarrow> checked_sub t d = Some (t - int d)"
  by (simp add: checked_sub_def)

lemma elapsed_less [time_simps]: "0 < d \<Longrightarrow> elapsed now at < d \<longleftrightarrow> now < at + int d"
  by (auto simp: elapsed_def)

lemma from_secs_mono: "a \<le> b \<Longrightarrow> from_secs a \<le> from_secs b"
  by (simp add: from_secs_def word_le_nat_alt)

end
