(* ===== verification/Json_Decode.thy ===== *)
theory Json_Decode
  imports Signer_Prelude
begin

text \<open>
  JSON documents and how the derived \<^verbatim>\<open>Deserialize\<close> implementations read them. A document is a tree whose
  objects keep their members in order, repeated names included. The texts of documents are written and read
  by \<^verbatim>\<open>serde_json\<close>, a parameter \<open>json_text\<close> of which \<open>json_text_laws\<close> says that it reads what it wrote.

  A structure is read from an object: every known name may occur once, a missing field is an error unless
  it is an \<^verbatim>\<open>Option\<close> or has a default, an unknown name is ignored or, under \<^verbatim>\<open>deny_unknown_fields\<close>, an error.
  It is also read from an array of its fields in their order, where only a field with a default may be
  missing at the end. \<open>None\<close> is an error.
\<close>

section \<open>Documents\<close>

datatype json =
    JsonNull
  | JsonBool bool
  | JsonInteger int
  | JsonFloat string
  | JsonString string
  | JsonArray "json list"
  | JsonObject "(string \<times> json) list"

type_synonym json_members = "(string \<times> json) list"

record json_text =
  jt_print :: "json \<Rightarrow> string"
  jt_parse :: "string \<Rightarrow> json option"

text \<open>
  Documents whose text is read back: integers of 64 bits, no floating-point numbers, and no more than \<open>n\<close>
  nested arrays and objects; \<^verbatim>\<open>serde_json\<close> reads 127 of them.
\<close>

fun writable :: "nat \<Rightarrow> json \<Rightarrow> bool" where
  "writable n (JsonInteger i) \<longleftrightarrow> - (2 ^ 63) \<le> i \<and> i < 2 ^ 64"
| "writable n (JsonFloat s) \<longleftrightarrow> False"
| "writable n (JsonArray vs) \<longleftrightarrow> 0 < n \<and> (\<forall>v\<in>set vs. writable (n - 1) v)"
| "writable n (JsonObject ms) \<longleftrightarrow> 0 < n \<and> (\<forall>m\<in>set ms. writable (n - 1) (snd m))"
| "writable n _ \<longleftrightarrow> True"

definition json_text_laws :: "json_text \<Rightarrow> bool" where
  "json_text_laws text \<longleftrightarrow> (\<forall>j. writable 127 j \<longrightarrow> jt_parse text (jt_print text j) = Some j)"

definition from_slice :: "json_text \<Rightarrow> (json \<Rightarrow> 'a option) \<Rightarrow> string \<Rightarrow> 'a option" where
  "from_slice text de body = Option.bind (jt_parse text body) de"

lemma from_slice_print:
  "json_text_laws text \<Longrightarrow> writable 127 j \<Longrightarrow> from_slice text de (jt_print text j) = de j"
  by (simp add: from_slice_def json_text_laws_def)

section \<open>Reading values\<close>

fun json_string :: "json \<Rightarrow> string option" where
  "json_string (JsonString s) = Some s"
| "json_string _ = None"

fun json_bool :: "json \<Rightarrow> bool option" where
  "json_bool (JsonBool b) = Some b"
| "json_bool _ = None"

fun json_u64 :: "json \<Rightarrow> u64 option" where
  "json_u64 (JsonInteger i) = (if 0 \<le> i \<and> i < 2 ^ 64 then Some (word_of_int i) else None)"
| "json_u64 _ = None"

fun json_u8 :: "json \<Rightarrow> 8 word option" where
  "json_u8 (JsonInteger i) = (if 0 \<le> i \<and> i < 2 ^ 8 then Some (word_of_int i) else None)"
| "json_u8 _ = None"

fun json_vec :: "(json \<Rightarrow> 'a option) \<Rightarrow> json \<Rightarrow> 'a list option" where
  "json_vec de (JsonArray vs) = all_some (map de vs)"
| "json_vec de _ = None"

fun json_option :: "(json \<Rightarrow> 'a option) \<Rightarrow> json \<Rightarrow> 'a option option" where
  "json_option de JsonNull = Some None"
| "json_option de v = map_option Some (de v)"

section \<open>Reading structures\<close>

record struct_source =
  ss_positional :: bool
  ss_field :: "string \<Rightarrow> json option"

definition json_struct :: "bool \<Rightarrow> string list \<Rightarrow> (struct_source \<Rightarrow> 'a option) \<Rightarrow> json \<Rightarrow> 'a option" where
  "json_struct deny_unknown names read v =
     (case v of
        JsonObject ms \<Rightarrow>
          if (deny_unknown \<longrightarrow> list_all (\<lambda>m. fst m \<in> set names) ms)
             \<and> distinct (filter (\<lambda>name. name \<in> set names) (map fst ms))
          then read \<lparr>ss_positional = False, ss_field = map_of ms\<rparr> else None
      | JsonArray vs \<Rightarrow>
          if length vs \<le> length names
          then read \<lparr>ss_positional = True, ss_field = map_of (zip names vs)\<rparr> else None
      | _ \<Rightarrow> None)"

definition need :: "(json \<Rightarrow> 'a option) \<Rightarrow> struct_source \<Rightarrow> string \<Rightarrow> 'a option" where
  "need de src name = Option.bind (ss_field src name) de"

definition maybe :: "(json \<Rightarrow> 'a option) \<Rightarrow> struct_source \<Rightarrow> string \<Rightarrow> 'a option option" where
  "maybe de src name =
     (case ss_field src name of
        None \<Rightarrow> if ss_positional src then None else Some None
      | Some v \<Rightarrow> json_option de v)"

definition or_default :: "(json \<Rightarrow> 'a option) \<Rightarrow> 'a \<Rightarrow> struct_source \<Rightarrow> string \<Rightarrow> 'a option" where
  "or_default de fallback src name = (case ss_field src name of None \<Rightarrow> Some fallback | Some v \<Rightarrow> de v)"

lemmas struct_simps = json_struct_def need_def maybe_def or_default_def

text \<open>A structure with one field, the shape of every request body of the program.\<close>

definition one_field :: "bool \<Rightarrow> string \<Rightarrow> json \<Rightarrow> string option" where
  "one_field deny_unknown name = json_struct deny_unknown [name] (\<lambda>src. need json_string src name)"

lemma json_string_Some: "json_string v = Some s \<longleftrightarrow> v = JsonString s"
  by (cases v) auto

lemma filter_single:
  "distinct (filter (\<lambda>n. n = name) ns) \<and> list_all (\<lambda>n. n = name) ns \<longleftrightarrow> ns = [] \<or> ns = [name]"
  by (cases ns; cases "tl ns") auto

lemma one_field_exact:
  "one_field True name v = Some s \<longleftrightarrow>
     v = JsonObject [(name, JsonString s)] \<or> v = JsonArray [JsonString s]"
proof (cases v)
  case (JsonObject ms)
  have "list_all (\<lambda>m. fst m \<in> set [name]) ms \<longleftrightarrow> list_all (\<lambda>n. n = name) (map fst ms)"
    by (simp add: list_all_iff)
  then show ?thesis
    using JsonObject filter_single [of name "map fst ms"]
    by (auto simp: one_field_def struct_simps json_string_Some bind_eq_Some_conv map_eq_Cons_conv)
next
  case (JsonArray vs)
  then show ?thesis
    by (cases vs; cases "tl vs") (auto simp: one_field_def struct_simps json_string_Some bind_eq_Some_conv)
qed (simp_all add: one_field_def json_struct_def)

lemma one_field_object: "one_field deny name (JsonObject [(name, JsonString s)]) = Some s"
  by (simp add: one_field_def struct_simps)

lemma json_u64_uint: "json_u64 (JsonInteger (uint w)) = Some w"
  using uint_lt2p [of w] by simp

lemma json_u8_uint: "json_u8 (JsonInteger (uint w)) = Some w"
  using uint_lt2p [of w] by simp

lemma json_vec_map: "(\<And>x. de (en x) = Some x) \<Longrightarrow> json_vec de (JsonArray (map en xs)) = Some xs"
  using all_some_map [of de en xs] by simp

lemma writable_uint: "writable n (JsonInteger (uint (w :: u64)))" "writable n (JsonInteger (uint (b :: 8 word)))"
  using uint_lt2p [of w] uint_lt2p [of b] by (simp_all add: order_trans [OF _ uint_ge_0])

section \<open>A text format\<close>

text \<open>
  A text of documents that meets the laws: each value is marked by a letter, and lengths are written in
  front of texts and lists.
\<close>

definition put_number :: "nat \<Rightarrow> string" where
  "put_number n = decimal n @ '';''"

definition put_text :: "string \<Rightarrow> string" where
  "put_text s = put_number (length s) @ s"

fun put_json :: "json \<Rightarrow> string" where
  "put_json JsonNull = ''n''"
| "put_json (JsonBool b) = (if b then ''t'' else ''f'')"
| "put_json (JsonInteger i) = (if 0 \<le> i then ''p'' @ put_number (nat i) else ''m'' @ put_number (nat (- i)))"
| "put_json (JsonFloat s) = ''r'' @ put_text s"
| "put_json (JsonString s) = ''s'' @ put_text s"
| "put_json (JsonArray vs) = ''a'' @ put_number (length vs) @ concat (map put_json vs)"
| "put_json (JsonObject ms) =
     ''o'' @ put_number (length ms) @ concat (map (\<lambda>m. put_text (fst m) @ put_json (snd m)) ms)"

definition get_number :: "string \<Rightarrow> (nat \<times> string) option" where
  "get_number s = map_option (\<lambda>(digits, rest). (undecimal digits, rest)) (split_once (CHR '';'') s)"

definition get_text :: "string \<Rightarrow> (string \<times> string) option" where
  "get_text s = map_option (\<lambda>(n, rest). (take n rest, drop n rest)) (get_number s)"

primrec get_list :: "(string \<Rightarrow> ('a \<times> string) option) \<Rightarrow> nat \<Rightarrow> string \<Rightarrow> ('a list \<times> string) option" where
  "get_list get 0 s = Some ([], s)"
| "get_list get (Suc n) s =
     Option.bind (get s) (\<lambda>(x, s'). map_option (\<lambda>(xs, rest). (x # xs, rest)) (get_list get n s'))"

definition get_member :: "(string \<Rightarrow> (json \<times> string) option) \<Rightarrow> string \<Rightarrow> ((string \<times> json) \<times> string) option" where
  "get_member get s =
     Option.bind (get_text s) (\<lambda>(name, s'). map_option (\<lambda>(v, rest). ((name, v), rest)) (get s'))"

fun get_json :: "nat \<Rightarrow> string \<Rightarrow> (json \<times> string) option" where
  "get_json (Suc n) (c # s) =
     (if c = CHR ''n'' then Some (JsonNull, s)
      else if c = CHR ''t'' then Some (JsonBool True, s)
      else if c = CHR ''f'' then Some (JsonBool False, s)
      else if c = CHR ''p'' then map_option (map_prod (\<lambda>k. JsonInteger (int k)) id) (get_number s)
      else if c = CHR ''m'' then map_option (map_prod (\<lambda>k. JsonInteger (- int k)) id) (get_number s)
      else if c = CHR ''r'' then map_option (map_prod JsonFloat id) (get_text s)
      else if c = CHR ''s'' then map_option (map_prod JsonString id) (get_text s)
      else if c = CHR ''a''
      then Option.bind (get_number s) (\<lambda>(k, s'). map_option (map_prod JsonArray id) (get_list (get_json n) k s'))
      else if c = CHR ''o''
      then Option.bind (get_number s) (\<lambda>(k, s').
             map_option (map_prod JsonObject id) (get_list (get_member (get_json n)) k s'))
      else None)"
| "get_json _ _ = None"

definition plain_json :: json_text where
  "plain_json =
     \<lparr>jt_print = put_json, jt_parse = (\<lambda>s. case get_json 128 s of Some (j, []) \<Rightarrow> Some j | _ \<Rightarrow> None)\<rparr>"

lemma get_put_number: "get_number (put_number n @ s) = Some (n, s)"
proof -
  have "CHR '';'' \<notin> set (decimal n)" using decimal_digits [of "CHR '';''" n] by (auto simp: is_ascii_digit_def)
  then have "split_once (CHR '';'') (decimal n @ CHR '';'' # s) = Some (decimal n, s)" by (simp add: split_once_Some)
  then show ?thesis by (simp add: get_number_def put_number_def)
qed

lemma get_put_text: "get_text (put_text t @ s) = Some (t, s)"
  by (simp add: get_text_def put_text_def get_put_number)

lemma get_put_list:
  "(\<And>x s. x \<in> set xs \<Longrightarrow> get (put x @ s) = Some (x, s)) \<Longrightarrow>
     get_list get (length xs) (concat (map put xs) @ s) = Some (xs, s)"
  by (induction xs) simp_all

lemma get_put_json: "writable n j \<Longrightarrow> get_json (Suc n) (put_json j @ s) = Some (j, s)"
proof (induction n arbitrary: j s)
  case 0
  then show ?case by (cases j) (auto simp: get_put_number get_put_text)
next
  case (Suc n)
  show ?case
  proof (cases j)
    case (JsonArray vs)
    then have "get_list (get_json (Suc n)) (length vs) (concat (map put_json vs) @ s) = Some (vs, s)"
      using Suc by (intro get_put_list) auto
    then show ?thesis by (simp add: JsonArray get_put_number)
  next
    case (JsonObject ms)
    have "get_list (get_member (get_json (Suc n))) (length ms)
        (concat (map (\<lambda>m. put_text (fst m) @ put_json (snd m)) ms) @ s) = Some (ms, s)"
      using Suc JsonObject by (intro get_put_list) (auto simp: get_member_def get_put_text)
    then show ?thesis by (simp add: JsonObject get_put_number)
  qed (auto simp: get_put_number get_put_text)
qed

lemma plain_json_laws: "json_text_laws plain_json"
proof -
  have "get_json 128 (put_json j) = Some (j, [])" if "writable 127 j" for j
    using get_put_json [OF that, of "[]"] by (simp del: get_json.simps)
  then show ?thesis by (simp add: json_text_laws_def plain_json_def)
qed

end
