(* ===== verification/Hash_Map.thy ===== *)
theory Hash_Map
  imports Signer_Prelude
begin

text \<open>
  \<^verbatim>\<open>std::collections::HashMap\<close> as the signer uses it. The contract (locale \<open>hash_map\<close>) gives
  lookup, insertion, removal, \<^verbatim>\<open>retain\<close> and \<^verbatim>\<open>len\<close> over an abstract map \<open>get m\<close>; it is
  interpreted on association lists with distinct keys, which are executable. No operation of the
  signer depends on the iteration order of a map.

  The locale \<open>expiring_map\<close> extends it with a deadline per entry: the common shape of the \<^verbatim>\<open>jti\<close>
  replay cache, of the cache of consumed device tokens and of the table of signer sessions, which
  all purge expired entries before they look, insert or count.
\<close>

section \<open>The contract\<close>

locale hash_map =
  fixes empty :: "'m"
    and get :: "'m \<Rightarrow> 'k \<Rightarrow> 'v option"
    and put :: "'k \<Rightarrow> 'v \<Rightarrow> 'm \<Rightarrow> 'm"
    and remove :: "'k \<Rightarrow> 'm \<Rightarrow> 'm"
    and retain :: "('k \<Rightarrow> 'v \<Rightarrow> bool) \<Rightarrow> 'm \<Rightarrow> 'm"
    and len :: "'m \<Rightarrow> nat"
    and wf :: "'m \<Rightarrow> bool"
  assumes wf_empty: "wf empty"
    and wf_put: "wf m \<Longrightarrow> wf (put k v m)"
    and wf_remove: "wf m \<Longrightarrow> wf (remove k m)"
    and wf_retain: "wf m \<Longrightarrow> wf (retain P m)"
    and get_empty: "get empty k = None"
    and get_put: "wf m \<Longrightarrow> get (put k v m) k' = (if k' = k then Some v else get m k')"
    and get_remove: "wf m \<Longrightarrow> get (remove k m) k' = (if k' = k then None else get m k')"
    and get_retain: "wf m \<Longrightarrow>
      get (retain P m) k = (case get m k of None \<Rightarrow> None | Some v \<Rightarrow> if P k v then Some v else None)"
    and len_dom: "wf m \<Longrightarrow> len m = card (dom (get m))"
    and finite_dom: "wf m \<Longrightarrow> finite (dom (get m))"
begin

lemmas map_laws = wf_empty wf_put wf_remove wf_retain get_empty get_put get_remove get_retain

lemma dom_put: "wf m \<Longrightarrow> dom (get (put k v m)) = insert k (dom (get m))"
  by (auto simp: get_put split: if_splits)

lemma len_put:
  assumes "wf m"
  shows "len (put k v m) = (if get m k = None then Suc (len m) else len m)"
proof -
  have "len (put k v m) = card (insert k (dom (get m)))"
    using assms by (simp add: len_dom wf_put dom_put)
  then show ?thesis
    using assms by (auto simp: len_dom finite_dom insert_absorb domIff card_insert_if)
qed

lemma len_retain_le:
  assumes "wf m"
  shows "len (retain P m) \<le> len m"
proof -
  have "dom (get (retain P m)) \<subseteq> dom (get m)"
    using assms by (auto simp: get_retain split: option.splits if_splits)
  then show ?thesis
    using assms by (simp add: len_dom wf_retain finite_dom card_mono)
qed

lemma len_remove_le:
  assumes "wf m"
  shows "len (remove k m) \<le> len m"
proof -
  have "dom (get (remove k m)) \<subseteq> dom (get m)"
    using assms by (auto simp: get_remove split: if_splits)
  then show ?thesis
    using assms by (simp add: len_dom wf_remove finite_dom card_mono)
qed

end

section \<open>Entries that expire\<close>

locale expiring_map = hash_map empty get put remove retain len wf
  for empty :: "'m"
    and get :: "'m \<Rightarrow> 'k \<Rightarrow> 'v option"
    and put :: "'k \<Rightarrow> 'v \<Rightarrow> 'm \<Rightarrow> 'm"
    and remove :: "'k \<Rightarrow> 'm \<Rightarrow> 'm"
    and retain :: "('k \<Rightarrow> 'v \<Rightarrow> bool) \<Rightarrow> 'm \<Rightarrow> 'm"
    and len :: "'m \<Rightarrow> nat"
    and wf :: "'m \<Rightarrow> bool" +
  fixes deadline :: "'v \<Rightarrow> instant"
begin

lemma purge_get:
  assumes "wf m"
  shows "get (retain (\<lambda>_ v. deadline v > now) m) k = Some v \<longleftrightarrow>
           get m k = Some v \<and> now < deadline v"
  using assms by (auto simp: get_retain split: option.splits if_splits)

lemma purge_none:
  assumes "wf m"
  shows "get (retain (\<lambda>_ v. deadline v > now) m) k = None \<longleftrightarrow>
           (\<forall>v. get m k = Some v \<longrightarrow> deadline v \<le> now)"
  using assms by (auto simp: get_retain split: option.splits if_splits)

text \<open>A live entry survives a purge and an insertion under another key.\<close>

lemma live_entry_kept:
  assumes "wf m" and "get m k = Some v" and "now < deadline v" and "k' \<noteq> k"
  shows "get (put k' v' (retain (\<lambda>_ v. deadline v > now) m)) k = Some v"
  using assms by (simp add: get_put wf_retain purge_get)

text \<open>Purging before a bounded insertion keeps the size within the bound.\<close>

lemma bounded_put:
  assumes "wf m" and "len (retain (\<lambda>_ v. deadline v > now) m) < cap"
  shows "len (put k v (retain (\<lambda>_ v. deadline v > now) m)) \<le> cap"
  using assms by (simp add: len_put wf_retain split: if_splits)

lemma bounded_purge:
  "wf m \<Longrightarrow> len m \<le> cap \<Longrightarrow> len (retain (\<lambda>_ v. deadline v > now) m) \<le> cap"
  using len_retain_le le_trans by blast

end

section \<open>Association lists\<close>

type_synonym ('k, 'v) hmap = "('k \<times> 'v) list"

definition hm_new :: "('k, 'v) hmap" where
  "hm_new = []"

definition hm_get :: "('k, 'v) hmap \<Rightarrow> 'k \<Rightarrow> 'v option" where
  "hm_get m = map_of m"

definition hm_insert :: "'k \<Rightarrow> 'v \<Rightarrow> ('k, 'v) hmap \<Rightarrow> ('k, 'v) hmap" where
  "hm_insert k v m = AList.update k v m"

definition hm_remove :: "'k \<Rightarrow> ('k, 'v) hmap \<Rightarrow> ('k, 'v) hmap" where
  "hm_remove k m = AList.delete k m"

definition hm_retain :: "('k \<Rightarrow> 'v \<Rightarrow> bool) \<Rightarrow> ('k, 'v) hmap \<Rightarrow> ('k, 'v) hmap" where
  "hm_retain P m = filter (\<lambda>(k, v). P k v) m"

definition hm_len :: "('k, 'v) hmap \<Rightarrow> nat" where
  "hm_len m = length m"

definition hm_contains_key :: "('k, 'v) hmap \<Rightarrow> 'k \<Rightarrow> bool" where
  "hm_contains_key m k \<longleftrightarrow> hm_get m k \<noteq> None"

definition hm_wf :: "('k, 'v) hmap \<Rightarrow> bool" where
  "hm_wf m \<longleftrightarrow> distinct (map fst m)"

lemmas hm_defs =
  hm_new_def hm_get_def hm_insert_def hm_remove_def hm_retain_def hm_len_def hm_contains_key_def

lemma distinct_keys_filter: "distinct (map fst m) \<Longrightarrow> distinct (map fst (filter P m))"
  by (induction m) auto

lemma map_of_filter_distinct:
  "distinct (map fst m) \<Longrightarrow>
     map_of (filter (\<lambda>(k, v). P k v) m) k =
       (case map_of m k of None \<Rightarrow> None | Some v \<Rightarrow> if P k v then Some v else None)"
proof (induction m)
  case Nil
  then show ?case by simp
next
  case (Cons e m)
  obtain k' v' where e: "e = (k', v')" by (cases e)
  have notin: "map_of m k' = None"
    using Cons.prems e by (simp add: map_of_eq_None_iff)
  show ?case using Cons e notin by auto
qed

lemma hm_get_insert [simp]: "hm_get (hm_insert k v m) k' = (if k' = k then Some v else hm_get m k')"
  by (simp add: hm_defs update_conv')

lemma hm_get_remove [simp]: "hm_get (hm_remove k m) k' = (if k' = k then None else hm_get m k')"
  by (simp add: hm_defs delete_conv')

lemma hm_get_new [simp]: "hm_get hm_new k = None"
  by (simp add: hm_defs)

lemma hm_wf_simps [simp]:
  "hm_wf hm_new" "hm_wf m \<Longrightarrow> hm_wf (hm_insert k v m)"
  "hm_wf m \<Longrightarrow> hm_wf (hm_remove k m)" "hm_wf m \<Longrightarrow> hm_wf (hm_retain P m)"
  by (simp_all add: hm_wf_def hm_defs distinct_update distinct_delete distinct_keys_filter)

lemma hm_get_retain:
  "hm_wf m \<Longrightarrow>
     hm_get (hm_retain P m) k =
       (case hm_get m k of None \<Rightarrow> None | Some v \<Rightarrow> if P k v then Some v else None)"
  by (simp add: hm_wf_def hm_defs map_of_filter_distinct)

lemma hm_len_dom: "hm_wf m \<Longrightarrow> hm_len m = card (dom (hm_get m))"
proof -
  assume "hm_wf m"
  then have "card (fst ` set m) = length m"
    by (metis distinct_card hm_wf_def length_map list.set_map)
  then show ?thesis by (simp add: hm_defs dom_map_of_conv_image_fst)
qed

subsection \<open>Filling a map in a loop\<close>

definition hm_insert_all :: "('k \<times> 'v) list \<Rightarrow> ('k, 'v) hmap \<Rightarrow> ('k, 'v) hmap" where
  "hm_insert_all kvs m = fold (\<lambda>(k, v). hm_insert k v) kvs m"

lemma hm_insert_all_simps [simp]:
  "hm_insert_all [] m = m"
  "hm_insert_all ((k, v) # kvs) m = hm_insert_all kvs (hm_insert k v m)"
  "hm_insert_all (kvs @ kvs') m = hm_insert_all kvs' (hm_insert_all kvs m)"
  by (simp_all add: hm_insert_all_def)

lemma hm_insert_all_get:
  "distinct (map fst kvs) \<Longrightarrow>
     hm_get (hm_insert_all kvs m) k = Some v \<longleftrightarrow>
       (k, v) \<in> set kvs \<or> (k \<notin> fst ` set kvs \<and> hm_get m k = Some v)"
proof (induction kvs arbitrary: m)
  case Nil
  then show ?case by simp
next
  case (Cons e kvs)
  obtain k' v' where e: "e = (k', v')" by (cases e)
  show ?case using Cons e by (auto simp: image_iff)
qed

lemma hm_insert_all_none:
  "hm_get (hm_insert_all kvs m) k = None \<longleftrightarrow> k \<notin> fst ` set kvs \<and> hm_get m k = None"
proof (induction kvs arbitrary: m)
  case Nil
  then show ?case by simp
next
  case (Cons e kvs)
  obtain k' v' where e: "e = (k', v')" by (cases e)
  show ?case using Cons.IH [of "hm_insert k' v' m"] e by (auto simp: image_iff)
qed

interpretation hm: hash_map hm_new hm_get hm_insert hm_remove hm_retain hm_len hm_wf
proof unfold_locales
  show "finite (dom (hm_get m))" for m :: "('a, 'b) hmap"
    by (simp add: hm_get_def finite_dom_map_of)
qed (simp_all add: hm_get_retain hm_len_dom)

interpretation instant_map:
  expiring_map hm_new hm_get hm_insert hm_remove hm_retain hm_len hm_wf "\<lambda>t::instant. t"
  by unfold_locales

end
