(* ===== verification/Url_Model.thy ===== *)
theory Url_Model
  imports Signer_Prelude
begin

text \<open>
  What the signer reads of the types of two HTTP libraries. The libraries are not part of the
  repository: parsing a URL (\<^verbatim>\<open>reqwest::Url::parse\<close>) is a parameter \<open>parse_url\<close> of the
  definitions that use it, and a header value is the answer of \<^verbatim>\<open>HeaderValue::to_str\<close>.
\<close>

record url =
  url_as_str :: string
  url_scheme :: string
  url_username :: string
  url_password :: "string option"
  url_host_str :: "string option"
  url_path :: string
  url_query_pairs :: "(string \<times> string) list"
  url_fragment :: "string option"
  url_cannot_be_a_base :: bool

type_synonym url_parser = "string \<Rightarrow> url option"

text \<open>\<open>Visible s\<close>: \<^verbatim>\<open>to_str()\<close> answers \<^verbatim>\<open>Ok(s)\<close>; \<open>Opaque\<close>: it answers \<^verbatim>\<open>Err\<close>.\<close>

datatype header_value = Visible string | Opaque

fun to_str :: "header_value \<Rightarrow> string option" where
  "to_str (Visible s) = Some s"
| "to_str Opaque = None"

text \<open>The two request headers the signer reads (\<^verbatim>\<open>HeaderMap::get\<close>: the first value, if any).\<close>

record header_map =
  authorization :: "header_value option"
  content_type :: "header_value option"

end
