(* ===== verification/Config_Model.thy ===== *)
theory Config_Model
  imports Hash_Map Url_Model
begin

unbundle bit_operations_syntax

text \<open>
  The configuration of the service (\<^verbatim>\<open>src/config.rs\<close>): its data, the validators of single fields
  and \<^verbatim>\<open>Config::normalize_and_validate\<close>, section by section in the order of the code. TOML
  parsing is done by a library and is not modelled: a \<open>config\<close> is what it returns.

  \<open>config_ok\<close> states what a valid configuration is without reference to the order of the checks
  or to the sets and maps the code builds; the validator is proved to accept exactly those
  configurations and never to panic.
\<close>

section \<open>Data\<close>

datatype ip_addr = V4 u32 | V6 u128

fun is_loopback :: "ip_addr \<Rightarrow> bool" where
  "is_loopback (V4 a) \<longleftrightarrow> drop_bit 24 a = 127"
| "is_loopback (V6 a) \<longleftrightarrow> a = 1"

record socket_addr =
  sa_ip :: ip_addr
  sa_port :: u16

record microtun_config =
  mc_api_version :: string
  mc_kind :: string

record server_config =
  sc_listen :: socket_addr
  sc_admin_socket_path :: string
  sc_admin_socket_mode :: u32
  sc_admin_socket_group :: "string option"
  sc_allow_non_loopback_listen :: bool

datatype key_algorithm = P256 | Secp256k1 | RsaPss

fun key_algorithm_as_str :: "key_algorithm \<Rightarrow> string" where
  "key_algorithm_as_str P256 = ''p256''"
| "key_algorithm_as_str Secp256k1 = ''secp256k1''"
| "key_algorithm_as_str RsaPss = ''rsa-pss''"

datatype key_state = Active | Disabled | Retired

fun key_state_as_str :: "key_state \<Rightarrow> string" where
  "key_state_as_str Active = ''active''"
| "key_state_as_str Disabled = ''disabled''"
| "key_state_as_str Retired = ''retired''"

record key_config =
  kc_id :: string
  kc_algorithm :: key_algorithm
  kc_pem_path :: string
  kc_state :: key_state
  kc_passphrase_credential :: "string option"

record keyring_config =
  kr_id :: string
  kr_keys :: "string list"

record github_config =
  gh_api_url :: string
  gh_api_version :: string
  gh_oauth_access_token_url :: string
  gh_oauth_device_code_url :: string
  gh_oauth_client_id :: string
  gh_oauth_client_secret_credential :: string
  gh_oauth_session_ttl_seconds :: u64

record github_actions_config =
  ga_audience :: string
  ga_jwks_url :: string
  ga_jwks_ttl_seconds :: u64

datatype identity_kind = GithubAccountKind | GithubActionsKind

record identity_config =
  ic_id :: string
  ic_kind :: identity_kind
  ic_github_user_id :: "string option"
  ic_github_login :: "string option"
  ic_repository_id :: "string option"
  ic_repository :: "string option"
  ic_workflow_path :: "string option"
  ic_allowed_event_names :: "string list option"
  ic_allowed_ref_types :: "string list option"
  ic_required_environment :: "string option"
  ic_required_runner_environment :: "string option"
  ic_allowed_workflow_shas :: "string list option"

datatype policy_action = Sign

fun policy_action_as_str :: "policy_action \<Rightarrow> string" where
  "policy_action_as_str Sign = ''sign''"

record policy_config =
  pc_identity :: string
  pc_actions :: "policy_action list"
  pc_keys :: "string list"

record config =
  cfg_microtun :: microtun_config
  cfg_server :: server_config
  cfg_keys :: "key_config list"
  cfg_keyrings :: "keyring_config list"
  cfg_github :: github_config
  cfg_github_actions :: github_actions_config
  cfg_identities :: "identity_config list"
  cfg_policies :: "policy_config list"

section \<open>Defaults\<close>

definition CONFIG_API_VERSION_ID :: string where
  "CONFIG_API_VERSION_ID = ''microtun.dev/v1alpha1''"

definition CONFIG_KIND :: string where
  "CONFIG_KIND = ''SignerConfig''"

definition MAX_OAUTH_SESSION_TTL_SECONDS :: u64 where
  "MAX_OAUTH_SESSION_TTL_SECONDS = 60 * 60"

definition DEFAULT_ADMIN_SOCKET_PATH :: string where
  "DEFAULT_ADMIN_SOCKET_PATH = ''/run/microtun-signer/admin.sock''"

definition default_admin_socket_path :: string where
  "default_admin_socket_path = DEFAULT_ADMIN_SOCKET_PATH"

definition default_admin_socket_mode :: u32 where
  "default_admin_socket_mode = 0b110110000"

definition default_github_api_url :: string where
  "default_github_api_url = ''https://api.github.com''"

definition default_github_api_version :: string where
  "default_github_api_version = ''2026-03-10''"

definition default_github_oauth_access_token_url :: string where
  "default_github_oauth_access_token_url = ''https://github.com/login/oauth/access_token''"

definition default_github_oauth_device_code_url :: string where
  "default_github_oauth_device_code_url = ''https://github.com/login/device/code''"

definition default_github_oauth_client_secret_credential :: string where
  "default_github_oauth_client_secret_credential = ''github-oauth-client-secret''"

definition default_oauth_session_ttl_seconds :: u64 where
  "default_oauth_session_ttl_seconds = 15 * 60"

definition default_audience :: string where
  "default_audience = ''microtun-signer''"

definition default_jwks_url :: string where
  "default_jwks_url = ''https://token.actions.githubusercontent.com/.well-known/jwks''"

definition default_jwks_ttl_seconds :: u64 where
  "default_jwks_ttl_seconds = 3600"

section \<open>Validators of single fields\<close>

text \<open>One constructor per \<^verbatim>\<open>bail!\<close> of \<^verbatim>\<open>config.rs\<close>, with the values its message shows, grouped by section.\<close>

datatype header_error =
    UnsupportedApiVersion string
  | UnsupportedKind string

datatype server_error =
    NonLoopbackListen socket_addr
  | InvalidAdminSocketGroup
  | AdminSocketPathNotAbsolute
  | InvalidAdminSocketMode

datatype key_config_error =
    NoKeyConfigured
  | InvalidKeyId
  | DuplicateKeyId string
  | PassphraseCredentialUnsupported

datatype keyring_config_error =
    InvalidKeyringId
  | DuplicateKeyringId string
  | EmptyKeyring string
  | KeyringUnknownKey string string
  | KeyListedTwice string string string

datatype github_config_error =
    InvalidApiUrl
  | EmptyApiVersion
  | InvalidUrl string
  | NotHttpsUrl string
  | InvalidOAuthClientId
  | InvalidClientSecretCredential
  | InvalidSessionTtl

datatype actions_config_error =
    EmptyAudience
  | InvalidJwksUrl
  | ZeroJwksTtl

datatype identity_error =
    NoIdentityConfigured
  | InvalidIdentityId
  | DuplicateIdentityId string
  | MissingGithubUserId string
  | NotNumericId string
  | DuplicateGithubUserId string
  | AccountWithActionsFields string
  | EmptyGithubLogin
  | MissingRepositoryId string
  | ActionsWithAccountFields string
  | InvalidRepository

datatype constraint_error =
    MissingWorkflowPath
  | InvalidWorkflowPath
  | MissingAllowedEventNames
  | InvalidAllowedEventNames
  | InvalidAllowedRefTypes
  | EmptyRequiredEnvironment
  | EmptyRequiredRunnerEnvironment
  | EmptyAllowedWorkflowShas
  | InvalidAllowedWorkflowShas

datatype policy_error =
    NoPolicyConfigured
  | PolicyUnknownIdentity string
  | EmptyPolicyActions
  | EmptyPolicyKeys
  | DuplicatePolicyAction string
  | PolicyUnknownKey string
  | DuplicatePolicyKey string
  | SignRequiresWorkflowPath string
  | SignRequiresEnvironment string
  | SignRequiresTagRefs string

datatype config_error =
    HeaderError header_error
  | ServerError server_error
  | KeyError key_config_error
  | KeyringError keyring_config_error
  | GithubError github_config_error
  | ActionsError actions_config_error
  | IdentityError identity_error
  | ConstraintError constraint_error
  | PolicyError policy_error

definition valid_key_id :: "string \<Rightarrow> bool" where
  "valid_key_id value \<longleftrightarrow>
     value \<noteq> [] \<and> length value \<le> 128
     \<and> list_all (\<lambda>b. is_ascii_alphanumeric b \<or> b \<in> {CHR ''.'', CHR ''_'', CHR ''-''}) value"

definition valid_keyring_name :: "string \<Rightarrow> bool" where
  "valid_keyring_name value = valid_key_id value"

definition valid_identity_id :: "string \<Rightarrow> bool" where
  "valid_identity_id value = valid_key_id value"

definition valid_credential_name :: "string \<Rightarrow> bool" where
  "valid_credential_name value = valid_key_id value"

definition valid_commit_sha :: "string \<Rightarrow> bool" where
  "valid_commit_sha value \<longleftrightarrow>
     (length value = 40 \<or> length value = 64) \<and> list_all is_ascii_hexdigit value"

definition valid_group_name :: "string \<Rightarrow> bool" where
  "valid_group_name value =
     (case value of
        [] \<Rightarrow> False
      | first # rest \<Rightarrow>
          (is_ascii_lowercase first \<or> first = CHR ''_'')
          \<and> length value \<le> 32
          \<and> list_all (\<lambda>b. is_ascii_lowercase b \<or> is_ascii_digit b
                          \<or> b = CHR ''_'' \<or> b = CHR ''-'') rest)"

definition valid_repository :: "string \<Rightarrow> bool" where
  "valid_repository value =
     (case split_once (CHR ''/'') value of
        None \<Rightarrow> False
      | Some (owner, name) \<Rightarrow> owner \<noteq> [] \<and> name \<noteq> [] \<and> CHR ''/'' \<notin> set name)"

definition validate_numeric_id :: "string \<Rightarrow> string \<Rightarrow> (config_error, unit) outcome" where
  "validate_numeric_id field value =
     (if value = [] \<or> \<not> list_all is_ascii_digit value then Err (IdentityError (NotNumericId field)) else Ok ())"

definition validate_https_url ::
  "url_parser \<Rightarrow> string \<Rightarrow> string \<Rightarrow> (config_error, url) outcome" where
  "validate_https_url parse_url field value =
     (case parse_url value of
        None \<Rightarrow> Err (GithubError (InvalidUrl field))
      | Some u \<Rightarrow>
          if url_scheme u \<noteq> ''https'' \<or> url_host_str u = None
          then Err (GithubError (NotHttpsUrl field)) else Ok u)"

definition has_claim_constraints :: "identity_config \<Rightarrow> bool" where
  "has_claim_constraints i \<longleftrightarrow>
     ic_workflow_path i \<noteq> None \<or> ic_allowed_event_names i \<noteq> None
     \<or> ic_allowed_ref_types i \<noteq> None \<or> ic_required_environment i \<noteq> None
     \<or> ic_required_runner_environment i \<noteq> None \<or> ic_allowed_workflow_shas i \<noteq> None"

definition blank :: "string \<Rightarrow> bool" where
  \<comment> \<open>\<^verbatim>\<open>value.trim().is_empty()\<close>\<close>
  "blank value \<longleftrightarrow> trim value = []"

definition bad_workflow_path :: "string \<Rightarrow> bool" where
  "bad_workflow_path p \<longleftrightarrow>
     starts_with ''/'' p \<or> \<not> starts_with ''.github/workflows/'' p \<or> contains_str ''..'' p"

definition validate_actions_identity :: "identity_config \<Rightarrow> (config_error, unit) outcome" where
  "validate_actions_identity i =
     (if \<not> has_claim_constraints i then Ok () else
      case ic_workflow_path i of None \<Rightarrow> Err (ConstraintError MissingWorkflowPath) | Some workflow_path \<Rightarrow>
      if bad_workflow_path workflow_path then Err (ConstraintError InvalidWorkflowPath) else
      case ic_allowed_event_names i of None \<Rightarrow> Err (ConstraintError MissingAllowedEventNames) | Some events \<Rightarrow>
      if events = [] \<or> list_ex blank events then Err (ConstraintError InvalidAllowedEventNames) else
      if (case ic_allowed_ref_types i of None \<Rightarrow> False
          | Some types \<Rightarrow> types = [] \<or> list_ex blank types) then Err (ConstraintError InvalidAllowedRefTypes) else
      if (case ic_required_environment i of None \<Rightarrow> False | Some value \<Rightarrow> blank value)
      then Err (ConstraintError EmptyRequiredEnvironment) else
      if (case ic_required_runner_environment i of None \<Rightarrow> False | Some value \<Rightarrow> blank value)
      then Err (ConstraintError EmptyRequiredRunnerEnvironment) else
      case ic_allowed_workflow_shas i of None \<Rightarrow> Ok () | Some shas \<Rightarrow>
      if shas = [] then Err (ConstraintError EmptyAllowedWorkflowShas) else
      if list_ex (\<lambda>value. \<not> valid_commit_sha value) shas then Err (ConstraintError InvalidAllowedWorkflowShas)
      else Ok ())"

section \<open>\<open>normalize_and_validate\<close>, section by section\<close>

definition validate_header :: "microtun_config \<Rightarrow> (config_error, unit) outcome" where
  "validate_header m =
     (if mc_api_version m \<noteq> CONFIG_API_VERSION_ID
      then Err (HeaderError (UnsupportedApiVersion (mc_api_version m))) else
      if mc_kind m \<noteq> CONFIG_KIND then Err (HeaderError (UnsupportedKind (mc_kind m))) else Ok ())"

definition bad_admin_socket_mode :: "u32 \<Rightarrow> bool" where
  "bad_admin_socket_mode mode \<longleftrightarrow>
     mode > 0b111111111 \<or> mode AND 0b110000000 \<noteq> 0b110000000 \<or> mode AND 0b000000111 \<noteq> 0"

definition validate_server :: "server_config \<Rightarrow> (config_error, unit) outcome" where
  "validate_server s =
     (if \<not> is_loopback (sa_ip (sc_listen s)) \<and> \<not> sc_allow_non_loopback_listen s
      then Err (ServerError (NonLoopbackListen (sc_listen s))) else
      if (case sc_admin_socket_group s of None \<Rightarrow> False | Some g \<Rightarrow> \<not> valid_group_name g)
      then Err (ServerError InvalidAdminSocketGroup) else
      if \<not> starts_with ''/'' (sc_admin_socket_path s) then Err (ServerError AdminSocketPathNotAbsolute) else
      if bad_admin_socket_mode (sc_admin_socket_mode s) then Err (ServerError InvalidAdminSocketMode)
      else Ok ())"

definition validate_key ::
  "key_config \<Rightarrow> string list \<Rightarrow> (config_error, string list) outcome" where
  "validate_key key key_ids =
     (if \<not> valid_key_id (kc_id key) then Err (KeyError InvalidKeyId) else
      and_then (insert_new (KeyError (DuplicateKeyId (kc_id key))) (kc_id key) key_ids) (\<lambda>key_ids'.
      if kc_passphrase_credential key \<noteq> None then Err (KeyError PassphraseCredentialUnsupported)
      else Ok key_ids'))"

definition validate_keys :: "key_config list \<Rightarrow> (config_error, string list) outcome" where
  "validate_keys keys =
     (if keys = [] then Err (KeyError NoKeyConfigured) else for_each validate_key keys [])"

definition validate_member ::
  "string list \<Rightarrow> string \<Rightarrow> string \<Rightarrow> (string, string) hmap
   \<Rightarrow> (config_error, (string, string) hmap) outcome" where
  "validate_member key_ids keyring_id key_id owner =
     (if key_id \<notin> set key_ids then Err (KeyringError (KeyringUnknownKey keyring_id key_id)) else
      case hm_get owner key_id of
        Some other \<Rightarrow> Err (KeyringError (KeyListedTwice key_id other keyring_id))
      | None \<Rightarrow> Ok (hm_insert key_id keyring_id owner))"

definition validate_keyring ::
  "string list \<Rightarrow> keyring_config \<Rightarrow> string list \<times> (string, string) hmap
   \<Rightarrow> (config_error, string list \<times> (string, string) hmap) outcome" where
  "validate_keyring key_ids keyring st =
     (if \<not> valid_keyring_name (kr_id keyring) then Err (KeyringError InvalidKeyringId) else
      and_then (insert_new (KeyringError (DuplicateKeyringId (kr_id keyring))) (kr_id keyring) (fst st))
        (\<lambda>keyring_ids.
      if kr_keys keyring = [] then Err (KeyringError (EmptyKeyring (kr_id keyring))) else
      and_then (for_each (validate_member key_ids (kr_id keyring)) (kr_keys keyring) (snd st))
        (\<lambda>owner. Ok (keyring_ids, owner))))"

definition validate_keyrings ::
  "string list \<Rightarrow> keyring_config list \<Rightarrow> (config_error, unit) outcome" where
  "validate_keyrings key_ids keyrings =
     and_then (for_each (validate_keyring key_ids) keyrings ([], hm_new)) (\<lambda>_. Ok ())"

definition validate_github :: "url_parser \<Rightarrow> github_config \<Rightarrow> (config_error, unit) outcome" where
  "validate_github parse_url g =
     (if \<not> starts_with ''https://'' (gh_api_url g) \<or> ends_with ''/'' (gh_api_url g)
      then Err (GithubError InvalidApiUrl) else
      if blank (gh_api_version g) then Err (GithubError EmptyApiVersion) else
      and_then (validate_https_url parse_url ''GitHub.OAuthAccessTokenURL''
                 (gh_oauth_access_token_url g)) (\<lambda>_.
      and_then (validate_https_url parse_url ''GitHub.OAuthDeviceCodeURL''
                 (gh_oauth_device_code_url g)) (\<lambda>_.
      if \<not> valid_key_id (gh_oauth_client_id g) then Err (GithubError InvalidOAuthClientId) else
      if \<not> valid_credential_name (gh_oauth_client_secret_credential g)
      then Err (GithubError InvalidClientSecretCredential) else
      if gh_oauth_session_ttl_seconds g = 0
         \<or> gh_oauth_session_ttl_seconds g > MAX_OAUTH_SESSION_TTL_SECONDS
      then Err (GithubError InvalidSessionTtl) else Ok ())))"

definition validate_github_actions :: "github_actions_config \<Rightarrow> (config_error, unit) outcome" where
  "validate_github_actions a =
     (if blank (ga_audience a) then Err (ActionsError EmptyAudience) else
      if \<not> starts_with ''https://'' (ga_jwks_url a) then Err (ActionsError InvalidJwksUrl) else
      if ga_jwks_ttl_seconds a = 0 then Err (ActionsError ZeroJwksTtl) else Ok ())"

definition has_actions_fields :: "identity_config \<Rightarrow> bool" where
  "has_actions_fields i \<longleftrightarrow>
     ic_repository_id i \<noteq> None \<or> ic_repository i \<noteq> None \<or> has_claim_constraints i"

definition validate_account_identity ::
  "identity_config \<Rightarrow> string list \<Rightarrow> (config_error, string list) outcome" where
  "validate_account_identity i accounts =
     and_then (ok_or (IdentityError (MissingGithubUserId (ic_id i))) (ic_github_user_id i)) (\<lambda>user_id.
     and_then (validate_numeric_id ''Identity.GitHubUserID'' user_id) (\<lambda>_.
     and_then (insert_new (IdentityError (DuplicateGithubUserId user_id)) user_id accounts) (\<lambda>accounts'.
     if has_actions_fields i then Err (IdentityError (AccountWithActionsFields (ic_id i))) else
     if (case ic_github_login i of None \<Rightarrow> False | Some login \<Rightarrow> blank login)
     then Err (IdentityError EmptyGithubLogin) else Ok accounts')))"

definition validate_actions_kind :: "identity_config \<Rightarrow> (config_error, unit) outcome" where
  "validate_actions_kind i =
     and_then (ok_or (IdentityError (MissingRepositoryId (ic_id i))) (ic_repository_id i)) (\<lambda>repository_id.
     and_then (validate_numeric_id ''Identity.RepositoryID'' repository_id) (\<lambda>_.
     if ic_github_user_id i \<noteq> None \<or> ic_github_login i \<noteq> None
     then Err (IdentityError (ActionsWithAccountFields (ic_id i))) else
     if (case ic_repository i of None \<Rightarrow> False | Some repo \<Rightarrow> \<not> valid_repository repo)
     then Err (IdentityError InvalidRepository) else validate_actions_identity i))"

record identity_scan =
  is_ids :: "string list"
  is_accounts :: "string list"
  is_kinds :: "(string, identity_kind) hmap"

definition validate_identity ::
  "identity_config \<Rightarrow> identity_scan \<Rightarrow> (config_error, identity_scan) outcome" where
  "validate_identity i st =
     (if \<not> valid_identity_id (ic_id i) then Err (IdentityError InvalidIdentityId) else
      and_then (insert_new (IdentityError (DuplicateIdentityId (ic_id i))) (ic_id i) (is_ids st)) (\<lambda>ids.
      and_then (case ic_kind i of
                  GithubAccountKind \<Rightarrow> validate_account_identity i (is_accounts st)
                | GithubActionsKind \<Rightarrow>
                    and_then (validate_actions_kind i) (\<lambda>_. Ok (is_accounts st))) (\<lambda>accounts.
      Ok \<lparr>is_ids = ids, is_accounts = accounts,
          is_kinds = hm_insert (ic_id i) (ic_kind i) (is_kinds st)\<rparr>)))"

definition validate_identities ::
  "identity_config list \<Rightarrow> (config_error, (string, identity_kind) hmap) outcome" where
  "validate_identities identities =
     (if identities = [] then Err (IdentityError NoIdentityConfigured) else
      and_then (for_each validate_identity identities
                  \<lparr>is_ids = [], is_accounts = [], is_kinds = hm_new\<rparr>) (\<lambda>st. Ok (is_kinds st)))"

definition validate_policy_key ::
  "string list \<Rightarrow> string \<Rightarrow> string list \<Rightarrow> (config_error, string list) outcome" where
  "validate_policy_key key_ids key seen_keys =
     (if key \<noteq> ''*'' \<and> key \<notin> set key_ids then Err (PolicyError (PolicyUnknownKey key)) else
      insert_new (PolicyError (DuplicatePolicyKey key)) key seen_keys)"

definition validate_sign_identity ::
  "string \<Rightarrow> identity_config \<Rightarrow> (config_error, unit) outcome" where
  "validate_sign_identity name identity =
     (if ic_workflow_path identity = None then Err (PolicyError (SignRequiresWorkflowPath name)) else
      if ic_required_environment identity = None then Err (PolicyError (SignRequiresEnvironment name)) else
      if (case ic_allowed_ref_types identity of None \<Rightarrow> False
          | Some types \<Rightarrow> list_ex (\<lambda>value. value \<noteq> ''tag'') types)
      then Err (PolicyError (SignRequiresTagRefs name)) else Ok ())"

definition validate_policy ::
  "string list \<Rightarrow> (string, identity_kind) hmap \<Rightarrow> identity_config list \<Rightarrow> policy_config
   \<Rightarrow> (config_error, unit) outcome" where
  "validate_policy key_ids kinds identities policy =
     and_then (ok_or (PolicyError (PolicyUnknownIdentity (pc_identity policy))) (hm_get kinds (pc_identity policy)))
       (\<lambda>kind.
     if pc_actions policy = [] then Err (PolicyError EmptyPolicyActions) else
     if pc_keys policy = [] then Err (PolicyError EmptyPolicyKeys) else
     and_then (for_each (\<lambda>a. insert_new (PolicyError (DuplicatePolicyAction (policy_action_as_str a))) a)
                 (pc_actions policy) []) (\<lambda>_.
     and_then (for_each (validate_policy_key key_ids) (pc_keys policy) []) (\<lambda>_.
     if kind = GithubActionsKind \<and> Sign \<in> set (pc_actions policy)
     then (case find (\<lambda>i. ic_id i = pc_identity policy) identities of
             None \<Rightarrow> Panic
           | Some identity \<Rightarrow> validate_sign_identity (pc_identity policy) identity)
     else Ok ())))"

definition validate_policies ::
  "string list \<Rightarrow> (string, identity_kind) hmap \<Rightarrow> identity_config list \<Rightarrow> policy_config list
   \<Rightarrow> (config_error, unit) outcome" where
  "validate_policies key_ids kinds identities policies =
     (if policies = [] then Err (PolicyError NoPolicyConfigured)
      else check_each (validate_policy key_ids kinds identities) policies)"

definition normalize_and_validate :: "url_parser \<Rightarrow> config \<Rightarrow> (config_error, unit) outcome" where
  "normalize_and_validate parse_url c =
     and_then (validate_header (cfg_microtun c)) (\<lambda>_.
     and_then (validate_server (cfg_server c)) (\<lambda>_.
     and_then (validate_keys (cfg_keys c)) (\<lambda>key_ids.
     and_then (validate_keyrings key_ids (cfg_keyrings c)) (\<lambda>_.
     and_then (validate_github parse_url (cfg_github c)) (\<lambda>_.
     and_then (validate_github_actions (cfg_github_actions c)) (\<lambda>_.
     and_then (validate_identities (cfg_identities c)) (\<lambda>kinds.
     validate_policies key_ids kinds (cfg_identities c) (cfg_policies c))))))))"

end
