(* ===== verification/Api_Limiter.thy ===== *)
theory Api_Limiter
  imports Config_Model
begin

text \<open>
  The limiter in front of the device-token exchange (\<^verbatim>\<open>DeviceExchangeLimiter\<close> of \<^verbatim>\<open>src/api.rs\<close>): at most
  ten attempts per source address in a sliding minute, a bounded table of sources, and a semaphore of
  eight exchanges in progress.

  The clock is read before the table is locked; the main property is about requests that reach the
  table in the order of their clock readings.
\<close>

section \<open>Data and operations\<close>

definition DEVICE_EXCHANGE_MAX_CONCURRENT :: nat where
  "DEVICE_EXCHANGE_MAX_CONCURRENT = 8"

definition DEVICE_EXCHANGE_RATE_LIMIT :: nat where
  "DEVICE_EXCHANGE_RATE_LIMIT = 10"

definition DEVICE_EXCHANGE_RATE_WINDOW :: duration where
  "DEVICE_EXCHANGE_RATE_WINDOW = from_secs 60"

definition MAX_DEVICE_EXCHANGE_SOURCES :: nat where
  "MAX_DEVICE_EXCHANGE_SOURCES = 4096"

record device_exchange_limiter =
  lm_permits :: nat
  lm_attempts :: "(ip_addr, instant list) hmap"

datatype device_exchange_limit_error = RateLimited | Busy

definition limiter_new :: device_exchange_limiter where
  "limiter_new = \<lparr>lm_permits = DEVICE_EXCHANGE_MAX_CONCURRENT, lm_attempts = hm_new\<rparr>"

fun pop_expired :: "instant \<Rightarrow> instant list \<Rightarrow> instant list" where
  \<comment> \<open>\<^verbatim>\<open>while entries.front() <= cutoff { entries.pop_front() }\<close>\<close>
  "pop_expired cutoff [] = []"
| "pop_expired cutoff (a # as) = (if a \<le> cutoff then pop_expired cutoff as else a # as)"

definition prune_sources :: "instant \<Rightarrow> (ip_addr, instant list) hmap \<Rightarrow> (ip_addr, instant list) hmap" where
  \<comment> \<open>\<^verbatim>\<open>HashMap::retain\<close> with a closure that pops expired attempts and keeps nonempty queues\<close>
  "prune_sources cutoff attempts =
     hm_retain (\<lambda>_ entries. entries \<noteq> []) (map (\<lambda>(s, entries). (s, pop_expired cutoff entries)) attempts)"

definition try_acquire ::
  "device_exchange_limiter \<Rightarrow> (device_exchange_limit_error, unit) outcome \<times> device_exchange_limiter" where
  "try_acquire lm =
     (if lm_permits lm = 0 then (Err Busy, lm) else (Ok (), lm\<lparr>lm_permits := lm_permits lm - 1\<rparr>))"

definition release_permit :: "device_exchange_limiter \<Rightarrow> device_exchange_limiter" where
  \<comment> \<open>dropping the \<^verbatim>\<open>OwnedSemaphorePermit\<close>\<close>
  "release_permit lm = lm\<lparr>lm_permits := lm_permits lm + 1\<rparr>"

definition entries_of :: "(ip_addr, instant list) hmap \<Rightarrow> ip_addr \<Rightarrow> instant list" where
  \<comment> \<open>\<^verbatim>\<open>attempts.entry(source).or_default()\<close>\<close>
  "entries_of attempts source = (case hm_get attempts source of None \<Rightarrow> [] | Some entries \<Rightarrow> entries)"

definition admit ::
  "instant \<Rightarrow> ip_addr \<Rightarrow> device_exchange_limiter
   \<Rightarrow> (device_exchange_limit_error, unit) outcome \<times> device_exchange_limiter" where
  "admit now source lm =
     (let cutoff = (case checked_sub now DEVICE_EXCHANGE_RATE_WINDOW of None \<Rightarrow> now | Some t \<Rightarrow> t);
          full = (hm_len (lm_attempts lm) \<ge> MAX_DEVICE_EXCHANGE_SOURCES
                  \<and> \<not> hm_contains_key (lm_attempts lm) source);
          attempts = (if full then prune_sources cutoff (lm_attempts lm) else lm_attempts lm) in
      if full \<and> hm_len attempts \<ge> MAX_DEVICE_EXCHANGE_SOURCES
      then (Err RateLimited, lm\<lparr>lm_attempts := attempts\<rparr>) else
      let entries = pop_expired cutoff (entries_of attempts source) in
      if length entries \<ge> DEVICE_EXCHANGE_RATE_LIMIT
      then (Err RateLimited, lm\<lparr>lm_attempts := hm_insert source entries attempts\<rparr>)
      else try_acquire (lm\<lparr>lm_attempts := hm_insert source (entries @ [now]) attempts\<rparr>))"

section \<open>The table\<close>

lemma pop_expired_drop:
  "\<exists>n \<le> length es. pop_expired c es = drop n es \<and> (\<forall>i<n. es ! i \<le> c)"
proof (induction es)
  case (Cons e es)
  then obtain n where n: "n \<le> length es" "pop_expired c es = drop n es" "\<forall>i<n. es ! i \<le> c" by blast
  show ?case
  proof (cases "e \<le> c")
    case True
    then show ?thesis
      using n by (intro exI [of _ "Suc n"]) (auto simp: nth_Cons split: nat.splits)
  qed (auto intro: exI [of _ 0])
qed simp

lemma hm_get_map: "hm_get (map (\<lambda>(s, es). (s, f es)) m) k = map_option f (hm_get m k)"
  by (induction m) (auto simp: hm_get_def)

lemma hm_wf_map: "hm_wf (map (\<lambda>(s, es). (s, f es)) m) \<longleftrightarrow> hm_wf m"
  by (simp add: hm_wf_def comp_def split_def)

lemma prune_wf: "hm_wf m \<Longrightarrow> hm_wf (prune_sources c m)"
  by (simp add: prune_sources_def hm_wf_map)

lemma prune_entries:
  assumes "hm_wf m"
  shows "entries_of (prune_sources c m) s = pop_expired c (entries_of m s)"
proof -
  have "hm_wf (map (\<lambda>(s, es). (s, pop_expired c es)) m)" using assms by (simp add: hm_wf_map)
  then show ?thesis
    by (auto simp: entries_of_def prune_sources_def hm_get_retain hm_get_map split: option.splits)
qed

lemma prune_len: "hm_wf m \<Longrightarrow> hm_len (prune_sources c m) \<le> hm_len m"
  using hm.len_retain_le [of "map (\<lambda>(s, es). (s, pop_expired c es)) m"]
  by (simp add: prune_sources_def hm_wf_map hm_len_def [of m] hm_len_def [of "map _ m"])

lemma entries_of_insert: "entries_of (hm_insert s es m) s' = (if s' = s then es else entries_of m s')"
  by (simp add: entries_of_def)

definition limiter_inv :: "device_exchange_limiter \<Rightarrow> bool" where
  "limiter_inv lm \<longleftrightarrow>
     hm_wf (lm_attempts lm) \<and> hm_len (lm_attempts lm) \<le> MAX_DEVICE_EXCHANGE_SOURCES
     \<and> lm_permits lm \<le> DEVICE_EXCHANGE_MAX_CONCURRENT"

lemma limiter_new_inv [simp]: "limiter_inv limiter_new"
  by (simp add: limiter_inv_def limiter_new_def hm_len_def hm_new_def hm_wf_def)

lemma try_acquire_attempts [simp]: "lm_attempts (snd (try_acquire lm)) = lm_attempts lm"
  by (simp add: try_acquire_def)

lemma admit_inv:
  assumes "limiter_inv lm"
  shows "limiter_inv (snd (admit now source lm))"
proof -
  define cutoff where "cutoff = (case checked_sub now DEVICE_EXCHANGE_RATE_WINDOW of None \<Rightarrow> now | Some t \<Rightarrow> t)"
  define full where "full = (hm_len (lm_attempts lm) \<ge> MAX_DEVICE_EXCHANGE_SOURCES
                  \<and> \<not> hm_contains_key (lm_attempts lm) source)"
  define attempts where "attempts = (if full then prune_sources cutoff (lm_attempts lm) else lm_attempts lm)"
  have wf: "hm_wf attempts" and len: "hm_len attempts \<le> MAX_DEVICE_EXCHANGE_SOURCES"
    using assms prune_wf prune_len [of "lm_attempts lm" cutoff] by (auto simp: attempts_def limiter_inv_def)
  have room: "hm_len (hm_insert source es attempts) \<le> MAX_DEVICE_EXCHANGE_SOURCES"
    if "\<not> (full \<and> hm_len attempts \<ge> MAX_DEVICE_EXCHANGE_SOURCES)" for es
  proof (cases "hm_get attempts source")
    case None
    then have "hm_len attempts < MAX_DEVICE_EXCHANGE_SOURCES"
      using that len by (cases full) (auto simp: full_def attempts_def hm_contains_key_def)
    then show ?thesis using hm.len_put [OF wf, of source es] None by simp
  next
    case (Some es')
    then show ?thesis using hm.len_put [OF wf, of source es] len by simp
  qed
  show ?thesis
    using assms wf len room
    unfolding admit_def Let_def cutoff_def [symmetric] full_def [symmetric] attempts_def [symmetric]
    by (auto simp: limiter_inv_def try_acquire_def)
qed

section \<open>The sliding window\<close>

text \<open>
  \<open>accepted\<close> is the list of instants at which a source passed the rate limit (whether or not a permit was
  left). The queue of the source is a suffix of it from which only attempts older than the window are
  missing.
\<close>

definition window_ok :: "instant \<Rightarrow> instant list \<Rightarrow> instant list \<Rightarrow> bool" where
  "window_ok now accepted entries \<longleftrightarrow>
     (\<exists>k \<le> length accepted. entries = drop k accepted
        \<and> (\<forall>i<k. accepted ! i + int DEVICE_EXCHANGE_RATE_WINDOW \<le> now))"

definition rate_ok :: "instant list \<Rightarrow> bool" where
  "rate_ok accepted \<longleftrightarrow>
     (\<forall>i. i + DEVICE_EXCHANGE_RATE_LIMIT < length accepted \<longrightarrow>
        accepted ! i + int DEVICE_EXCHANGE_RATE_WINDOW \<le> accepted ! (i + DEVICE_EXCHANGE_RATE_LIMIT))"

lemma window_ok_later: "window_ok t accepted entries \<Longrightarrow> t \<le> now \<Longrightarrow> window_ok now accepted entries"
  unfolding window_ok_def by (elim exE conjE, intro exI conjI) (assumption | force)+

lemma window_ok_pop:
  assumes "window_ok now accepted entries" and "cutoff + int DEVICE_EXCHANGE_RATE_WINDOW \<le> now"
  shows "window_ok now accepted (pop_expired cutoff entries)"
proof -
  obtain k where k: "k \<le> length accepted" "entries = drop k accepted"
    "\<forall>i<k. accepted ! i + int DEVICE_EXCHANGE_RATE_WINDOW \<le> now"
    using assms(1) by (auto simp: window_ok_def)
  obtain n where n: "n \<le> length entries" "pop_expired cutoff entries = drop n entries"
    "\<forall>i<n. entries ! i \<le> cutoff"
    using pop_expired_drop by blast
  have "accepted ! i + int DEVICE_EXCHANGE_RATE_WINDOW \<le> now" if "i < k + n" for i
  proof (cases "i < k")
    case False
    then have "accepted ! i = entries ! (i - k)" using k that n by simp
    moreover have "i - k < n" using False that by linarith
    ultimately show ?thesis using n(3) assms(2) by fastforce
  qed (use k in blast)
  then show ?thesis
    using k n by (auto simp: window_ok_def add.commute intro!: exI [of _ "k + n"])
qed

lemma window_ok_push:
  assumes "window_ok now accepted entries" and "length entries < DEVICE_EXCHANGE_RATE_LIMIT"
    and "rate_ok accepted"
  shows "window_ok now (accepted @ [now]) (entries @ [now]) \<and> rate_ok (accepted @ [now])"
proof -
  obtain k where k: "k \<le> length accepted" "entries = drop k accepted"
    "\<forall>i<k. accepted ! i + int DEVICE_EXCHANGE_RATE_WINDOW \<le> now"
    using assms(1) by (auto simp: window_ok_def)
  have "window_ok now (accepted @ [now]) (entries @ [now])"
    using k by (auto simp: window_ok_def nth_append intro!: exI [of _ k])
  moreover have "(accepted @ [now]) ! i + int DEVICE_EXCHANGE_RATE_WINDOW
      \<le> (accepted @ [now]) ! (i + DEVICE_EXCHANGE_RATE_LIMIT)"
    if "i + DEVICE_EXCHANGE_RATE_LIMIT < length (accepted @ [now])" for i
  proof (cases "i + DEVICE_EXCHANGE_RATE_LIMIT < length accepted")
    case True
    then show ?thesis using assms(3) by (simp add: rate_ok_def nth_append)
  next
    case False
    then have "i + DEVICE_EXCHANGE_RATE_LIMIT = length accepted" using that by simp
    moreover from this have "i < k" using assms(2) k by simp
    ultimately show ?thesis using k by (simp add: nth_append)
  qed
  ultimately show ?thesis by (simp add: rate_ok_def)
qed

definition passes :: "instant \<Rightarrow> ip_addr \<Rightarrow> device_exchange_limiter \<Rightarrow> bool" where
  "passes now source lm \<longleftrightarrow> fst (admit now source lm) \<noteq> Err RateLimited"

lemma admit_window:
  assumes "limiter_inv lm" and "0 \<le> now"
    and "window_ok now accepted (entries_of (lm_attempts lm) s)" and "rate_ok accepted"
    and "accepted' = (if source = s \<and> passes now source lm then accepted @ [now] else accepted)"
  shows "window_ok now accepted' (entries_of (lm_attempts (snd (admit now source lm))) s) \<and> rate_ok accepted'"
proof -
  define cutoff where "cutoff = (case checked_sub now DEVICE_EXCHANGE_RATE_WINDOW of None \<Rightarrow> now | Some t \<Rightarrow> t)"
  define full where "full = (hm_len (lm_attempts lm) \<ge> MAX_DEVICE_EXCHANGE_SOURCES
                  \<and> \<not> hm_contains_key (lm_attempts lm) source)"
  define attempts where "attempts = (if full then prune_sources cutoff (lm_attempts lm) else lm_attempts lm)"
  have "int DEVICE_EXCHANGE_RATE_WINDOW \<le> INSTANT_LIMIT"
    by (simp add: DEVICE_EXCHANGE_RATE_WINDOW_def from_secs_def NANOS_def INSTANT_LIMIT_def)
  then have cut: "cutoff + int DEVICE_EXCHANGE_RATE_WINDOW \<le> now"
    using checked_sub_nonneg [OF assms(2)] by (simp add: cutoff_def)
  have wf: "hm_wf (lm_attempts lm)" using assms(1) by (simp add: limiter_inv_def)
  have win: "window_ok now accepted (entries_of attempts s)"
    using assms(3) window_ok_pop [OF _ cut] by (simp add: attempts_def prune_entries [OF wf])
  note pop = window_ok_pop [OF win cut]
  have push: "length (pop_expired cutoff (entries_of attempts s)) < DEVICE_EXCHANGE_RATE_LIMIT \<Longrightarrow>
      window_ok now (accepted @ [now]) (pop_expired cutoff (entries_of attempts s) @ [now]) \<and> rate_ok (accepted @ [now])"
    using window_ok_push [OF pop _ assms(4)] by blast
  have not_limited: "fst (try_acquire l) \<noteq> Err RateLimited" for l by (simp add: try_acquire_def)
  show ?thesis
    unfolding assms(5) passes_def admit_def Let_def cutoff_def [symmetric] full_def [symmetric]
      attempts_def [symmetric]
    using win pop push assms(4) not_limited by (auto simp: entries_of_insert not_le)
qed

text \<open>A sequence of events: a request of a source at an instant, or the end of an admitted exchange.\<close>

datatype limiter_event = Attempt instant ip_addr | Finished

fun limiter_step :: "limiter_event \<Rightarrow> device_exchange_limiter \<Rightarrow> device_exchange_limiter" where
  "limiter_step (Attempt now source) lm = snd (admit now source lm)"
| "limiter_step Finished lm = release_permit lm"

fun accepted_from :: "ip_addr \<Rightarrow> limiter_event list \<Rightarrow> device_exchange_limiter \<Rightarrow> instant list" where
  "accepted_from s [] lm = []"
| "accepted_from s (Attempt now source # es) lm =
     (if source = s \<and> passes now source lm then [now] else [])
     @ accepted_from s es (limiter_step (Attempt now source) lm)"
| "accepted_from s (Finished # es) lm = accepted_from s es (limiter_step Finished lm)"

fun in_time_order :: "instant \<Rightarrow> limiter_event list \<Rightarrow> bool" where
  "in_time_order t [] = True"
| "in_time_order t (Attempt now source # es) \<longleftrightarrow> t \<le> now \<and> in_time_order now es"
| "in_time_order t (Finished # es) = in_time_order t es"

lemma accepted_rate:
  assumes "hm_wf (lm_attempts lm)" and "hm_len (lm_attempts lm) \<le> MAX_DEVICE_EXCHANGE_SOURCES"
    and "0 \<le> t" and "in_time_order t es"
    and "window_ok t accepted (entries_of (lm_attempts lm) s)" and "rate_ok accepted"
  shows "rate_ok (accepted @ accepted_from s es lm)"
  using assms
proof (induction s es lm arbitrary: t accepted rule: accepted_from.induct)
  case (2 s now source es lm)
  let ?lm = "lm\<lparr>lm_permits := 0\<rparr>"
  define accepted' where "accepted' = (if source = s \<and> passes now source lm then accepted @ [now] else accepted)"
  have t: "t \<le> now" "in_time_order now es" "0 \<le> now" using "2.prems" by auto
  have win: "window_ok now accepted (entries_of (lm_attempts lm) s)"
    using window_ok_later "2.prems" t by blast
  have attempts: "lm_attempts (snd (admit now source l)) = lm_attempts (snd (admit now source lm))"
      "passes now source l = passes now source lm" if "lm_attempts l = lm_attempts lm" for l
    using that by (simp_all add: admit_def passes_def Let_def try_acquire_def)
  have inv: "limiter_inv ?lm"
    using "2.prems" by (simp add: limiter_inv_def)
  have step: "window_ok now accepted' (entries_of (lm_attempts (snd (admit now source lm))) s) \<and> rate_ok accepted'"
    using admit_window [OF inv t(3), of accepted s accepted' source] win "2.prems"(6) attempts [of ?lm]
    by (simp add: accepted'_def)
  have "hm_wf (lm_attempts (snd (admit now source lm)))
      \<and> hm_len (lm_attempts (snd (admit now source lm))) \<le> MAX_DEVICE_EXCHANGE_SOURCES"
    using admit_inv [OF inv, of now source] attempts [of ?lm] by (simp add: limiter_inv_def)
  then have "rate_ok (accepted' @ accepted_from s es (snd (admit now source lm)))"
    using "2.IH" [of now accepted'] t step by simp
  then show ?case by (cases "source = s \<and> passes now source lm") (auto simp: accepted'_def)
qed (auto simp: release_permit_def)

section \<open>Properties\<close>

text \<open>
  C31: the rate limit holds over every sliding minute. For each source, in any sequence of requests and
  completions in the order of time, an accepted request and the tenth accepted one after it are at least
  a minute apart, so no window of 60 seconds has more than ten.
\<close>

theorem device_exchange_rate_limited:
  assumes "in_time_order 0 es" and "i + 10 < length (accepted_from s es limiter_new)"
  shows "accepted_from s es limiter_new ! i + 60 * int NANOS \<le> accepted_from s es limiter_new ! (i + 10)"
proof -
  have inv: "hm_wf (lm_attempts limiter_new)"
    "hm_len (lm_attempts limiter_new) \<le> MAX_DEVICE_EXCHANGE_SOURCES"
    using limiter_new_inv by (simp_all add: limiter_inv_def)
  have "window_ok 0 [] (entries_of (lm_attempts limiter_new) s)"
    by (simp add: window_ok_def entries_of_def limiter_new_def)
  then have "rate_ok (accepted_from s es limiter_new)"
    using accepted_rate [OF inv _ assms(1), of "[]" s] by (simp add: rate_ok_def)
  then show ?thesis
    using assms(2)
    by (simp add: rate_ok_def DEVICE_EXCHANGE_RATE_LIMIT_def DEVICE_EXCHANGE_RATE_WINDOW_def from_secs_def)
qed

text \<open>The limiter with the number of exchanges in progress; only an exchange in progress can finish.\<close>

fun limiter_run ::
  "limiter_event list \<Rightarrow> device_exchange_limiter \<times> nat \<Rightarrow> device_exchange_limiter \<times> nat" where
  "limiter_run [] st = st"
| "limiter_run (Attempt now source # es) (lm, held) =
     limiter_run es (snd (admit now source lm), if fst (admit now source lm) = Ok () then Suc held else held)"
| "limiter_run (Finished # es) (lm, held) =
     limiter_run es (if held = 0 then (lm, held) else (release_permit lm, held - 1))"

lemma admit_permits:
  "lm_permits lm = (if fst (admit now source lm) = Ok () then Suc (lm_permits (snd (admit now source lm)))
     else lm_permits (snd (admit now source lm)))"
  by (simp add: admit_def Let_def try_acquire_def)

lemma limiter_run_bounded:
  assumes "limiter_inv lm" and "lm_permits lm + held = DEVICE_EXCHANGE_MAX_CONCURRENT"
    and "limiter_run es (lm, held) = (lm', held')"
  shows "limiter_inv lm' \<and> lm_permits lm' + held' = DEVICE_EXCHANGE_MAX_CONCURRENT"
  using assms
proof (induction es arbitrary: lm held)
  case (Cons e es)
  show ?case
  proof (cases e)
    case (Attempt now source)
    let ?held = "if fst (admit now source lm) = Ok () then Suc held else held"
    have "lm_permits (snd (admit now source lm)) + ?held = DEVICE_EXCHANGE_MAX_CONCURRENT"
      using admit_permits [of lm now source] Cons.prems(2) by (simp split: if_splits)
    then show ?thesis
      using Cons.IH [OF admit_inv [OF Cons.prems(1), of now source], of ?held] Cons.prems(3) Attempt by simp
  next
    case Finished
    show ?thesis
    proof (cases "held = 0")
      case False
      then have "limiter_inv (release_permit lm)"
        "lm_permits (release_permit lm) + (held - 1) = DEVICE_EXCHANGE_MAX_CONCURRENT"
        using Cons.prems by (auto simp: limiter_inv_def release_permit_def)
      from Cons.IH [OF this] show ?thesis using Cons.prems(3) Finished False by simp
    qed (use Cons Finished in simp)
  qed
qed simp

text \<open>
  The limiter itself is bounded: whatever the requests and their timing, at most 4096 sources are
  remembered and at most eight exchanges are in progress.
\<close>

theorem device_exchange_bounded:
  "case limiter_run es (limiter_new, 0) of (lm, in_progress) \<Rightarrow>
     hm_len (lm_attempts lm) \<le> 4096 \<and> in_progress \<le> 8"
proof -
  obtain lm held where run: "limiter_run es (limiter_new, 0) = (lm, held)" by fastforce
  have "limiter_inv lm \<and> lm_permits lm + held = DEVICE_EXCHANGE_MAX_CONCURRENT"
    by (rule limiter_run_bounded [OF limiter_new_inv _ run]) (simp add: limiter_new_def)
  then show ?thesis
    using run by (auto simp: limiter_inv_def MAX_DEVICE_EXCHANGE_SOURCES_def DEVICE_EXCHANGE_MAX_CONCURRENT_def)
qed

text \<open>Twelve requests of one source, of which the eleventh is refused and the twelfth, a minute later, passes.\<close>

definition demo_source :: ip_addr where
  "demo_source = V4 0x7F000001"

definition demo_events :: "limiter_event list" where
  "demo_events =
     [Attempt 1 demo_source, Finished, Attempt 1 demo_source, Finished, Attempt 1 demo_source, Finished,
      Attempt 1 demo_source, Finished, Attempt 1 demo_source, Finished, Attempt 1 demo_source, Finished,
      Attempt 1 demo_source, Finished, Attempt 1 demo_source, Finished, Attempt 1 demo_source, Finished,
      Attempt 1 demo_source, Finished, Attempt 2 demo_source, Attempt 60000000001 demo_source]"

lemma demo_admit:
  assumes "lm_attempts lm = [(demo_source, es)]" and "0 < lm_permits lm" and "0 \<le> now"
  shows "admit now demo_source lm =
    (let entries = pop_expired (now - 60000000000) es in
     if length entries \<ge> 10 then (Err RateLimited, lm\<lparr>lm_attempts := [(demo_source, entries)]\<rparr>)
     else (Ok (), \<lparr>lm_permits = lm_permits lm - 1, lm_attempts = [(demo_source, entries @ [now])]\<rparr>))"
proof -
  have "checked_sub now DEVICE_EXCHANGE_RATE_WINDOW = Some (now - 60000000000)"
    using assms(3)
    by (simp add: checked_sub_def DEVICE_EXCHANGE_RATE_WINDOW_def from_secs_def NANOS_def INSTANT_LIMIT_def)
  then show ?thesis
    using assms(1,2)
    by (simp add: admit_def Let_def hm_len_def MAX_DEVICE_EXCHANGE_SOURCES_def hm_get_def entries_of_def
        DEVICE_EXCHANGE_RATE_LIMIT_def hm_insert_def try_acquire_def)
qed

lemma demo_first:
  "admit 1 demo_source limiter_new = (Ok (), \<lparr>lm_permits = 7, lm_attempts = [(demo_source, [1])]\<rparr>)"
  by (simp add: admit_def Let_def hm_len_def MAX_DEVICE_EXCHANGE_SOURCES_def hm_get_def entries_of_def
      DEVICE_EXCHANGE_RATE_LIMIT_def hm_insert_def hm_new_def try_acquire_def limiter_new_def
      DEVICE_EXCHANGE_MAX_CONCURRENT_def)

lemma demo_accepted:
  "accepted_from demo_source demo_events limiter_new = [1, 1, 1, 1, 1, 1, 1, 1, 1, 1, 60000000001]"
  by (simp add: demo_events_def passes_def demo_first demo_admit release_permit_def)

theorem device_exchange_rate_limited_witness:
  "accepted_from demo_source demo_events limiter_new ! 0 + 60 * int NANOS
     \<le> accepted_from demo_source demo_events limiter_new ! (0 + 10)"
proof (rule device_exchange_rate_limited)
  show "in_time_order 0 demo_events" by (simp add: demo_events_def)
  show "0 + 10 < length (accepted_from demo_source demo_events limiter_new)"
    unfolding demo_accepted by simp
qed

end
