(* ===== verification/Config_Spec.thy ===== *)
theory Config_Spec
  imports Config_Model
begin

text \<open>
  The contract of \<^verbatim>\<open>Config::normalize_and_validate\<close>: \<open>config_ok\<close> says which configurations are
  valid, over the lists of the configuration only; the validator accepts exactly these and never
  panics (its \<^verbatim>\<open>expect("validated identity reference")\<close> cannot fail).
\<close>

section \<open>What a valid configuration is\<close>

definition server_ok :: "server_config \<Rightarrow> bool" where
  "server_ok s \<longleftrightarrow>
     (is_loopback (sa_ip (sc_listen s)) \<or> sc_allow_non_loopback_listen s)
     \<and> pred_option valid_group_name (sc_admin_socket_group s)
     \<and> starts_with ''/'' (sc_admin_socket_path s)
     \<and> \<not> bad_admin_socket_mode (sc_admin_socket_mode s)"

definition keys_ok :: "key_config list \<Rightarrow> bool" where
  "keys_ok keys \<longleftrightarrow>
     keys \<noteq> [] \<and> distinct (map kc_id keys)
     \<and> (\<forall>k\<in>set keys. valid_key_id (kc_id k) \<and> kc_passphrase_credential k = None)"

definition keyrings_ok :: "string set \<Rightarrow> keyring_config list \<Rightarrow> bool" where
  "keyrings_ok key_ids rings \<longleftrightarrow>
     distinct (map kr_id rings) \<and> distinct (concat (map kr_keys rings))
     \<and> (\<forall>r\<in>set rings. valid_key_id (kr_id r) \<and> kr_keys r \<noteq> [] \<and> set (kr_keys r) \<subseteq> key_ids)"

definition https_url_ok :: "url_parser \<Rightarrow> string \<Rightarrow> bool" where
  "https_url_ok parse_url s \<longleftrightarrow>
     (\<exists>u. parse_url s = Some u \<and> url_scheme u = ''https'' \<and> url_host_str u \<noteq> None)"

definition github_ok :: "url_parser \<Rightarrow> github_config \<Rightarrow> bool" where
  "github_ok parse_url g \<longleftrightarrow>
     starts_with ''https://'' (gh_api_url g) \<and> last (gh_api_url g) \<noteq> CHR ''/''
     \<and> \<not> blank (gh_api_version g)
     \<and> https_url_ok parse_url (gh_oauth_access_token_url g)
     \<and> https_url_ok parse_url (gh_oauth_device_code_url g)
     \<and> valid_key_id (gh_oauth_client_id g) \<and> valid_key_id (gh_oauth_client_secret_credential g)
     \<and> 1 \<le> unat (gh_oauth_session_ttl_seconds g) \<and> unat (gh_oauth_session_ttl_seconds g) \<le> 3600"

definition actions_config_ok :: "github_actions_config \<Rightarrow> bool" where
  "actions_config_ok a \<longleftrightarrow>
     \<not> blank (ga_audience a) \<and> starts_with ''https://'' (ga_jwks_url a) \<and> ga_jwks_ttl_seconds a \<noteq> 0"

definition numeric :: "string \<Rightarrow> bool" where
  "numeric s \<longleftrightarrow> s \<noteq> [] \<and> list_all is_ascii_digit s"

definition names_ok :: "string list \<Rightarrow> bool" where
  "names_ok xs \<longleftrightarrow> xs \<noteq> [] \<and> (\<forall>x\<in>set xs. \<not> blank x)"

definition constraints_ok :: "identity_config \<Rightarrow> bool" where
  "constraints_ok i \<longleftrightarrow>
     (\<exists>p. ic_workflow_path i = Some p \<and> \<not> bad_workflow_path p)
     \<and> (\<exists>ev. ic_allowed_event_names i = Some ev \<and> names_ok ev)
     \<and> pred_option names_ok (ic_allowed_ref_types i)
     \<and> pred_option (\<lambda>v. \<not> blank v) (ic_required_environment i)
     \<and> pred_option (\<lambda>v. \<not> blank v) (ic_required_runner_environment i)
     \<and> pred_option (\<lambda>shas. shas \<noteq> [] \<and> (\<forall>v\<in>set shas. valid_commit_sha v))
         (ic_allowed_workflow_shas i)"

definition account_identity_ok :: "identity_config \<Rightarrow> bool" where
  "account_identity_ok i \<longleftrightarrow>
     (\<exists>u. ic_github_user_id i = Some u \<and> numeric u)
     \<and> \<not> has_actions_fields i \<and> pred_option (\<lambda>v. \<not> blank v) (ic_github_login i)"

definition actions_identity_ok :: "identity_config \<Rightarrow> bool" where
  "actions_identity_ok i \<longleftrightarrow>
     (\<exists>r. ic_repository_id i = Some r \<and> numeric r)
     \<and> ic_github_user_id i = None \<and> ic_github_login i = None
     \<and> pred_option valid_repository (ic_repository i)
     \<and> (has_claim_constraints i \<longrightarrow> constraints_ok i)"

definition identity_ok :: "identity_config \<Rightarrow> bool" where
  "identity_ok i \<longleftrightarrow>
     valid_key_id (ic_id i)
     \<and> (case ic_kind i of GithubAccountKind \<Rightarrow> account_identity_ok i
        | GithubActionsKind \<Rightarrow> actions_identity_ok i)"

definition account_ids :: "identity_config list \<Rightarrow> string list" where
  "account_ids is = List.map_filter (\<lambda>i. if ic_kind i = GithubAccountKind then ic_github_user_id i else None) is"

definition identities_ok :: "identity_config list \<Rightarrow> bool" where
  "identities_ok is \<longleftrightarrow>
     is \<noteq> [] \<and> distinct (map ic_id is) \<and> distinct (account_ids is) \<and> (\<forall>i\<in>set is. identity_ok i)"

definition sign_identity_ok :: "identity_config \<Rightarrow> bool" where
  "sign_identity_ok i \<longleftrightarrow>
     ic_workflow_path i \<noteq> None \<and> ic_required_environment i \<noteq> None
     \<and> pred_option (\<lambda>ts. \<forall>t\<in>set ts. t = ''tag'') (ic_allowed_ref_types i)"

definition policy_ok :: "string set \<Rightarrow> identity_config list \<Rightarrow> policy_config \<Rightarrow> bool" where
  "policy_ok key_ids is p \<longleftrightarrow>
     pc_actions p \<noteq> [] \<and> distinct (pc_actions p)
     \<and> pc_keys p \<noteq> [] \<and> distinct (pc_keys p) \<and> set (pc_keys p) \<subseteq> insert ''*'' key_ids
     \<and> (\<exists>i\<in>set is. ic_id i = pc_identity p
          \<and> (ic_kind i = GithubActionsKind \<and> Sign \<in> set (pc_actions p) \<longrightarrow> sign_identity_ok i))"

definition config_ok :: "url_parser \<Rightarrow> config \<Rightarrow> bool" where
  "config_ok parse_url c \<longleftrightarrow>
     mc_api_version (cfg_microtun c) = ''microtun.dev/v1alpha1''
     \<and> mc_kind (cfg_microtun c) = ''SignerConfig''
     \<and> server_ok (cfg_server c)
     \<and> keys_ok (cfg_keys c)
     \<and> keyrings_ok (kc_id ` set (cfg_keys c)) (cfg_keyrings c)
     \<and> github_ok parse_url (cfg_github c)
     \<and> actions_config_ok (cfg_github_actions c)
     \<and> identities_ok (cfg_identities c)
     \<and> cfg_policies c \<noteq> []
     \<and> (\<forall>p\<in>set (cfg_policies c).
          policy_ok (kc_id ` set (cfg_keys c)) (cfg_identities c) p)"

section \<open>The sections of the validator meet their contracts\<close>

lemma validate_header_Ok:
  "validate_header m = Ok u \<longleftrightarrow>
     mc_api_version m = ''microtun.dev/v1alpha1'' \<and> mc_kind m = ''SignerConfig''"
  by (auto simp: validate_header_def CONFIG_API_VERSION_ID_def CONFIG_KIND_def)

lemma validate_server_Ok: "validate_server s = Ok u \<longleftrightarrow> server_ok s"
  by (auto simp: validate_server_def server_ok_def pred_option_def split: option.splits)

lemma for_each_insert_new:
  "for_each (\<lambda>a. insert_new (e a) a) xs seen = Ok seen' \<longleftrightarrow>
     distinct xs \<and> set xs \<inter> set seen = {} \<and> seen' = rev xs @ seen"
  by (induction xs arbitrary: seen) auto

lemma for_each_validate_key:
  "for_each validate_key keys seen = Ok ids \<longleftrightarrow>
     distinct (map kc_id keys) \<and> kc_id ` set keys \<inter> set seen = {}
     \<and> (\<forall>k\<in>set keys. valid_key_id (kc_id k) \<and> kc_passphrase_credential k = None)
     \<and> ids = rev (map kc_id keys) @ seen"
  by (induction keys arbitrary: seen) (auto simp: validate_key_def)

lemma validate_keys_Ok:
  "validate_keys keys = Ok ids \<longleftrightarrow> keys_ok keys \<and> ids = rev (map kc_id keys)"
  by (auto simp: validate_keys_def keys_ok_def for_each_validate_key)

lemma validate_member_Ok:
  "validate_member key_ids r k owner = Ok owner' \<longleftrightarrow>
     k \<in> set key_ids \<and> hm_get owner k = None \<and> owner' = hm_insert k r owner"
  by (auto simp: validate_member_def split: option.splits)

lemma for_each_validate_member:
  "for_each (validate_member key_ids r) ks owner = Ok owner' \<longleftrightarrow>
     set ks \<subseteq> set key_ids \<and> distinct ks \<and> (\<forall>k\<in>set ks. hm_get owner k = None)
     \<and> owner' = fold (\<lambda>k. hm_insert k r) ks owner"
  by (induction ks arbitrary: owner) (auto simp: validate_member_Ok)

lemma hm_get_fold_insert:
  "hm_get (fold (\<lambda>k. hm_insert k r) ks owner) k = None \<longleftrightarrow> hm_get owner k = None \<and> k \<notin> set ks"
  by (induction ks arbitrary: owner) auto

lemma validate_keyring_Ok:
  "validate_keyring key_ids r (seen, owner) = Ok st' \<longleftrightarrow>
     valid_key_id (kr_id r) \<and> kr_id r \<notin> set seen \<and> kr_keys r \<noteq> []
     \<and> set (kr_keys r) \<subseteq> set key_ids \<and> distinct (kr_keys r)
     \<and> (\<forall>k\<in>set (kr_keys r). hm_get owner k = None)
     \<and> st' = (kr_id r # seen, fold (\<lambda>k. hm_insert k (kr_id r)) (kr_keys r) owner)"
  by (auto simp: validate_keyring_def for_each_validate_member valid_keyring_name_def)

lemma for_each_validate_keyring:
  "(\<exists>st'. for_each (validate_keyring key_ids) rings (seen, owner) = Ok st') \<longleftrightarrow>
     distinct (map kr_id rings) \<and> kr_id ` set rings \<inter> set seen = {}
     \<and> distinct (concat (map kr_keys rings))
     \<and> (\<forall>k\<in>set (concat (map kr_keys rings)). hm_get owner k = None)
     \<and> (\<forall>r\<in>set rings. valid_key_id (kr_id r) \<and> kr_keys r \<noteq> [] \<and> set (kr_keys r) \<subseteq> set key_ids)"
proof (induction rings arbitrary: seen owner)
  case Nil
  then show ?case by simp
next
  case (Cons r rings)
  have "(\<exists>st'. for_each (validate_keyring key_ids) (r # rings) (seen, owner) = Ok st') \<longleftrightarrow>
      (\<exists>st. validate_keyring key_ids r (seen, owner) = Ok st
         \<and> (\<exists>st'. for_each (validate_keyring key_ids) rings (fst st, snd st) = Ok st'))"
    by auto
  then show ?case
    unfolding Cons.IH by (auto simp: validate_keyring_Ok hm_get_fold_insert)
qed

lemma validate_keyrings_Ok:
  "validate_keyrings key_ids rings = Ok u \<longleftrightarrow> keyrings_ok (set key_ids) rings"
  using for_each_validate_keyring [of key_ids rings "[]" hm_new]
  by (auto simp: validate_keyrings_def keyrings_ok_def)

lemma validate_https_url_Ok:
  "(\<exists>u. validate_https_url parse_url f s = Ok u) \<longleftrightarrow> https_url_ok parse_url s"
  by (auto simp: validate_https_url_def https_url_ok_def split: option.splits)

lemma https_prefix_not_empty: "starts_with ''https://'' s \<Longrightarrow> s \<noteq> []"
  by (auto simp: starts_with_def)

lemma validate_github_Ok: "validate_github parse_url g = Ok u \<longleftrightarrow> github_ok parse_url g"
proof -
  have ttl: "unat t \<le> 3600 \<longleftrightarrow> t \<le> MAX_OAUTH_SESSION_TTL_SECONDS" for t :: u64
    by (simp add: MAX_OAUTH_SESSION_TTL_SECONDS_def word_le_nat_alt)
  have pos: "Suc 0 \<le> unat t \<longleftrightarrow> t \<noteq> 0" for t :: u64
    by (simp add: Suc_le_eq unat_gt_0)
  show ?thesis
    using validate_https_url_Ok [of parse_url "''GitHub.OAuthAccessTokenURL''"]
      validate_https_url_Ok [of parse_url "''GitHub.OAuthDeviceCodeURL''"]
    by (auto simp: validate_github_def github_ok_def ends_with_snoc valid_credential_name_def
        not_less ttl pos dest: https_prefix_not_empty)
qed

lemma validate_github_actions_Ok: "validate_github_actions a = Ok u \<longleftrightarrow> actions_config_ok a"
  by (auto simp: validate_github_actions_def actions_config_ok_def)

lemma validate_numeric_id_Ok: "validate_numeric_id f s = Ok u \<longleftrightarrow> numeric s"
  by (auto simp: validate_numeric_id_def numeric_def)

lemma validate_actions_identity_Ok:
  "validate_actions_identity i = Ok u \<longleftrightarrow> (has_claim_constraints i \<longrightarrow> constraints_ok i)"
proof (cases "has_claim_constraints i")
  case False
  then show ?thesis by (simp add: validate_actions_identity_def)
next
  case True
  then show ?thesis
    by (simp add: validate_actions_identity_def constraints_ok_def names_ok_def pred_option_def
        list_ex_iff split: option.splits)
qed

lemma validate_account_identity_Ok:
  "validate_account_identity i seen = Ok seen' \<longleftrightarrow>
     account_identity_ok i
     \<and> (\<exists>u. ic_github_user_id i = Some u \<and> u \<notin> set seen \<and> seen' = u # seen)"
  by (auto simp: validate_account_identity_def account_identity_ok_def validate_numeric_id_Ok
      pred_option_def split: option.splits)

lemma validate_actions_kind_Ok: "validate_actions_kind i = Ok u \<longleftrightarrow> actions_identity_ok i"
  by (auto simp: validate_actions_kind_def actions_identity_ok_def validate_numeric_id_Ok
      validate_actions_identity_Ok pred_option_def split: option.splits)

lemma validate_identity_Ok:
  "validate_identity i st = Ok st' \<longleftrightarrow>
     identity_ok i \<and> ic_id i \<notin> set (is_ids st)
     \<and> set (account_ids [i]) \<inter> set (is_accounts st) = {}
     \<and> st' = \<lparr>is_ids = ic_id i # is_ids st, is_accounts = account_ids [i] @ is_accounts st,
             is_kinds = hm_insert (ic_id i) (ic_kind i) (is_kinds st)\<rparr>"
proof (cases "ic_kind i")
  case GithubAccountKind
  then show ?thesis
    by (auto simp: validate_identity_def identity_ok_def valid_identity_id_def account_ids_def
        map_filter_simps validate_account_identity_Ok account_identity_ok_def)
next
  case GithubActionsKind
  then show ?thesis
    by (auto simp: validate_identity_def identity_ok_def valid_identity_id_def account_ids_def
        map_filter_simps validate_actions_kind_Ok)
qed

lemma account_ids_Cons: "account_ids (i # is) = account_ids [i] @ account_ids is"
  by (simp add: account_ids_def map_filter_simps split: option.splits)

lemma account_ids_single_distinct [simp]: "distinct (account_ids [i])"
  by (simp add: account_ids_def map_filter_simps split: option.splits)

lemma account_ids_single_rev [simp]: "rev (account_ids [i]) = account_ids [i]"
  by (simp add: account_ids_def map_filter_simps split: option.splits)

lemma for_each_validate_identity:
  "for_each validate_identity is st = Ok st' \<longleftrightarrow>
     distinct (map ic_id is) \<and> ic_id ` set is \<inter> set (is_ids st) = {}
     \<and> distinct (account_ids is) \<and> set (account_ids is) \<inter> set (is_accounts st) = {}
     \<and> (\<forall>i\<in>set is. identity_ok i)
     \<and> st' = \<lparr>is_ids = rev (map ic_id is) @ is_ids st,
             is_accounts = rev (account_ids is) @ is_accounts st,
             is_kinds = fold (\<lambda>i. hm_insert (ic_id i) (ic_kind i)) is (is_kinds st)\<rparr>"
proof (induction "is" arbitrary: st)
  case Nil
  then show ?case by (auto simp: account_ids_def map_filter_simps)
next
  case (Cons i "is")
  show ?case
    by (auto simp: validate_identity_Ok Cons.IH account_ids_Cons [of i "is"])
qed

lemma hm_get_fold_kinds:
  "distinct (map ic_id is) \<Longrightarrow>
     hm_get (fold (\<lambda>i. hm_insert (ic_id i) (ic_kind i)) is m) x =
       (case find (\<lambda>i. ic_id i = x) is of None \<Rightarrow> hm_get m x | Some i \<Rightarrow> Some (ic_kind i))"
proof (induction "is" arbitrary: m)
  case Nil
  then show ?case by simp
next
  case (Cons i "is")
  have IH: "hm_get (fold (\<lambda>i. hm_insert (ic_id i) (ic_kind i)) is m') x =
      (case find (\<lambda>i. ic_id i = x) is of None \<Rightarrow> hm_get m' x | Some i \<Rightarrow> Some (ic_kind i))" for m'
    using Cons.IH Cons.prems by simp
  show ?case
  proof (cases "ic_id i = x")
    case True
    then have "x \<notin> ic_id ` set is" using Cons.prems by auto
    then have "find (\<lambda>i. ic_id i = x) is = None"
      by (metis (mono_tags, lifting) find_None_iff image_eqI)
    with True show ?thesis by (simp add: IH)
  next
    case False
    then show ?thesis by (simp add: IH split: option.split)
  qed
qed

lemma validate_identities_Ok:
  "validate_identities is = Ok kinds \<longleftrightarrow>
     identities_ok is \<and> kinds = fold (\<lambda>i. hm_insert (ic_id i) (ic_kind i)) is hm_new"
  by (auto simp: validate_identities_def identities_ok_def for_each_validate_identity)

lemma validate_sign_identity_Ok: "validate_sign_identity n i = Ok u \<longleftrightarrow> sign_identity_ok i"
  by (auto simp: validate_sign_identity_def sign_identity_ok_def pred_option_def list_ex_iff
      split: option.splits)

lemma for_each_validate_policy_key:
  "(\<exists>seen'. for_each (validate_policy_key key_ids) ks seen = Ok seen') \<longleftrightarrow>
     distinct ks \<and> set ks \<inter> set seen = {} \<and> set ks \<subseteq> insert ''*'' (set key_ids)"
  by (induction ks arbitrary: seen) (auto simp: validate_policy_key_def)

text \<open>
  The lookup in \<open>identity_kinds\<close> and the search of the identity list agree: where the policy
  names a configured identity both find it, so the \<^verbatim>\<open>expect\<close> does not fail.
\<close>

lemma find_by_id:
  assumes "distinct (map ic_id is)"
  shows "find (\<lambda>i. ic_id i = x) is = Some i \<longleftrightarrow> i \<in> set is \<and> ic_id i = x"
  using assms by (induction "is") (auto simp: image_iff)

lemma validate_policy_Ok:
  assumes "distinct (map ic_id is)"
    and kinds: "\<And>x. hm_get kinds x = map_option ic_kind (find (\<lambda>i. ic_id i = x) is)"
  shows "validate_policy key_ids kinds is p = Ok u \<longleftrightarrow> policy_ok (set key_ids) is p"
proof (cases "find (\<lambda>i. ic_id i = pc_identity p) is")
  case None
  then have "\<And>i. i \<in> set is \<Longrightarrow> ic_id i \<noteq> pc_identity p"
    by (simp add: find_None_iff)
  with None show ?thesis
    by (auto simp: validate_policy_def kinds policy_ok_def)
next
  case (Some i)
  then have i: "i \<in> set is" "ic_id i = pc_identity p"
    and only: "\<And>j. j \<in> set is \<Longrightarrow> ic_id j = pc_identity p \<Longrightarrow> j = i"
    using assms(1) by (auto simp: find_by_id) (metis find_by_id option.inject assms(1))
  from i only have "policy_ok (set key_ids) is p \<longleftrightarrow>
      pc_actions p \<noteq> [] \<and> distinct (pc_actions p) \<and> pc_keys p \<noteq> [] \<and> distinct (pc_keys p)
      \<and> set (pc_keys p) \<subseteq> insert ''*'' (set key_ids)
      \<and> (ic_kind i = GithubActionsKind \<and> Sign \<in> set (pc_actions p) \<longrightarrow> sign_identity_ok i)"
    unfolding policy_ok_def by blast
  then show ?thesis
    using Some for_each_validate_policy_key [of key_ids "pc_keys p" "[]"]
    by (auto simp: validate_policy_def kinds for_each_insert_new validate_sign_identity_Ok)
qed

lemma identity_kinds_find:
  assumes "identities_ok is"
  shows "hm_get (fold (\<lambda>i. hm_insert (ic_id i) (ic_kind i)) is hm_new) x =
           map_option ic_kind (find (\<lambda>i. ic_id i = x) is)"
  using assms by (simp add: identities_ok_def hm_get_fold_kinds map_option_case split: option.splits)

lemma validate_policy_not_Panic:
  assumes kinds: "\<And>x. hm_get kinds x = map_option ic_kind (find (\<lambda>i. ic_id i = x) is)"
  shows "validate_policy key_ids kinds is p \<noteq> Panic"
proof -
  have keys: "for_each (validate_policy_key key_ids) ks seen \<noteq> Panic" for ks seen
    by (rule for_each_not_Panic) (auto simp: validate_policy_key_def)
  have acts: "for_each (\<lambda>a. insert_new (f a) a) xs seen \<noteq> (Panic :: (config_error, _) outcome)"
    for f and xs seen :: "policy_action list"
    by (rule for_each_not_Panic) simp
  have "validate_sign_identity n i \<noteq> Panic" for n i
    by (auto simp: validate_sign_identity_def)
  then show ?thesis
    by (auto simp: validate_policy_def kinds keys acts)
qed

lemma validate_keyrings_not_Panic: "validate_keyrings key_ids rings \<noteq> Panic"
proof -
  have member: "for_each (validate_member key_ids r) ks m \<noteq> Panic" for r ks m
    by (rule for_each_not_Panic) (auto simp: validate_member_def split: option.splits)
  have "for_each (validate_keyring key_ids) rings st \<noteq> Panic" for st
    by (rule for_each_not_Panic) (auto simp: validate_keyring_def member)
  then show ?thesis by (auto simp: validate_keyrings_def)
qed

lemma validate_identities_not_Panic: "validate_identities is \<noteq> Panic"
proof -
  have num: "validate_numeric_id f v \<noteq> Panic" for f v
    by (simp add: validate_numeric_id_def)
  have "validate_actions_identity i \<noteq> Panic" for i
    by (auto simp: validate_actions_identity_def split: option.splits)
  then have "validate_identity i st \<noteq> Panic" for i st
    by (auto simp: validate_identity_def validate_account_identity_def validate_actions_kind_def num
        split: identity_kind.splits option.splits)
  then have "for_each validate_identity is st \<noteq> Panic" for st
    by (intro for_each_not_Panic)
  then show ?thesis by (auto simp: validate_identities_def)
qed

lemma validate_keys_not_Panic: "validate_keys keys \<noteq> Panic"
proof -
  have "validate_key k seen \<noteq> Panic" for k seen
    by (auto simp: validate_key_def)
  then show ?thesis by (simp add: validate_keys_def for_each_not_Panic)
qed

section \<open>The validator meets the contract\<close>

lemma normalize_and_validate_iff:
  "normalize_and_validate parse_url c = Ok () \<longleftrightarrow> config_ok parse_url c"
proof -
  have "validate_policy ids (fold (\<lambda>i. hm_insert (ic_id i) (ic_kind i)) is hm_new) is p = Ok ()
        \<longleftrightarrow> policy_ok (set ids) is p" if "identities_ok is" for p ids "is"
    using that validate_policy_Ok [of "is"] identity_kinds_find [OF that]
    by (simp add: identities_ok_def)
  then show ?thesis
    by (auto simp: normalize_and_validate_def config_ok_def validate_header_Ok validate_server_Ok
        validate_keys_Ok validate_keyrings_Ok validate_github_Ok validate_github_actions_Ok
        validate_identities_Ok validate_policies_def)
qed

text \<open>
  C13: \<^verbatim>\<open>Config::normalize_and_validate\<close> accepts a configuration exactly if it is valid
  (\<open>config_ok\<close>): every key, keyring, identity and policy is well formed, identifiers are unique,
  no key is in two keyrings, policies name configured identities and keys, and a GitHub Actions
  identity with signing rights is bound to a workflow file, a protected environment and tag refs.
\<close>

theorem normalize_and_validate_correct:
  "normalize_and_validate parse_url c = Ok () \<longleftrightarrow> config_ok parse_url c"
  by (rule normalize_and_validate_iff)

lemma normalize_not_Panic: "normalize_and_validate parse_url c \<noteq> Panic"
proof -
  have url: "validate_https_url parse_url f v \<noteq> Panic" for f v
    by (simp add: validate_https_url_def split: option.splits)
  have policies: "validate_policies ids (fold (\<lambda>i. hm_insert (ic_id i) (ic_kind i)) is hm_new) is ps
      \<noteq> Panic" if "identities_ok is" for ids "is" ps
    using validate_policy_not_Panic [OF identity_kinds_find [OF that]]
    by (simp add: validate_policies_def check_each_not_Panic)
  show ?thesis
    using validate_keys_not_Panic validate_keyrings_not_Panic validate_identities_not_Panic
    by (auto simp: normalize_and_validate_def validate_header_def validate_server_def
        validate_github_def url validate_github_actions_def validate_identities_Ok policies)
qed

text \<open>
  Validation never panics: the \<^verbatim>\<open>expect("validated identity reference")\<close> inside the policy
  loop always finds the identity whose kind was recorded.
\<close>

theorem normalize_and_validate_no_panic: "normalize_and_validate parse_url c \<noteq> Panic"
  by (rule normalize_not_Panic)

definition sign_constrained :: "identity_config \<Rightarrow> bool" where
  "sign_constrained i \<longleftrightarrow>
     (\<exists>w. ic_workflow_path i = Some w \<and> starts_with ''.github/workflows/'' w
          \<and> \<not> contains_str ''..'' w)
     \<and> (\<exists>ev. ic_allowed_event_names i = Some ev \<and> ev \<noteq> [] \<and> (\<forall>e\<in>set ev. \<not> blank e))
     \<and> (\<exists>env. ic_required_environment i = Some env \<and> \<not> blank env)
     \<and> (\<forall>ts. ic_allowed_ref_types i = Some ts \<longrightarrow> set ts = {''tag''})"

lemma sign_constrainedI:
  assumes "constraints_ok i" and "sign_identity_ok i"
  shows "sign_constrained i"
proof -
  from assms obtain env where "ic_required_environment i = Some env" "\<not> blank env"
    by (auto simp: sign_identity_ok_def constraints_ok_def)
  moreover have "set ts = {''tag''}" if "ic_allowed_ref_types i = Some ts" for ts
  proof -
    from assms that have "ts \<noteq> []" and "\<forall>t\<in>set ts. t = ''tag''"
      by (simp_all add: sign_identity_ok_def constraints_ok_def names_ok_def)
    then show ?thesis by (cases ts) auto
  qed
  ultimately show ?thesis
    using assms(1) by (auto simp: sign_constrained_def constraints_ok_def names_ok_def bad_workflow_path_def)
qed

lemma config_ok_sign_policy:
  assumes "config_ok parse_url c" and "p \<in> set (cfg_policies c)" and "Sign \<in> set (pc_actions p)"
  shows "\<exists>i\<in>set (cfg_identities c). ic_id i = pc_identity p
           \<and> (ic_kind i = GithubAccountKind \<or> sign_constrained i)"
proof -
  from assms obtain i where i: "i \<in> set (cfg_identities c)" "ic_id i = pc_identity p"
    and sign: "ic_kind i = GithubActionsKind \<Longrightarrow> sign_identity_ok i"
    by (auto simp: config_ok_def policy_ok_def)
  have ok: "identity_ok i" using assms(1) i(1) by (simp add: config_ok_def identities_ok_def)
  have "sign_constrained i" if kind: "ic_kind i = GithubActionsKind"
  proof (rule sign_constrainedI)
    show s: "sign_identity_ok i" using sign kind .
    then have "has_claim_constraints i" by (simp add: sign_identity_ok_def has_claim_constraints_def)
    then show "constraints_ok i" using ok kind by (simp add: identity_ok_def actions_identity_ok_def)
  qed
  then show ?thesis using i by (cases "ic_kind i") auto
qed

text \<open>
  In a validated configuration, the identity a sign policy names is configured, and it is a
  GitHub account or a GitHub Actions identity bound to a workflow file below
  \<^verbatim>\<open>.github/workflows/\<close>, to a nonempty list of events, to a nonempty GitHub Environment and, where
  ref types are listed, to \<^verbatim>\<open>tag\<close> only.
\<close>

theorem sign_policy_identity_constrained:
  assumes "normalize_and_validate parse_url c = Ok ()"
    and "p \<in> set (cfg_policies c)" and "Sign \<in> set (pc_actions p)"
  shows "\<exists>i\<in>set (cfg_identities c). ic_id i = pc_identity p
           \<and> (ic_kind i = GithubAccountKind \<or> sign_constrained i)"
  using assms by (simp add: normalize_and_validate_iff config_ok_sign_policy)

section \<open>The example configuration\<close>

text \<open>
  The values of \<^verbatim>\<open>config.example.toml\<close>, and a URL parser that accepts exactly the \<^verbatim>\<open>https://\<close>
  URLs: a configuration and a parser on which the theorems of the development are exercised.
\<close>

definition https_parser :: url_parser where
  "https_parser s =
     map_option (\<lambda>rest. \<lparr>url_as_str = s, url_scheme = ''https'', url_username = [],
                  url_password = None,
                  url_host_str = Some (takeWhile (\<lambda>c. c \<noteq> CHR ''/'') rest),
                  url_path = dropWhile (\<lambda>c. c \<noteq> CHR ''/'') rest,
                  url_query_pairs = [], url_fragment = None, url_cannot_be_a_base = False\<rparr>)
       (strip_prefix ''https://'' s)"

definition maintainer :: identity_config where
  "maintainer = \<lparr>ic_id = ''firmware-maintainer'', ic_kind = GithubAccountKind,
     ic_github_user_id = Some ''24681012'', ic_github_login = Some ''maintainer-login'',
     ic_repository_id = None, ic_repository = None, ic_workflow_path = None,
     ic_allowed_event_names = None, ic_allowed_ref_types = None, ic_required_environment = None,
     ic_required_runner_environment = None, ic_allowed_workflow_shas = None\<rparr>"

definition release_actions :: identity_config where
  "release_actions = \<lparr>ic_id = ''microtun-release-actions'', ic_kind = GithubActionsKind,
     ic_github_user_id = None, ic_github_login = None,
     ic_repository_id = Some ''123456789'', ic_repository = Some ''owner/microtun'',
     ic_workflow_path = Some ''.github/workflows/release.yml'',
     ic_allowed_event_names = Some [''push''], ic_allowed_ref_types = Some [''tag''],
     ic_required_environment = Some ''firmware-signing'',
     ic_required_runner_environment = None, ic_allowed_workflow_shas = None\<rparr>"

definition example_key :: key_config where
  "example_key = \<lparr>kc_id = ''microtun-firmware-prod'', kc_algorithm = P256,
     kc_pem_path = ''/etc/microtun-signer/firmware-signing-key.encrypted.pem'',
     kc_state = Active, kc_passphrase_credential = None\<rparr>"

definition example_policy :: "string \<Rightarrow> policy_config" where
  "example_policy identity =
     \<lparr>pc_identity = identity, pc_actions = [Sign], pc_keys = [''microtun-firmware-prod'']\<rparr>"

definition example_config :: config where
  "example_config =
     \<lparr>cfg_microtun = \<lparr>mc_api_version = ''microtun.dev/v1alpha1'', mc_kind = ''SignerConfig''\<rparr>,
      cfg_server = \<lparr>sc_listen = \<lparr>sa_ip = V4 0x7F000001, sa_port = 8080\<rparr>,
        sc_admin_socket_path = ''/run/microtun-signer/admin.sock'',
        sc_admin_socket_mode = default_admin_socket_mode,
        sc_admin_socket_group = Some ''microtun-signer-operators'',
        sc_allow_non_loopback_listen = False\<rparr>,
      cfg_keys = [example_key],
      cfg_keyrings = [\<lparr>kr_id = ''firmware-prod'', kr_keys = [''microtun-firmware-prod'']\<rparr>],
      cfg_github = \<lparr>gh_api_url = default_github_api_url, gh_api_version = default_github_api_version,
        gh_oauth_access_token_url = default_github_oauth_access_token_url,
        gh_oauth_device_code_url = default_github_oauth_device_code_url,
        gh_oauth_client_id = ''Ov23liEXAMPLE'',
        gh_oauth_client_secret_credential = default_github_oauth_client_secret_credential,
        gh_oauth_session_ttl_seconds = default_oauth_session_ttl_seconds\<rparr>,
      cfg_github_actions = \<lparr>ga_audience = default_audience, ga_jwks_url = default_jwks_url,
        ga_jwks_ttl_seconds = default_jwks_ttl_seconds\<rparr>,
      cfg_identities = [maintainer, release_actions],
      cfg_policies = [example_policy ''firmware-maintainer'',
                      example_policy ''microtun-release-actions'']\<rparr>"

lemma example_config_accepted: "normalize_and_validate https_parser example_config = Ok ()"
  by code_simp

theorem sign_policy_identity_constrained_witness:
  "example_policy ''microtun-release-actions'' \<in> set (cfg_policies example_config)
   \<and> (\<exists>i\<in>set (cfg_identities example_config). ic_id i = ''microtun-release-actions''
        \<and> (ic_kind i = GithubAccountKind \<or> sign_constrained i))"
proof -
  have p: "example_policy ''microtun-release-actions'' \<in> set (cfg_policies example_config)"
    by (simp add: example_config_def)
  moreover have "Sign \<in> set (pc_actions (example_policy ''microtun-release-actions''))"
    by (simp add: example_policy_def)
  ultimately show ?thesis
    using sign_policy_identity_constrained [OF example_config_accepted]
    by (fastforce simp: example_policy_def)
qed

end
