(* ===== verification/Auth_Identity.thy ===== *)
theory Auth_Identity
  imports Config_Spec "HOL-Library.Multiset"
begin

text \<open>
  The identity layer of \<^verbatim>\<open>src/auth.rs\<close>: the claims of a GitHub Actions token, the authenticated
  principal, the extraction of the bearer token from a request and the matching of GitHub subjects
  against the configured identities.

  Token decoding is done by a library (\<^verbatim>\<open>jsonwebtoken::decode_header\<close>): it is the parameter
  \<open>decode_header\<close>. Of a \<^verbatim>\<open>serde_json::Value\<close> the code distinguishes booleans and strings only.
\<close>

section \<open>Data\<close>

datatype json_value = JBool bool | JString string | JOther

datatype audience = One string | Many "string list"

fun join_commas :: "string list \<Rightarrow> string" where
  "join_commas [] = []"
| "join_commas [v] = v"
| "join_commas (v # vs) = v @ '','' @ join_commas vs"

fun as_audit_string :: "audience \<Rightarrow> string" where
  "as_audit_string (One value) = value"
| "as_audit_string (Many values) = join_commas values"

record github_actions_claims =
  cl_iss :: string
  cl_aud :: audience
  cl_sub :: string
  cl_exp :: u64
  cl_jti :: "string option"
  cl_actor :: "string option"
  cl_actor_id :: "string option"
  cl_repository :: string
  cl_repository_id :: string
  cl_git_ref :: string
  cl_ref_type :: string
  cl_ref_protected :: "json_value option"
  cl_sha :: string
  cl_workflow_ref :: string
  cl_workflow_sha :: "string option"
  cl_event_name :: string
  cl_run_id :: string
  cl_run_attempt :: string
  cl_environment :: "string option"
  cl_runner_environment :: "string option"

record github_account_identity =
  acc_user_id :: string
  acc_login :: string

record github_actions_identity =
  act_repository :: string
  act_repository_id :: string
  act_actor :: "string option"
  act_actor_id :: "string option"
  act_git_ref :: string
  act_ref_type :: string
  act_ref_protected :: bool
  act_sha :: string
  act_workflow_ref :: string
  act_event_name :: string
  act_environment :: "string option"
  act_run_id :: string
  act_run_attempt :: string

datatype auth_source =
    GithubAccount github_account_identity
  | GithubActions github_actions_identity

record auth_principal =
  pr_identity_id :: string
  pr_principal_key :: string
  pr_auth_method :: string
  pr_issuer :: string
  pr_audience :: "string option"
  pr_subject :: string
  pr_jti :: "string option"
  pr_source :: auth_source

datatype auth_error =
    MissingBearer
  | TokenTooLarge
  | InvalidToken
  | TokenReplayed
  | ReplayCacheUnavailable
  | KeyDiscovery
  | IdentityProviderUnavailable
  | ClaimsDenied

datatype jwt_algorithm = RS256 | OtherAlgorithm

record jwt_header =
  jh_alg :: jwt_algorithm
  jh_kid :: "string option"

definition MAX_BEARER_TOKEN_BYTES :: nat where
  "MAX_BEARER_TOKEN_BYTES = 16 * 1024"

definition OAUTH_SCOPE :: string where
  "OAUTH_SCOPE = ''read:user''"

section \<open>Operations\<close>

definition bearer_token :: "header_map \<Rightarrow> (auth_error, string) outcome" where
  "bearer_token headers =
     and_then (ok_or MissingBearer (authorization headers)) (\<lambda>header.
     and_then (ok_or MissingBearer (to_str header)) (\<lambda>value.
     if length value > MAX_BEARER_TOKEN_BYTES then Err TokenTooLarge else
     and_then (ok_or MissingBearer (split_once (CHR '' '') value)) (\<lambda>(scheme, token).
     if \<not> eq_ignore_ascii_case scheme ''bearer'' \<or> token = [] \<or> has_whitespace token
     then Err MissingBearer else Ok token)))"

definition claim_is_true :: "json_value option \<Rightarrow> bool" where
  "claim_is_true value =
     (case value of
        Some (JBool flag) \<Rightarrow> flag
      | Some (JString text) \<Rightarrow> text = ''true''
      | _ \<Rightarrow> False)"

definition scope_grants_read_user :: "string list \<Rightarrow> bool" where
  "scope_grants_read_user scopes \<longleftrightarrow>
     list_ex (\<lambda>scope. scope = OAUTH_SCOPE \<or> scope = ''user'') scopes"

definition is_github_actions_jwt :: "(string \<Rightarrow> jwt_header option) \<Rightarrow> string \<Rightarrow> bool" where
  "is_github_actions_jwt decode_header token \<longleftrightarrow>
     (if count_list token (CHR ''.'') + 1 \<noteq> 3 then False else
      case decode_header token of
        None \<Rightarrow> False
      | Some header \<Rightarrow> jh_alg header = RS256 \<and> jh_kid header \<noteq> None)"

definition matches_github_account_identity ::
  "identity_config \<Rightarrow> string \<Rightarrow> string \<Rightarrow> bool" where
  "matches_github_account_identity identity user_id login \<longleftrightarrow>
     ic_kind identity = GithubAccountKind
     \<and> ic_github_user_id identity = Some user_id
     \<and> (case ic_github_login identity of None \<Rightarrow> True
        | Some expected \<Rightarrow> eq_ignore_ascii_case expected login)"

definition matches_github_actions_identity ::
  "identity_config \<Rightarrow> github_actions_claims \<Rightarrow> bool" where
  "matches_github_actions_identity identity claims \<longleftrightarrow>
     (if ic_kind identity \<noteq> GithubActionsKind
         \<or> ic_repository_id identity \<noteq> Some (cl_repository_id claims)
         \<or> \<not> (case ic_repository identity of None \<Rightarrow> True
              | Some expected \<Rightarrow> eq_ignore_ascii_case expected (cl_repository claims))
      then False else
      case ic_workflow_path identity of None \<Rightarrow> True | Some workflow_path \<Rightarrow>
      case ic_allowed_event_names identity of None \<Rightarrow> False | Some allowed_events \<Rightarrow>
      if \<not> list_ex (\<lambda>event. event = cl_event_name claims) allowed_events then False else
      if (case ic_allowed_ref_types identity of
            Some allowed_ref_types \<Rightarrow>
              \<not> list_ex (\<lambda>ref_type. ref_type = cl_ref_type claims) allowed_ref_types
          | None \<Rightarrow> cl_ref_type claims \<noteq> ''tag'') then False else
      if cl_workflow_ref claims
         \<noteq> cl_repository claims @ ''/'' @ workflow_path @ ''@'' @ cl_git_ref claims then False else
      if (case ic_required_environment identity of None \<Rightarrow> False
          | Some expected \<Rightarrow> cl_environment claims \<noteq> Some expected) then False else
      if (case ic_required_runner_environment identity of None \<Rightarrow> False
          | Some expected \<Rightarrow> cl_runner_environment claims \<noteq> Some expected) then False else
      case ic_allowed_workflow_shas identity of None \<Rightarrow> True | Some shas \<Rightarrow>
      if shas = [] then True else
      case cl_workflow_sha claims of None \<Rightarrow> False | Some workflow_sha \<Rightarrow>
      list_ex (\<lambda>allowed. eq_ignore_ascii_case allowed workflow_sha) shas)"

text \<open>The iterator \<^verbatim>\<open>identities.iter().filter(..)\<close> and its first two \<^verbatim>\<open>next()\<close>.\<close>

definition resolve_github_actions_identity ::
  "identity_config list \<Rightarrow> github_actions_claims \<Rightarrow> (auth_error, identity_config) outcome" where
  "resolve_github_actions_identity identities claims =
     (case filter (\<lambda>identity. matches_github_actions_identity identity claims) identities of
        [] \<Rightarrow> Err ClaimsDenied
      | identity # rest \<Rightarrow> if rest \<noteq> [] then Err ClaimsDenied else Ok identity)"

section \<open>The bearer header\<close>

lemma eq_ignore_case_bearer_no_blank:
  "eq_ignore_ascii_case scheme ''bearer'' \<Longrightarrow> CHR '' '' \<notin> set scheme"
proof
  assume eq: "eq_ignore_ascii_case scheme ''bearer''" and "CHR '' '' \<in> set scheme"
  then have "to_ascii_lowercase (CHR '' '') \<in> set (map to_ascii_lowercase scheme)"
    by simp
  then have "to_ascii_lowercase (CHR '' '') \<in> set (map to_ascii_lowercase ''bearer'')"
    using eq by (simp only: eq_ignore_ascii_case_def)
  then show False
    by (simp add: to_ascii_lowercase_def is_ascii_uppercase_def)
qed

lemma bearer_token_Ok:
  "bearer_token headers = Ok token \<longleftrightarrow>
     (\<exists>scheme. authorization headers = Some (Visible (scheme @ '' '' @ token))
        \<and> eq_ignore_ascii_case scheme ''bearer''
        \<and> length scheme + 1 + length token \<le> MAX_BEARER_TOKEN_BYTES
        \<and> token \<noteq> [] \<and> \<not> has_whitespace token)"
proof
  assume ok: "bearer_token headers = Ok token"
  then obtain h v where h: "authorization headers = Some h" "to_str h = Some v"
    by (auto simp: bearer_token_def)
  then have hv: "h = Visible v" by (cases h) auto
  from ok h obtain scheme where sp: "split_once (CHR '' '') v = Some (scheme, token)"
    and rest: "length v \<le> MAX_BEARER_TOKEN_BYTES" "eq_ignore_ascii_case scheme ''bearer''"
      "token \<noteq> []" "\<not> has_whitespace token"
    by (auto simp: bearer_token_def split: if_splits)
  from sp have "v = scheme @ '' '' @ token" by (simp add: split_once_Some)
  with h hv rest show "\<exists>scheme. authorization headers = Some (Visible (scheme @ '' '' @ token))
        \<and> eq_ignore_ascii_case scheme ''bearer''
        \<and> length scheme + 1 + length token \<le> MAX_BEARER_TOKEN_BYTES
        \<and> token \<noteq> [] \<and> \<not> has_whitespace token"
    by (intro exI [of _ scheme]) simp
next
  assume "\<exists>scheme. authorization headers = Some (Visible (scheme @ '' '' @ token))
        \<and> eq_ignore_ascii_case scheme ''bearer''
        \<and> length scheme + 1 + length token \<le> MAX_BEARER_TOKEN_BYTES
        \<and> token \<noteq> [] \<and> \<not> has_whitespace token"
  then obtain scheme where s: "authorization headers = Some (Visible (scheme @ '' '' @ token))"
      "eq_ignore_ascii_case scheme ''bearer''"
      "length scheme + 1 + length token \<le> MAX_BEARER_TOKEN_BYTES"
      "token \<noteq> []" "\<not> has_whitespace token" by blast
  have "split_once (CHR '' '') (scheme @ '' '' @ token) = Some (scheme, token)"
    using eq_ignore_case_bearer_no_blank [OF s(2)] by (simp add: split_once_Some)
  with s show "bearer_token headers = Ok token" by (simp add: bearer_token_def)
qed

lemma bearer_token_not_Panic [simp]: "bearer_token headers \<noteq> Panic"
  by (auto simp: bearer_token_def split: prod.splits)

text \<open>
  A bearer token is accepted exactly in the form \<open>scheme SP token\<close> where the scheme is
  \<^verbatim>\<open>bearer\<close> up to ASCII case, the token is nonempty and free of whitespace and the header value
  has at most 16384 bytes; every other header is refused.
\<close>

theorem bearer_token_exact:
  "bearer_token headers = Ok token \<longleftrightarrow>
     (\<exists>scheme. authorization headers = Some (Visible (scheme @ '' '' @ token))
        \<and> eq_ignore_ascii_case scheme ''bearer''
        \<and> length scheme + 1 + length token \<le> 16384
        \<and> token \<noteq> [] \<and> \<not> has_whitespace token)"
  by (simp add: bearer_token_Ok MAX_BEARER_TOKEN_BYTES_def)

section \<open>Matching GitHub Actions claims\<close>

text \<open>What an identity with a workflow path demands of the claims, one conjunct per constraint.\<close>

definition claims_satisfy :: "identity_config \<Rightarrow> string \<Rightarrow> github_actions_claims \<Rightarrow> bool" where
  "claims_satisfy i path claims \<longleftrightarrow>
     (\<exists>ev. ic_allowed_event_names i = Some ev \<and> cl_event_name claims \<in> set ev)
     \<and> cl_ref_type claims \<in> (case ic_allowed_ref_types i of None \<Rightarrow> {''tag''} | Some ts \<Rightarrow> set ts)
     \<and> cl_workflow_ref claims = cl_repository claims @ ''/'' @ path @ ''@'' @ cl_git_ref claims
     \<and> pred_option (\<lambda>e. cl_environment claims = Some e) (ic_required_environment i)
     \<and> pred_option (\<lambda>e. cl_runner_environment claims = Some e) (ic_required_runner_environment i)
     \<and> pred_option (\<lambda>shas. shas \<noteq> [] \<longrightarrow>
          (\<exists>sha. cl_workflow_sha claims = Some sha \<and> (\<exists>a\<in>set shas. eq_ignore_ascii_case a sha)))
         (ic_allowed_workflow_shas i)"

lemma matches_github_actions_identity_iff:
  "matches_github_actions_identity i claims \<longleftrightarrow>
     ic_kind i = GithubActionsKind
     \<and> ic_repository_id i = Some (cl_repository_id claims)
     \<and> pred_option (\<lambda>r. eq_ignore_ascii_case r (cl_repository claims)) (ic_repository i)
     \<and> pred_option (\<lambda>path. claims_satisfy i path claims) (ic_workflow_path i)"
proof (cases "ic_workflow_path i")
  case None
  then show ?thesis
    by (simp add: matches_github_actions_identity_def pred_option_def split: option.splits)
next
  case (Some path)
  then show ?thesis
    by (simp add: matches_github_actions_identity_def claims_satisfy_def pred_option_def
        list_ex_iff split: option.splits) blast
qed

lemma resolve_github_actions_identity_Ok:
  "resolve_github_actions_identity is claims = Ok i \<longleftrightarrow>
     filter (\<lambda>i. matches_github_actions_identity i claims) is = [i]"
  by (auto simp: resolve_github_actions_identity_def split: list.splits)

lemma resolve_github_actions_identity_not_Panic [simp]:
  "resolve_github_actions_identity is claims \<noteq> Panic"
  by (simp add: resolve_github_actions_identity_def split: list.splits)

lemma resolve_github_actions_identity_Err:
  "resolve_github_actions_identity is claims = Err e \<Longrightarrow> e = ClaimsDenied"
  by (auto simp: resolve_github_actions_identity_def split: list.splits if_splits)

text \<open>
  Resolution does not depend on the order of the configured identities: permuting the list
  changes neither which token authenticates nor as whom.
\<close>

theorem resolve_actions_identity_order_free:
  assumes "mset is = mset js"
  shows "resolve_github_actions_identity is claims = resolve_github_actions_identity js claims"
proof -
  let ?f = "filter (\<lambda>i. matches_github_actions_identity i claims)"
  have perm: "mset (?f is) = mset (?f js)" using assms by (simp add: mset_filter)
  then have "length (?f is) = length (?f js)" by (metis size_mset)
  moreover have "?f is = ?f js" if "length (?f is) = 1"
    using that perm by (metis One_nat_def length_0_conv length_Suc_conv mset_single_iff_right mset.simps)
  ultimately show ?thesis
    unfolding resolve_github_actions_identity_def
    by (cases "?f is"; cases "?f js") (auto split: list.splits)
qed

definition release_claims :: github_actions_claims where
  "release_claims =
     \<lparr>cl_iss = ''https://token.actions.githubusercontent.com'', cl_aud = One ''microtun-signer'',
      cl_sub = ''repo:owner/microtun:environment:firmware-signing'', cl_exp = 100, cl_jti = Some ''jti-1'',
      cl_actor = None, cl_actor_id = None, cl_repository = ''Owner/microtun'', cl_repository_id = ''123456789'',
      cl_git_ref = ''refs/tags/v1.0.0'', cl_ref_type = ''tag'', cl_ref_protected = Some (JString ''true''),
      cl_sha = ''abc'', cl_workflow_ref = ''Owner/microtun/.github/workflows/release.yml@refs/tags/v1.0.0'',
      cl_workflow_sha = None, cl_event_name = ''push'', cl_run_id = ''1'', cl_run_attempt = ''1'',
      cl_environment = Some ''firmware-signing'', cl_runner_environment = None\<rparr>"

lemma release_claims_resolved:
  "resolve_github_actions_identity [maintainer, release_actions] release_claims = Ok release_actions"
  by code_simp

theorem resolve_actions_identity_order_free_witness:
  "resolve_github_actions_identity [release_actions, maintainer] release_claims = Ok release_actions"
  using resolve_actions_identity_order_free [of "[release_actions, maintainer]" "[maintainer, release_actions]"]
    release_claims_resolved by simp

end
