(* ===== verification/Authorization_Model.thy ===== *)
theory Authorization_Model
  imports Auth_Identity
begin

text \<open>
  \<^verbatim>\<open>src/authorization.rs\<close>: the policy decision. An \<open>Authorizer\<close> is the list of policies of
  the configuration.
\<close>

datatype authorization_error = PolicyDenied

type_synonym authorizer = "policy_config list"

definition authorizer_new :: "policy_config list \<Rightarrow> authorizer" where
  "authorizer_new policies = policies"

definition authorize ::
  "authorizer \<Rightarrow> auth_principal \<Rightarrow> policy_action \<Rightarrow> string
   \<Rightarrow> (authorization_error, unit) outcome" where
  "authorize policies who action key_id =
     (let allowed = list_ex (\<lambda>policy.
            pc_identity policy = pr_identity_id who
            \<and> action \<in> set (pc_actions policy)
            \<and> list_ex (\<lambda>key. key = ''*'' \<or> key = key_id) (pc_keys policy)) policies
      in if allowed then Ok () else Err PolicyDenied)"

lemma authorize_Ok:
  "authorize policies who action key_id = Ok () \<longleftrightarrow>
     (\<exists>p\<in>set policies. pc_identity p = pr_identity_id who \<and> action \<in> set (pc_actions p)
        \<and> (''*'' \<in> set (pc_keys p) \<or> key_id \<in> set (pc_keys p)))"
  by (auto simp: authorize_def Let_def list_ex_iff)

lemma authorize_not_Panic [simp]: "authorize policies who action key_id \<noteq> Panic"
  by (simp add: authorize_def Let_def)

lemma authorize_Err: "authorize policies who action key_id = Err e \<longleftrightarrow>
    authorize policies who action key_id \<noteq> Ok ()"
  by (cases e) (simp add: authorize_def Let_def)

text \<open>
  The decision is deny-by-default and least-privilege: an operation is allowed exactly if one
  single policy names the principal's identity, the action, and the key (or every key); nothing
  else about the principal matters, and two policies never combine to allow more than each alone.
\<close>

theorem authorize_exact:
  "authorize policies who action key_id =
     (if \<exists>p\<in>set policies. pc_identity p = pr_identity_id who \<and> action \<in> set (pc_actions p)
          \<and> set (pc_keys p) \<inter> {''*'', key_id} \<noteq> {}
      then Ok () else Err PolicyDenied)"
  by (auto simp: authorize_def Let_def list_ex_iff)

end
