(* ===== verification/Auth_Replay.thy ===== *)
theory Auth_Replay
  imports Auth_Identity
begin

text \<open>
  One-time use of GitHub Actions tokens: the \<^verbatim>\<open>seen_jtis\<close> cache of \<^verbatim>\<open>src/auth.rs\<close> and
  \<^verbatim>\<open>Authenticator::record_jti\<close>.

  The cache is a \<^verbatim>\<open>Mutex<HashMap<String, Instant>>\<close>. A panic while the lock is held poisons it: every
  later \<^verbatim>\<open>lock()\<close> fails. \<open>now\<close> is the reading of the monotonic clock, \<open>unix_now\<close> that of the wall
  clock in seconds.
\<close>

section \<open>Mutexes\<close>

record 'a mutex =
  mx_data :: 'a
  mx_poisoned :: bool

definition mutex_new :: "'a \<Rightarrow> 'a mutex" where
  "mutex_new a = \<lparr>mx_data = a, mx_poisoned = False\<rparr>"

section \<open>The replay cache\<close>

definition MAX_SEEN_JTIS :: nat where
  "MAX_SEEN_JTIS = 65536"

definition MAX_JTI_BYTES :: nat where
  "MAX_JTI_BYTES = 256"

definition JWT_LEEWAY_SECONDS :: u64 where
  "JWT_LEEWAY_SECONDS = 60"

type_synonym jti_cache = "(string, instant) hmap mutex"

definition jti_remaining :: "u64 \<Rightarrow> u64 \<Rightarrow> u64" where
  "jti_remaining unix_now exp = saturating_add (saturating_sub exp unix_now) JWT_LEEWAY_SECONDS"

definition record_jti ::
  "instant \<Rightarrow> u64 \<Rightarrow> string \<Rightarrow> u64 \<Rightarrow> jti_cache \<Rightarrow> (auth_error, unit) outcome \<times> jti_cache" where
  "record_jti now unix_now jti exp seen =
     (if mx_poisoned seen then (Err ReplayCacheUnavailable, seen) else
      let live = hm_retain (\<lambda>_ until. until > now) (mx_data seen) in
      if hm_contains_key live jti then (Err TokenReplayed, seen\<lparr>mx_data := live\<rparr>) else
      if hm_len live \<ge> MAX_SEEN_JTIS then (Err ReplayCacheUnavailable, seen\<lparr>mx_data := live\<rparr>) else
      (case instant_add now (from_secs (jti_remaining unix_now exp)) of
         None \<Rightarrow> (Panic, \<lparr>mx_data = live, mx_poisoned = True\<rparr>)
       | Some until \<Rightarrow> (Ok (), seen\<lparr>mx_data := hm_insert jti until live\<rparr>)))"

section \<open>The cache invariant\<close>

definition jti_cache_inv :: "jti_cache \<Rightarrow> bool" where
  "jti_cache_inv seen \<longleftrightarrow> hm_wf (mx_data seen) \<and> hm_len (mx_data seen) \<le> MAX_SEEN_JTIS"

lemma jti_cache_inv_new [simp]: "jti_cache_inv (mutex_new hm_new)"
  by (simp add: jti_cache_inv_def mutex_new_def hm_len_def hm_new_def hm_wf_def)

lemma record_jti_inv:
  assumes "jti_cache_inv seen"
  shows "jti_cache_inv (snd (record_jti now unix_now jti exp seen))"
proof -
  have wf: "hm_wf (mx_data seen)" and len: "hm_len (mx_data seen) \<le> MAX_SEEN_JTIS"
    using assms by (auto simp: jti_cache_inv_def)
  show ?thesis
    using wf len instant_map.bounded_purge [OF wf len, of now]
      instant_map.bounded_put [OF wf, of now MAX_SEEN_JTIS]
    by (auto simp: record_jti_def jti_cache_inv_def Let_def not_le split: option.splits)
qed

text \<open>The deadline of an accepted token, as a number of nanoseconds.\<close>

lemma jti_remaining_unat:
  "unat (jti_remaining unix_now exp) = min (unat exp - unat unix_now + 60) (2 ^ 64 - 1)"
  by (simp add: jti_remaining_def unat_saturating_add unat_saturating_sub JWT_LEEWAY_SECONDS_def)

lemma record_jti_Ok:
  assumes "hm_wf (mx_data seen)"
  shows "fst (record_jti now unix_now jti exp seen) = Ok () \<longleftrightarrow>
    \<not> mx_poisoned seen
    \<and> (\<forall>until. hm_get (mx_data seen) jti = Some until \<longrightarrow> until \<le> now)
    \<and> hm_len (hm_retain (\<lambda>_ until. until > now) (mx_data seen)) < MAX_SEEN_JTIS
    \<and> now + int (from_secs (jti_remaining unix_now exp)) < INSTANT_LIMIT"
  using instant_map.purge_none [OF assms, of now jti]
  by (auto simp: record_jti_def Let_def hm_contains_key_def instant_add_def)

text \<open>A remembered token stays remembered as long as its deadline has not passed.\<close>

definition remembers :: "string \<Rightarrow> instant \<Rightarrow> jti_cache \<Rightarrow> bool" where
  "remembers jti t seen \<longleftrightarrow> (\<exists>until. hm_get (mx_data seen) jti = Some until \<and> t \<le> until)"

lemma remembers_kept:
  assumes "hm_wf (mx_data seen)" and "remembers jti t seen" and "now < t"
  shows "remembers jti t (snd (record_jti now unix_now jti' exp seen))"
proof -
  obtain until where get: "hm_get (mx_data seen) jti = Some until" and t: "t \<le> until"
    using assms(2) by (auto simp: remembers_def)
  have live: "hm_get (hm_retain (\<lambda>_ until. until > now) (mx_data seen)) jti = Some until"
    using instant_map.purge_get [OF assms(1), of now jti until] get t assms(3) by auto
  show ?thesis
    using live get t
    by (auto simp: record_jti_def remembers_def Let_def hm_contains_key_def split: option.splits)
qed

lemma remembered_rejected:
  assumes "hm_wf (mx_data seen)" and "remembers jti t seen" and "now < t"
  shows "fst (record_jti now unix_now jti exp seen) =
    (if mx_poisoned seen then Err ReplayCacheUnavailable else Err TokenReplayed)"
proof -
  obtain until where get: "hm_get (mx_data seen) jti = Some until" and t: "t \<le> until"
    using assms(2) by (auto simp: remembers_def)
  have "hm_get (hm_retain (\<lambda>_ until. until > now) (mx_data seen)) jti = Some until"
    using instant_map.purge_get [OF assms(1), of now jti until] get t assms(3) by auto
  then show ?thesis by (simp add: record_jti_def Let_def hm_contains_key_def)
qed

lemma record_jti_remembers:
  assumes "record_jti now unix_now jti exp seen = (Ok (), seen')"
  shows "remembers jti (now + int (from_secs (jti_remaining unix_now exp))) seen'"
  using assms
  by (auto simp: record_jti_def remembers_def Let_def instant_add_def split: if_splits option.splits)

section \<open>Sequences of requests\<close>

record jti_call =
  jc_now :: instant
  jc_unix :: u64
  jc_jti :: string
  jc_exp :: u64

definition call_jti :: "jti_call \<Rightarrow> jti_cache \<Rightarrow> jti_cache" where
  "call_jti c seen = snd (record_jti (jc_now c) (jc_unix c) (jc_jti c) (jc_exp c) seen)"

lemma calls_inv: "jti_cache_inv seen \<Longrightarrow> jti_cache_inv (fold call_jti calls seen)"
  by (induction calls arbitrary: seen) (simp_all add: call_jti_def record_jti_inv)

lemma calls_remember:
  assumes "jti_cache_inv seen" and "remembers jti t seen" and "\<forall>c\<in>set calls. jc_now c < t"
  shows "remembers jti t (fold call_jti calls seen)"
  using assms
proof (induction calls arbitrary: seen)
  case (Cons c calls)
  then show ?case
    using record_jti_inv remembers_kept by (auto simp: call_jti_def jti_cache_inv_def)
qed simp

lemma no_replay:
  assumes "jti_cache_inv seen" and "record_jti now unix_now jti exp seen = (Ok (), seen')"
    and "t = now + int (from_secs (jti_remaining unix_now exp))"
    and "\<forall>c\<in>set calls. jc_now c < t" and "now' < t"
  shows "fst (record_jti now' unix_now' jti exp' (fold call_jti calls seen'))
    \<in> {Err TokenReplayed, Err ReplayCacheUnavailable}"
proof -
  have inv: "jti_cache_inv seen'" using record_jti_inv [OF assms(1)] assms(2) by (metis snd_conv)
  have "remembers jti t (fold call_jti calls seen')"
    using calls_remember [OF inv _ assms(4)] record_jti_remembers [OF assms(2)] assms(3) by simp
  moreover have "hm_wf (mx_data (fold call_jti calls seen'))"
    using calls_inv [OF inv] by (simp add: jti_cache_inv_def)
  ultimately show ?thesis using remembered_rejected [OF _ _ assms(5)] by simp
qed

section \<open>Properties\<close>

text \<open>
  C29: a GitHub Actions token is accepted once. After a token with identifier \<open>jti\<close> and expiry \<open>exp\<close>
  was accepted at wall-clock time \<open>wall\<close> (nanoseconds), every later presentation of the same
  identifier before \<open>exp\<close> plus the leeway is rejected, whatever other tokens were presented in
  between; the monotonic clock advances with the wall clock.
\<close>

theorem jti_single_use:
  assumes "jti_cache_inv seen"
    and "record_jti now (of_nat (wall div NANOS)) jti exp seen = (Ok (), seen')"
    and "wall div NANOS < 2 ^ 64" and "unat exp + 60 < 2 ^ 64"
    and "now' = now + (int wall' - int wall)" and "wall' < (unat exp + 60) * NANOS"
    and "\<forall>c\<in>set calls. jc_now c \<le> now'"
  shows "fst (record_jti now' unix_now' jti exp' (fold call_jti calls seen'))
    \<in> {Err TokenReplayed, Err ReplayCacheUnavailable}"
proof -
  let ?u = "wall div NANOS"
  have u: "unat (of_nat ?u :: u64) = ?u" using assms(3) by (simp add: unat_of_nat)
  have rem: "from_secs (jti_remaining (of_nat ?u) exp) = (unat exp - ?u + 60) * NANOS"
    using assms(4) by (simp add: from_secs_def jti_remaining_unat u)
  have "(unat exp + 60) * NANOS \<le> (unat exp - ?u + 60) * NANOS + ?u * NANOS"
    unfolding distrib_right [symmetric] by (intro mult_right_mono) auto
  moreover have "?u * NANOS \<le> wall" by simp
  ultimately have "wall' < (unat exp - ?u + 60) * NANOS + wall" using assms(6) by linarith
  then have "now' < now + int (from_secs (jti_remaining (of_nat ?u) exp))"
    unfolding rem assms(5) by linarith
  then show ?thesis using no_replay [OF assms(1,2) refl] assms(7) by force
qed

text \<open>
  C39: the bound of the previous property is sharp. The JWT library accepts a token up to and
  including the second \<open>exp\<close> + leeway, while the cache forgets it \<open>exp\<close> - \<open>unix_now\<close> + leeway seconds
  after its first use: a token first used at the beginning of a wall-clock second is accepted a second
  time in the last second of its lifetime.
\<close>

theorem jti_forgotten_in_last_second:
  assumes "record_jti now unix_now jti exp (mutex_new hm_new) = (Ok (), seen)"
    and "unix_now \<le> exp" and "unat exp + 60 < 2 ^ 64"
    and "now' = now + int ((unat exp - unat unix_now + 60) * NANOS)"
    and "now' + 60 * int NANOS < INSTANT_LIMIT"
  shows "fst (record_jti now' (exp + JWT_LEEWAY_SECONDS) jti exp seen) = Ok ()"
proof -
  have rem: "from_secs (jti_remaining unix_now exp) = (unat exp - unat unix_now + 60) * NANOS"
    using assms(3) by (simp add: from_secs_def jti_remaining_unat)
  have seen: "seen = \<lparr>mx_data = [(jti, now')], mx_poisoned = False\<rparr>"
    using assms(1,4) rem
    by (auto simp: record_jti_def mutex_new_def Let_def instant_add_def hm_insert_def hm_retain_def
        hm_new_def split: if_splits option.splits)
  have "unat (exp + JWT_LEEWAY_SECONDS) = unat exp + 60"
    using assms(3) by (simp add: JWT_LEEWAY_SECONDS_def unat_word_ariths)
  then have "unat (jti_remaining (exp + JWT_LEEWAY_SECONDS) exp) = 60"
    by (simp add: jti_remaining_unat)
  then have "from_secs (jti_remaining (exp + JWT_LEEWAY_SECONDS) exp) = 60 * NANOS"
    by (simp add: from_secs_def)
  moreover have "hm_wf [(jti, now')]" by (simp add: hm_wf_def)
  moreover have "hm_len (hm_retain (\<lambda>_ until. until > now') [(jti, now')]) < MAX_SEEN_JTIS"
    by (simp add: hm_retain_def hm_len_def MAX_SEEN_JTIS_def)
  ultimately show ?thesis
    using assms(5) by (simp add: seen record_jti_Ok hm_get_def)
qed

text \<open>
  The replay cache never holds more than its limit, whatever sequence of tokens is presented, and
  a token is recorded exactly if the cache works, the token was not seen before its deadline, there
  is room and the deadline is representable.
\<close>

theorem jti_cache_bounded:
  "hm_len (mx_data (fold call_jti calls (mutex_new hm_new))) \<le> MAX_SEEN_JTIS
   \<and> (fst (record_jti now unix_now jti exp (fold call_jti calls (mutex_new hm_new))) = Ok () \<longleftrightarrow>
        \<not> mx_poisoned (fold call_jti calls (mutex_new hm_new))
        \<and> (\<forall>until. hm_get (mx_data (fold call_jti calls (mutex_new hm_new))) jti = Some until \<longrightarrow> until \<le> now)
        \<and> hm_len (hm_retain (\<lambda>_ until. until > now)
             (mx_data (fold call_jti calls (mutex_new hm_new)))) < MAX_SEEN_JTIS
        \<and> now + int (from_secs (jti_remaining unix_now exp)) < INSTANT_LIMIT)"
  using calls_inv [OF jti_cache_inv_new, of calls]
  by (simp add: jti_cache_inv_def record_jti_Ok)


lemma demo_jti_accepted:
  "record_jti 0 (of_nat (1000000000000 div NANOS)) ''t'' 1000 (mutex_new hm_new)
     = (Ok (), \<lparr>mx_data = [(''t'', 60 * int NANOS)], mx_poisoned = False\<rparr>)"
proof -
  have "unat (jti_remaining 1000 1000) = 60" by (simp add: jti_remaining_unat)
  then have "from_secs (jti_remaining 1000 1000) = 60 * NANOS" by (simp add: from_secs_def)
  then show ?thesis
    by (simp add: record_jti_def mutex_new_def NANOS_def INSTANT_LIMIT_def instant_add_def hm_retain_def
        hm_new_def hm_contains_key_def hm_get_def hm_len_def MAX_SEEN_JTIS_def hm_insert_def)
qed

theorem jti_single_use_witness:
  "fst (record_jti (59 * int NANOS) 1059 ''t'' 1000
     (fold call_jti [] \<lparr>mx_data = [(''t'', 60 * int NANOS)], mx_poisoned = False\<rparr>))
   \<in> {Err TokenReplayed, Err ReplayCacheUnavailable}"
  by (rule jti_single_use [OF jti_cache_inv_new demo_jti_accepted, where wall' = "1059 * NANOS"])
    (simp_all add: NANOS_def)

theorem jti_forgotten_in_last_second_witness:
  "fst (record_jti (60 * int NANOS) (1000 + JWT_LEEWAY_SECONDS) ''t'' 1000
     \<lparr>mx_data = [(''t'', 60 * int NANOS)], mx_poisoned = False\<rparr>) = Ok ()"
proof -
  have "(of_nat (1000000000000 div NANOS) :: u64) = 1000" by (simp add: NANOS_def)
  then show ?thesis
    by (intro jti_forgotten_in_last_second [OF demo_jti_accepted])
      (simp_all add: NANOS_def INSTANT_LIMIT_def)
qed


end
