(* ===== verification/Auth_Jwks.thy ===== *)
theory Auth_Jwks
  imports Auth_Identity
begin

text \<open>
  Discovery of the signing keys of GitHub Actions (\<^verbatim>\<open>src/auth.rs\<close>): the cache \<^verbatim>\<open>JwksCache\<close>,
  \<^verbatim>\<open>cached_jwk\<close>, \<^verbatim>\<open>jwk_for\<close> and \<^verbatim>\<open>fetch_jwks\<close>.

  The HTTP client delivers a status, an optional content length and the body in chunks, any of which
  may fail; parsing the JSON document is the parameter \<open>parse_jwks\<close>. The clock is read several times
  in \<^verbatim>\<open>jwk_for\<close>: the readings are the fields of \<open>jwk_clock\<close>.
\<close>

section \<open>Data\<close>

record rsa_jwk =
  jk_kty :: string
  jk_kid :: string
  jk_alg :: "string option"
  jk_n :: string
  jk_e :: string
  jk_use :: "string option"

record jwks_cache =
  jw_fetched_at :: "instant option"
  jw_last_attempt :: "instant option"
  jw_keys :: "(string, rsa_jwk) hmap"

definition jwks_cache_default :: jwks_cache where
  "jwks_cache_default = \<lparr>jw_fetched_at = None, jw_last_attempt = None, jw_keys = hm_new\<rparr>"

definition JWKS_MIN_REFRESH_INTERVAL :: duration where
  "JWKS_MIN_REFRESH_INTERVAL = from_secs 60"

definition JWKS_MAX_STALENESS :: duration where
  "JWKS_MAX_STALENESS = from_secs (24 * 60 * 60)"

definition JWKS_MAX_BYTES :: nat where
  "JWKS_MAX_BYTES = 256 * 1024"

text \<open>\<^verbatim>\<open>Duration::saturating_add\<close>: the largest duration is one nanosecond short of $2^{64}$ seconds.\<close>

definition DURATION_MAX :: duration where
  "DURATION_MAX = 2 ^ 64 * NANOS - 1"

definition duration_saturating_add :: "duration \<Rightarrow> duration \<Rightarrow> duration" where
  "duration_saturating_add a b = min (a + b) DURATION_MAX"

record jwks_response =
  jr_status :: nat
  jr_content_length :: "nat option"
  jr_chunks :: "string option list"

section \<open>Fetching\<close>

fun read_chunks :: "string \<Rightarrow> string option list \<Rightarrow> (auth_error, string) outcome" where
  "read_chunks body [] = Ok body"
| "read_chunks body (None # chunks) = Err KeyDiscovery"
| "read_chunks body (Some chunk # chunks) =
     (if length body + length chunk > JWKS_MAX_BYTES then Err KeyDiscovery
      else read_chunks (body @ chunk) chunks)"

definition usable_jwk :: "rsa_jwk \<Rightarrow> bool" where
  "usable_jwk key \<longleftrightarrow>
     jk_kty key = ''RSA''
     \<and> (case jk_alg key of None \<Rightarrow> True | Some alg \<Rightarrow> alg = ''RS256'')
     \<and> (case jk_use key of None \<Rightarrow> True | Some use \<Rightarrow> use = ''sig'')
     \<and> jk_kid key \<noteq> []"

definition index_jwks :: "rsa_jwk list \<Rightarrow> (string, rsa_jwk) hmap" where
  "index_jwks keys =
     fold (\<lambda>key m. if usable_jwk key then hm_insert (jk_kid key) key m else m) keys hm_new"

definition fetch_jwks ::
  "(string \<Rightarrow> rsa_jwk list option) \<Rightarrow> jwks_response option
   \<Rightarrow> (auth_error, (string, rsa_jwk) hmap) outcome" where
  "fetch_jwks parse_jwks reply =
     and_then (ok_or KeyDiscovery reply) (\<lambda>response.
     if 400 \<le> jr_status response \<and> jr_status response < 600 then Err KeyDiscovery else
     if (case jr_content_length response of None \<Rightarrow> False | Some n \<Rightarrow> n > JWKS_MAX_BYTES)
     then Err KeyDiscovery else
     and_then (read_chunks [] (jr_chunks response)) (\<lambda>body.
     and_then (ok_or KeyDiscovery (parse_jwks body)) (\<lambda>document.
     let keys = index_jwks document in if hm_len keys = 0 then Err KeyDiscovery else Ok keys)))"

section \<open>The cache\<close>

definition cached_jwk :: "instant \<Rightarrow> string \<Rightarrow> duration \<Rightarrow> jwks_cache \<Rightarrow> rsa_jwk option" where
  "cached_jwk now kid ttl cache =
     (if (case jw_fetched_at cache of None \<Rightarrow> False | Some at \<Rightarrow> elapsed now at < ttl)
      then hm_get (jw_keys cache) kid else None)"

record jwk_clock =
  ck_check :: instant
  ck_recheck :: instant
  ck_elapsed :: instant
  ck_attempt :: instant
  ck_fetched :: instant
  ck_usable :: instant

definition may_fetch :: "jwk_clock \<Rightarrow> jwks_cache \<Rightarrow> bool" where
  "may_fetch ck cache =
     (case jw_last_attempt cache of
        None \<Rightarrow> True
      | Some at \<Rightarrow> elapsed (ck_elapsed ck) at \<ge> JWKS_MIN_REFRESH_INTERVAL)"

definition refresh_jwks ::
  "jwk_clock \<Rightarrow> (auth_error, (string, rsa_jwk) hmap) outcome \<Rightarrow> jwks_cache \<Rightarrow> jwks_cache" where
  "refresh_jwks ck fetched cache =
     (if may_fetch ck cache
      then (let cache' = cache\<lparr>jw_last_attempt := Some (ck_attempt ck)\<rparr> in
            case fetched of
              Ok keys \<Rightarrow> cache'\<lparr>jw_keys := keys, jw_fetched_at := Some (ck_fetched ck)\<rparr>
            | _ \<Rightarrow> cache')
      else cache)"

definition lookup_jwk ::
  "instant \<Rightarrow> string \<Rightarrow> duration \<Rightarrow> jwks_cache \<Rightarrow> (auth_error, rsa_jwk) outcome" where
  "lookup_jwk now kid ttl cache =
     (if (case jw_fetched_at cache of None \<Rightarrow> False
          | Some at \<Rightarrow> elapsed now at < duration_saturating_add ttl JWKS_MAX_STALENESS)
      then ok_or InvalidToken (hm_get (jw_keys cache) kid)
      else Err KeyDiscovery)"

text \<open>
  \<open>jwk_for\<close>; \<open>fetched\<close> is what \<^verbatim>\<open>fetch_jwks\<close> returns if it is called. The third component of the result
  says when a fetch was attempted.
\<close>

definition jwk_for ::
  "jwk_clock \<Rightarrow> (auth_error, (string, rsa_jwk) hmap) outcome \<Rightarrow> u64 \<Rightarrow> string \<Rightarrow> jwks_cache
   \<Rightarrow> (auth_error, rsa_jwk) outcome \<times> jwks_cache \<times> instant list" where
  "jwk_for ck fetched jwks_ttl_seconds kid cache =
     (let ttl = from_secs jwks_ttl_seconds in
      case cached_jwk (ck_check ck) kid ttl cache of
        Some key \<Rightarrow> (Ok key, cache, [])
      | None \<Rightarrow>
          (case cached_jwk (ck_recheck ck) kid ttl cache of
             Some key \<Rightarrow> (Ok key, cache, [])
           | None \<Rightarrow>
               let cache' = refresh_jwks ck fetched cache in
               (lookup_jwk (ck_usable ck) kid ttl cache', cache',
                if may_fetch ck cache then [ck_attempt ck] else [])))"

section \<open>Fetched keys\<close>

lemma index_jwks_get:
  "hm_get (fold (\<lambda>key m. if usable_jwk key then hm_insert (jk_kid key) key m else m) keys m) kid = Some key \<Longrightarrow>
     (key \<in> set keys \<and> usable_jwk key \<and> jk_kid key = kid) \<or> hm_get m kid = Some key"
proof (induction keys arbitrary: m)
  case (Cons k keys)
  then have "(key \<in> set keys \<and> usable_jwk key \<and> jk_kid key = kid)
      \<or> hm_get (if usable_jwk k then hm_insert (jk_kid k) k m else m) kid = Some key"
    by simp
  then show ?case by (auto split: if_splits)
qed simp

lemma index_jwks_sound:
  "hm_get (index_jwks keys) kid = Some key \<Longrightarrow> key \<in> set keys \<and> usable_jwk key \<and> jk_kid key = kid"
  using index_jwks_get [of keys hm_new kid key] by (simp add: index_jwks_def)

lemma read_chunks_Ok:
  "read_chunks body chunks = Ok body' \<longleftrightarrow>
     None \<notin> set chunks \<and> body' = body @ concat (map the chunks)
     \<and> (chunks = [] \<or> length body' \<le> JWKS_MAX_BYTES)"
proof (induction body chunks rule: read_chunks.induct)
  case (3 body chunk chunks)
  show ?case
  proof (cases "length body + length chunk > JWKS_MAX_BYTES")
    case True
    then show ?thesis by auto
  next
    case False
    then show ?thesis using 3 by auto
  qed
qed auto

lemma fetch_jwks_Ok:
  assumes "fetch_jwks parse_jwks reply = Ok keys"
  shows "\<exists>body document. parse_jwks body = Some document \<and> length body \<le> JWKS_MAX_BYTES
    \<and> (\<exists>kid key. hm_get keys kid = Some key)
    \<and> (\<forall>kid key. hm_get keys kid = Some key \<longrightarrow> key \<in> set document \<and> usable_jwk key \<and> jk_kid key = kid)"
proof -
  obtain response :: jwks_response and body document where "read_chunks [] (jr_chunks response) = Ok body"
    and doc: "parse_jwks body = Some document" and keys: "keys = index_jwks document" and "keys \<noteq> []"
    using assms by (auto simp: fetch_jwks_def Let_def hm_len_def split: if_splits)
  then have "length body \<le> JWKS_MAX_BYTES"
    by (auto simp: read_chunks_Ok)
  moreover have "\<exists>kid key. hm_get keys kid = Some key"
    using \<open>keys \<noteq> []\<close> by (cases keys) (auto simp: hm_get_def)
  ultimately show ?thesis using doc keys index_jwks_sound by blast
qed

section \<open>The cache invariant\<close>

definition jwks_inv :: "jwks_cache \<Rightarrow> bool" where
  "jwks_inv cache \<longleftrightarrow>
     (\<forall>kid key. hm_get (jw_keys cache) kid = Some key \<longrightarrow> usable_jwk key \<and> jk_kid key = kid)"

lemma jwks_inv_default [simp]: "jwks_inv jwks_cache_default"
  by (simp add: jwks_inv_def jwks_cache_default_def)

lemma refresh_jwks_inv:
  assumes "jwks_inv cache"
  shows "jwks_inv (refresh_jwks ck (fetch_jwks parse_jwks reply) cache)"
proof (cases "fetch_jwks parse_jwks reply")
  case (Ok keys)
  then show ?thesis
    using assms fetch_jwks_Ok [OF Ok] by (auto simp: refresh_jwks_def jwks_inv_def Let_def)
qed (use assms in \<open>auto simp: refresh_jwks_def jwks_inv_def Let_def\<close>)

lemma jwk_for_inv:
  "jwks_inv cache \<Longrightarrow> jwks_inv (fst (snd (jwk_for ck (fetch_jwks parse_jwks reply) ttl kid cache)))"
  by (auto simp: jwk_for_def Let_def refresh_jwks_inv split: option.splits)

lemma cached_jwk_Some:
  "cached_jwk now kid ttl cache = Some key \<longleftrightarrow>
     (\<exists>at. jw_fetched_at cache = Some at \<and> elapsed now at < ttl) \<and> hm_get (jw_keys cache) kid = Some key"
  by (auto simp: cached_jwk_def split: option.splits)

lemma lookup_jwk_Ok:
  "lookup_jwk now kid ttl cache = Ok key \<longleftrightarrow>
     (\<exists>at. jw_fetched_at cache = Some at \<and> elapsed now at < duration_saturating_add ttl JWKS_MAX_STALENESS)
     \<and> hm_get (jw_keys cache) kid = Some key"
  by (auto simp: lookup_jwk_def split: option.splits)

lemma from_secs_max: "from_secs s \<le> DURATION_MAX"
proof -
  have "unat s + 1 \<le> 2 ^ 64" using unsigned_less [of s, where ?'a = nat] by simp
  then have "(unat s + 1) * NANOS \<le> 2 ^ 64 * NANOS" by (rule mult_right_mono) simp
  then show ?thesis by (simp add: from_secs_def DURATION_MAX_def NANOS_def)
qed

lemma ttl_le_staleness: "from_secs s \<le> duration_saturating_add (from_secs s) JWKS_MAX_STALENESS"
  using from_secs_max by (simp add: duration_saturating_add_def)

lemma jwk_for_fresh:
  assumes "jwk_for ck fetched ttl kid cache = (Ok key, cache', attempts)"
  shows "\<exists>at now. jw_fetched_at cache' = Some at \<and> now \<in> {ck_check ck, ck_recheck ck, ck_usable ck}
    \<and> elapsed now at < duration_saturating_add (from_secs ttl) JWKS_MAX_STALENESS"
  using assms ttl_le_staleness [of ttl]
  by (fastforce simp: jwk_for_def Let_def cached_jwk_Some lookup_jwk_Ok split: option.splits)

lemma jwk_for_usable:
  assumes "jwks_inv cache"
    and "jwk_for ck (fetch_jwks parse_jwks reply) ttl kid cache = (Ok key, cache', attempts)"
  shows "jk_kid key = kid \<and> usable_jwk key"
proof -
  have "jwks_inv cache'"
    using jwk_for_inv [OF assms(1), of ck parse_jwks reply ttl kid] assms(2) by simp
  moreover have "hm_get (jw_keys cache') kid = Some key"
    using assms(2)
    by (auto simp: jwk_for_def Let_def cached_jwk_Some lookup_jwk_Ok split: option.splits)
  ultimately show ?thesis by (auto simp: jwks_inv_def)
qed

section \<open>Properties\<close>

text \<open>
  A signing key handed out for \<open>kid\<close> carries that identifier, is an RSA signature key usable with
  RS256, and belongs to the last successful fetch, which is younger than the configured lifetime plus
  24 hours at the last reading of the clock; the cache stays sound whatever the server answers.
\<close>

theorem jwk_for_sound:
  assumes "jwks_inv cache"
    and "jwk_for ck (fetch_jwks parse_jwks reply) ttl kid cache = (Ok key, cache', attempts)"
  shows "jk_kid key = kid \<and> usable_jwk key \<and> jwks_inv cache'
    \<and> (\<exists>at now. jw_fetched_at cache' = Some at \<and> now \<in> {ck_check ck, ck_recheck ck, ck_usable ck}
         \<and> elapsed now at < duration_saturating_add (from_secs ttl) JWKS_MAX_STALENESS)"
proof -
  have inv: "jwks_inv cache'"
    using jwk_for_inv [OF assms(1), of ck parse_jwks reply ttl kid] assms(2) by simp
  then show ?thesis using jwk_for_usable [OF assms] jwk_for_fresh [OF assms(2)] by blast
qed

text \<open>A sequence of lookups, with the instants at which the server was asked.\<close>

record jwk_call =
  jq_clock :: jwk_clock
  jq_fetched :: "(auth_error, (string, rsa_jwk) hmap) outcome"
  jq_kid :: string

fun run_lookups :: "u64 \<Rightarrow> jwk_call list \<Rightarrow> jwks_cache \<Rightarrow> jwks_cache \<times> instant list" where
  "run_lookups ttl [] cache = (cache, [])"
| "run_lookups ttl (c # cs) cache =
     (let (r, cache', attempts) = jwk_for (jq_clock c) (jq_fetched c) ttl (jq_kid c) cache;
          (cache'', attempts') = run_lookups ttl cs cache'
      in (cache'', attempts @ attempts'))"

fun spaced :: "instant option \<Rightarrow> instant list \<Rightarrow> bool" where
  "spaced prev [] = True"
| "spaced prev (t # ts) \<longleftrightarrow>
     (case prev of None \<Rightarrow> True | Some p \<Rightarrow> p + int JWKS_MIN_REFRESH_INTERVAL \<le> t) \<and> spaced (Some t) ts"

lemma may_fetch_iff:
  "may_fetch ck cache \<longleftrightarrow>
     (\<forall>at. jw_last_attempt cache = Some at \<longrightarrow> at + int JWKS_MIN_REFRESH_INTERVAL \<le> ck_elapsed ck)"
proof -
  have "0 < JWKS_MIN_REFRESH_INTERVAL"
    by (simp add: JWKS_MIN_REFRESH_INTERVAL_def from_secs_def)
  then show ?thesis
    using elapsed_less [of JWKS_MIN_REFRESH_INTERVAL]
    by (auto simp: may_fetch_def not_less [symmetric] split: option.splits)
qed

lemma jwk_for_attempt:
  assumes "jwk_for ck fetched ttl kid cache = (r, cache', attempts)" and "ck_elapsed ck \<le> ck_attempt ck"
  shows "(attempts = [] \<and> jw_last_attempt cache' = jw_last_attempt cache)
    \<or> (attempts = [ck_attempt ck] \<and> jw_last_attempt cache' = Some (ck_attempt ck)
        \<and> (\<forall>p. jw_last_attempt cache = Some p \<longrightarrow> p + int JWKS_MIN_REFRESH_INTERVAL \<le> ck_attempt ck))"
  using assms
  by (fastforce simp: jwk_for_def refresh_jwks_def may_fetch_iff Let_def
      split: option.splits outcome.splits if_splits)

lemma run_lookups_spaced:
  assumes "\<forall>c\<in>set cs. ck_elapsed (jq_clock c) \<le> ck_attempt (jq_clock c)"
  shows "spaced (jw_last_attempt cache) (snd (run_lookups ttl cs cache))"
  using assms
proof (induction cs arbitrary: cache)
  case (Cons c cs)
  obtain r cache' attempts where
    call: "jwk_for (jq_clock c) (jq_fetched c) ttl (jq_kid c) cache = (r, cache', attempts)"
    by (metis prod_cases3)
  have "spaced (jw_last_attempt cache') (snd (run_lookups ttl cs cache'))"
    using Cons by simp
  then show ?case
    using jwk_for_attempt [OF call] Cons.prems call
    by (cases "jw_last_attempt cache") (auto split: prod.splits)
qed simp

text \<open>
  C38: unknown key identifiers cannot make the signer hammer GitHub: over any sequence of lookups, with
  any identifiers and any answers, two requests for the key set are at least 60 seconds apart.
\<close>

theorem jwks_refresh_rate_limited:
  assumes "\<forall>c\<in>set cs. ck_elapsed (jq_clock c) \<le> ck_attempt (jq_clock c)"
  shows "spaced None (snd (run_lookups ttl cs jwks_cache_default))"
  using run_lookups_spaced [OF assms, of jwks_cache_default ttl] by (simp add: jwks_cache_default_def)

text \<open>
  A fetched key set is bounded and filtered: the body is at most 256 KiB even without a content
  length, the set is not empty and holds only RSA signature keys for RS256 under their own identifier.
\<close>

theorem fetch_jwks_filtered:
  assumes "fetch_jwks parse_jwks reply = Ok keys"
  shows "\<exists>body document. parse_jwks body = Some document \<and> length body \<le> JWKS_MAX_BYTES
    \<and> (\<exists>kid key. hm_get keys kid = Some key)
    \<and> (\<forall>kid key. hm_get keys kid = Some key \<longrightarrow> key \<in> set document \<and> usable_jwk key \<and> jk_kid key = kid)"
  using assms by (rule fetch_jwks_Ok)

section \<open>A concrete key set\<close>

definition demo_jwk :: rsa_jwk where
  "demo_jwk = \<lparr>jk_kty = ''RSA'', jk_kid = ''k1'', jk_alg = Some ''RS256'', jk_n = ''n'', jk_e = ''e'',
     jk_use = Some ''sig''\<rparr>"

definition demo_parse_jwks :: "string \<Rightarrow> rsa_jwk list option" where
  "demo_parse_jwks body = Some [demo_jwk, demo_jwk\<lparr>jk_kid := ''k2'', jk_kty := ''EC''\<rparr>]"

definition demo_reply :: "jwks_response option" where
  "demo_reply = Some \<lparr>jr_status = 200, jr_content_length = None, jr_chunks = [Some ''{'', Some ''}'']\<rparr>"

definition demo_clock :: jwk_clock where
  "demo_clock = \<lparr>ck_check = 1, ck_recheck = 2, ck_elapsed = 3, ck_attempt = 4, ck_fetched = 5, ck_usable = 6\<rparr>"

lemma demo_fetch: "fetch_jwks demo_parse_jwks demo_reply = Ok [(''k1'', demo_jwk)]"
  by (simp add: fetch_jwks_def demo_reply_def demo_parse_jwks_def index_jwks_def usable_jwk_def
      demo_jwk_def JWKS_MAX_BYTES_def hm_insert_def hm_new_def hm_len_def)

definition demo_cache :: jwks_cache where
  "demo_cache = \<lparr>jw_fetched_at = Some 5, jw_last_attempt = Some 4, jw_keys = [(''k1'', demo_jwk)]\<rparr>"

lemma demo_jwk_for:
  "jwk_for demo_clock (fetch_jwks demo_parse_jwks demo_reply) 300 ''k1'' jwks_cache_default
     = (Ok demo_jwk, demo_cache, [4])"
proof -
  have "from_secs 300 = 300 * NANOS" by (simp add: from_secs_def)
  then have "1 < duration_saturating_add (from_secs 300) JWKS_MAX_STALENESS"
    by (simp add: duration_saturating_add_def DURATION_MAX_def NANOS_def)
  then show ?thesis
    by (simp add: jwk_for_def cached_jwk_def jwks_cache_default_def demo_fetch refresh_jwks_def
        may_fetch_def lookup_jwk_def demo_clock_def demo_cache_def elapsed_def hm_get_def)
qed

theorem jwk_for_sound_witness:
  "jk_kid demo_jwk = ''k1'' \<and> usable_jwk demo_jwk \<and> jwks_inv demo_cache"
  using jwk_for_sound [OF jwks_inv_default demo_jwk_for] by (simp add: demo_clock_def)

theorem jwks_refresh_rate_limited_witness:
  "spaced None (snd (run_lookups 300 [\<lparr>jq_clock = demo_clock, jq_fetched = Err KeyDiscovery, jq_kid = ''a''\<rparr>,
     \<lparr>jq_clock = demo_clock, jq_fetched = Err KeyDiscovery, jq_kid = ''b''\<rparr>] jwks_cache_default))"
  by (rule jwks_refresh_rate_limited) (simp add: demo_clock_def)

theorem fetch_jwks_filtered_witness:
  "\<exists>body document. demo_parse_jwks body = Some document \<and> length body \<le> JWKS_MAX_BYTES
    \<and> (\<exists>kid key. hm_get [(''k1'', demo_jwk)] kid = Some key)
    \<and> (\<forall>kid key. hm_get [(''k1'', demo_jwk)] kid = Some key \<longrightarrow>
         key \<in> set document \<and> usable_jwk key \<and> jk_kid key = kid)"
  by (rule fetch_jwks_filtered [OF demo_fetch])

end
