(* ===== verification/Key_Policy.thy ===== *)
theory Key_Policy
  imports Config_Model
begin

unbundle bit_operations_syntax

text \<open>
  Loading of sensitive files and the encryption policy for signing keys (\<^verbatim>\<open>src/key.rs\<close>):
  \<^verbatim>\<open>read_protected_file\<close>, \<^verbatim>\<open>load_systemd_credential\<close> and \<^verbatim>\<open>enforce_key_encryption_policy\<close>.

  The file system is a function from paths to what \<^verbatim>\<open>open(2)\<close> with \<^verbatim>\<open>O_NOFOLLOW\<close> gives; PEM
  and PKCS\#8 parsing are done by libraries and are the parameters \<open>from_pem\<close> and \<open>parse_epki\<close>.
\<close>

section \<open>Password-based encryption parameters\<close>

datatype pbkdf2_prf = HmacWithSha1 | HmacWithSha224 | HmacWithSha256 | HmacWithSha384 | HmacWithSha512

datatype pbes2_cipher = Aes128Cbc | Aes192Cbc | Aes256Cbc | OtherCipher

record pbkdf2_params =
  pb_prf :: pbkdf2_prf
  pb_iteration_count :: u32

record scrypt_params =
  sy_cost_parameter :: u64
  sy_block_size :: u16
  sy_parallelization :: u16

datatype kdf = Pbkdf2 pbkdf2_params | Scrypt scrypt_params | OtherKdf

datatype encryption_scheme = Pbes1 | Pbes2 pbes2_cipher kdf

datatype key_file_error =
    InvalidPem
  | WrongPemLabel
  | InvalidEncryptedPrivateKeyInfo
  | Pbes1NotAccepted
  | NotAes256
  | WeakPrf
  | TooFewIterations u32
  | TooManyIterations u32
  | WeakScrypt
  | ExpensiveScrypt
  | UnsupportedKdf

datatype file_error =
    OpenFailed
  | StatFailed
  | NotRegularFile
  | WrongOwner u32
  | ForbiddenMode u32
  | TooLarge
  | ReadFailed
  | EmptyCredential
  | CredentialsDirectoryUnset

definition MIN_PBKDF2_ITERATIONS :: u32 where
  "MIN_PBKDF2_ITERATIONS = 600000"

definition MAX_PBKDF2_ITERATIONS :: u32 where
  "MAX_PBKDF2_ITERATIONS = 50000000"

definition MIN_SCRYPT_BLOCK_SIZE :: u16 where
  "MIN_SCRYPT_BLOCK_SIZE = 8"

definition MIN_SCRYPT_COST_TIMES_PARALLELISM :: u128 where
  "MIN_SCRYPT_COST_TIMES_PARALLELISM = push_bit 17 1"

definition MAX_SCRYPT_MEMORY_BYTES :: u128 where
  "MAX_SCRYPT_MEMORY_BYTES = push_bit 30 1"

definition MAX_SCRYPT_WORK :: u128 where
  "MAX_SCRYPT_WORK = push_bit 27 1"

definition MAX_PROTECTED_FILE_BYTES :: u64 where
  "MAX_PROTECTED_FILE_BYTES = 1024 * 1024"

definition check_kdf :: "kdf \<Rightarrow> (key_file_error, unit) outcome" where
  "check_kdf k =
     (case k of
        Pbkdf2 pbkdf2 \<Rightarrow>
          if pb_prf pbkdf2 \<notin> {HmacWithSha256, HmacWithSha512} then Err WeakPrf else
          if pb_iteration_count pbkdf2 < MIN_PBKDF2_ITERATIONS
          then Err (TooFewIterations (pb_iteration_count pbkdf2)) else
          if pb_iteration_count pbkdf2 > MAX_PBKDF2_ITERATIONS
          then Err (TooManyIterations (pb_iteration_count pbkdf2)) else Ok ()
      | Scrypt scrypt \<Rightarrow>
          let n = ucast (sy_cost_parameter scrypt) :: u128;
              r = ucast (sy_block_size scrypt) :: u128;
              p = ucast (sy_parallelization scrypt) :: u128 in
          if sy_block_size scrypt < MIN_SCRYPT_BLOCK_SIZE
             \<or> n * p < MIN_SCRYPT_COST_TIMES_PARALLELISM then Err WeakScrypt else
          if 128 * n * r > MAX_SCRYPT_MEMORY_BYTES \<or> n * r * p > MAX_SCRYPT_WORK
          then Err ExpensiveScrypt else Ok ()
      | OtherKdf \<Rightarrow> Err UnsupportedKdf)"

text \<open>
  \<open>from_pem\<close> gives the label and the DER document of a PEM text, \<open>parse_epki\<close> the encryption
  algorithm of an \<^verbatim>\<open>EncryptedPrivateKeyInfo\<close> document.
\<close>

definition enforce_key_encryption_policy ::
  "(string \<Rightarrow> (string \<times> string) option) \<Rightarrow> (string \<Rightarrow> encryption_scheme option) \<Rightarrow> string
   \<Rightarrow> (key_file_error, unit) outcome" where
  "enforce_key_encryption_policy from_pem parse_epki pem =
     and_then (ok_or InvalidPem (from_pem pem)) (\<lambda>(label, document).
     if label \<noteq> ''ENCRYPTED PRIVATE KEY'' then Err WrongPemLabel else
     and_then (ok_or InvalidEncryptedPrivateKeyInfo (parse_epki document)) (\<lambda>info.
     case info of
       Pbes1 \<Rightarrow> Err Pbes1NotAccepted
     | Pbes2 encryption kdf \<Rightarrow>
         if encryption \<noteq> Aes256Cbc then Err NotAes256 else check_kdf kdf))"

section \<open>Protected files\<close>

record metadata =
  md_is_file :: bool
  md_uid :: u32
  md_mode :: u32
  md_len :: u64

record open_file =
  of_metadata :: "metadata option"
  of_bytes :: string
  of_io_error :: bool

type_synonym file_system = "string \<Rightarrow> open_file option"

text \<open>UTF-8 validity, as \<^verbatim>\<open>read_to_string\<close> demands it of the bytes read.\<close>

definition continuation :: "char \<Rightarrow> bool" where
  "continuation c \<longleftrightarrow> 128 \<le> byte c \<and> byte c \<le> 191"

fun valid_utf8 :: "string \<Rightarrow> bool" where
  "valid_utf8 [] \<longleftrightarrow> True"
| "valid_utf8 (a # s) \<longleftrightarrow>
     (let b = byte a in
      if b < 128 then valid_utf8 s
      else if 194 \<le> b \<and> b \<le> 223 then
        (case s of c # s' \<Rightarrow> continuation c \<and> valid_utf8 s' | _ \<Rightarrow> False)
      else if 224 \<le> b \<and> b \<le> 239 then
        (case s of c # d # s' \<Rightarrow>
           continuation c \<and> (b = 224 \<longrightarrow> 160 \<le> byte c) \<and> (b = 237 \<longrightarrow> byte c \<le> 159)
           \<and> continuation d \<and> valid_utf8 s' | _ \<Rightarrow> False)
      else if 240 \<le> b \<and> b \<le> 244 then
        (case s of c # d # e # s' \<Rightarrow>
           continuation c \<and> (b = 240 \<longrightarrow> 144 \<le> byte c) \<and> (b = 244 \<longrightarrow> byte c \<le> 143)
           \<and> continuation d \<and> continuation e \<and> valid_utf8 s' | _ \<Rightarrow> False)
      else False)"

definition validate_protected_metadata ::
  "u32 \<Rightarrow> metadata \<Rightarrow> u32 \<Rightarrow> (file_error, unit) outcome" where
  "validate_protected_metadata euid md forbidden_mode_bits =
     (if \<not> md_is_file md then Err NotRegularFile else
      if md_uid md \<noteq> 0 \<and> md_uid md \<noteq> euid then Err (WrongOwner (md_uid md)) else
      let mode = md_mode md AND 0b111111111 in
      if mode AND forbidden_mode_bits \<noteq> 0 then Err (ForbiddenMode mode) else Ok ())"

definition read_limited :: "open_file \<Rightarrow> metadata \<Rightarrow> (file_error, string) outcome" where
  "read_limited file md =
     (if md_len md > MAX_PROTECTED_FILE_BYTES then Err TooLarge else
      let contents = take (unat (MAX_PROTECTED_FILE_BYTES + 1)) (of_bytes file) in
      if of_io_error file \<or> \<not> valid_utf8 contents then Err ReadFailed else
      if length contents > unat MAX_PROTECTED_FILE_BYTES then Err TooLarge else Ok contents)"

definition read_protected_file ::
  "file_system \<Rightarrow> u32 \<Rightarrow> string \<Rightarrow> u32 \<Rightarrow> (file_error, string) outcome" where
  "read_protected_file open_no_follow euid path forbidden_mode_bits =
     and_then (ok_or OpenFailed (open_no_follow path)) (\<lambda>file.
     and_then (ok_or StatFailed (of_metadata file)) (\<lambda>md.
     and_then (validate_protected_metadata euid md forbidden_mode_bits) (\<lambda>_.
     read_limited file md)))"

section \<open>systemd credentials\<close>

definition path_join :: "string \<Rightarrow> string \<Rightarrow> string" where
  \<comment> \<open>\<^verbatim>\<open>Path::join\<close>: an absolute second path replaces the first\<close>
  "path_join d n =
     (if starts_with ''/'' n then n
      else if d = [] \<or> ends_with ''/'' d then d @ n else d @ ''/'' @ n)"

function pop_newlines :: "string \<Rightarrow> string" where
  "pop_newlines s =
     (if ends_with [CHR 0x0A] s \<or> ends_with [CHR 0x0D] s then pop_newlines (butlast s) else s)"
  by pat_completeness auto
termination
  by (relation "measure length") (auto simp: ends_with_snoc)

declare pop_newlines.simps [simp del]

definition load_credential_from ::
  "file_system \<Rightarrow> string \<Rightarrow> string \<Rightarrow> (file_error, string) outcome" where
  "load_credential_from open_no_follow directory name =
     and_then (ok_or OpenFailed (open_no_follow (path_join directory name))) (\<lambda>file.
     and_then (ok_or StatFailed (of_metadata file)) (\<lambda>md.
     if \<not> md_is_file md then Err NotRegularFile else
     and_then (read_limited file md) (\<lambda>contents.
     let s = pop_newlines contents in
     if s = [] then Err EmptyCredential else Ok s)))"

definition load_systemd_credential ::
  "file_system \<Rightarrow> string option \<Rightarrow> string \<Rightarrow> (file_error, string) outcome" where
  "load_systemd_credential open_no_follow credentials_directory name =
     (case credentials_directory of
        None \<Rightarrow> Err CredentialsDirectoryUnset
      | Some directory \<Rightarrow>
          if directory = [] then Err CredentialsDirectoryUnset
          else load_credential_from open_no_follow directory name)"

section \<open>Bounds of the encryption policy\<close>

text \<open>
  The products are computed at 128 bits. They cannot wrap around for any value of the parameters, so
  the comparisons are the comparisons of the exact products.
\<close>

lemma unat_ucast_128:
  "unat (ucast (n :: u64) :: u128) = unat n" "unat (ucast (r :: u16) :: u128) = unat r"
proof -
  have "unat n < 2 ^ 64" "unat r < 2 ^ 16"
    using unsigned_less [of n] unsigned_less [of r] by simp_all
  then show "unat (ucast n :: u128) = unat n" "unat (ucast r :: u128) = unat r"
    by (simp_all add: unsigned_ucast_eq take_bit_nat_eq_self)
qed

lemma unat_mult_small:
  fixes a b :: u128
  assumes "unat a < 2 ^ i" and "unat b < 2 ^ j" and "i + j \<le> 128"
  shows "unat (a * b) = unat a * unat b" and "unat a * unat b < 2 ^ (i + j)"
proof -
  show lt: "unat a * unat b < 2 ^ (i + j)"
    using assms by (simp add: power_add mult_strict_mono)
  also have "(2 :: nat) ^ (i + j) \<le> 2 ^ 128" using assms(3) by (intro power_increasing) simp_all
  finally show "unat (a * b) = unat a * unat b" by (simp add: unat_word_ariths)
qed

lemma scrypt_products_exact:
  fixes n :: u64 and r p :: u16
  defines "n' \<equiv> ucast n :: u128" and "r' \<equiv> ucast r :: u128" and "p' \<equiv> ucast p :: u128"
  shows "unat (n' * p') = unat n * unat p"
    and "unat (128 * n' * r') = 128 * unat n * unat r"
    and "unat (n' * r' * p') = unat n * unat r * unat p"
proof -
  have b: "unat n' < 2 ^ 64" "unat r' < 2 ^ 16" "unat p' < 2 ^ 16"
    using unsigned_less [of n] unsigned_less [of r] unsigned_less [of p]
    by (simp_all add: n'_def r'_def p'_def unat_ucast_128)
  have c: "unat (128 :: u128) < 2 ^ 8" by simp
  show "unat (n' * p') = unat n * unat p"
    using unat_mult_small(1) [OF b(1,3)] by (simp add: n'_def p'_def unat_ucast_128)
  have "unat (128 * n') = 128 * unat n" and "unat (128 * n') < 2 ^ 72"
    using unat_mult_small [OF c b(1)] by (simp_all add: n'_def unat_ucast_128)
  then show "unat (128 * n' * r') = 128 * unat n * unat r"
    using unat_mult_small(1) [of "128 * n'" 72 r' 16] b(2) by (simp add: r'_def unat_ucast_128)
  have "unat (n' * r') = unat n * unat r" and "unat (n' * r') < 2 ^ 80"
    using unat_mult_small [OF b(1,2)] by (simp_all add: n'_def r'_def unat_ucast_128)
  then show "unat (n' * r' * p') = unat n * unat r * unat p"
    using unat_mult_small(1) [of "n' * r'" 80 p' 16] b(3) by (simp add: p'_def unat_ucast_128)
qed

lemma check_kdf_scrypt:
  "check_kdf (Scrypt s) = Ok () \<longleftrightarrow>
     8 \<le> unat (sy_block_size s)
     \<and> 2 ^ 17 \<le> unat (sy_cost_parameter s) * unat (sy_parallelization s)
     \<and> 128 * unat (sy_cost_parameter s) * unat (sy_block_size s) \<le> 2 ^ 30
     \<and> unat (sy_cost_parameter s) * unat (sy_block_size s) * unat (sy_parallelization s) \<le> 2 ^ 27"
  by (auto simp: check_kdf_def Let_def word_less_nat_alt scrypt_products_exact not_less
      MIN_SCRYPT_BLOCK_SIZE_def MIN_SCRYPT_COST_TIMES_PARALLELISM_def MAX_SCRYPT_MEMORY_BYTES_def
      MAX_SCRYPT_WORK_def)

lemma check_kdf_pbkdf2:
  "check_kdf (Pbkdf2 p) = Ok () \<longleftrightarrow>
     pb_prf p \<in> {HmacWithSha256, HmacWithSha512}
     \<and> 600000 \<le> unat (pb_iteration_count p) \<and> unat (pb_iteration_count p) \<le> 50000000"
  by (auto simp: check_kdf_def word_less_nat_alt not_less MIN_PBKDF2_ITERATIONS_def
      MAX_PBKDF2_ITERATIONS_def)

definition kdf_ok :: "kdf \<Rightarrow> bool" where
  "kdf_ok k = (case k of
     Pbkdf2 p \<Rightarrow> pb_prf p \<in> {HmacWithSha256, HmacWithSha512}
       \<and> 600000 \<le> unat (pb_iteration_count p) \<and> unat (pb_iteration_count p) \<le> 50000000
   | Scrypt s \<Rightarrow> 8 \<le> unat (sy_block_size s)
       \<and> 2 ^ 17 \<le> unat (sy_cost_parameter s) * unat (sy_parallelization s)
       \<and> 128 * unat (sy_cost_parameter s) * unat (sy_block_size s) \<le> 2 ^ 30
       \<and> unat (sy_cost_parameter s) * unat (sy_block_size s) * unat (sy_parallelization s) \<le> 2 ^ 27
   | OtherKdf \<Rightarrow> False)"

lemma check_kdf_iff: "check_kdf k = Ok () \<longleftrightarrow> kdf_ok k"
proof (cases k)
  case OtherKdf
  then show ?thesis by (simp add: check_kdf_def kdf_ok_def)
qed (simp_all add: check_kdf_scrypt check_kdf_pbkdf2 kdf_ok_def)

lemma enforce_key_encryption_policy_iff:
  "enforce_key_encryption_policy from_pem parse_epki pem = Ok () \<longleftrightarrow>
     (\<exists>document k. from_pem pem = Some (''ENCRYPTED PRIVATE KEY'', document)
        \<and> parse_epki document = Some (Pbes2 Aes256Cbc k) \<and> kdf_ok k)"
proof -
  have "(case info of Pbes1 \<Rightarrow> Err Pbes1NotAccepted
         | Pbes2 e k \<Rightarrow> if e \<noteq> Aes256Cbc then Err NotAes256 else check_kdf k) = Ok () \<longleftrightarrow>
        (\<exists>k. info = Pbes2 Aes256Cbc k \<and> kdf_ok k)" for info
    by (cases info) (auto simp: check_kdf_iff)
  then show ?thesis
    by (auto simp: enforce_key_encryption_policy_def split: if_splits)
qed

text \<open>
  C36: a key file passes the encryption policy exactly if it is one PEM document labelled
  \<^verbatim>\<open>ENCRYPTED PRIVATE KEY\<close> whose PBES2 parameters use AES-256-CBC with either PBKDF2 (HMAC-SHA-256
  or HMAC-SHA-512, 600000 to 50000000 iterations) or scrypt with \<open>r \<ge> 8\<close>, \<open>N p \<ge> 2\<^sup>1\<^sup>7\<close>,
  \<open>128 N r \<le> 2\<^sup>3\<^sup>0\<close> and \<open>N r p \<le> 2\<^sup>2\<^sup>7\<close>, the products being those of the integers: no overflow
  of the machine arithmetic lets a weak or an expensive key file through.
\<close>

theorem key_encryption_policy_exact:
  "enforce_key_encryption_policy from_pem parse_epki pem = Ok () \<longleftrightarrow>
     (\<exists>document k. from_pem pem = Some (''ENCRYPTED PRIVATE KEY'', document)
        \<and> parse_epki document = Some (Pbes2 Aes256Cbc k) \<and> kdf_ok k)"
  by (rule enforce_key_encryption_policy_iff)

section \<open>Protected files\<close>

lemma MAX_PROTECTED_FILE_BYTES_unat [simp]:
  "unat MAX_PROTECTED_FILE_BYTES = 1048576" "unat (MAX_PROTECTED_FILE_BYTES + 1) = 1048577"
  by (simp_all add: MAX_PROTECTED_FILE_BYTES_def)

lemma read_limited_Ok:
  "read_limited file md = Ok s \<longleftrightarrow>
     unat (md_len md) \<le> 1048576 \<and> length (of_bytes file) \<le> 1048576
     \<and> \<not> of_io_error file \<and> valid_utf8 (of_bytes file) \<and> s = of_bytes file"
proof -
  have "take 1048577 (of_bytes file) = of_bytes file"
    if "length (take 1048577 (of_bytes file)) \<le> 1048576"
    using that by simp
  moreover have "md_len md \<le> MAX_PROTECTED_FILE_BYTES \<longleftrightarrow> unat (md_len md) \<le> 1048576"
    by (simp add: word_le_nat_alt)
  ultimately show ?thesis
    by (auto simp: read_limited_def Let_def not_less not_le)
qed

lemma validate_protected_metadata_Ok:
  "validate_protected_metadata euid md forbidden = Ok u \<longleftrightarrow>
     md_is_file md \<and> md_uid md \<in> {0, euid} \<and> md_mode md AND 0b111111111 AND forbidden = 0"
  by (auto simp: validate_protected_metadata_def Let_def ac_simps)

text \<open>
  A protected file is read exactly if it opens without following a final symbolic link, is a
  regular file owned by root or the service user, has none of the forbidden permission bits, and
  holds at most 1 MiB of valid UTF-8; what is returned is the whole file, never a truncated prefix.
\<close>

theorem read_protected_file_exact:
  "read_protected_file open_no_follow euid path forbidden = Ok s \<longleftrightarrow>
     (\<exists>file md. open_no_follow path = Some file \<and> of_metadata file = Some md
        \<and> md_is_file md \<and> md_uid md \<in> {0, euid}
        \<and> md_mode md AND 0b111111111 AND forbidden = 0
        \<and> unat (md_len md) \<le> 2 ^ 20 \<and> length (of_bytes file) \<le> 2 ^ 20
        \<and> \<not> of_io_error file \<and> valid_utf8 (of_bytes file) \<and> s = of_bytes file)"
  by (auto simp: read_protected_file_def validate_protected_metadata_Ok read_limited_Ok)

lemma pop_newlines_last:
  "pop_newlines s \<noteq> [] \<Longrightarrow> last (pop_newlines s) \<notin> {CHR 0x0A, CHR 0x0D}"
proof (induction s rule: pop_newlines.induct)
  case (1 s)
  then show ?case
    by (cases "ends_with [CHR 0x0A] s \<or> ends_with [CHR 0x0D] s")
      (auto simp: pop_newlines.simps [of s] ends_with_snoc)
qed

lemma pop_newlines_prefix: "\<exists>t. s = pop_newlines s @ t \<and> set t \<subseteq> {CHR 0x0A, CHR 0x0D}"
proof (induction s rule: pop_newlines.induct)
  case (1 s)
  show ?case
  proof (cases "ends_with [CHR 0x0A] s \<or> ends_with [CHR 0x0D] s")
    case False
    then show ?thesis by (simp add: pop_newlines.simps [of s])
  next
    case True
    then have ne: "s \<noteq> []" and l: "last s \<in> {CHR 0x0A, CHR 0x0D}" by (auto simp: ends_with_snoc)
    from 1 True obtain t where "butlast s = pop_newlines (butlast s) @ t"
      "set t \<subseteq> {CHR 0x0A, CHR 0x0D}" by blast
    then have "s = pop_newlines s @ (t @ [last s])"
      using True ne by (simp add: pop_newlines.simps [of s] flip: append_assoc)
    then show ?thesis using \<open>set t \<subseteq> _\<close> l by (intro exI [of _ "t @ [last s]"]) auto
  qed
qed

text \<open>
  A secret taken from a systemd credential is the content of the named file without its
  trailing line ends: it is nonempty, does not end in a carriage return or newline, and nothing else
  was removed from it.
\<close>

theorem load_credential_content:
  assumes "load_systemd_credential open_no_follow dir name = Ok secret"
  shows "\<exists>d file t. dir = Some d \<and> d \<noteq> [] \<and> open_no_follow (path_join d name) = Some file
           \<and> of_bytes file = secret @ t \<and> set t \<subseteq> {CHR 0x0A, CHR 0x0D}
           \<and> secret \<noteq> [] \<and> last secret \<notin> {CHR 0x0A, CHR 0x0D}"
proof -
  from assms obtain d f where d: "dir = Some d" "d \<noteq> []"
      "open_no_follow (path_join d name) = Some f"
    and s: "secret = pop_newlines (of_bytes f)" "secret \<noteq> []"
    by (auto simp: load_systemd_credential_def load_credential_from_def read_limited_Ok Let_def
        split: option.splits if_splits)
  with pop_newlines_prefix [of "of_bytes f"] pop_newlines_last [of "of_bytes f"]
  show ?thesis by auto
qed

definition demo_files :: file_system where
  "demo_files p =
     (if p = ''/run/secret''
      then Some \<lparr>of_metadata = Some \<lparr>md_is_file = True, md_uid = 0, md_mode = 0, md_len = 4\<rparr>,
                 of_bytes = ''key'' @ [CHR 0x0A], of_io_error = False\<rparr>
      else None)"

lemma demo_credential: "load_systemd_credential demo_files (Some ''/run'') ''secret'' = Ok ''key''"
proof -
  have pop: "pop_newlines (''key'' @ [CHR 0x0A]) = ''key''"
    by (subst pop_newlines.simps) (simp add: pop_newlines.simps [of "''key''"] ends_with_def)
  have join: "path_join ''/run'' ''secret'' = ''/run/secret''"
    by (simp add: path_join_def starts_with_def ends_with_def)
  show ?thesis
    using pop by (simp add: load_systemd_credential_def load_credential_from_def join demo_files_def
        read_limited_Ok)
qed

theorem load_credential_content_witness:
  "\<exists>d file t. Some ''/run'' = Some d \<and> d \<noteq> []
     \<and> demo_files (path_join d ''secret'') = Some file
     \<and> of_bytes file = ''key'' @ t \<and> set t \<subseteq> {CHR 0x0A, CHR 0x0D}
     \<and> ''key'' \<noteq> [] \<and> last ''key'' \<notin> {CHR 0x0A, CHR 0x0D}"
  by (rule load_credential_content [OF demo_credential])

end
