(* ===== verification/Auth_Flow.thy ===== *)
theory Auth_Flow
  imports Auth_Replay Auth_Jwks Config_Spec Key_Policy
begin

text \<open>
  The authenticator of \<^verbatim>\<open>src/auth.rs\<close>: the GitHub device flow (a bootstrap token is checked, resolved to
  an account, revoked and exchanged for a session of the signer), the sessions, and the authentication
  of a request by session or by GitHub Actions token.

  Parameters: SHA-256 (\<open>sha256\<close>, any function into a type \<open>'h\<close> of digests), the HTTP client (a function
  from requests to answers; \<open>None\<close> is a transport error) with the JSON decoding of the answers, the JWT
  library, the random bytes of a session token and the clock readings.
\<close>

section \<open>Data\<close>

datatype oauth_flow_error =
    FlowTokenValidationFailed
  | FlowTokenReplayed
  | FlowReplayCacheUnavailable
  | FlowScopeNotGranted
  | FlowIdentityProviderUnavailable
  | FlowTokenRevocationFailed
  | FlowClaimsDenied
  | FlowTwoFactorRequired
  | FlowSessionCapacity

record github_account_session =
  se_expires_at :: instant
  se_identity_id :: string
  se_user_id :: string
  se_login :: string

record 'h device_token_replay =
  dr_in_flight :: "'h list"
  dr_used :: "('h, instant) hmap"

record github_user_response =
  gu_login :: string
  gu_id :: u64
  gu_two_factor_authentication :: "bool option"

record github_token_check_response =
  tc_scopes :: "string list"
  tc_client_id :: string

record oauth_device_config =
  od_client_id :: string
  od_device_code_url :: string
  od_access_token_url :: string
  od_scope :: string

record oauth_session_grant =
  og_access_token :: string
  og_expires_in :: u64

record 'h inner =
  in_github :: github_config
  in_github_oauth_client_secret :: string
  in_actions :: github_actions_config
  in_identities :: "identity_config list"
  in_jwks :: jwks_cache
  in_device_token_replay :: "'h device_token_replay mutex"
  in_oauth_sessions :: "('h, github_account_session) hmap"
  in_seen_jtis :: jti_cache

definition GITHUB_ACTIONS_ISSUER :: string where
  "GITHUB_ACTIONS_ISSUER = ''https://token.actions.githubusercontent.com''"

definition GITHUB_ACCOUNT_ISSUER :: string where
  "GITHUB_ACCOUNT_ISSUER = ''https://github.com''"

definition MAX_OAUTH_SESSIONS :: nat where
  "MAX_OAUTH_SESSIONS = 4096"

definition SESSION_TOKEN_PREFIX :: string where
  "SESSION_TOKEN_PREFIX = ''mts_''"

definition MAX_USED_DEVICE_TOKENS :: nat where
  "MAX_USED_DEVICE_TOKENS = 65536"

definition DEVICE_TOKEN_REPLAY_TTL :: duration where
  "DEVICE_TOKEN_REPLAY_TTL = from_secs (60 * 60)"

definition authenticator_new ::
  "file_system \<Rightarrow> string option \<Rightarrow> github_config \<Rightarrow> github_actions_config \<Rightarrow> identity_config list
   \<Rightarrow> (file_error, 'h inner) outcome" where
  "authenticator_new open_no_follow credentials_directory github actions identities =
     and_then (load_systemd_credential open_no_follow credentials_directory
                (gh_oauth_client_secret_credential github)) (\<lambda>secret.
     Ok \<lparr>in_github = github, in_github_oauth_client_secret = secret, in_actions = actions,
         in_identities = identities, in_jwks = jwks_cache_default,
         in_device_token_replay = mutex_new \<lparr>dr_in_flight = [], dr_used = hm_new\<rparr>,
         in_oauth_sessions = hm_new, in_seen_jtis = mutex_new hm_new\<rparr>)"

definition github_oauth_device_config :: "'h inner \<Rightarrow> oauth_device_config" where
  "github_oauth_device_config st =
     \<lparr>od_client_id = gh_oauth_client_id (in_github st),
      od_device_code_url = gh_oauth_device_code_url (in_github st),
      od_access_token_url = gh_oauth_access_token_url (in_github st),
      od_scope = OAUTH_SCOPE\<rparr>"

section \<open>Requests to GitHub\<close>

datatype http_method = HttpGet | HttpPost | HttpDelete

datatype http_auth = NoAuth | BasicAuth string string | BearerAuth string

record http_request =
  hq_method :: http_method
  hq_url :: string
  hq_auth :: http_auth
  hq_headers :: "(string \<times> string) list"
  hq_access_token :: "string option"

record http_response =
  hs_status :: nat
  hs_body :: string

definition is_success :: "http_response \<Rightarrow> bool" where
  "is_success r \<longleftrightarrow> 200 \<le> hs_status r \<and> hs_status r < 300"

record github_api =
  api_http :: "http_request \<Rightarrow> http_response option"
  api_parse_check :: "string \<Rightarrow> github_token_check_response option"
  api_parse_user :: "string \<Rightarrow> github_user_response option"

definition github_headers :: "github_config \<Rightarrow> (string \<times> string) list" where
  "github_headers github =
     [(''Accept'', ''application/vnd.github+json''), (''X-GitHub-Api-Version'', gh_api_version github)]"

definition token_url :: "github_config \<Rightarrow> string" where
  "token_url github = gh_api_url github @ ''/applications/'' @ gh_oauth_client_id github @ ''/token''"

definition check_request :: "'h inner \<Rightarrow> string \<Rightarrow> http_request" where
  "check_request st token =
     \<lparr>hq_method = HttpPost, hq_url = token_url (in_github st),
      hq_auth = BasicAuth (gh_oauth_client_id (in_github st)) (in_github_oauth_client_secret st),
      hq_headers = github_headers (in_github st), hq_access_token = Some token\<rparr>"

definition user_request :: "'h inner \<Rightarrow> string \<Rightarrow> http_request" where
  "user_request st token =
     \<lparr>hq_method = HttpGet, hq_url = gh_api_url (in_github st) @ ''/user'', hq_auth = BearerAuth token,
      hq_headers = github_headers (in_github st), hq_access_token = None\<rparr>"

definition revoke_request :: "'h inner \<Rightarrow> string \<Rightarrow> http_request" where
  "revoke_request st token = (check_request st token)\<lparr>hq_method := HttpDelete\<rparr>"

definition check_github_oauth_token ::
  "github_api \<Rightarrow> 'h inner \<Rightarrow> string \<Rightarrow> (oauth_flow_error, string list) outcome" where
  "check_github_oauth_token api st token =
     and_then (ok_or FlowIdentityProviderUnavailable (api_http api (check_request st token)))
       (\<lambda>response.
     if hs_status response = 404 then Err FlowTokenValidationFailed else
     if \<not> is_success response then Err FlowIdentityProviderUnavailable else
     and_then (ok_or FlowIdentityProviderUnavailable (api_parse_check api (hs_body response))) (\<lambda>checked.
     if tc_client_id checked \<noteq> gh_oauth_client_id (in_github st) then Err FlowTokenValidationFailed
     else Ok (tc_scopes checked)))"

definition resolve_github_user ::
  "github_api \<Rightarrow> 'h inner \<Rightarrow> string \<Rightarrow> (auth_error, github_user_response) outcome" where
  "resolve_github_user api st token =
     and_then (ok_or IdentityProviderUnavailable (api_http api (user_request st token))) (\<lambda>response.
     if hs_status response = 401 then Err InvalidToken else
     if \<not> is_success response then Err IdentityProviderUnavailable else
     ok_or IdentityProviderUnavailable (api_parse_user api (hs_body response)))"

definition revoke_github_token ::
  "github_api \<Rightarrow> 'h inner \<Rightarrow> string \<Rightarrow> (oauth_flow_error, unit) outcome" where
  "revoke_github_token api st token =
     and_then (ok_or FlowTokenRevocationFailed (api_http api (revoke_request st token))) (\<lambda>response.
     if hs_status response = 204 \<or> hs_status response = 404 then Ok ()
     else Err FlowTokenRevocationFailed)"

definition github_account_from_token ::
  "github_api \<Rightarrow> 'h inner \<Rightarrow> string \<Rightarrow> string list
   \<Rightarrow> (oauth_flow_error, string \<times> github_user_response) outcome" where
  "github_account_from_token api st token granted_scopes =
     (if \<not> scope_grants_read_user granted_scopes then Err FlowScopeNotGranted else
      and_then (map_err (\<lambda>error. case error of
                   ClaimsDenied \<Rightarrow> FlowClaimsDenied
                 | InvalidToken \<Rightarrow> FlowTokenValidationFailed
                 | _ \<Rightarrow> FlowIdentityProviderUnavailable) (resolve_github_user api st token)) (\<lambda>user.
      and_then (ok_or FlowClaimsDenied
                 (find (\<lambda>identity. matches_github_account_identity identity
                          (u64_to_string (gu_id user)) (gu_login user)) (in_identities st))) (\<lambda>identity.
      if gu_two_factor_authentication user \<noteq> Some True then Err FlowTwoFactorRequired
      else Ok (ic_id identity, user))))"

section \<open>The device flow\<close>

definition begin_device_token_use ::
  "(string \<Rightarrow> 'h) \<Rightarrow> instant \<Rightarrow> string \<Rightarrow> 'h device_token_replay mutex
   \<Rightarrow> (oauth_flow_error, 'h) outcome \<times> 'h device_token_replay mutex" where
  "begin_device_token_use sha256 now access_token replay =
     (let key = sha256 access_token in
      if mx_poisoned replay then (Err FlowReplayCacheUnavailable, replay) else
      let live = (mx_data replay)\<lparr>dr_used := hm_retain (\<lambda>_ expires_at. expires_at > now)
                                              (dr_used (mx_data replay))\<rparr> in
      if hm_contains_key (dr_used live) key \<or> key \<in> set (dr_in_flight live)
      then (Err FlowTokenReplayed, replay\<lparr>mx_data := live\<rparr>)
      else (Ok key, replay\<lparr>mx_data := live\<lparr>dr_in_flight := key # dr_in_flight live\<rparr>\<rparr>))"

definition mark_consumed ::
  "instant \<Rightarrow> 'h \<Rightarrow> 'h device_token_replay mutex
   \<Rightarrow> (oauth_flow_error, unit) outcome \<times> 'h device_token_replay mutex" where
  "mark_consumed now key replay =
     (if mx_poisoned replay then (Err FlowReplayCacheUnavailable, replay) else
      let used = hm_retain (\<lambda>_ expires_at. expires_at > now) (dr_used (mx_data replay));
          live = (mx_data replay)\<lparr>dr_used := used\<rparr> in
      if hm_len used \<ge> MAX_USED_DEVICE_TOKENS \<and> \<not> hm_contains_key used key
      then (Err FlowReplayCacheUnavailable, replay\<lparr>mx_data := live\<rparr>) else
      (case instant_add now DEVICE_TOKEN_REPLAY_TTL of
         None \<Rightarrow> (Panic, \<lparr>mx_data = live, mx_poisoned = True\<rparr>)
       | Some until \<Rightarrow> (Ok (), replay\<lparr>mx_data := live\<lparr>dr_used := hm_insert key until used\<rparr>\<rparr>)))"

definition drop_guard :: "'h \<Rightarrow> 'h device_token_replay mutex \<Rightarrow> 'h device_token_replay mutex" where
  "drop_guard key replay =
     (if mx_poisoned replay then replay
      else replay\<lparr>mx_data := (mx_data replay)\<lparr>dr_in_flight := removeAll key (dr_in_flight (mx_data replay))\<rparr>\<rparr>)"

definition session_token :: "(string \<Rightarrow> string) \<Rightarrow> string \<Rightarrow> string" where
  \<comment> \<open>\<open>b64url\<close> is \<^verbatim>\<open>URL_SAFE_NO_PAD.encode\<close>\<close>
  "session_token b64url random_bytes = SESSION_TOKEN_PREFIX @ b64url random_bytes"

definition mint_github_account_session ::
  "(string \<Rightarrow> 'h) \<Rightarrow> instant \<Rightarrow> string \<Rightarrow> string \<Rightarrow> github_user_response \<Rightarrow> 'h inner
   \<Rightarrow> (oauth_flow_error, oauth_session_grant) outcome \<times> 'h inner" where
  "mint_github_account_session sha256 now token identity_id user st =
     (let expires_in = gh_oauth_session_ttl_seconds (in_github st) in
      case instant_add now (from_secs expires_in) of None \<Rightarrow> (Panic, st) | Some expires_at \<Rightarrow>
      let session = \<lparr>se_expires_at = expires_at, se_identity_id = identity_id,
                     se_user_id = u64_to_string (gu_id user), se_login = gu_login user\<rparr>;
          sessions = hm_retain (\<lambda>_ session. se_expires_at session > now) (in_oauth_sessions st) in
      if hm_len sessions \<ge> MAX_OAUTH_SESSIONS
      then (Err FlowSessionCapacity, st\<lparr>in_oauth_sessions := sessions\<rparr>)
      else (Ok \<lparr>og_access_token = token, og_expires_in = expires_in\<rparr>,
            st\<lparr>in_oauth_sessions := hm_insert (sha256 token) session sessions\<rparr>))"

record 'h exchange_env =
  xe_sha256 :: "string \<Rightarrow> 'h"
  xe_api :: github_api
  xe_begin :: instant
  xe_consume :: instant
  xe_mint :: instant
  xe_token :: string

definition with_replay :: "'h device_token_replay mutex \<Rightarrow> 'h inner \<Rightarrow> 'h inner" where
  "with_replay replay st = st\<lparr>in_device_token_replay := replay\<rparr>"

definition drop_use_guard :: "'h \<Rightarrow> 'h inner \<Rightarrow> 'h inner" where
  "drop_use_guard key st = with_replay (drop_guard key (in_device_token_replay st)) st"

text \<open>
  \<open>finish_device_oauth\<close> is the flow after the revocation. The third component of the result of
  \<open>complete_github_device_oauth\<close> lists the requests sent to GitHub, in order.
\<close>

definition finish_device_oauth ::
  "'h exchange_env \<Rightarrow> 'h \<Rightarrow> (oauth_flow_error, string \<times> github_user_response) outcome \<Rightarrow> 'h inner
   \<Rightarrow> (oauth_flow_error, oauth_session_grant) outcome \<times> 'h inner" where
  "finish_device_oauth env key account st =
     (case mark_consumed (xe_consume env) key (in_device_token_replay st) of
        (Err e, replay) \<Rightarrow> (Err e, with_replay replay st)
      | (Panic, replay) \<Rightarrow> (Panic, with_replay replay st)
      | (Ok _, replay) \<Rightarrow>
          (case account of
             Err e \<Rightarrow> (Err e, with_replay replay st)
           | Panic \<Rightarrow> (Panic, with_replay replay st)
           | Ok (identity_id, user) \<Rightarrow>
               mint_github_account_session (xe_sha256 env) (xe_mint env) (xe_token env) identity_id user
                 (with_replay replay st)))"

definition complete_github_device_oauth ::
  "'h exchange_env \<Rightarrow> string \<Rightarrow> 'h inner
   \<Rightarrow> (oauth_flow_error, oauth_session_grant) outcome \<times> 'h inner \<times> http_request list" where
  "complete_github_device_oauth env access_token st =
     (if access_token = [] \<or> length access_token > MAX_BEARER_TOKEN_BYTES
      then (Err FlowTokenValidationFailed, st, []) else
      case begin_device_token_use (xe_sha256 env) (xe_begin env) access_token (in_device_token_replay st) of
        (Err e, replay) \<Rightarrow> (Err e, with_replay replay st, [])
      | (Panic, replay) \<Rightarrow> (Panic, with_replay replay st, [])
      | (Ok key, replay) \<Rightarrow>
          let st1 = with_replay replay st in
          (case check_github_oauth_token (xe_api env) st1 access_token of
             Err e \<Rightarrow> (Err e, drop_use_guard key st1, [check_request st1 access_token])
           | Panic \<Rightarrow> (Panic, drop_use_guard key st1, [check_request st1 access_token])
           | Ok granted_scopes \<Rightarrow>
               let account = github_account_from_token (xe_api env) st1 access_token granted_scopes;
                   requests = check_request st1 access_token
                     # (if scope_grants_read_user granted_scopes then [user_request st1 access_token] else [])
                     @ [revoke_request st1 access_token] in
               (case revoke_github_token (xe_api env) st1 access_token of
                  Err e \<Rightarrow> (Err e, drop_use_guard key st1, requests)
                | Panic \<Rightarrow> (Panic, drop_use_guard key st1, requests)
                | Ok _ \<Rightarrow>
                    let (result, st2) = finish_device_oauth env key account st1 in
                    (result, drop_use_guard key st2, requests))))"

section \<open>Authenticating a request\<close>

definition session_principal :: "github_config \<Rightarrow> github_account_session \<Rightarrow> auth_principal" where
  "session_principal github session =
     \<lparr>pr_identity_id = se_identity_id session,
      pr_principal_key = ''github-account:'' @ se_user_id session,
      pr_auth_method = ''github-oauth-session'',
      pr_issuer = GITHUB_ACCOUNT_ISSUER,
      pr_audience = Some (gh_oauth_client_id github),
      pr_subject = se_user_id session,
      pr_jti = None,
      pr_source = GithubAccount \<lparr>acc_user_id = se_user_id session, acc_login = se_login session\<rparr>\<rparr>"

definition authenticate_github_account_session ::
  "(string \<Rightarrow> 'h) \<Rightarrow> instant \<Rightarrow> string \<Rightarrow> 'h inner \<Rightarrow> (auth_error, auth_principal) outcome" where
  "authenticate_github_account_session sha256 now token st =
     (if \<not> starts_with SESSION_TOKEN_PREFIX token then Err InvalidToken else
      case hm_get (in_oauth_sessions st) (sha256 token) of
        None \<Rightarrow> Err InvalidToken
      | Some session \<Rightarrow>
          if se_expires_at session > now then Ok (session_principal (in_github st) session)
          else Err InvalidToken)"

record jwt_validation =
  vl_algorithm :: jwt_algorithm
  vl_leeway :: u64
  vl_validate_nbf :: bool
  vl_audience :: "string list"
  vl_issuer :: "string list"
  vl_required_spec_claims :: "string list"

record 'd jwt_library =
  jl_decode_header :: "string \<Rightarrow> jwt_header option"
  jl_from_rsa_components :: "string \<Rightarrow> string \<Rightarrow> 'd option"
  jl_decode :: "u64 \<Rightarrow> jwt_validation \<Rightarrow> 'd \<Rightarrow> string \<Rightarrow> github_actions_claims option"

definition actions_validation :: "github_actions_config \<Rightarrow> jwt_validation" where
  "actions_validation actions =
     \<lparr>vl_algorithm = RS256, vl_leeway = JWT_LEEWAY_SECONDS, vl_validate_nbf = True,
      vl_audience = [ga_audience actions], vl_issuer = [GITHUB_ACTIONS_ISSUER],
      vl_required_spec_claims = [''exp'', ''nbf'', ''iss'', ''aud'', ''sub'']\<rparr>"

definition actions_principal :: "identity_config \<Rightarrow> github_actions_claims \<Rightarrow> string \<Rightarrow> auth_principal" where
  "actions_principal identity claims jti =
     \<lparr>pr_identity_id = ic_id identity,
      pr_principal_key = ''github-actions:repository:'' @ cl_repository_id claims,
      pr_auth_method = ''github-actions-oidc'',
      pr_issuer = cl_iss claims,
      pr_audience = Some (as_audit_string (cl_aud claims)),
      pr_subject = cl_sub claims,
      pr_jti = Some jti,
      pr_source = GithubActions
        \<lparr>act_repository = cl_repository claims, act_repository_id = cl_repository_id claims,
         act_actor = cl_actor claims, act_actor_id = cl_actor_id claims,
         act_git_ref = cl_git_ref claims, act_ref_type = cl_ref_type claims,
         act_ref_protected = claim_is_true (cl_ref_protected claims), act_sha = cl_sha claims,
         act_workflow_ref = cl_workflow_ref claims, act_event_name = cl_event_name claims,
         act_environment = cl_environment claims, act_run_id = cl_run_id claims,
         act_run_attempt = cl_run_attempt claims\<rparr>\<rparr>"

record 'd actions_env =
  ae_jwt :: "'d jwt_library"
  ae_clock :: jwk_clock
  ae_parse_jwks :: "string \<Rightarrow> rsa_jwk list option"
  ae_jwks_reply :: "jwks_response option"
  ae_decode_unix :: u64
  ae_now :: instant
  ae_unix :: u64

text \<open>The checks of a token once its signing key is known, up to the replay cache.\<close>

definition verify_actions_token ::
  "'d actions_env \<Rightarrow> string \<Rightarrow> rsa_jwk \<Rightarrow> 'h inner
   \<Rightarrow> (auth_error, github_actions_claims \<times> string \<times> identity_config) outcome" where
  "verify_actions_token env token jwk st =
     and_then (ok_or KeyDiscovery (jl_from_rsa_components (ae_jwt env) (jk_n jwk) (jk_e jwk))) (\<lambda>decoding_key.
     and_then (ok_or InvalidToken (jl_decode (ae_jwt env) (ae_decode_unix env)
                 (actions_validation (in_actions st)) decoding_key token)) (\<lambda>claims.
     and_then (ok_or InvalidToken
                 (case cl_jti claims of None \<Rightarrow> None
                  | Some jti \<Rightarrow> if jti \<noteq> [] \<and> length jti \<le> MAX_JTI_BYTES then Some jti else None)) (\<lambda>jti.
     and_then (resolve_github_actions_identity (in_identities st) claims) (\<lambda>identity.
     Ok (claims, jti, identity)))))"

definition authenticate_github_actions ::
  "'d actions_env \<Rightarrow> string \<Rightarrow> 'h inner \<Rightarrow> (auth_error, auth_principal) outcome \<times> 'h inner" where
  "authenticate_github_actions env token st =
     (case jl_decode_header (ae_jwt env) token of None \<Rightarrow> (Err InvalidToken, st) | Some header \<Rightarrow>
      if jh_alg header \<noteq> RS256 then (Err InvalidToken, st) else
      case jh_kid header of None \<Rightarrow> (Err InvalidToken, st) | Some kid \<Rightarrow>
      let (found, jwks, attempts) =
            jwk_for (ae_clock env) (fetch_jwks (ae_parse_jwks env) (ae_jwks_reply env))
              (ga_jwks_ttl_seconds (in_actions st)) kid (in_jwks st);
          st1 = st\<lparr>in_jwks := jwks\<rparr> in
      (case and_then found (\<lambda>jwk. verify_actions_token env token jwk st1) of
         Err e \<Rightarrow> (Err e, st1)
       | Panic \<Rightarrow> (Panic, st1)
       | Ok (claims, jti, identity) \<Rightarrow>
           let (recorded, seen) = record_jti (ae_now env) (ae_unix env) jti (cl_exp claims) (in_seen_jtis st1) in
           (and_then recorded (\<lambda>_. Ok (actions_principal identity claims jti)),
            st1\<lparr>in_seen_jtis := seen\<rparr>)))"

definition authenticate ::
  "(string \<Rightarrow> 'h) \<Rightarrow> 'd actions_env \<Rightarrow> header_map \<Rightarrow> 'h inner
   \<Rightarrow> (auth_error, auth_principal) outcome \<times> 'h inner" where
  "authenticate sha256 env headers st =
     (case bearer_token headers of
        Err e \<Rightarrow> (Err e, st)
      | Panic \<Rightarrow> (Panic, st)
      | Ok token \<Rightarrow>
          if is_github_actions_jwt (jl_decode_header (ae_jwt env)) token
          then authenticate_github_actions env token st
          else (authenticate_github_account_session sha256 (ae_now env) token st, st))"

end
