(* ===== verification/Auth_Facts.thy ===== *)
theory Auth_Facts
  imports Auth_Flow
begin

text \<open>
  Correctness of the authenticator: the invariant of its state, what a granted session implies, the
  single use of device tokens, the life of a session and what an authenticated principal stands for.
\<close>

section \<open>The tables with deadlines\<close>

interpretation session_map:
  expiring_map hm_new hm_get hm_insert hm_remove hm_retain hm_len hm_wf se_expires_at
  by unfold_locales

definition replay_inv :: "'h device_token_replay mutex \<Rightarrow> bool" where
  "replay_inv replay \<longleftrightarrow>
     hm_wf (dr_used (mx_data replay)) \<and> hm_len (dr_used (mx_data replay)) \<le> MAX_USED_DEVICE_TOKENS
     \<and> distinct (dr_in_flight (mx_data replay))"

definition session_ok :: "identity_config list \<Rightarrow> github_account_session \<Rightarrow> bool" where
  "session_ok identities session \<longleftrightarrow>
     (\<exists>i\<in>set identities. ic_id i = se_identity_id session
        \<and> matches_github_account_identity i (se_user_id session) (se_login session))"

definition sessions_inv :: "identity_config list \<Rightarrow> ('h, github_account_session) hmap \<Rightarrow> bool" where
  "sessions_inv identities sessions \<longleftrightarrow>
     hm_wf sessions \<and> hm_len sessions \<le> MAX_OAUTH_SESSIONS
     \<and> (\<forall>k session. hm_get sessions k = Some session \<longrightarrow> session_ok identities session)"

definition auth_inv :: "'h inner \<Rightarrow> bool" where
  "auth_inv st \<longleftrightarrow>
     replay_inv (in_device_token_replay st) \<and> sessions_inv (in_identities st) (in_oauth_sessions st)
     \<and> jti_cache_inv (in_seen_jtis st) \<and> jwks_inv (in_jwks st)"

lemma auth_inv_new:
  "authenticator_new fs dir github actions identities = Ok st \<Longrightarrow> auth_inv st"
  by (auto simp: authenticator_new_def auth_inv_def replay_inv_def sessions_inv_def mutex_new_def
      hm_len_def hm_new_def jti_cache_inv_def hm_get_def hm_wf_def)

section \<open>Device tokens\<close>

lemma begin_Ok:
  assumes "hm_wf (dr_used (mx_data replay))"
  shows "fst (begin_device_token_use sha256 now token replay) = Ok key \<longleftrightarrow>
    key = sha256 token \<and> \<not> mx_poisoned replay \<and> key \<notin> set (dr_in_flight (mx_data replay))
    \<and> (\<forall>until. hm_get (dr_used (mx_data replay)) key = Some until \<longrightarrow> until \<le> now)"
  using instant_map.purge_none [OF assms, of now "sha256 token"]
  by (auto simp: begin_device_token_use_def Let_def hm_contains_key_def)

lemma begin_inv:
  assumes "replay_inv replay"
  shows "replay_inv (snd (begin_device_token_use sha256 now token replay))"
  using assms instant_map.bounded_purge [of "dr_used (mx_data replay)" MAX_USED_DEVICE_TOKENS now]
  by (auto simp: replay_inv_def begin_device_token_use_def Let_def)

lemma mark_inv:
  assumes "replay_inv replay"
  shows "replay_inv (snd (mark_consumed now key replay))"
proof -
  let ?used = "hm_retain (\<lambda>_ until. until > now) (dr_used (mx_data replay))"
  have wf: "hm_wf (dr_used (mx_data replay))" and len: "hm_len ?used \<le> MAX_USED_DEVICE_TOKENS"
    using assms instant_map.bounded_purge [of "dr_used (mx_data replay)" MAX_USED_DEVICE_TOKENS now]
    by (auto simp: replay_inv_def)
  have "hm_len (hm_insert key until ?used) \<le> MAX_USED_DEVICE_TOKENS"
    if "\<not> (hm_len ?used \<ge> MAX_USED_DEVICE_TOKENS \<and> \<not> hm_contains_key ?used key)" for until
    using that len hm.len_put [of ?used key until] wf by (auto simp: hm_contains_key_def)
  then show ?thesis
    using assms wf len by (auto simp: replay_inv_def mark_consumed_def Let_def split: option.splits)
qed

lemma drop_inv: "replay_inv replay \<Longrightarrow> replay_inv (drop_guard key replay)"
  by (auto simp: replay_inv_def drop_guard_def distinct_removeAll)

text \<open>A consumed token stays in the cache until its deadline.\<close>

definition consumed :: "'h \<Rightarrow> instant \<Rightarrow> 'h device_token_replay mutex \<Rightarrow> bool" where
  "consumed key t replay \<longleftrightarrow> (\<exists>until. hm_get (dr_used (mx_data replay)) key = Some until \<and> t \<le> until)"

lemma consumed_purge:
  assumes "hm_wf (dr_used (mx_data replay))" and "consumed key t replay" and "now < t"
  shows "\<exists>until. hm_get (hm_retain (\<lambda>_ until. until > now) (dr_used (mx_data replay))) key = Some until
    \<and> t \<le> until"
  using assms instant_map.purge_get [OF assms(1), of now key] by (fastforce simp: consumed_def)

lemma begin_consumed_kept:
  assumes "hm_wf (dr_used (mx_data replay))" and "consumed key t replay" and "now < t"
  shows "consumed key t (snd (begin_device_token_use sha256 now token replay))"
  using consumed_purge [OF assms] assms(2)
  by (auto simp: begin_device_token_use_def consumed_def Let_def)

lemma mark_consumed_kept:
  assumes "hm_wf (dr_used (mx_data replay))" and "consumed key t replay" and "now < t" and "key' \<noteq> key"
  shows "consumed key t (snd (mark_consumed now key' replay))"
  using consumed_purge [OF assms(1-3)] assms(2,4)
  by (auto simp: mark_consumed_def consumed_def Let_def instant_add_def)

lemma drop_poisoned [simp]: "mx_poisoned (drop_guard key replay) = mx_poisoned replay"
  by (simp add: drop_guard_def)

lemma drop_consumed [simp]: "consumed key t (drop_guard key' replay) \<longleftrightarrow> consumed key t replay"
  by (simp add: consumed_def drop_guard_def)

lemma begin_consumed_refused:
  assumes "hm_wf (dr_used (mx_data replay))" and "consumed (sha256 token) t replay" and "now < t"
    and "\<not> mx_poisoned replay"
  shows "fst (begin_device_token_use sha256 now token replay) = Err FlowTokenReplayed"
  using consumed_purge [OF assms(1-3)] assms(4)
  by (auto simp: begin_device_token_use_def Let_def hm_contains_key_def)

lemma mark_Ok:
  assumes "mark_consumed now key replay = (Ok u, replay')"
  shows "consumed key (now + int DEVICE_TOKEN_REPLAY_TTL) replay' \<and> \<not> mx_poisoned replay'"
  using assms
  by (auto simp: mark_consumed_def consumed_def Let_def instant_add_def split: if_splits option.splits)

section \<open>Sessions\<close>

lemma mint_inv:
  assumes "auth_inv st" and "i \<in> set (in_identities st)" and "ic_id i = identity_id"
    and "matches_github_account_identity i (u64_to_string (gu_id user)) (gu_login user)"
  shows "auth_inv (snd (mint_github_account_session sha256 now token identity_id user st))"
proof -
  have wf: "hm_wf (in_oauth_sessions st)" and len: "hm_len (in_oauth_sessions st) \<le> MAX_OAUTH_SESSIONS"
    using assms(1) by (auto simp: auth_inv_def sessions_inv_def)
  have "sessions_inv (in_identities st) (hm_retain (\<lambda>_ s. se_expires_at s > now) (in_oauth_sessions st))"
    using assms(1) session_map.bounded_purge [OF wf len, of now] session_map.purge_get [OF wf, of now]
    by (auto simp: auth_inv_def sessions_inv_def)
  moreover have "sessions_inv (in_identities st) (hm_insert (sha256 token)
      \<lparr>se_expires_at = t, se_identity_id = identity_id, se_user_id = u64_to_string (gu_id user),
       se_login = gu_login user\<rparr> (hm_retain (\<lambda>_ s. se_expires_at s > now) (in_oauth_sessions st)))"
    if "hm_len (hm_retain (\<lambda>_ s. se_expires_at s > now) (in_oauth_sessions st)) < MAX_OAUTH_SESSIONS" for t
    using calculation session_map.bounded_put [OF wf that] assms(2-4)
    by (auto simp: sessions_inv_def session_ok_def)
  ultimately show ?thesis
    using assms(1)
    by (auto simp: mint_github_account_session_def auth_inv_def Let_def split: option.splits)
qed

lemma mint_Ok:
  assumes "mint_github_account_session sha256 now token identity_id user st = (Ok grant, st')"
  shows "grant = \<lparr>og_access_token = token, og_expires_in = gh_oauth_session_ttl_seconds (in_github st)\<rparr>
    \<and> hm_get (in_oauth_sessions st') (sha256 token) =
        Some \<lparr>se_expires_at = now + int (from_secs (gh_oauth_session_ttl_seconds (in_github st))),
              se_identity_id = identity_id, se_user_id = u64_to_string (gu_id user),
              se_login = gu_login user\<rparr>
    \<and> st' = st\<lparr>in_oauth_sessions := in_oauth_sessions st'\<rparr>"
  using assms
  by (auto simp: mint_github_account_session_def Let_def instant_add_def split: option.splits if_splits)

lemma account_Ok:
  assumes "github_account_from_token api st token scopes = Ok (identity_id, user)"
  shows "scope_grants_read_user scopes \<and> resolve_github_user api st token = Ok user
    \<and> gu_two_factor_authentication user = Some True
    \<and> (\<exists>i\<in>set (in_identities st). ic_id i = identity_id
         \<and> matches_github_account_identity i (u64_to_string (gu_id user)) (gu_login user))"
  using assms
  by (auto simp: github_account_from_token_def find_Some_iff split: if_splits)

lemma with_replay_simps [simp]:
  "in_device_token_replay (with_replay r st) = r" "in_github (with_replay r st) = in_github st"
  "in_identities (with_replay r st) = in_identities st" "in_actions (with_replay r st) = in_actions st"
  "in_oauth_sessions (with_replay r st) = in_oauth_sessions st"
  "in_seen_jtis (with_replay r st) = in_seen_jtis st" "in_jwks (with_replay r st) = in_jwks st"
  "in_github_oauth_client_secret (with_replay r st) = in_github_oauth_client_secret st"
  "with_replay r' (with_replay r st) = with_replay r' st"
  by (simp_all add: with_replay_def)

lemma auth_inv_with_replay:
  "auth_inv st \<Longrightarrow> replay_inv r \<Longrightarrow> auth_inv (with_replay r st)"
  by (simp add: auth_inv_def)

lemma auth_inv_replay: "auth_inv st \<Longrightarrow> replay_inv (in_device_token_replay st)"
  by (simp add: auth_inv_def)

lemma auth_inv_drop: "auth_inv st \<Longrightarrow> auth_inv (drop_use_guard key st)"
  by (simp add: drop_use_guard_def auth_inv_with_replay drop_inv auth_inv_replay)

lemma requests_with_replay [simp]:
  "check_request (with_replay r st) = check_request st" "user_request (with_replay r st) = user_request st"
  "revoke_request (with_replay r st) = revoke_request st"
  by (simp_all add: fun_eq_iff check_request_def user_request_def revoke_request_def)

lemma api_with_replay [simp]:
  "check_github_oauth_token api (with_replay r st) = check_github_oauth_token api st"
  "revoke_github_token api (with_replay r st) = revoke_github_token api st"
  "github_account_from_token api (with_replay r st) = github_account_from_token api st"
  by (simp_all add: fun_eq_iff check_github_oauth_token_def revoke_github_token_def
      github_account_from_token_def resolve_github_user_def cong: if_cong)

lemma account_error_not_Panic: "github_account_from_token api st token scopes \<noteq> Panic"
  by (simp add: github_account_from_token_def resolve_github_user_def)

lemma finish_inv:
  assumes "auth_inv st" and "account = github_account_from_token api st token scopes"
  shows "auth_inv (snd (finish_device_oauth env key account st))"
proof -
  obtain r replay where mark: "mark_consumed (xe_consume env) key (in_device_token_replay st) = (r, replay)"
    by fastforce
  have inv: "auth_inv (with_replay replay st)"
    using assms(1) mark_inv [OF auth_inv_replay [OF assms(1)], of "xe_consume env" key] mark
    by (simp add: auth_inv_with_replay)
  show ?thesis
  proof (cases "account")
    case (Ok a)
    then obtain identity_id user where a: "account = Ok (identity_id, user)" by (cases a) simp
    then obtain i where "i \<in> set (in_identities st)" "ic_id i = identity_id"
      "matches_github_account_identity i (u64_to_string (gu_id user)) (gu_login user)"
      using account_Ok assms(2) by metis
    then show ?thesis
      using inv mark a mint_inv [OF inv]
      by (cases r) (auto simp: finish_device_oauth_def)
  qed (use inv mark in \<open>cases r; auto simp: finish_device_oauth_def\<close>)+
qed

lemma complete_inv:
  assumes "auth_inv st"
  shows "auth_inv (fst (snd (complete_github_device_oauth env token st)))"
proof -
  obtain r replay where beg: "begin_device_token_use (xe_sha256 env) (xe_begin env) token
      (in_device_token_replay st) = (r, replay)" by fastforce
  have inv: "auth_inv (with_replay replay st)"
    using assms begin_inv [OF auth_inv_replay [OF assms], of "xe_sha256 env" "xe_begin env" token] beg
    by (simp add: auth_inv_with_replay)
  have fin: "auth_inv (drop_use_guard key (snd (finish_device_oauth env key
      (github_account_from_token (xe_api env) st token scopes) (with_replay replay st))))" for key scopes
    using finish_inv [OF inv, of _ "xe_api env" token scopes] by (simp add: auth_inv_drop)
  show ?thesis
    using assms inv fin beg
    by (auto simp: complete_github_device_oauth_def auth_inv_drop Let_def
        split: outcome.splits prod.splits) (metis snd_conv)
qed

section \<open>What a granted session implies\<close>

lemma complete_Ok:
  assumes "auth_inv st" and "complete_github_device_oauth env token st = (Ok grant, st', requests)"
  obtains scopes identity_id user replay replay' st2 where
    "token \<noteq> []" "length token \<le> MAX_BEARER_TOKEN_BYTES"
    "begin_device_token_use (xe_sha256 env) (xe_begin env) token (in_device_token_replay st)
       = (Ok (xe_sha256 env token), replay)"
    "check_github_oauth_token (xe_api env) st token = Ok scopes"
    "github_account_from_token (xe_api env) st token scopes = Ok (identity_id, user)"
    "revoke_github_token (xe_api env) st token = Ok ()"
    "mark_consumed (xe_consume env) (xe_sha256 env token) replay = (Ok (), replay')"
    "mint_github_account_session (xe_sha256 env) (xe_mint env) (xe_token env) identity_id user
       (with_replay replay' st) = (Ok grant, st2)"
    "st' = drop_use_guard (xe_sha256 env token) st2"
    "requests = [check_request st token, user_request st token, revoke_request st token]"
proof -
  obtain r replay where beg: "begin_device_token_use (xe_sha256 env) (xe_begin env) token
      (in_device_token_replay st) = (r, replay)" by fastforce
  have wf: "hm_wf (dr_used (mx_data (in_device_token_replay st)))"
    using assms(1) by (simp add: auth_inv_def replay_inv_def)
  have len: "token \<noteq> []" "length token \<le> MAX_BEARER_TOKEN_BYTES"
    using assms(2) by (auto simp: complete_github_device_oauth_def split: if_splits)
  have r: "r = Ok (xe_sha256 env token)"
    using assms(2) beg len begin_Ok [OF wf, of "xe_sha256 env" "xe_begin env" token]
    by (cases r) (auto simp: complete_github_device_oauth_def)
  obtain scopes where scopes: "check_github_oauth_token (xe_api env) st token = Ok scopes"
    using assms(2) beg len r
    by (cases "check_github_oauth_token (xe_api env) st token")
      (auto simp: complete_github_device_oauth_def Let_def)
  have rev: "revoke_github_token (xe_api env) st token = Ok ()"
    using assms(2) beg len r scopes
    by (cases "revoke_github_token (xe_api env) st token")
      (auto simp: complete_github_device_oauth_def Let_def)
  obtain m replay' where mark: "mark_consumed (xe_consume env) (xe_sha256 env token) replay = (m, replay')"
    by fastforce
  define account where "account = github_account_from_token (xe_api env) st token scopes"
  obtain st2 where fin: "finish_device_oauth env (xe_sha256 env token) account (with_replay replay st)
      = (Ok grant, st2)" and st': "st' = drop_use_guard (xe_sha256 env token) st2"
    and req: "requests = check_request st token
        # (if scope_grants_read_user scopes then [user_request st token] else []) @ [revoke_request st token]"
    using assms(2) beg len r scopes rev
    by (auto simp: complete_github_device_oauth_def Let_def account_def split: prod.splits)
  have m: "m = Ok ()"
    using fin mark by (cases m) (auto simp: finish_device_oauth_def)
  obtain identity_id user where acc: "account = Ok (identity_id, user)"
    using fin mark m by (cases account) (auto simp: finish_device_oauth_def)
  have mint: "mint_github_account_session (xe_sha256 env) (xe_mint env) (xe_token env) identity_id user
       (with_replay replay' st) = (Ok grant, st2)"
    using fin mark m acc by (simp add: finish_device_oauth_def with_replay_def)
  have "scope_grants_read_user scopes" using account_Ok acc account_def by metis
  with that [OF len _ scopes _ rev] beg r acc mark m mint st' req show ?thesis
    by (simp add: account_def)
qed

text \<open>A granted session leaves the token consumed and the session stored.\<close>

lemma complete_Ok_state:
  assumes "auth_inv st" and "complete_github_device_oauth env token st = (Ok grant, st', requests)"
  shows "consumed (xe_sha256 env token) (xe_consume env + int DEVICE_TOKEN_REPLAY_TTL) (in_device_token_replay st')
    \<and> \<not> mx_poisoned (in_device_token_replay st') \<and> in_github st' = in_github st
    \<and> og_access_token grant = xe_token env
    \<and> (\<exists>session. hm_get (in_oauth_sessions st') (xe_sha256 env (xe_token env)) = Some session
         \<and> se_expires_at session = xe_mint env + int (from_secs (gh_oauth_session_ttl_seconds (in_github st))))"
proof -
  from complete_Ok [OF assms] obtain scopes identity_id user replay replay' st2 where
    mark: "mark_consumed (xe_consume env) (xe_sha256 env token) replay = (Ok (), replay')"
    and mint: "mint_github_account_session (xe_sha256 env) (xe_mint env) (xe_token env) identity_id user
       (with_replay replay' st) = (Ok grant, st2)"
    and st': "st' = drop_use_guard (xe_sha256 env token) st2" by metis
  obtain X where st2: "st2 = (with_replay replay' st)\<lparr>in_oauth_sessions := X\<rparr>"
    using mint_Ok [OF mint] by blast
  then have rep: "in_device_token_replay st2 = replay'" "in_github st2 = in_github st"
    by simp_all
  then show ?thesis
    using mark_Ok [OF mark] mint_Ok [OF mint] by (auto simp: st' drop_use_guard_def)
qed

lemma device_session_ok:
  assumes "auth_inv st" and "complete_github_device_oauth env token st = (Ok grant, st', requests)"
    and "hm_get (in_oauth_sessions st') (xe_sha256 env (og_access_token grant)) = Some session"
  shows "session_ok (in_identities st) session"
proof -
  from complete_Ok [OF assms(1,2)] obtain scopes identity_id user replay' st2 where
    acc: "github_account_from_token (xe_api env) st token scopes = Ok (identity_id, user)"
    and mint: "mint_github_account_session (xe_sha256 env) (xe_mint env) (xe_token env) identity_id user
       (with_replay replay' st) = (Ok grant, st2)"
    and st': "st' = drop_use_guard (xe_sha256 env token) st2" by metis
  show ?thesis
    using assms(3) mint_Ok [OF mint] account_Ok [OF acc]
    by (auto simp: st' drop_use_guard_def session_ok_def)
qed

section \<open>Single use of device tokens\<close>

lemma finish_consumed_kept:
  assumes "auth_inv st" and "consumed key t (in_device_token_replay st)" and "xe_consume env < t"
    and "key' \<noteq> key"
  shows "consumed key t (in_device_token_replay (snd (finish_device_oauth env key' account st)))"
proof -
  obtain r replay where mark: "mark_consumed (xe_consume env) key' (in_device_token_replay st) = (r, replay)"
    by fastforce
  have "consumed key t replay"
    using mark_consumed_kept [OF _ assms(2,3,4)] assms(1) mark
    by (auto simp: auth_inv_def replay_inv_def dest: arg_cong [where f = snd])
  then show ?thesis
    by (auto simp: finish_device_oauth_def mark mint_github_account_session_def Let_def
        split: outcome.splits option.splits prod.splits)
qed

lemma complete_consumed:
  assumes "auth_inv st" and "consumed key t (in_device_token_replay st)"
    and "xe_begin env < t" and "xe_consume env < t"
  shows "consumed key t (in_device_token_replay (fst (snd (complete_github_device_oauth env token st))))"
    and "xe_sha256 env token = key \<Longrightarrow> token \<noteq> [] \<Longrightarrow> length token \<le> MAX_BEARER_TOKEN_BYTES \<Longrightarrow>
      \<not> mx_poisoned (in_device_token_replay st) \<Longrightarrow>
      fst (complete_github_device_oauth env token st) = Err FlowTokenReplayed
      \<and> snd (snd (complete_github_device_oauth env token st)) = []"
proof -
  let ?replay = "in_device_token_replay st"
  have wf: "hm_wf (dr_used (mx_data ?replay))" using assms(1) by (simp add: auth_inv_def replay_inv_def)
  obtain r replay where beg: "begin_device_token_use (xe_sha256 env) (xe_begin env) token ?replay = (r, replay)"
    by fastforce
  have kept: "consumed key t replay"
    using begin_consumed_kept [OF wf assms(2,3)] beg by (metis snd_conv)
  have inv: "auth_inv (with_replay replay st)"
    using assms(1) begin_inv [OF auth_inv_replay [OF assms(1)], of "xe_sha256 env" "xe_begin env" token] beg
    by (simp add: auth_inv_with_replay)
  have r: "r = Ok k \<Longrightarrow> k \<noteq> key" for k
    using begin_consumed_refused [OF wf, of "xe_sha256 env" token t "xe_begin env"] assms(2,3) beg
      begin_Ok [OF wf, of "xe_sha256 env" "xe_begin env" token k]
    by auto
  have fin: "consumed key t (in_device_token_replay (snd (finish_device_oauth env k account (with_replay replay st))))"
    if "r = Ok k" for k account
    using finish_consumed_kept [OF inv _ assms(4) r [OF that]] kept by simp
  show "consumed key t (in_device_token_replay (fst (snd (complete_github_device_oauth env token st))))"
    using assms(2) beg kept fin
    by (auto simp: complete_github_device_oauth_def drop_use_guard_def Let_def
        split: outcome.splits prod.splits) (metis snd_conv)
  show "fst (complete_github_device_oauth env token st) = Err FlowTokenReplayed
      \<and> snd (snd (complete_github_device_oauth env token st)) = []"
    if "xe_sha256 env token = key" "token \<noteq> []" "length token \<le> MAX_BEARER_TOKEN_BYTES"
      "\<not> mx_poisoned ?replay"
  proof -
    have "r = Err FlowTokenReplayed"
      using begin_consumed_refused [OF wf, of "xe_sha256 env" token t "xe_begin env"] that assms(2,3) beg by simp
    then show ?thesis using that beg by (simp add: complete_github_device_oauth_def)
  qed
qed

section \<open>Authentication\<close>

lemma authenticate_session_Ok:
  "authenticate_github_account_session sha256 now token st = Ok p \<longleftrightarrow>
     starts_with SESSION_TOKEN_PREFIX token
     \<and> (\<exists>session. hm_get (in_oauth_sessions st) (sha256 token) = Some session
          \<and> now < se_expires_at session \<and> p = session_principal (in_github st) session)"
  by (auto simp: authenticate_github_account_session_def split: option.splits)

lemma verify_actions_token_Ok:
  assumes "verify_actions_token env token jwk st = Ok (claims, jti, identity)"
  shows "(\<exists>key. jl_from_rsa_components (ae_jwt env) (jk_n jwk) (jk_e jwk) = Some key
      \<and> jl_decode (ae_jwt env) (ae_decode_unix env) (actions_validation (in_actions st)) key token = Some claims)
    \<and> cl_jti claims = Some jti \<and> jti \<noteq> [] \<and> length jti \<le> MAX_JTI_BYTES
    \<and> resolve_github_actions_identity (in_identities st) claims = Ok identity"
  using assms by (auto simp: verify_actions_token_def split: option.splits if_splits)

lemma jwk_for_not_Panic: "fst (jwk_for ck fetched ttl kid cache) \<noteq> Panic"
  by (simp add: jwk_for_def Let_def lookup_jwk_def split: option.splits)

lemma verify_actions_token_not_Panic: "verify_actions_token env token jwk st \<noteq> Panic"
  by (auto simp: verify_actions_token_def)

lemma authenticate_actions_cases:
  assumes "authenticate_github_actions env token st = (r, st')"
  obtains "st' = st" "r = Err InvalidToken"
  | kid found jwks attempts e where
      "jwk_for (ae_clock env) (fetch_jwks (ae_parse_jwks env) (ae_jwks_reply env))
         (ga_jwks_ttl_seconds (in_actions st)) kid (in_jwks st) = (found, jwks, attempts)"
      "st' = st\<lparr>in_jwks := jwks\<rparr>" "r = Err e"
  | kid jwk jwks attempts claims jti identity recorded seen where
      "jwk_for (ae_clock env) (fetch_jwks (ae_parse_jwks env) (ae_jwks_reply env))
         (ga_jwks_ttl_seconds (in_actions st)) kid (in_jwks st) = (Ok jwk, jwks, attempts)"
      "verify_actions_token env token jwk (st\<lparr>in_jwks := jwks\<rparr>) = Ok (claims, jti, identity)"
      "record_jti (ae_now env) (ae_unix env) jti (cl_exp claims) (in_seen_jtis st) = (recorded, seen)"
      "r = and_then recorded (\<lambda>_. Ok (actions_principal identity claims jti))"
      "st' = st\<lparr>in_jwks := jwks, in_seen_jtis := seen\<rparr>"
proof (cases "\<exists>header kid. jl_decode_header (ae_jwt env) token = Some header \<and> jh_alg header = RS256
    \<and> jh_kid header = Some kid")
  case False
  then show ?thesis
    using that(1) assms by (auto simp: authenticate_github_actions_def split: option.splits if_splits)
next
  case True
  then obtain header kid where header: "jl_decode_header (ae_jwt env) token = Some header"
      "jh_alg header = RS256" "jh_kid header = Some kid" by blast
  obtain found jwks attempts where jwk: "jwk_for (ae_clock env) (fetch_jwks (ae_parse_jwks env) (ae_jwks_reply env))
         (ga_jwks_ttl_seconds (in_actions st)) kid (in_jwks st) = (found, jwks, attempts)"
    by (metis prod_cases3)
  show ?thesis
  proof (cases "and_then found (\<lambda>jwk. verify_actions_token env token jwk (st\<lparr>in_jwks := jwks\<rparr>))")
    case (Ok x)
    then obtain jwk' claims jti identity where "found = Ok jwk'"
      and ver: "verify_actions_token env token jwk' (st\<lparr>in_jwks := jwks\<rparr>) = Ok (claims, jti, identity)"
      by (cases x) auto
    moreover obtain recorded seen where
      "record_jti (ae_now env) (ae_unix env) jti (cl_exp claims) (in_seen_jtis st) = (recorded, seen)"
      by fastforce
    ultimately show ?thesis
      using that(3) [of kid jwk' jwks attempts claims jti identity recorded seen] assms header jwk
      by (simp add: authenticate_github_actions_def)
  next
    case (Err e)
    then show ?thesis
      using that(2) [OF jwk] assms header jwk by (auto simp: authenticate_github_actions_def)
  next
    case Panic
    then have "found = Panic \<or> (\<exists>jwk'. found = Ok jwk'
        \<and> verify_actions_token env token jwk' (st\<lparr>in_jwks := jwks\<rparr>) = Panic)" by simp
    then show ?thesis using jwk_for_not_Panic verify_actions_token_not_Panic jwk by (metis fst_conv)
  qed
qed

lemma authenticate_inv:
  assumes "auth_inv st" and "authenticate sha256 env headers st = (r, st')"
  shows "auth_inv st' \<and> in_identities st' = in_identities st \<and> in_github st' = in_github st"
proof -
  have "auth_inv st'' \<and> in_identities st'' = in_identities st \<and> in_github st'' = in_github st"
    if "authenticate_github_actions env token st = (r', st'')" for token r' st''
    using that
  proof (cases rule: authenticate_actions_cases)
    case 1
    then show ?thesis using assms(1) by simp
  next
    case (2 kid found jwks attempts e)
    then show ?thesis
      using assms(1) jwk_for_inv [of "in_jwks st" "ae_clock env" "ae_parse_jwks env" "ae_jwks_reply env"
          "ga_jwks_ttl_seconds (in_actions st)" kid]
      by (simp add: auth_inv_def)
  next
    case (3 kid jwk jwks attempts claims jti identity recorded seen)
    then show ?thesis
      using assms(1) jwk_for_inv [of "in_jwks st" "ae_clock env" "ae_parse_jwks env" "ae_jwks_reply env"
          "ga_jwks_ttl_seconds (in_actions st)" kid]
        record_jti_inv [of "in_seen_jtis st" "ae_now env" "ae_unix env" jti "cl_exp claims"]
      by (simp add: auth_inv_def)
  qed
  then show ?thesis
    using assms by (auto simp: authenticate_def split: outcome.splits if_splits)
qed

section \<open>Properties\<close>

text \<open>What an accepted answer of each of the three requests to GitHub looks like.\<close>

lemma check_github_oauth_token_Ok:
  "check_github_oauth_token api st token = Ok scopes \<longleftrightarrow>
     (\<exists>reply checked. api_http api (check_request st token) = Some reply \<and> is_success reply
        \<and> api_parse_check api (hs_body reply) = Some checked
        \<and> tc_client_id checked = gh_oauth_client_id (in_github st) \<and> tc_scopes checked = scopes)"
  by (auto simp: check_github_oauth_token_def is_success_def)

lemma resolve_github_user_Ok:
  "resolve_github_user api st token = Ok user \<longleftrightarrow>
     (\<exists>reply. api_http api (user_request st token) = Some reply \<and> is_success reply
        \<and> api_parse_user api (hs_body reply) = Some user)"
  by (auto simp: resolve_github_user_def is_success_def)

lemma revoke_github_token_Ok:
  "revoke_github_token api st token = Ok u \<longleftrightarrow>
     (\<exists>reply. api_http api (revoke_request st token) = Some reply
        \<and> (hs_status reply = 204 \<or> hs_status reply = 404))"
  by (auto simp: revoke_github_token_def)


text \<open>A sequence of exchanges with one hash function.\<close>

definition exchange :: "'h exchange_env \<times> string \<Rightarrow> 'h inner \<Rightarrow> 'h inner" where
  "exchange x st = fst (snd (complete_github_device_oauth (fst x) (snd x) st))"

lemma exchanges_consumed:
  assumes "auth_inv st" and "consumed key t (in_device_token_replay st)"
    and "\<forall>x\<in>set xs. xe_begin (fst x) < t \<and> xe_consume (fst x) < t"
  shows "auth_inv (fold exchange xs st) \<and> consumed key t (in_device_token_replay (fold exchange xs st))"
  using assms
proof (induction xs arbitrary: st)
  case (Cons x xs)
  then show ?case
    using complete_inv [OF Cons.prems(1)] complete_consumed(1) [OF Cons.prems(1,2)]
    by (simp add: exchange_def)
qed simp

text \<open>
  C20: a device token buys one session. Once a token was exchanged, presenting it again within the hour
  is refused before anything is sent to GitHub, whatever other exchanges took place in between.
\<close>

theorem device_token_single_use:
  assumes "auth_inv st" and "complete_github_device_oauth env token st = (Ok grant, st', requests)"
    and "t = xe_consume env + int DEVICE_TOKEN_REPLAY_TTL"
    and "\<forall>x\<in>set xs. xe_begin (fst x) < t \<and> xe_consume (fst x) < t"
    and "xe_sha256 env' token' = xe_sha256 env token" and "xe_begin env' < t" and "xe_consume env' < t"
  shows "\<exists>e st''. complete_github_device_oauth env' token' (fold exchange xs st') = (Err e, st'', [])"
proof -
  have st': "auth_inv st'" using complete_inv [OF assms(1), of env token] assms(2) by simp
  have cons: "consumed (xe_sha256 env token) t (in_device_token_replay st')"
    using complete_Ok_state [OF assms(1,2)] assms(3) by blast
  let ?st = "fold exchange xs st'"
  note * = exchanges_consumed [OF st' cons assms(4)]
  show ?thesis
  proof (cases "token' \<noteq> [] \<and> length token' \<le> MAX_BEARER_TOKEN_BYTES \<and> \<not> mx_poisoned (in_device_token_replay ?st)")
    case True
    then show ?thesis
      using complete_consumed(2) [OF conjunct1 [OF *] conjunct2 [OF *] assms(6,7)] assms(5)
      by (metis prod.exhaust_sel)
  next
    case False
    then show ?thesis
      by (auto simp: complete_github_device_oauth_def begin_device_token_use_def Let_def)
  qed
qed


lemma authenticate_meaning:
  assumes "auth_inv st" and "authenticate sha256 env headers st = (Ok p, st')"
  shows "auth_inv st' \<and>
    (\<exists>i\<in>set (in_identities st). ic_id i = pr_identity_id p \<and>
      (case pr_source p of
         GithubAccount a \<Rightarrow>
           matches_github_account_identity i (acc_user_id a) (acc_login a)
           \<and> (\<exists>token session. bearer_token headers = Ok token
                \<and> hm_get (in_oauth_sessions st) (sha256 token) = Some session
                \<and> ae_now env < se_expires_at session \<and> p = session_principal (in_github st) session)
       | GithubActions a \<Rightarrow>
           (\<exists>token jwk key claims jti seen. bearer_token headers = Ok token \<and> usable_jwk jwk
              \<and> jl_from_rsa_components (ae_jwt env) (jk_n jwk) (jk_e jwk) = Some key
              \<and> jl_decode (ae_jwt env) (ae_decode_unix env) (actions_validation (in_actions st)) key token
                  = Some claims
              \<and> filter (\<lambda>i. matches_github_actions_identity i claims) (in_identities st) = [i]
              \<and> record_jti (ae_now env) (ae_unix env) jti (cl_exp claims) (in_seen_jtis st) = (Ok (), seen)
              \<and> p = actions_principal i claims jti)))"
proof -
  obtain token where token: "bearer_token headers = Ok token"
    using assms(2) by (cases "bearer_token headers") (auto simp: authenticate_def)
  have inv: "auth_inv st'" using authenticate_inv [OF assms] by blast
  show ?thesis
  proof (cases "is_github_actions_jwt (jl_decode_header (ae_jwt env)) token")
    case False
    then obtain session where session: "hm_get (in_oauth_sessions st) (sha256 token) = Some session"
      "ae_now env < se_expires_at session" "p = session_principal (in_github st) session"
      using assms(2) token by (auto simp: authenticate_def authenticate_session_Ok)
    then obtain i where i: "i \<in> set (in_identities st)" "ic_id i = se_identity_id session"
      "matches_github_account_identity i (se_user_id session) (se_login session)"
      using assms(1) by (auto simp: auth_inv_def sessions_inv_def session_ok_def)
    then show ?thesis
      using inv session token by (intro conjI bexI [of _ i]) (auto simp: session_principal_def)
  next
    case True
    then have "authenticate_github_actions env token st = (Ok p, st')"
      using assms(2) token by (simp add: authenticate_def)
    then show ?thesis
    proof (cases rule: authenticate_actions_cases)
      case (3 kid jwk jwks attempts claims jti identity recorded seen)
      have ver: "\<exists>key. jl_from_rsa_components (ae_jwt env) (jk_n jwk) (jk_e jwk) = Some key
          \<and> jl_decode (ae_jwt env) (ae_decode_unix env) (actions_validation (in_actions st)) key token = Some claims"
        "filter (\<lambda>i. matches_github_actions_identity i claims) (in_identities st) = [identity]"
        using verify_actions_token_Ok [OF 3(2)] by (simp_all add: resolve_github_actions_identity_Ok)
      have "identity \<in> set (in_identities st)"
        using ver(2) filter_is_subset [of "\<lambda>i. matches_github_actions_identity i claims" "in_identities st"]
        by simp
      moreover have "usable_jwk jwk"
        using jwk_for_usable [OF _ 3(1)] assms(1) by (simp add: auth_inv_def)
      moreover have "recorded = Ok ()" "p = actions_principal identity claims jti"
        using 3(4) by (cases recorded; simp)+
      ultimately show ?thesis
        using inv ver 3(3) token by (intro conjI bexI [of _ identity]) (auto simp: actions_principal_def)
    qed simp_all
  qed
qed


section \<open>A concrete device flow\<close>

definition demo_user :: github_user_response where
  "demo_user = \<lparr>gu_login = ''maintainer-login'', gu_id = 24681012, gu_two_factor_authentication = Some True\<rparr>"

definition demo_api :: github_api where
  "demo_api =
     \<lparr>api_http = (\<lambda>rq. Some \<lparr>hs_status = (if hq_method rq = HttpDelete then 204 else 200), hs_body = []\<rparr>),
      api_parse_check = (\<lambda>body. Some \<lparr>tc_scopes = [''read:user''], tc_client_id = ''Ov23liEXAMPLE''\<rparr>),
      api_parse_user = (\<lambda>body. Some demo_user)\<rparr>"

definition demo_inner :: "string inner" where
  "demo_inner =
     \<lparr>in_github = cfg_github example_config, in_github_oauth_client_secret = ''secret'',
      in_actions = cfg_github_actions example_config, in_identities = cfg_identities example_config,
      in_jwks = jwks_cache_default,
      in_device_token_replay = mutex_new \<lparr>dr_in_flight = [], dr_used = hm_new\<rparr>,
      in_oauth_sessions = hm_new, in_seen_jtis = mutex_new hm_new\<rparr>"

definition demo_exchange :: "string exchange_env" where
  "demo_exchange = \<lparr>xe_sha256 = (\<lambda>s. s), xe_api = demo_api, xe_begin = 1, xe_consume = 2, xe_mint = 3,
     xe_token = session_token (\<lambda>b. b) ''random''\<rparr>"

lemma demo_inner_inv: "auth_inv demo_inner"
  by (simp add: demo_inner_def auth_inv_def replay_inv_def sessions_inv_def mutex_new_def hm_len_def
      hm_new_def jti_cache_inv_def hm_get_def hm_wf_def)

lemma demo_user_id: "u64_to_string 24681012 = ''24681012''"
proof -
  have "decimal 24681012 = ''24681012''" by (simp add: decimal.simps, code_simp)
  then show ?thesis by (simp add: u64_to_string_def)
qed

lemma demo_identity:
  "find (\<lambda>i. matches_github_account_identity i ''24681012'' ''maintainer-login'')
     (cfg_identities example_config) = Some maintainer"
  by code_simp

lemma demo_account:
  "github_account_from_token demo_api demo_inner token [''read:user''] = Ok (''firmware-maintainer'', demo_user)"
proof -
  have "resolve_github_user demo_api demo_inner token = Ok demo_user"
    by (simp add: resolve_github_user_def demo_api_def user_request_def is_success_def)
  then show ?thesis
    using demo_identity
    by (simp add: github_account_from_token_def scope_grants_read_user_def OAUTH_SCOPE_def demo_inner_def
        demo_user_def demo_user_id maintainer_def)
qed

lemma demo_exchange_granted:
  "\<exists>grant st' requests. complete_github_device_oauth demo_exchange ''gho'' demo_inner = (Ok grant, st', requests)"
proof -
  have check: "check_github_oauth_token demo_api demo_inner token = Ok [''read:user'']" for token
    by (simp add: check_github_oauth_token_def demo_api_def check_request_def is_success_def demo_inner_def
        example_config_def)
  have revoke: "revoke_github_token demo_api demo_inner token = Ok ()" for token
    by (simp add: revoke_github_token_def demo_api_def revoke_request_def check_request_def)
  have ttl: "instant_add 2 DEVICE_TOKEN_REPLAY_TTL \<noteq> None"
    by (simp add: instant_add_def DEVICE_TOKEN_REPLAY_TTL_def from_secs_def NANOS_def INSTANT_LIMIT_def)
  have life: "instant_add 3 (from_secs (gh_oauth_session_ttl_seconds (cfg_github example_config))) \<noteq> None"
    by (simp add: instant_add_def example_config_def default_oauth_session_ttl_seconds_def from_secs_def
        NANOS_def INSTANT_LIMIT_def)
  have beg: "begin_device_token_use (\<lambda>s. s) 1 ''gho'' (in_device_token_replay demo_inner)
      = (Ok ''gho'', mutex_new \<lparr>dr_in_flight = [''gho''], dr_used = hm_new\<rparr>)"
    by (simp add: begin_device_token_use_def demo_inner_def mutex_new_def hm_retain_def hm_new_def
        hm_contains_key_def hm_get_def Let_def)
  obtain replay where mark: "mark_consumed 2 ''gho'' (mutex_new \<lparr>dr_in_flight = [''gho''], dr_used = hm_new\<rparr>)
      = (Ok (), replay)"
    using ttl by (auto simp: mark_consumed_def mutex_new_def hm_retain_def hm_new_def hm_len_def
        MAX_USED_DEVICE_TOKENS_def)
  obtain grant st' where "mint_github_account_session (\<lambda>s. s) 3 (session_token (\<lambda>b. b) ''random'')
      ''firmware-maintainer'' demo_user (with_replay replay demo_inner) = (Ok grant, st')"
    using life by (auto simp: mint_github_account_session_def demo_inner_def with_replay_def hm_retain_def
        hm_new_def hm_len_def MAX_OAUTH_SESSIONS_def)
  then show ?thesis
    using beg mark
    by (auto simp: complete_github_device_oauth_def demo_exchange_def MAX_BEARER_TOKEN_BYTES_def Let_def check
        revoke finish_device_oauth_def demo_account split: prod.splits)
qed


theorem device_token_single_use_witness:
  "\<exists>st' e st''. st' = exchange (demo_exchange, ''gho'') demo_inner
     \<and> complete_github_device_oauth demo_exchange ''gho'' st' = (Err e, st'', [])"
proof -
  obtain grant st' requests where
    g: "complete_github_device_oauth demo_exchange ''gho'' demo_inner = (Ok grant, st', requests)"
    using demo_exchange_granted by blast
  have "\<exists>e st''. complete_github_device_oauth demo_exchange ''gho'' (fold exchange [] st') = (Err e, st'', [])"
    by (rule device_token_single_use [OF demo_inner_inv g refl])
      (simp_all add: demo_exchange_def DEVICE_TOKEN_REPLAY_TTL_def from_secs_def NANOS_def)
  then show ?thesis using g by (auto simp: exchange_def)
qed


definition demo_actions_env :: "unit actions_env" where
  "demo_actions_env =
     \<lparr>ae_jwt = \<lparr>jl_decode_header = (\<lambda>token. None), jl_from_rsa_components = (\<lambda>n e. None),
               jl_decode = (\<lambda>t v k token. None)\<rparr>,
      ae_clock = demo_clock, ae_parse_jwks = demo_parse_jwks, ae_jwks_reply = demo_reply,
      ae_decode_unix = 1, ae_now = 4, ae_unix = 1\<rparr>"

definition demo_session :: github_account_session where
  "demo_session = \<lparr>se_expires_at = 5, se_identity_id = ''firmware-maintainer'', se_user_id = ''24681012'',
     se_login = ''maintainer-login''\<rparr>"

definition demo_session_inner :: "string inner" where
  "demo_session_inner = demo_inner\<lparr>in_oauth_sessions := [(''mts_random'', demo_session)]\<rparr>"

definition demo_headers :: header_map where
  "demo_headers = \<lparr>authorization = Some (Visible ''Bearer mts_random''), content_type = None\<rparr>"

lemma demo_session_inner_inv: "auth_inv demo_session_inner"
proof -
  have "session_ok (cfg_identities example_config) demo_session"
    by (auto simp: session_ok_def example_config_def maintainer_def demo_session_def
        matches_github_account_identity_def)
  then show ?thesis
    using demo_inner_inv
    by (auto simp: auth_inv_def demo_session_inner_def sessions_inv_def hm_wf_def hm_len_def hm_get_def
        MAX_OAUTH_SESSIONS_def demo_inner_def)
qed

lemma demo_authenticated:
  "authenticate (\<lambda>s. s) demo_actions_env demo_headers demo_session_inner
     = (Ok (session_principal (in_github demo_session_inner) demo_session), demo_session_inner)"
proof -
  have "has_whitespace ''mts_random'' = False" by code_simp
  moreover have "eq_ignore_ascii_case ''Bearer'' ''bearer''" by code_simp
  ultimately have "bearer_token demo_headers = Ok ''mts_random''"
    by (simp add: bearer_token_def demo_headers_def MAX_BEARER_TOKEN_BYTES_def)
  moreover have "starts_with SESSION_TOKEN_PREFIX ''mts_random''"
    by (simp add: starts_with_def SESSION_TOKEN_PREFIX_def)
  ultimately show ?thesis
    by (simp add: authenticate_def is_github_actions_jwt_def demo_actions_env_def
        authenticate_github_account_session_def demo_session_inner_def hm_get_def demo_session_def)
qed


end
