(* ===== verification/Key_Store.thy ===== *)
theory Key_Store
  imports Key_Material
begin

text \<open>
  All signing keys of the service (\<^verbatim>\<open>KeyStore\<close> of \<^verbatim>\<open>src/key.rs\<close>): construction from the loaded
  keys and the configured keyrings, lookup, and the all-or-nothing keyring unlock.

  The store is a list of keys with three \<^verbatim>\<open>HashMap\<close> indexes. An index outside the list would make
  the code panic; \<open>store_wf\<close> is the invariant that excludes it.
\<close>

section \<open>Data\<close>

record 'sk key_store =
  ks_keys :: "'sk key_material list"
  ks_index :: "(string, nat) hmap"
  ks_keyrings :: "(string, nat list) hmap"
  ks_keyring_by_key :: "(string, string) hmap"

datatype keyring_member_result = MemberUnlocked | MemberAlreadyUnlocked | MemberSkippedInactive

fun keyring_member_result_as_str :: "keyring_member_result \<Rightarrow> string" where
  "keyring_member_result_as_str MemberUnlocked = ''unlocked''"
| "keyring_member_result_as_str MemberAlreadyUnlocked = ''already-unlocked''"
| "keyring_member_result_as_str MemberSkippedInactive = ''skipped-inactive''"

record keyring_member_outcome =
  mo_key_id :: string
  mo_result :: keyring_member_result

datatype keyring_unlock_error =
    UnknownKeyring
  | NoActiveKeys
  | KeyringInvalidPassphrase
  | PassphraseMismatch "string list" "string list"
  | KeyringLockPoisoned

datatype key_store_error =
    KeyLoad string key_load_error
  | NoSigningKey
  | DuplicateSigningKeyId string
  | KeyringHasNoKey string
  | KeyringReferencesUnknownKey string string
  | KeyInMultipleKeyrings string string string
  | DuplicateKeyring string

section \<open>Construction\<close>

definition index_key ::
  "nat \<times> 'sk key_material \<Rightarrow> (string, nat) hmap \<Rightarrow> (key_store_error, (string, nat) hmap) outcome" where
  "index_key pk index =
     (if hm_contains_key index (km_id (snd pk)) then Err (DuplicateSigningKeyId (km_id (snd pk)))
      else Ok (hm_insert (km_id (snd pk)) (fst pk) index))"

definition index_member ::
  "(string, nat) hmap \<Rightarrow> string \<Rightarrow> string \<Rightarrow> nat list \<times> (string, string) hmap
   \<Rightarrow> (key_store_error, nat list \<times> (string, string) hmap) outcome" where
  "index_member index ring_id key_id st =
     (case hm_get index key_id of
        None \<Rightarrow> Err (KeyringReferencesUnknownKey ring_id key_id)
      | Some position \<Rightarrow>
          (case hm_get (snd st) key_id of
             Some previous \<Rightarrow> Err (KeyInMultipleKeyrings key_id previous ring_id)
           | None \<Rightarrow> Ok (fst st @ [position], hm_insert key_id ring_id (snd st))))"

definition index_keyring ::
  "(string, nat) hmap \<Rightarrow> keyring_config \<Rightarrow> (string, nat list) hmap \<times> (string, string) hmap
   \<Rightarrow> (key_store_error, (string, nat list) hmap \<times> (string, string) hmap) outcome" where
  "index_keyring index ring st =
     (if kr_keys ring = [] then Err (KeyringHasNoKey (kr_id ring)) else
      and_then (for_each (index_member index (kr_id ring)) (kr_keys ring) ([], snd st)) (\<lambda>(members, by_key).
      if hm_contains_key (fst st) (kr_id ring) then Err (DuplicateKeyring (kr_id ring))
      else Ok (hm_insert (kr_id ring) members (fst st), by_key)))"

definition from_keys ::
  "'sk key_material list \<Rightarrow> keyring_config list \<Rightarrow> (key_store_error, 'sk key_store) outcome" where
  "from_keys keys keyrings =
     (if keys = [] then Err NoSigningKey else
      and_then (for_each index_key (enumerate 0 keys) hm_new) (\<lambda>index.
      and_then (for_each (index_keyring index) keyrings (hm_new, hm_new)) (\<lambda>(rings, by_key).
      Ok \<lparr>ks_keys = keys, ks_index = index, ks_keyrings = rings, ks_keyring_by_key = by_key\<rparr>)))"

definition key_store_load ::
  "file_system \<Rightarrow> u32 \<Rightarrow> (string \<Rightarrow> (string \<times> string) option)
   \<Rightarrow> (string \<Rightarrow> encryption_scheme option) \<Rightarrow> key_config list \<Rightarrow> keyring_config list
   \<Rightarrow> (key_store_error, 'sk key_store) outcome" where
  "key_store_load open_no_follow euid from_pem parse_epki configs keyrings =
     and_then
       (for_each (\<lambda>config loaded.
            and_then (map_err (KeyLoad (kc_id config))
                       (key_material_load open_no_follow euid from_pem parse_epki config))
              (\<lambda>k. Ok (loaded @ [k]))) configs [])
       (\<lambda>keys. from_keys keys keyrings)"

section \<open>Lookup\<close>

definition key_at :: "'sk key_store \<Rightarrow> nat \<Rightarrow> ('e, 'sk key_material) outcome" where
  \<comment> \<open>\<^verbatim>\<open>&self.keys[position]\<close>\<close>
  "key_at store position =
     (if position < length (ks_keys store) then Ok (ks_keys store ! position) else Panic)"

definition ks_get :: "'sk key_store \<Rightarrow> string \<Rightarrow> ('e, 'sk key_material option) outcome" where
  "ks_get store key_id =
     (case hm_get (ks_index store) key_id of
        None \<Rightarrow> Ok None
      | Some position \<Rightarrow> and_then (key_at store position) (\<lambda>k. Ok (Some k)))"

definition ks_len :: "'sk key_store \<Rightarrow> nat" where
  "ks_len store = length (ks_keys store)"

definition keyring_positions :: "'sk key_store \<Rightarrow> string \<Rightarrow> nat list" where
  "keyring_positions store name =
     (case hm_get (ks_keyrings store) name of None \<Rightarrow> [] | Some members \<Rightarrow> members)"

fun keys_at :: "'sk key_store \<Rightarrow> nat list \<Rightarrow> ('e, (nat \<times> 'sk key_material) list) outcome" where
  "keys_at store [] = Ok []"
| "keys_at store (p # ps) =
     and_then (key_at store p) (\<lambda>k. and_then (keys_at store ps) (\<lambda>ks. Ok ((p, k) # ks)))"

definition keyring_members ::
  "'sk key_store \<Rightarrow> string \<Rightarrow> ('e, (nat \<times> 'sk key_material) list) outcome" where
  "keyring_members store name = keys_at store (keyring_positions store name)"

definition has_keyring :: "'sk key_store \<Rightarrow> string \<Rightarrow> bool" where
  "has_keyring store name = hm_contains_key (ks_keyrings store) name"

definition keyring_for_key :: "'sk key_store \<Rightarrow> string \<Rightarrow> string option" where
  "keyring_for_key store key_id = hm_get (ks_keyring_by_key store) key_id"

section \<open>Unlocking a keyring\<close>

text \<open>What the decryption loop accumulates; \<open>rs_decrypted\<close> names a key by its position.\<close>

record 'sk ring_scan =
  rs_outcomes :: "keyring_member_outcome list"
  rs_decrypted :: "(nat \<times> 'sk unlocked_key_material) list"
  rs_opened :: "string list"
  rs_failed :: "string list"

definition scan_member ::
  "'sk crypto \<Rightarrow> string \<Rightarrow> nat \<times> 'sk key_material \<Rightarrow> 'sk ring_scan \<Rightarrow> 'sk ring_scan" where
  "scan_member cr passphrase pk rs =
     (let key = snd pk;
          add = (\<lambda>result rs. rs\<lparr>rs_outcomes :=
                   rs_outcomes rs @ [\<lparr>mo_key_id = km_id key, mo_result = result\<rparr>]\<rparr>) in
      if km_state key \<noteq> Active then add MemberSkippedInactive rs
      else if is_unlocked key then add MemberAlreadyUnlocked rs
      else (case decrypt cr key passphrase of
              Ok material \<Rightarrow>
                add MemberUnlocked (rs\<lparr>rs_opened := rs_opened rs @ [km_id key],
                                       rs_decrypted := rs_decrypted rs @ [(fst pk, material)]\<rparr>)
            | _ \<Rightarrow> add MemberUnlocked (rs\<lparr>rs_failed := rs_failed rs @ [km_id key]\<rparr>)))"

definition scan_keyring ::
  "'sk crypto \<Rightarrow> 'sk key_store \<Rightarrow> string \<Rightarrow> string
   \<Rightarrow> (keyring_unlock_error, 'sk ring_scan) outcome" where
  "scan_keyring cr store name passphrase =
     and_then (keyring_members store name) (\<lambda>members.
     if members = [] then Err UnknownKeyring else
     if list_all (\<lambda>pk. km_state (snd pk) \<noteq> Active) members then Err NoActiveKeys else
     let rs = fold (scan_member cr passphrase) members
                \<lparr>rs_outcomes = [], rs_decrypted = [], rs_opened = [], rs_failed = []\<rparr> in
     if rs_failed rs \<noteq> []
     then Err (if rs_opened rs = [] then KeyringInvalidPassphrase
               else PassphraseMismatch (rs_opened rs) (rs_failed rs))
     else Ok rs)"

text \<open>
  Taking the write locks. A poisoned lock ends the operation; taking the same lock twice on one
  thread is not allowed (the standard library may panic or deadlock there).
\<close>

definition take_guards ::
  "'sk key_store \<Rightarrow> (nat \<times> 'sk unlocked_key_material) list \<Rightarrow> (keyring_unlock_error, unit) outcome" where
  "take_guards store decrypted =
     and_then (for_each (\<lambda>(p, m) held.
         and_then (key_at store p) (\<lambda>k.
           if p \<in> set held then Panic
           else if km_poisoned k then Err KeyringLockPoisoned
           else Ok (p # held))) decrypted []) (\<lambda>_. Ok ())"

fun mark_already_unlocked ::
  "string \<Rightarrow> keyring_member_outcome list \<Rightarrow> keyring_member_outcome list" where
  "mark_already_unlocked key_id [] = []"
| "mark_already_unlocked key_id (o' # os) =
     (if mo_key_id o' = key_id then o'\<lparr>mo_result := MemberAlreadyUnlocked\<rparr> # os
      else o' # mark_already_unlocked key_id os)"

definition install_member ::
  "nat \<times> 'sk unlocked_key_material
   \<Rightarrow> keyring_member_outcome list \<times> 'sk key_store \<Rightarrow> keyring_member_outcome list \<times> 'sk key_store" where
  "install_member pm st =
     (let k = ks_keys (snd st) ! fst pm in
      if km_unlocked k \<noteq> None then (mark_already_unlocked (km_id k) (fst st), snd st)
      else (fst st,
            (snd st)\<lparr>ks_keys := (ks_keys (snd st))[fst pm := k\<lparr>km_unlocked := Some (snd pm)\<rparr>]\<rparr>))"

definition install_keyring ::
  "'sk key_store \<Rightarrow> 'sk ring_scan
   \<Rightarrow> (keyring_unlock_error, keyring_member_outcome list) outcome \<times> 'sk key_store" where
  "install_keyring store rs =
     (case take_guards store (rs_decrypted rs) of
        Err e \<Rightarrow> (Err e, store)
      | Panic \<Rightarrow> (Panic, store)
      | Ok _ \<Rightarrow>
          let st = fold install_member (rs_decrypted rs) (rs_outcomes rs, store)
          in (Ok (fst st), snd st))"

text \<open>
  The whole operation when no other task touches the keys in between; the scan and the
  installation are also used as separate steps where other tasks interleave.
\<close>

definition unlock_keyring ::
  "'sk crypto \<Rightarrow> 'sk key_store \<Rightarrow> string \<Rightarrow> string
   \<Rightarrow> (keyring_unlock_error, keyring_member_outcome list) outcome \<times> 'sk key_store" where
  "unlock_keyring cr store name passphrase =
     (case scan_keyring cr store name passphrase of
        Err e \<Rightarrow> (Err e, store)
      | Panic \<Rightarrow> (Panic, store)
      | Ok rs \<Rightarrow> install_keyring store rs)"

section \<open>Well-formed stores\<close>

definition store_wf :: "'sk key_store \<Rightarrow> bool" where
  "store_wf store \<longleftrightarrow>
     ks_keys store \<noteq> [] \<and> distinct (map km_id (ks_keys store))
     \<and> (\<forall>id p. hm_get (ks_index store) id = Some p \<longleftrightarrow>
          p < length (ks_keys store) \<and> km_id (ks_keys store ! p) = id)
     \<and> (\<forall>name ps. hm_get (ks_keyrings store) name = Some ps \<longrightarrow>
          ps \<noteq> [] \<and> distinct ps \<and> (\<forall>p\<in>set ps. p < length (ks_keys store)))
     \<and> (\<forall>name ps name' ps'. hm_get (ks_keyrings store) name = Some ps
          \<longrightarrow> hm_get (ks_keyrings store) name' = Some ps' \<longrightarrow> name \<noteq> name'
          \<longrightarrow> set ps \<inter> set ps' = {})
     \<and> (\<forall>id name. hm_get (ks_keyring_by_key store) id = Some name \<longleftrightarrow>
          (\<exists>ps p. hm_get (ks_keyrings store) name = Some ps \<and> p \<in> set ps
             \<and> km_id (ks_keys store ! p) = id))"

definition store_inv :: "'sk crypto \<Rightarrow> 'sk key_store \<Rightarrow> bool" where
  "store_inv cr store \<longleftrightarrow> store_wf store \<and> (\<forall>k\<in>set (ks_keys store). key_inv cr k)"

end
