(* ===== verification/Key_Store_Facts.thy ===== *)
theory Key_Store_Facts
  imports Key_Store Config_Spec
begin

text \<open>
  Correctness of the key store: construction (\<open>from_keys\<close> succeeds exactly on unambiguous input
  and builds a well-formed store), lookup (never out of range) and the keyring unlock.
\<close>

section \<open>Construction\<close>

lemma index_key_Ok:
  "index_key (p, k) index = Ok index' \<longleftrightarrow>
     hm_get index (km_id k) = None \<and> index' = hm_insert (km_id k) p index"
  by (auto simp: index_key_def hm_contains_key_def)

lemma if_Some_eq_None: "(if b then Some v else x) = None \<longleftrightarrow> \<not> b \<and> x = None"
  by simp

lemma index_loop:
  "for_each index_key (enumerate n keys) index = Ok index' \<longleftrightarrow>
     distinct (map km_id keys) \<and> (\<forall>k\<in>set keys. hm_get index (km_id k) = None)
     \<and> index' = hm_insert_all (map (\<lambda>(p, k). (km_id k, p)) (enumerate n keys)) index"
proof (induction keys arbitrary: n index)
  case Nil
  then show ?case by auto
next
  case (Cons k keys)
  have "for_each index_key (enumerate n (k # keys)) index = Ok index' \<longleftrightarrow>
      hm_get index (km_id k) = None
      \<and> for_each index_key (enumerate (Suc n) keys) (hm_insert (km_id k) n index) = Ok index'"
    by (auto simp: index_key_Ok)
  then show ?case by (auto simp: Cons.IH if_Some_eq_None image_iff)
qed

lemma index_member_Ok:
  "index_member index r k (ps, bk) = Ok st' \<longleftrightarrow>
     (\<exists>p. hm_get index k = Some p \<and> hm_get bk k = None \<and> st' = (ps @ [p], hm_insert k r bk))"
  by (auto simp: index_member_def split: option.splits)

lemma member_loop:
  "for_each (index_member index r) ks (ps, bk) = Ok st' \<longleftrightarrow>
     (\<forall>k\<in>set ks. hm_get index k \<noteq> None) \<and> distinct ks \<and> (\<forall>k\<in>set ks. hm_get bk k = None)
     \<and> st' = (ps @ map (\<lambda>k. the (hm_get index k)) ks, hm_insert_all (map (\<lambda>k. (k, r)) ks) bk)"
proof (induction ks arbitrary: ps bk)
  case Nil
  then show ?case by auto
next
  case (Cons k ks)
  have "for_each (index_member index r) (k # ks) (ps, bk) = Ok st' \<longleftrightarrow>
      (\<exists>p. hm_get index k = Some p \<and> hm_get bk k = None
        \<and> for_each (index_member index r) ks (ps @ [p], hm_insert k r bk) = Ok st')"
    by (auto simp: index_member_Ok)
  then show ?case by (auto simp: Cons.IH if_Some_eq_None)
qed

definition ring_entry :: "(string, nat) hmap \<Rightarrow> keyring_config \<Rightarrow> string \<times> nat list" where
  "ring_entry index r = (kr_id r, map (\<lambda>k. the (hm_get index k)) (kr_keys r))"

definition member_entries :: "keyring_config \<Rightarrow> (string \<times> string) list" where
  "member_entries r = map (\<lambda>k. (k, kr_id r)) (kr_keys r)"

lemma index_keyring_Ok:
  "index_keyring index r (rm, bk) = Ok st' \<longleftrightarrow>
     kr_keys r \<noteq> [] \<and> (\<forall>k\<in>set (kr_keys r). hm_get index k \<noteq> None) \<and> distinct (kr_keys r)
     \<and> (\<forall>k\<in>set (kr_keys r). hm_get bk k = None) \<and> hm_get rm (kr_id r) = None
     \<and> st' = (hm_insert_all [ring_entry index r] rm, hm_insert_all (member_entries r) bk)"
  by (auto simp: index_keyring_def member_loop ring_entry_def member_entries_def hm_contains_key_def
      split: prod.splits)

lemma keyring_loop:
  "for_each (index_keyring index) rings (rm, bk) = Ok st' \<longleftrightarrow>
     distinct (map kr_id rings) \<and> (\<forall>r\<in>set rings. hm_get rm (kr_id r) = None)
     \<and> (\<forall>r\<in>set rings. kr_keys r \<noteq> [] \<and> (\<forall>k\<in>set (kr_keys r). hm_get index k \<noteq> None))
     \<and> distinct (concat (map kr_keys rings))
     \<and> (\<forall>k\<in>set (concat (map kr_keys rings)). hm_get bk k = None)
     \<and> st' = (hm_insert_all (map (ring_entry index) rings) rm,
             hm_insert_all (concat (map member_entries rings)) bk)"
proof (induction rings arbitrary: rm bk)
  case Nil
  then show ?case by auto
next
  case (Cons r rings)
  have keys: "fst ` set (member_entries r) = set (kr_keys r)"
    by (simp add: member_entries_def image_image)
  let ?rm = "hm_insert_all [ring_entry index r] rm" and ?bk = "hm_insert_all (member_entries r) bk"
  let ?K = "set (concat (map kr_keys rings))"
  have step: "for_each (index_keyring index) (r # rings) (rm, bk) = Ok st' \<longleftrightarrow>
      kr_keys r \<noteq> [] \<and> (\<forall>k\<in>set (kr_keys r). hm_get index k \<noteq> None) \<and> distinct (kr_keys r)
      \<and> (\<forall>k\<in>set (kr_keys r). hm_get bk k = None) \<and> hm_get rm (kr_id r) = None
      \<and> for_each (index_keyring index) rings (?rm, ?bk) = Ok st'"
    by (auto simp: index_keyring_Ok)
  have rm: "(\<forall>r'\<in>set rings. hm_get ?rm (kr_id r') = None) \<longleftrightarrow>
      kr_id r \<notin> set (map kr_id rings) \<and> (\<forall>r'\<in>set rings. hm_get rm (kr_id r') = None)"
    by (auto simp: ring_entry_def if_Some_eq_None image_iff)
  have bk: "(\<forall>k\<in>?K. hm_get ?bk k = None) \<longleftrightarrow>
      set (kr_keys r) \<inter> ?K = {} \<and> (\<forall>k\<in>?K. hm_get bk k = None)"
    unfolding hm_insert_all_none keys by blast
  have maps: "hm_insert_all (map (ring_entry index) (r # rings)) rm
        = hm_insert_all (map (ring_entry index) rings) ?rm"
      "hm_insert_all (concat (map member_entries (r # rings))) bk
        = hm_insert_all (concat (map member_entries rings)) ?bk"
    by (cases "ring_entry index r") simp_all
  have split: "(\<forall>k\<in>set (concat (map kr_keys (r # rings))). hm_get bk k = None) \<longleftrightarrow>
      (\<forall>k\<in>set (kr_keys r). hm_get bk k = None) \<and> (\<forall>k\<in>?K. hm_get bk k = None)"
    by auto
  show ?case
    unfolding step Cons.IH rm bk maps split
    by (simp del: UN_simps set_concat set_map) blast
qed

definition keyrings_consistent :: "string set \<Rightarrow> keyring_config list \<Rightarrow> bool" where
  "keyrings_consistent ids rings \<longleftrightarrow>
     distinct (map kr_id rings) \<and> distinct (concat (map kr_keys rings))
     \<and> (\<forall>r\<in>set rings. kr_keys r \<noteq> [] \<and> set (kr_keys r) \<subseteq> ids)"

definition key_index :: "'sk key_material list \<Rightarrow> (string, nat) hmap" where
  "key_index keys = hm_insert_all (map (\<lambda>(p, k). (km_id k, p)) (enumerate 0 keys)) hm_new"

definition key_entries :: "'sk key_material list \<Rightarrow> (string \<times> nat) list" where
  "key_entries keys = map (\<lambda>(p, k). (km_id k, p)) (enumerate 0 keys)"

lemma key_entries_fst: "map fst (key_entries keys) = map km_id keys"
  by (rule nth_equalityI) (auto simp: key_entries_def nth_enumerate_eq)

lemma key_entries_mem:
  "(i, p) \<in> set (key_entries keys) \<longleftrightarrow> p < length keys \<and> km_id (keys ! p) = i"
proof -
  have "key_entries keys = map (\<lambda>p. (km_id (keys ! p), p)) [0..<length keys]"
    by (rule nth_equalityI) (auto simp: key_entries_def nth_enumerate_eq)
  then show ?thesis by auto
qed

lemma key_index_entries: "key_index keys = hm_insert_all (key_entries keys) hm_new"
  by (simp add: key_index_def key_entries_def)

lemma key_index_get:
  assumes "distinct (map km_id keys)"
  shows "hm_get (key_index keys) i = Some p \<longleftrightarrow> p < length keys \<and> km_id (keys ! p) = i"
  using hm_insert_all_get [of "key_entries keys" hm_new i p] assms
  by (simp add: key_index_entries key_entries_fst key_entries_mem)

lemma key_index_dom: "hm_get (key_index keys) i \<noteq> None \<longleftrightarrow> i \<in> km_id ` set keys"
proof -
  have "fst ` set (key_entries keys) = km_id ` set keys"
    using key_entries_fst [of keys] by (metis list.set_map)
  then show ?thesis by (simp add: key_index_entries hm_insert_all_none)
qed

lemma from_keys_Ok:
  "from_keys keys rings = Ok store \<longleftrightarrow>
     keys \<noteq> [] \<and> distinct (map km_id keys) \<and> keyrings_consistent (km_id ` set keys) rings
     \<and> store = \<lparr>ks_keys = keys, ks_index = key_index keys,
               ks_keyrings = hm_insert_all (map (ring_entry (key_index keys)) rings) hm_new,
               ks_keyring_by_key = hm_insert_all (concat (map member_entries rings)) hm_new\<rparr>"
  using key_index_dom [of keys]
  by (auto simp: from_keys_def index_loop keyring_loop keyrings_consistent_def key_index_def
      split: prod.splits)

lemma keyrings_ok_consistent: "keyrings_ok ids rings \<Longrightarrow> keyrings_consistent ids rings"
  by (simp add: keyrings_ok_def keyrings_consistent_def)

subsection \<open>The store that is built\<close>

lemma position_of_key:
  assumes "distinct (map km_id keys)" and "i \<in> km_id ` set keys"
  shows "the (hm_get (key_index keys) i) < length keys"
    and "km_id (keys ! the (hm_get (key_index keys) i)) = i"
proof -
  obtain p where "hm_get (key_index keys) i = Some p"
    using assms(2) key_index_dom [of keys i] by auto
  moreover from this have "p < length keys \<and> km_id (keys ! p) = i"
    by (simp only: key_index_get [OF assms(1)])
  ultimately show "the (hm_get (key_index keys) i) < length keys"
    and "km_id (keys ! the (hm_get (key_index keys) i)) = i" by simp_all
qed

definition positions_of :: "'sk key_material list \<Rightarrow> string list \<Rightarrow> nat list" where
  "positions_of keys ids = map (\<lambda>i. the (hm_get (key_index keys) i)) ids"

lemma positions_of_ids:
  assumes "distinct (map km_id keys)" and "set ids \<subseteq> km_id ` set keys"
  shows "map (\<lambda>p. km_id (keys ! p)) (positions_of keys ids) = ids"
    and "p \<in> set (positions_of keys ids) \<Longrightarrow> p < length keys"
    and "distinct ids \<Longrightarrow> distinct (positions_of keys ids)"
proof -
  have pos: "the (hm_get (key_index keys) i) < length keys"
      "km_id (keys ! the (hm_get (key_index keys) i)) = i" if "i \<in> set ids" for i
    using that assms position_of_key [of keys i] by blast+
  show ids: "map (\<lambda>p. km_id (keys ! p)) (positions_of keys ids) = ids"
    using pos by (simp add: positions_of_def map_idI)
  show "p \<in> set (positions_of keys ids) \<Longrightarrow> p < length keys"
    using pos by (auto simp: positions_of_def)
  show "distinct ids \<Longrightarrow> distinct (positions_of keys ids)"
    using ids by (metis distinct_map)
qed

lemma positions_of_mem:
  assumes "distinct (map km_id keys)" and "set ids \<subseteq> km_id ` set keys"
    and "p \<in> set (positions_of keys ids)"
  shows "km_id (keys ! p) \<in> set ids"
proof -
  have "km_id (keys ! p) \<in> set (map (\<lambda>p. km_id (keys ! p)) (positions_of keys ids))"
    using assms(3) by simp
  then show ?thesis by (simp only: positions_of_ids(1) [OF assms(1,2)])
qed

lemma built_rings_get:
  assumes "distinct (map kr_id rings)"
  shows "hm_get (hm_insert_all (map (ring_entry (key_index keys)) rings) hm_new) name = Some ps \<longleftrightarrow>
    (\<exists>r\<in>set rings. kr_id r = name \<and> ps = positions_of keys (kr_keys r))"
proof -
  have "distinct (map fst (map (ring_entry (key_index keys)) rings))"
    using assms by (simp add: ring_entry_def comp_def)
  from hm_insert_all_get [OF this, of hm_new name ps]
  show ?thesis by (auto simp: ring_entry_def positions_of_def image_iff)
qed

lemma built_by_key_get:
  assumes "distinct (concat (map kr_keys rings))"
  shows "hm_get (hm_insert_all (concat (map member_entries rings)) hm_new) i = Some name \<longleftrightarrow>
    (\<exists>r\<in>set rings. kr_id r = name \<and> i \<in> set (kr_keys r))"
proof -
  have "distinct (map fst (concat (map member_entries rings)))"
    using assms by (simp add: map_concat member_entries_def comp_def)
  from hm_insert_all_get [OF this, of hm_new i name]
  show ?thesis by (auto simp: member_entries_def image_iff)
qed

lemma distinct_concat_unique:
  "distinct (concat (map f xs)) \<Longrightarrow> x \<in> set xs \<Longrightarrow> y \<in> set xs \<Longrightarrow> a \<in> set (f x) \<Longrightarrow> a \<in> set (f y) \<Longrightarrow> x = y"
  by (induction xs) auto

lemma from_keys_wf:
  assumes "from_keys keys rings = Ok store"
  shows "store_wf store"
proof -
  have ne: "keys \<noteq> []" and ids: "distinct (map km_id keys)"
    and rids: "distinct (map kr_id rings)" and mem: "distinct (concat (map kr_keys rings))"
    and ring: "\<And>r. r \<in> set rings \<Longrightarrow> kr_keys r \<noteq> [] \<and> set (kr_keys r) \<subseteq> km_id ` set keys"
    and sel: "ks_keys store = keys" "ks_index store = key_index keys"
      "ks_keyrings store = hm_insert_all (map (ring_entry (key_index keys)) rings) hm_new"
      "ks_keyring_by_key store = hm_insert_all (concat (map member_entries rings)) hm_new"
    using assms by (simp_all add: from_keys_Ok keyrings_consistent_def)
  have distinct_ring: "distinct (kr_keys r)" if "r \<in> set rings" for r
    using mem that by (auto simp: distinct_concat_iff)
  have pos: "p < length keys" "km_id (keys ! p) \<in> set (kr_keys r)"
    if "r \<in> set rings" "p \<in> set (positions_of keys (kr_keys r))" for r p
    using positions_of_ids(2) [OF ids] positions_of_mem [OF ids] ring that by blast+
  have onto: "\<exists>p\<in>set (positions_of keys (kr_keys r)). km_id (keys ! p) = i"
    if "r \<in> set rings" "i \<in> set (kr_keys r)" for r i
    using positions_of_ids(1) [OF ids conjunct2 [OF ring [OF that(1)]]] that(2)
    by (metis (no_types, lifting) image_iff list.set_map)
  show ?thesis
    unfolding store_wf_def sel built_rings_get [OF rids] built_by_key_get [OF mem]
      key_index_get [OF ids]
  proof (intro conjI allI impI)
    fix name ps name' ps'
    assume "\<exists>r\<in>set rings. kr_id r = name \<and> ps = positions_of keys (kr_keys r)"
      and "\<exists>r\<in>set rings. kr_id r = name' \<and> ps' = positions_of keys (kr_keys r)"
      and ne: "name \<noteq> name'"
    then obtain r r' where r: "r \<in> set rings" "kr_id r = name" "ps = positions_of keys (kr_keys r)"
      and r': "r' \<in> set rings" "kr_id r' = name'" "ps' = positions_of keys (kr_keys r')" by blast
    have False if "p \<in> set ps" "p \<in> set ps'" for p
      using that r r' ne pos(2) [of r p] pos(2) [of r' p] distinct_concat_unique [OF mem] by blast
    then show "set ps \<inter> set ps' = {}" by blast
  next
    fix name ps
    assume "\<exists>r\<in>set rings. kr_id r = name \<and> ps = positions_of keys (kr_keys r)"
    then obtain r where r: "r \<in> set rings" "ps = positions_of keys (kr_keys r)" by blast
    show "ps \<noteq> []" using r ring by (auto simp: positions_of_def)
    show "distinct ps" using r ring positions_of_ids(3) [OF ids] distinct_ring by blast
    show "\<forall>p\<in>set ps. p < length keys" using r pos by blast
  next
    fix i name
    show "(\<exists>r\<in>set rings. kr_id r = name \<and> i \<in> set (kr_keys r)) \<longleftrightarrow>
      (\<exists>ps p. (\<exists>r\<in>set rings. kr_id r = name \<and> ps = positions_of keys (kr_keys r))
         \<and> p \<in> set ps \<and> km_id (keys ! p) = i)"
      using pos onto by (metis (no_types, lifting))
  qed (use ne ids in simp_all)
qed

section \<open>Lookup\<close>

lemma ks_get_wf:
  assumes "store_wf store"
  shows "ks_get store i = Ok (find (\<lambda>k. km_id k = i) (ks_keys store))"
proof -
  have idx: "hm_get (ks_index store) i = Some p \<longleftrightarrow>
      p < length (ks_keys store) \<and> km_id (ks_keys store ! p) = i" for p
    using assms by (simp add: store_wf_def)
  have dist: "distinct (map km_id (ks_keys store))"
    using assms by (simp add: store_wf_def)
  show ?thesis
  proof (cases "hm_get (ks_index store) i")
    case None
    then have "find (\<lambda>k. km_id k = i) (ks_keys store) = None"
      using idx by (auto simp: find_None_iff in_set_conv_nth)
    with None show ?thesis by (simp add: ks_get_def)
  next
    case (Some p)
    then have p: "p < length (ks_keys store)" "km_id (ks_keys store ! p) = i" using idx by auto
    have "find (\<lambda>k. km_id k = i) (ks_keys store) = Some (ks_keys store ! p)"
      using p dist by (auto simp: find_Some_iff distinct_conv_nth intro!: exI [of _ p])
    with Some p show ?thesis by (simp add: ks_get_def key_at_def)
  qed
qed

lemma keys_at_range:
  "\<forall>p\<in>set ps. p < length (ks_keys store) \<Longrightarrow>
     keys_at store ps = Ok (map (\<lambda>p. (p, ks_keys store ! p)) ps)"
  by (induction ps) (auto simp: key_at_def)

lemma keyring_positions_wf:
  assumes "store_wf store"
  shows "distinct (keyring_positions store name)"
    and "p \<in> set (keyring_positions store name) \<Longrightarrow> p < length (ks_keys store)"
    and "keyring_positions store name = [] \<longleftrightarrow> \<not> has_keyring store name"
proof -
  have ring: "ps \<noteq> [] \<and> distinct ps \<and> (\<forall>p\<in>set ps. p < length (ks_keys store))"
    if "hm_get (ks_keyrings store) name = Some ps" for ps
    using assms that by (simp add: store_wf_def)
  show "distinct (keyring_positions store name)"
    and "p \<in> set (keyring_positions store name) \<Longrightarrow> p < length (ks_keys store)"
    and "keyring_positions store name = [] \<longleftrightarrow> \<not> has_keyring store name"
    using ring
    by (cases "hm_get (ks_keyrings store) name";
        auto simp: keyring_positions_def has_keyring_def hm_contains_key_def)+
qed

lemma keyring_members_wf:
  assumes "store_wf store"
  shows "keyring_members store name =
    Ok (map (\<lambda>p. (p, ks_keys store ! p)) (keyring_positions store name))"
  using keyring_positions_wf(2) [OF assms] by (simp add: keyring_members_def keys_at_range)

section \<open>Keyring unlock, in closed form\<close>

definition needs_unlock :: "'sk key_material \<Rightarrow> bool" where
  "needs_unlock k \<longleftrightarrow> km_state k = Active \<and> \<not> is_unlocked k"

definition member_result :: "'sk key_material \<Rightarrow> keyring_member_outcome" where
  "member_result k =
     \<lparr>mo_key_id = km_id k,
      mo_result = (if km_state k \<noteq> Active then MemberSkippedInactive
                   else if is_unlocked k then MemberAlreadyUnlocked else MemberUnlocked)\<rparr>"

definition opens :: "'sk crypto \<Rightarrow> string \<Rightarrow> 'sk key_material \<Rightarrow> bool" where
  "opens cr pw k \<longleftrightarrow> is_ok (decrypt cr k pw)"

fun ok_value :: "('e, 'a) outcome \<Rightarrow> 'a option" where
  "ok_value (Ok a) = Some a"
| "ok_value (Err e) = None"
| "ok_value Panic = None"

definition decrypted_of ::
  "'sk crypto \<Rightarrow> string \<Rightarrow> (nat \<times> 'sk key_material) list \<Rightarrow> (nat \<times> 'sk unlocked_key_material) list" where
  "decrypted_of cr pw members =
     map (\<lambda>(p, k). (p, the (ok_value (decrypt cr k pw))))
       (filter (\<lambda>(p, k). needs_unlock k \<and> opens cr pw k) members)"

lemma scan_fold:
  "fold (scan_member cr pw) members rs =
     \<lparr>rs_outcomes = rs_outcomes rs @ map (\<lambda>(p, k). member_result k) members,
      rs_decrypted = rs_decrypted rs @ decrypted_of cr pw members,
      rs_opened = rs_opened rs
        @ map km_id (filter (\<lambda>k. needs_unlock k \<and> opens cr pw k) (map snd members)),
      rs_failed = rs_failed rs
        @ map km_id (filter (\<lambda>k. needs_unlock k \<and> \<not> opens cr pw k) (map snd members))\<rparr>"
proof (induction members arbitrary: rs)
  case Nil
  then show ?case by (simp add: decrypted_of_def)
next
  case (Cons m members)
  obtain p k where m: "m = (p, k)" by (cases m)
  show ?case
    unfolding m fold_simps Cons.IH
    by (cases "decrypt cr k pw")
      (auto simp: scan_member_def Let_def needs_unlock_def member_result_def opens_def
        decrypted_of_def)
qed

lemma take_guards_ok:
  assumes "distinct (map fst dec)"
    and "\<forall>(p, m)\<in>set dec. p < length (ks_keys store) \<and> \<not> km_poisoned (ks_keys store ! p)"
  shows "take_guards store dec = Ok ()"
proof -
  have "\<exists>held'. for_each (\<lambda>(p, m) held.
         and_then (key_at store p) (\<lambda>k.
           if p \<in> set held then Panic
           else if km_poisoned k then Err KeyringLockPoisoned
           else Ok (p # held))) dec held = Ok held'"
    if "distinct (map fst dec)" "set (map fst dec) \<inter> set held = {}"
      "\<forall>(p, m)\<in>set dec. p < length (ks_keys store) \<and> \<not> km_poisoned (ks_keys store ! p)" for held
    using that by (induction dec arbitrary: held) (auto simp: key_at_def split: prod.splits)
  from this [of "[]"] assms show ?thesis by (auto simp: take_guards_def)
qed

definition install_all ::
  "(nat \<times> 'sk unlocked_key_material) list \<Rightarrow> 'sk key_material list \<Rightarrow> 'sk key_material list" where
  "install_all dec keys =
     map (\<lambda>p. case map_of dec p of None \<Rightarrow> keys ! p | Some m \<Rightarrow> (keys ! p)\<lparr>km_unlocked := Some m\<rparr>)
       [0..<length keys]"

lemma install_fold:
  assumes "distinct (map fst dec)"
    and "\<forall>(p, m)\<in>set dec. p < length (ks_keys store) \<and> km_unlocked (ks_keys store ! p) = None"
  shows "fold install_member dec (os, store) =
    (os, store\<lparr>ks_keys := install_all dec (ks_keys store)\<rparr>)"
  using assms
proof (induction dec arbitrary: store)
  case Nil
  then show ?case by (simp add: install_all_def map_nth)
next
  case (Cons e dec)
  obtain p m where e: "e = (p, m)" by (cases e)
  let ?k = "ks_keys store ! p"
  let ?store = "store\<lparr>ks_keys := (ks_keys store)[p := ?k\<lparr>km_unlocked := Some m\<rparr>]\<rparr>"
  have p: "p < length (ks_keys store)" "km_unlocked ?k = None" "p \<notin> fst ` set dec"
    using Cons.prems e by auto
  have "fold install_member dec (os, ?store)
      = (os, ?store\<lparr>ks_keys := install_all dec (ks_keys ?store)\<rparr>)"
  proof (rule Cons.IH)
    show "distinct (map fst dec)" using Cons.prems by simp
    show "\<forall>(q, m)\<in>set dec. q < length (ks_keys ?store) \<and> km_unlocked (ks_keys ?store ! q) = None"
    proof clarsimp
      fix q m'
      assume "(q, m') \<in> set dec"
      moreover from this have "q \<noteq> p" using p(3) by (metis fst_conv image_eqI)
      ultimately show "q < length (ks_keys store)
          \<and> km_unlocked ((ks_keys store)[p := ?k\<lparr>km_unlocked := Some m\<rparr>] ! q) = None"
        using Cons.prems(2) by auto
    qed
  qed
  moreover have "map_of dec p = None"
    using p by (simp add: map_of_eq_None_iff)
  then have "install_all dec (ks_keys ?store) = install_all (e # dec) (ks_keys store)"
    using p e by (intro nth_equalityI)
      (auto simp: install_all_def nth_list_update split: option.splits)
  moreover have "install_member e (os, store) = (os, ?store)"
    using p e by (simp add: install_member_def Let_def)
  ultimately show ?case by simp
qed

text \<open>The members of a keyring, in the order of the configuration.\<close>

definition ring_keys :: "'sk key_store \<Rightarrow> string \<Rightarrow> 'sk key_material list" where
  "ring_keys store name = map (\<lambda>p. ks_keys store ! p) (keyring_positions store name)"

definition ring_decrypted ::
  "'sk crypto \<Rightarrow> string \<Rightarrow> 'sk key_store \<Rightarrow> string \<Rightarrow> (nat \<times> 'sk unlocked_key_material) list" where
  "ring_decrypted cr pw store name =
     decrypted_of cr pw (map (\<lambda>p. (p, ks_keys store ! p)) (keyring_positions store name))"

lemma ring_decrypted_eq:
  "ring_decrypted cr pw store name =
     map (\<lambda>p. (p, the (ok_value (decrypt cr (ks_keys store ! p) pw))))
       (filter (\<lambda>p. needs_unlock (ks_keys store ! p) \<and> opens cr pw (ks_keys store ! p))
         (keyring_positions store name))"
  by (simp add: ring_decrypted_def decrypted_of_def filter_map comp_def)

lemma ring_decrypted_mem:
  "(p, m) \<in> set (ring_decrypted cr pw store name) \<longleftrightarrow>
     p \<in> set (keyring_positions store name) \<and> needs_unlock (ks_keys store ! p)
     \<and> decrypt cr (ks_keys store ! p) pw = Ok m"
  by (auto simp: ring_decrypted_eq opens_def is_ok_iff)

lemma ring_decrypted_distinct:
  "store_wf store \<Longrightarrow> distinct (map fst (ring_decrypted cr pw store name))"
  using keyring_positions_wf(1) [of store name] by (simp add: ring_decrypted_eq comp_def)

lemma map_of_ring_decrypted:
  assumes "store_wf store"
  shows "map_of (ring_decrypted cr pw store name) p = Some m \<longleftrightarrow>
    p \<in> set (keyring_positions store name) \<and> needs_unlock (ks_keys store ! p)
    \<and> decrypt cr (ks_keys store ! p) pw = Ok m"
  using ring_decrypted_distinct [OF assms] by (simp add: ring_decrypted_mem)

lemma install_keyring_ok:
  assumes "store_inv cr store" and "rs_decrypted rs = ring_decrypted cr pw store name"
  shows "install_keyring store rs =
    (Ok (rs_outcomes rs),
     store\<lparr>ks_keys := install_all (ring_decrypted cr pw store name) (ks_keys store)\<rparr>)"
proof -
  let ?dec = "ring_decrypted cr pw store name"
  have wf: "store_wf store" and inv: "\<And>k. k \<in> set (ks_keys store) \<Longrightarrow> \<not> km_poisoned k"
    using assms by (auto simp: store_inv_def key_inv_def)
  have todo: "p < length (ks_keys store) \<and> \<not> km_poisoned (ks_keys store ! p)
      \<and> km_unlocked (ks_keys store ! p) = None" if "(p, m) \<in> set ?dec" for p m
    using that keyring_positions_wf(2) [OF wf] inv
    by (auto simp: ring_decrypted_mem needs_unlock_def is_unlocked_def)
  have "take_guards store ?dec = Ok ()"
    using todo by (intro take_guards_ok ring_decrypted_distinct wf) auto
  moreover have "fold install_member ?dec (rs_outcomes rs, store)
      = (rs_outcomes rs, store\<lparr>ks_keys := install_all ?dec (ks_keys store)\<rparr>)"
    using todo by (intro install_fold ring_decrypted_distinct wf) auto
  ultimately show ?thesis by (simp add: install_keyring_def assms(2))
qed

lemma unlock_keyring_closed:
  assumes "store_inv cr store"
  shows "unlock_keyring cr store name pw =
    (let ks = ring_keys store name; todo = filter needs_unlock ks in
     if ks = [] then (Err UnknownKeyring, store)
     else if \<forall>k\<in>set ks. km_state k \<noteq> Active then (Err NoActiveKeys, store)
     else if \<forall>k\<in>set todo. opens cr pw k
     then (Ok (map member_result ks),
           store\<lparr>ks_keys := install_all (ring_decrypted cr pw store name) (ks_keys store)\<rparr>)
     else if \<forall>k\<in>set todo. \<not> opens cr pw k then (Err KeyringInvalidPassphrase, store)
     else (Err (PassphraseMismatch (map km_id (filter (opens cr pw) todo))
                  (map km_id (filter (\<lambda>k. \<not> opens cr pw k) todo))), store))"
proof -
  have wf: "store_wf store" using assms by (simp add: store_inv_def)
  let ?ks = "ring_keys store name"
  let ?ms = "map (\<lambda>p. (p, ks_keys store ! p)) (keyring_positions store name)"
  have ks: "map snd ?ms = ?ks" by (simp add: ring_keys_def comp_def)
  have res: "map (\<lambda>(p, k). member_result k) ?ms = map member_result ?ks"
    by (simp add: ring_keys_def comp_def)
  have act: "list_all (\<lambda>pk. km_state (snd pk) \<noteq> Active) ?ms \<longleftrightarrow> (\<forall>k\<in>set ?ks. km_state k \<noteq> Active)"
    by (auto simp: ring_keys_def list_all_iff)
  have nil: "?ms = [] \<longleftrightarrow> ?ks = []" by (simp add: ring_keys_def)
  have flt: "filter (\<lambda>k. needs_unlock k \<and> P k) xs = filter P (filter needs_unlock xs)" for P xs
    by (simp add: conj_commute)
  have scan: "scan_keyring cr store name pw =
     (if ?ks = [] then Err UnknownKeyring
      else if \<forall>k\<in>set ?ks. km_state k \<noteq> Active then Err NoActiveKeys
      else if filter (\<lambda>k. \<not> opens cr pw k) (filter needs_unlock ?ks) \<noteq> []
      then Err (if filter (opens cr pw) (filter needs_unlock ?ks) = [] then KeyringInvalidPassphrase
                else PassphraseMismatch (map km_id (filter (opens cr pw) (filter needs_unlock ?ks)))
                       (map km_id (filter (\<lambda>k. \<not> opens cr pw k) (filter needs_unlock ?ks))))
      else Ok \<lparr>rs_outcomes = map member_result ?ks,
               rs_decrypted = ring_decrypted cr pw store name,
               rs_opened = map km_id (filter (opens cr pw) (filter needs_unlock ?ks)),
               rs_failed = []\<rparr>)"
    unfolding scan_keyring_def keyring_members_wf [OF wf] and_then.simps act nil scan_fold res ks flt
    by (simp add: Let_def ring_decrypted_def del: filter_filter)
  show ?thesis
    unfolding unlock_keyring_def scan Let_def
    by (auto simp: install_keyring_ok [OF assms] filter_empty_conv)
qed

end
