(* ===== verification/Key_Vault.thy ===== *)
theory Key_Vault
  imports Key_Store_Facts
begin

text \<open>
  What the key store promises, as an abstract specification: a \<open>vault\<close> is a finite map from key
  identifiers to keys and from keyring names to member identifiers, without positions and indexes.
  \<open>vault_unlock\<close> says in one step what unlocking a keyring means; the store of \<^verbatim>\<open>src/key.rs\<close> refines
  it. The properties of construction, loading and keyring unlock follow.
\<close>

section \<open>The abstract vault\<close>

record 'sk vault =
  v_key :: "string \<Rightarrow> 'sk key_material option"
  v_ring :: "string \<Rightarrow> string list option"

definition vault_of :: "'sk key_store \<Rightarrow> 'sk vault" where
  "vault_of store =
     \<lparr>v_key = (\<lambda>i. find (\<lambda>k. km_id k = i) (ks_keys store)),
      v_ring = (\<lambda>name. map_option (map (\<lambda>p. km_id (ks_keys store ! p)))
                        (hm_get (ks_keyrings store) name))\<rparr>"

definition unlocked_with :: "'sk crypto \<Rightarrow> string \<Rightarrow> 'sk key_material \<Rightarrow> 'sk key_material" where
  "unlocked_with cr pw k =
     (if needs_unlock k then k\<lparr>km_unlocked := ok_value (decrypt cr k pw)\<rparr> else k)"

definition vault_unlock ::
  "'sk crypto \<Rightarrow> string \<Rightarrow> string \<Rightarrow> 'sk vault
   \<Rightarrow> (keyring_unlock_error, keyring_member_outcome list) outcome \<times> 'sk vault" where
  "vault_unlock cr name pw v =
     (case v_ring v name of None \<Rightarrow> (Err UnknownKeyring, v) | Some ids \<Rightarrow>
      let ks = map (\<lambda>i. the (v_key v i)) ids; todo = filter needs_unlock ks in
      if \<forall>k\<in>set ks. km_state k \<noteq> Active then (Err NoActiveKeys, v)
      else if \<forall>k\<in>set todo. opens cr pw k
      then (Ok (map member_result ks),
            v\<lparr>v_key := (\<lambda>i. if i \<in> set ids then map_option (unlocked_with cr pw) (v_key v i)
                              else v_key v i)\<rparr>)
      else if \<forall>k\<in>set todo. \<not> opens cr pw k then (Err KeyringInvalidPassphrase, v)
      else (Err (PassphraseMismatch (map km_id (filter (opens cr pw) todo))
                   (map km_id (filter (\<lambda>k. \<not> opens cr pw k) todo))), v))"

section \<open>Lookup by identifier\<close>

lemma find_id_nth:
  assumes "distinct (map km_id ks)" and "p < length ks"
  shows "find (\<lambda>k. km_id k = km_id (ks ! p)) ks = Some (ks ! p)"
proof -
  have "km_id (ks ! p') \<noteq> km_id (ks ! p)" if "p' < p" for p'
    using that assms by (auto simp: distinct_conv_nth)
  then show ?thesis using assms(2) by (auto simp: find_Some_iff intro!: exI [of _ p])
qed

lemma find_id_same: "find (\<lambda>k. km_id k = i) ks = Some k \<Longrightarrow> km_id k = i"
  by (auto simp: find_Some_iff)

lemma find_id_map:
  assumes "distinct (map km_id ks)" and "map km_id ks' = map km_id ks"
    and "\<And>p. p < length ks \<Longrightarrow> ks' ! p = f (ks ! p)"
  shows "find (\<lambda>k. km_id k = i) ks' = map_option f (find (\<lambda>k. km_id k = i) ks)"
proof -
  have len: "length ks' = length ks" using assms(2) by (metis length_map)
  have "ks' = map f ks"
    using assms(3) len by (intro nth_equalityI) auto
  moreover have "km_id (f k) = km_id k" if "k \<in> set ks" for k
    using that assms(2,3) len by (metis in_set_conv_nth nth_map)
  ultimately show ?thesis
    by (induction ks arbitrary: ks') auto
qed

lemma store_wf_ids: "store_wf store \<Longrightarrow> distinct (map km_id (ks_keys store))"
  by (simp add: store_wf_def)

lemma vault_key_member:
  assumes "store_wf store" and "p < length (ks_keys store)"
  shows "v_key (vault_of store) (km_id (ks_keys store ! p)) = Some (ks_keys store ! p)"
  using assms by (simp add: vault_of_def find_id_nth store_wf_ids)

lemma vault_ring_keys:
  assumes "store_wf store" and "v_ring (vault_of store) name = Some ids"
  shows "map (\<lambda>i. the (v_key (vault_of store) i)) ids = ring_keys store name"
    and "ids = map km_id (ring_keys store name)"
proof -
  obtain ps where ps: "hm_get (ks_keyrings store) name = Some ps"
    and ids: "ids = map (\<lambda>p. km_id (ks_keys store ! p)) ps"
    using assms(2) by (auto simp: vault_of_def)
  have pos: "keyring_positions store name = ps" using ps by (simp add: keyring_positions_def)
  have "p < length (ks_keys store)" if "p \<in> set ps" for p
    using that keyring_positions_wf(2) [OF assms(1)] pos by blast
  then show "map (\<lambda>i. the (v_key (vault_of store) i)) ids = ring_keys store name"
    by (simp add: ids ring_keys_def pos vault_key_member [OF assms(1)])
  show "ids = map km_id (ring_keys store name)"
    by (simp add: ids ring_keys_def pos)
qed

lemma vault_ring_None:
  assumes "store_wf store"
  shows "v_ring (vault_of store) name = None \<longleftrightarrow> ring_keys store name = []"
  using keyring_positions_wf(3) [OF assms, of name]
  by (simp add: vault_of_def ring_keys_def has_keyring_def hm_contains_key_def)

section \<open>The effect of an unlock\<close>

lemma install_all_nth:
  "p < length ks \<Longrightarrow> install_all dec ks ! p =
     (case map_of dec p of None \<Rightarrow> ks ! p | Some m \<Rightarrow> (ks ! p)\<lparr>km_unlocked := Some m\<rparr>)"
  by (simp add: install_all_def split: option.split)

lemma install_all_length [simp]: "length (install_all dec ks) = length ks"
  by (simp add: install_all_def)

lemma install_all_ids [simp]: "map km_id (install_all dec ks) = map km_id ks"
  by (rule nth_equalityI) (auto simp: install_all_nth split: option.splits)

text \<open>When every locked active member opens, each member becomes what the specification says.\<close>

lemma install_ring_nth:
  assumes "store_wf store" and "p < length (ks_keys store)"
    and "\<forall>k\<in>set (filter needs_unlock (ring_keys store name)). opens cr pw k"
  shows "install_all (ring_decrypted cr pw store name) (ks_keys store) ! p =
    (if p \<in> set (keyring_positions store name) then unlocked_with cr pw (ks_keys store ! p)
     else ks_keys store ! p)"
proof (cases "p \<in> set (keyring_positions store name) \<and> needs_unlock (ks_keys store ! p)")
  case True
  then obtain m where "decrypt cr (ks_keys store ! p) pw = Ok m"
    using assms(3) by (auto simp: ring_keys_def opens_def is_ok_iff)
  with True show ?thesis
    using map_of_ring_decrypted [OF assms(1), of cr pw name p m] assms(2)
    by (simp add: install_all_nth unlocked_with_def)
next
  case False
  then have "map_of (ring_decrypted cr pw store name) p = None"
    using map_of_ring_decrypted [OF assms(1), of cr pw name p] by (cases rule: option.exhaust) auto
  with False show ?thesis using assms(2) by (auto simp: install_all_nth unlocked_with_def)
qed

lemma position_of_id:
  assumes "store_wf store" and "p < length (ks_keys store)"
  shows "p \<in> set (keyring_positions store name) \<longleftrightarrow>
    km_id (ks_keys store ! p) \<in> set (map km_id (ring_keys store name))"
proof -
  have "q = p" if "q \<in> set (keyring_positions store name)"
      "km_id (ks_keys store ! p) = km_id (ks_keys store ! q)" for q
    using that assms(2) keyring_positions_wf(2) [OF assms(1)] store_wf_ids [OF assms(1)]
    by (metis (no_types, lifting) distinct_conv_nth length_map nth_map)
  then show ?thesis by (auto simp: ring_keys_def)
qed

lemma vault_of_install:
  assumes "store_wf store"
    and "\<forall>k\<in>set (filter needs_unlock (ring_keys store name)). opens cr pw k"
    and "v_ring (vault_of store) name = Some ids"
  shows "vault_of (store\<lparr>ks_keys := install_all (ring_decrypted cr pw store name) (ks_keys store)\<rparr>)
    = (vault_of store)\<lparr>v_key := (\<lambda>i. if i \<in> set ids
         then map_option (unlocked_with cr pw) (v_key (vault_of store) i)
         else v_key (vault_of store) i)\<rparr>"
proof -
  let ?keys = "install_all (ring_decrypted cr pw store name) (ks_keys store)"
  let ?f = "\<lambda>k. if km_id k \<in> set ids then unlocked_with cr pw k else k"
  have ids: "set ids = set (map km_id (ring_keys store name))"
    using vault_ring_keys(2) [OF assms(1,3)] by simp
  have "?keys ! p = ?f (ks_keys store ! p)" if "p < length (ks_keys store)" for p
    using install_ring_nth [OF assms(1) that assms(2)] position_of_id [OF assms(1) that, of name]
    by (simp only: ids)
  then have find: "find (\<lambda>k. km_id k = i) ?keys = map_option ?f (find (\<lambda>k. km_id k = i) (ks_keys store))"
    for i using store_wf_ids [OF assms(1)] by (intro find_id_map) simp_all
  have keys: "find (\<lambda>k. km_id k = i) ?keys
      = (if i \<in> set ids then map_option (unlocked_with cr pw) (find (\<lambda>k. km_id k = i) (ks_keys store))
         else find (\<lambda>k. km_id k = i) (ks_keys store))" for i
    unfolding find using find_id_same [of i "ks_keys store"]
    by (cases "find (\<lambda>k. km_id k = i) (ks_keys store)") auto
  have ring: "map (\<lambda>p. km_id (?keys ! p)) ps = map (\<lambda>p. km_id (ks_keys store ! p)) ps"
    if "hm_get (ks_keyrings store) n = Some ps" for n ps
  proof -
    have "p < length (ks_keys store)" if "p \<in> set ps" for p
      using that keyring_positions_wf(2) [OF assms(1), of p n] \<open>hm_get (ks_keyrings store) n = Some ps\<close>
      by (simp add: keyring_positions_def)
    then have "km_id (?keys ! p) = km_id (ks_keys store ! p)" if "p \<in> set ps" for p
      using that install_all_ids install_all_length by (metis nth_map)
    then show ?thesis by simp
  qed
  have rings: "map_option (map (\<lambda>p. km_id (?keys ! p))) (hm_get (ks_keyrings store) n)
      = map_option (map (\<lambda>p. km_id (ks_keys store ! p))) (hm_get (ks_keyrings store) n)" for n
    by (cases "hm_get (ks_keyrings store) n") (simp_all only: option.map ring)
  have vk: "v_key (vault_of store) i = find (\<lambda>k. km_id k = i) (ks_keys store)" for i
    by (simp add: vault_of_def)
  show ?thesis unfolding vk by (simp add: vault_of_def keys rings)
qed

lemma unlock_keyring_refinement:
  assumes "store_inv cr store"
  shows "vault_unlock cr name pw (vault_of store) =
    (fst (unlock_keyring cr store name pw), vault_of (snd (unlock_keyring cr store name pw)))"
proof -
  have wf: "store_wf store" using assms by (simp add: store_inv_def)
  show ?thesis
  proof (cases "v_ring (vault_of store) name")
    case None
    then have "ring_keys store name = []" using vault_ring_None [OF wf] by simp
    with None show ?thesis by (simp add: unlock_keyring_closed [OF assms] vault_unlock_def)
  next
    case (Some ids)
    have ne: "ring_keys store name \<noteq> []" using vault_ring_None [OF wf, of name] Some by simp
    show ?thesis
      using ne vault_of_install [OF wf _ Some, of cr pw]
      unfolding unlock_keyring_closed [OF assms] vault_unlock_def Some Let_def option.case
        vault_ring_keys(1) [OF wf Some]
      by (simp split: if_splits) blast
  qed
qed

section \<open>Invariants\<close>

lemma store_wf_extends:
  assumes "store_wf store" and "map km_id keys = map km_id (ks_keys store)"
  shows "store_wf (store\<lparr>ks_keys := keys\<rparr>)"
proof -
  have len: "length keys = length (ks_keys store)" using assms(2) by (metis length_map)
  have id: "km_id (keys ! p) = km_id (ks_keys store ! p)" if "p < length (ks_keys store)" for p
    using that assms(2) len by (metis nth_map)
  have rng: "p < length (ks_keys store)"
    if "hm_get (ks_keyrings store) n = Some ps" "p \<in> set ps" for n ps p
    using assms(1) that by (simp add: store_wf_def)
  have by_key: "(\<exists>ps p. hm_get (ks_keyrings store) n = Some ps \<and> p \<in> set ps \<and> km_id (keys ! p) = i) \<longleftrightarrow>
      (\<exists>ps p. hm_get (ks_keyrings store) n = Some ps \<and> p \<in> set ps \<and> km_id (ks_keys store ! p) = i)" for n i
    using rng id by metis
  have index: "p < length keys \<and> km_id (keys ! p) = i \<longleftrightarrow>
      p < length (ks_keys store) \<and> km_id (ks_keys store ! p) = i" for p i
    using id len by auto
  have ne: "keys \<noteq> []" using assms len by (auto simp: store_wf_def)
  have sel: "ks_keys (store\<lparr>ks_keys := keys\<rparr>) = keys"
    "ks_index (store\<lparr>ks_keys := keys\<rparr>) = ks_index store"
    "ks_keyrings (store\<lparr>ks_keys := keys\<rparr>) = ks_keyrings store"
    "ks_keyring_by_key (store\<lparr>ks_keys := keys\<rparr>) = ks_keyring_by_key store" by simp_all
  show ?thesis
    unfolding store_wf_def sel assms(2) index by_key unfolding len
    using assms(1) ne by (simp add: store_wf_def)
qed

lemma key_inv_unlocked_with: "key_inv cr k \<Longrightarrow> opens cr pw k \<Longrightarrow> key_inv cr (unlocked_with cr pw k)"
  by (auto simp: unlocked_with_def key_inv_def opens_def is_ok_iff needs_unlock_def)

lemma install_ring_inv:
  assumes "store_inv cr store"
    and "\<forall>k\<in>set (filter needs_unlock (ring_keys store name)). opens cr pw k"
  shows "store_inv cr
    (store\<lparr>ks_keys := install_all (ring_decrypted cr pw store name) (ks_keys store)\<rparr>)"
proof -
  have wf: "store_wf store" using assms(1) by (simp add: store_inv_def)
  have "key_inv cr (install_all (ring_decrypted cr pw store name) (ks_keys store) ! p)"
    if p: "p < length (ks_keys store)" for p
  proof -
    have inv: "key_inv cr (ks_keys store ! p)" using assms(1) p by (simp add: store_inv_def)
    have "opens cr pw (ks_keys store ! p)"
      if "p \<in> set (keyring_positions store name)" "needs_unlock (ks_keys store ! p)"
      using that assms(2) by (auto simp: ring_keys_def)
    then have "key_inv cr (unlocked_with cr pw (ks_keys store ! p))"
      if "p \<in> set (keyring_positions store name)"
      using inv key_inv_unlocked_with [OF inv] that
      by (cases "needs_unlock (ks_keys store ! p)") (auto simp: unlocked_with_def)
    then show ?thesis using inv by (simp add: install_ring_nth [OF wf p assms(2)])
  qed
  then show ?thesis
    using store_wf_extends [OF wf install_all_ids] by (auto simp: store_inv_def in_set_conv_nth)
qed

lemma unlock_keyring_inv:
  "store_inv cr store \<Longrightarrow> store_inv cr (snd (unlock_keyring cr store name pw))"
  by (simp add: unlock_keyring_closed Let_def install_ring_inv)

lemma unlock_keyring_effect:
  assumes "store_inv cr store"
  shows "case unlock_keyring cr store name pw of
      (Ok outcomes, store') \<Rightarrow>
        store_inv cr store'
        \<and> map mo_key_id outcomes = map km_id (ring_keys store name)
        \<and> (\<forall>k\<in>set (ring_keys store' name). km_state k = Active \<longrightarrow> is_unlocked k)
        \<and> (\<forall>p < length (ks_keys store). key_extends (ks_keys store ! p) (ks_keys store' ! p)
             \<and> (p \<notin> set (keyring_positions store name) \<longrightarrow> ks_keys store' ! p = ks_keys store ! p))
    | (Err e, store') \<Rightarrow> store' = store
    | (Panic, store') \<Rightarrow> False"
proof (cases "unlock_keyring cr store name pw")
  case (Pair r store')
  have wf: "store_wf store" and inv: "\<And>p. p < length (ks_keys store) \<Longrightarrow> key_inv cr (ks_keys store ! p)"
    using assms by (auto simp: store_inv_def)
  let ?todo = "filter needs_unlock (ring_keys store name)"
  show ?thesis
  proof (cases r)
    case (Ok outcomes)
    then have opens: "\<forall>k\<in>set ?todo. opens cr pw k"
      and out: "outcomes = map member_result (ring_keys store name)"
      and store': "store' = store\<lparr>ks_keys := install_all (ring_decrypted cr pw store name) (ks_keys store)\<rparr>"
      using Pair by (auto simp: unlock_keyring_closed [OF assms] Let_def split: if_splits)
    have nth: "ks_keys store' ! p = (if p \<in> set (keyring_positions store name)
        then unlocked_with cr pw (ks_keys store ! p) else ks_keys store ! p)"
      if "p < length (ks_keys store)" for p
      using install_ring_nth [OF wf that opens] by (simp add: store')
    have pos: "keyring_positions store' name = keyring_positions store name"
      by (simp add: store' keyring_positions_def)
    have "is_unlocked (ks_keys store' ! p)"
      if "p \<in> set (keyring_positions store name)" "km_state (ks_keys store' ! p) = Active" for p
      using that nth [of p] keyring_positions_wf(2) [OF wf that(1)] inv [of p] opens
      by (auto simp: unlocked_with_def needs_unlock_def is_unlocked_def key_inv_def ring_keys_def
          opens_def is_ok_iff split: if_splits)
    moreover have "key_extends (ks_keys store ! p) (ks_keys store' ! p)"
      if "p < length (ks_keys store)" for p
      using nth [OF that] inv [OF that]
      by (auto simp: unlocked_with_def key_extends_def needs_unlock_def is_unlocked_def key_inv_def)
    moreover have "store_inv cr store'" using unlock_keyring_inv [OF assms, of name pw] Pair by simp
    moreover have "map mo_key_id outcomes = map km_id (ring_keys store name)"
      by (simp add: out member_result_def comp_def)
    ultimately show ?thesis
      using Pair Ok nth pos by (auto simp: ring_keys_def)
  next
    case (Err e)
    then show ?thesis
      using Pair by (auto simp: unlock_keyring_closed [OF assms] Let_def split: if_splits)
  next
    case Panic
    then show ?thesis
      using Pair by (auto simp: unlock_keyring_closed [OF assms] Let_def split: if_splits)
  qed
qed

section \<open>Properties\<close>

text \<open>
  \<open>from_keys\<close> succeeds exactly when there is a key, key identifiers are unique, keyring names
  are unique, every keyring has members, all of them known, and no key is in two keyrings or twice
  in one. It never panics.
\<close>

theorem from_keys_exact:
  "from_keys keys rings \<noteq> Panic
   \<and> ((\<exists>store. from_keys keys rings = Ok store) \<longleftrightarrow>
        keys \<noteq> [] \<and> distinct (map km_id keys) \<and> keyrings_consistent (km_id ` set keys) rings)"
proof -
  have "for_each (index_member index r) ks st \<noteq> Panic" for index r ks st
    by (rule for_each_not_Panic) (auto simp: index_member_def split: option.splits)
  then have "for_each (index_keyring index) rings st \<noteq> Panic" for index st
    by (intro for_each_not_Panic) (auto simp: index_keyring_def split: prod.splits)
  moreover have "for_each index_key (enumerate 0 keys) hm_new \<noteq> Panic"
    by (rule for_each_not_Panic) (auto simp: index_key_def)
  ultimately have "from_keys keys rings \<noteq> Panic"
    by (auto simp: from_keys_def split: prod.splits)
  then show ?thesis by (auto simp: from_keys_Ok)
qed

text \<open>Loading: the loop either loads every key or reports the first that fails.\<close>

lemma load_loop:
  "for_each (\<lambda>config loaded.
      and_then (map_err (KeyLoad (kc_id config)) (load config))
        (\<lambda>k. Ok (loaded @ [k]))) configs loaded = Ok keys \<longleftrightarrow>
   (\<exists>ks. keys = loaded @ ks
      \<and> list_all2 (\<lambda>config k. load config = Ok k) configs ks)"
proof (induction configs arbitrary: loaded)
  case Nil
  then show ?case by auto
next
  case (Cons config configs)
  show ?case
  proof (cases "load config")
    case (Ok k)
    then show ?thesis by (auto simp: Cons.IH list_all2_Cons1)
  qed (auto simp: list_all2_Cons1)
qed

lemma load_loop_Err:
  "for_each (\<lambda>config loaded.
      and_then (map_err (KeyLoad (kc_id config)) (load config))
        (\<lambda>k. Ok (loaded @ [k]))) configs loaded = Err e \<Longrightarrow>
   \<exists>config\<in>set configs. \<exists>e'. load config = Err e'
      \<and> e = KeyLoad (kc_id config) e'"
proof (induction configs arbitrary: loaded)
  case (Cons config configs)
  then show ?case by (cases "load config") auto
qed simp

lemma loaded_ids:
  "list_all2 (\<lambda>config k. key_material_load fs euid fp pe config = Ok k) configs ks \<Longrightarrow>
     map km_id ks = map kc_id configs"
proof (induction rule: list_all2_induct)
  case (Cons config configs k ks)
  then show ?case by (auto simp: key_material_load_def split: if_splits)
qed simp

lemma loaded_inv:
  "list_all2 (\<lambda>config k. key_material_load fs euid fp pe config = Ok k) configs ks \<Longrightarrow>
     \<forall>k\<in>set ks. key_inv cr k \<and> \<not> is_unlocked k"
proof (induction rule: list_all2_induct)
  case (Cons config configs k ks)
  then show ?case
    using key_inv_load [OF Cons.hyps(1), of cr]
    by (auto simp: key_material_load_def is_unlocked_def split: if_splits)
qed simp

definition load_keys ::
  "file_system \<Rightarrow> u32 \<Rightarrow> (string \<Rightarrow> (string \<times> string) option) \<Rightarrow> (string \<Rightarrow> encryption_scheme option)
   \<Rightarrow> key_config list \<Rightarrow> (key_store_error, 'sk key_material list) outcome" where
  "load_keys fs euid fp pe configs =
     for_each (\<lambda>config loaded.
       and_then (map_err (KeyLoad (kc_id config)) (key_material_load fs euid fp pe config))
         (\<lambda>k. Ok (loaded @ [k]))) configs []"

lemma key_store_load_eq:
  "key_store_load fs euid fp pe configs rings =
     and_then (load_keys fs euid fp pe configs) (\<lambda>keys. from_keys keys rings)"
  by (simp add: key_store_load_def load_keys_def)

lemma key_material_load_not_Panic: "key_material_load fs euid fp pe config \<noteq> Panic"
  by (auto simp: key_material_load_def read_protected_file_def validate_protected_metadata_def
      read_limited_def enforce_key_encryption_policy_def check_kdf_def Let_def
      split: option.splits encryption_scheme.splits kdf.splits if_splits)

lemma load_keys_not_Panic: "load_keys fs euid fp pe configs \<noteq> Panic"
  unfolding load_keys_def
  by (rule for_each_not_Panic) (simp add: key_material_load_not_Panic)

lemma from_keys_ring_keys:
  assumes "from_keys keys rings = Ok store" and "r \<in> set rings"
  shows "map km_id (ring_keys store (kr_id r)) = kr_keys r"
proof -
  have ids: "distinct (map km_id keys)" and rids: "distinct (map kr_id rings)"
    and sub: "set (kr_keys r) \<subseteq> km_id ` set keys" and keys: "ks_keys store = keys"
    and rings: "ks_keyrings store = hm_insert_all (map (ring_entry (key_index keys)) rings) hm_new"
    using assms by (auto simp: from_keys_Ok keyrings_consistent_def)
  have "hm_get (ks_keyrings store) (kr_id r) = Some (positions_of keys (kr_keys r))"
    using assms(2) by (auto simp: rings built_rings_get [OF rids])
  then show ?thesis
    using positions_of_ids(1) [OF ids sub] by (simp add: ring_keys_def keyring_positions_def keys comp_def)
qed

lemma validated_from_keys:
  assumes "normalize_and_validate parse_url c = Ok ()" and "map km_id keys = map kc_id (cfg_keys c)"
  shows "\<exists>store. from_keys keys (cfg_keyrings c) = Ok store"
proof -
  have "keys_ok (cfg_keys c)" and "keyrings_ok (kc_id ` set (cfg_keys c)) (cfg_keyrings c)"
    using assms(1) by (auto simp: normalize_and_validate_iff config_ok_def)
  moreover have "km_id ` set keys = kc_id ` set (cfg_keys c)"
    using assms(2) by (metis list.set_map)
  ultimately show ?thesis
    using assms(2) keyrings_ok_consistent by (auto simp: from_keys_Ok keys_ok_def)
qed

text \<open>
  C37: the key store of a validated configuration. After \<^verbatim>\<open>normalize_and_validate\<close>, loading the
  store can only fail on a key file (unreadable, malformed or too weakly encrypted): the consistency
  checks of \<open>from_keys\<close> always pass. The loaded store is well formed, every key in it is locked, and
  every keyring has exactly its configured members in the configured order.
\<close>

theorem key_store_load_validated:
  fixes cr :: "'sk crypto"
  assumes "normalize_and_validate parse_url c = Ok ()"
  shows "case key_store_load fs euid from_pem parse_epki (cfg_keys c) (cfg_keyrings c) of
      Ok store \<Rightarrow> store_inv cr store \<and> map km_id (ks_keys store) = map kc_id (cfg_keys c)
        \<and> (\<forall>k\<in>set (ks_keys store). \<not> is_unlocked k)
        \<and> (\<forall>r\<in>set (cfg_keyrings c). map km_id (ring_keys store (kr_id r)) = kr_keys r)
    | Err e \<Rightarrow> (\<exists>config\<in>set (cfg_keys c). \<exists>e'. e = KeyLoad (kc_id config) e'
        \<and> key_material_load fs euid from_pem parse_epki config = (Err e' :: (_, 'sk key_material) outcome))
    | Panic \<Rightarrow> False"
proof (cases "load_keys fs euid from_pem parse_epki (cfg_keys c) :: (_, 'sk key_material list) outcome")
  case (Ok keys)
  then have keys: "list_all2 (\<lambda>config k. key_material_load fs euid from_pem parse_epki config = Ok k)
      (cfg_keys c) keys"
    by (simp add: load_keys_def load_loop)
  obtain store where store: "from_keys keys (cfg_keyrings c) = Ok store"
    using validated_from_keys [OF assms loaded_ids [OF keys]] by blast
  have "store_wf store" and [simp]: "ks_keys store = keys"
    using store from_keys_wf by (auto simp: from_keys_Ok)
  with loaded_inv [OF keys, of cr] have "store_inv cr store \<and> (\<forall>k\<in>set keys. \<not> is_unlocked k)"
    by (simp add: store_inv_def)
  with Ok store loaded_ids [OF keys] from_keys_ring_keys [OF store] show ?thesis
    by (simp add: key_store_load_eq)
next
  case (Err e)
  then show ?thesis
    using load_loop_Err [OF Err [unfolded load_keys_def]] by (auto simp: key_store_load_eq)
next
  case Panic
  then show ?thesis by (simp add: load_keys_not_Panic)
qed

text \<open>
  C18: the keyring unlock of \<^verbatim>\<open>src/key.rs\<close> refines the specification \<open>vault_unlock\<close>: through the
  abstraction \<open>vault_of\<close>, result and new contents are those of the specification on every branch
  (unknown keyring, no active member, wrong passphrase, passphrase of some members only, success).
\<close>

theorem unlock_keyring_refines:
  assumes "store_inv cr store"
  shows "vault_unlock cr name pw (vault_of store) =
    (fst (unlock_keyring cr store name pw), vault_of (snd (unlock_keyring cr store name pw)))"
  using assms by (rule unlock_keyring_refinement)

text \<open>
  Unlocking a keyring is all-or-nothing. It never panics and keeps the store invariant; when it
  reports an error, nothing changed; when it succeeds, every active member is unlocked, the reported
  members are exactly the configured ones in order, keys outside the keyring are untouched and no key
  loses its material.
\<close>

theorem unlock_keyring_all_or_nothing:
  assumes "store_inv cr store"
  shows "case unlock_keyring cr store name pw of
      (Ok outcomes, store') \<Rightarrow>
        store_inv cr store'
        \<and> map mo_key_id outcomes = map km_id (ring_keys store name)
        \<and> (\<forall>k\<in>set (ring_keys store' name). km_state k = Active \<longrightarrow> is_unlocked k)
        \<and> (\<forall>p < length (ks_keys store). key_extends (ks_keys store ! p) (ks_keys store' ! p)
             \<and> (p \<notin> set (keyring_positions store name) \<longrightarrow> ks_keys store' ! p = ks_keys store ! p))
    | (Err e, store') \<Rightarrow> store' = store
    | (Panic, store') \<Rightarrow> False"
  using assms by (rule unlock_keyring_effect)

section \<open>A concrete store\<close>

text \<open>Two active keys in one keyring; \<open>demo_retired\<close> is a third, inactive member.\<close>

definition demo_key2 :: "nat key_material" where
  "demo_key2 = demo_key\<lparr>km_id := ''k2''\<rparr>"

definition demo_retired :: "nat key_material" where
  "demo_retired = demo_key\<lparr>km_id := ''old'', km_state := Retired\<rparr>"

definition demo_rings :: "keyring_config list" where
  "demo_rings = [\<lparr>kr_id = ''prod'', kr_keys = [''k2'', ''old'', ''k'']\<rparr>]"

definition demo_store :: "nat key_store" where
  "demo_store =
     \<lparr>ks_keys = [demo_key, demo_key2, demo_retired],
      ks_index = [(''k'', 0), (''k2'', 1), (''old'', 2)],
      ks_keyrings = [(''prod'', [1, 2, 0])],
      ks_keyring_by_key = [(''k2'', ''prod''), (''old'', ''prod''), (''k'', ''prod'')]\<rparr>"

lemma demo_store_built: "from_keys [demo_key, demo_key2, demo_retired] demo_rings = Ok demo_store"
  by code_simp

lemma demo_store_inv: "store_inv demo_crypto demo_store"
  using from_keys_wf [OF demo_store_built] demo_key_inv
  by (simp add: store_inv_def demo_store_def key_inv_def demo_key_def demo_key2_def demo_retired_def)

theorem key_store_load_validated_witness:
  "case key_store_load demo_key_files 1000 demo_from_pem demo_parse_epki
      (cfg_keys example_config) (cfg_keyrings example_config) of
      Ok store \<Rightarrow> store_inv demo_crypto store \<and> map km_id (ks_keys store) = map kc_id (cfg_keys example_config)
        \<and> (\<forall>k\<in>set (ks_keys store). \<not> is_unlocked k)
        \<and> (\<forall>r\<in>set (cfg_keyrings example_config). map km_id (ring_keys store (kr_id r)) = kr_keys r)
    | Err e \<Rightarrow> (\<exists>config\<in>set (cfg_keys example_config). \<exists>e'. e = KeyLoad (kc_id config) e'
        \<and> key_material_load demo_key_files 1000 demo_from_pem demo_parse_epki config
            = (Err e' :: (_, nat key_material) outcome))
    | Panic \<Rightarrow> False"
  by (rule key_store_load_validated [OF example_config_accepted])

theorem unlock_keyring_refines_witness:
  "fst (vault_unlock demo_crypto ''prod'' ''pw'' (vault_of demo_store)) =
     Ok [\<lparr>mo_key_id = ''k2'', mo_result = MemberUnlocked\<rparr>,
         \<lparr>mo_key_id = ''old'', mo_result = MemberSkippedInactive\<rparr>,
         \<lparr>mo_key_id = ''k'', mo_result = MemberUnlocked\<rparr>]"
proof -
  have "fst (unlock_keyring demo_crypto demo_store ''prod'' ''pw'') =
     Ok [\<lparr>mo_key_id = ''k2'', mo_result = MemberUnlocked\<rparr>,
         \<lparr>mo_key_id = ''old'', mo_result = MemberSkippedInactive\<rparr>,
         \<lparr>mo_key_id = ''k'', mo_result = MemberUnlocked\<rparr>]"
    by code_simp
  then show ?thesis by (simp only: unlock_keyring_refines [OF demo_store_inv] fst_conv)
qed

theorem unlock_keyring_all_or_nothing_witness:
  "list_all (\<lambda>k. km_state k = Active \<longrightarrow> is_unlocked k)
     (ring_keys (snd (unlock_keyring demo_crypto demo_store ''prod'' ''pw'')) ''prod'')"
proof -
  obtain outcomes store' where r: "unlock_keyring demo_crypto demo_store ''prod'' ''pw'' = (Ok outcomes, store')"
  proof -
    have "is_ok (fst (unlock_keyring demo_crypto demo_store ''prod'' ''pw''))" by code_simp
    then show ?thesis
      using that by (cases "unlock_keyring demo_crypto demo_store ''prod'' ''pw''") (auto simp: is_ok_iff)
  qed
  show ?thesis
    using unlock_keyring_all_or_nothing [OF demo_store_inv, of "''prod''" "''pw''"] unfolding r by (simp add: list_all_iff)
qed

end
