(* ===== verification/Api_Model.thy ===== *)
theory Api_Model
  imports Api_Limiter Authorization_Model Auth_Facts Key_Vault
begin

text \<open>
  The HTTP handlers of \<^verbatim>\<open>src/api.rs\<close>: their errors, their audit events and the handlers themselves, with the
  checks in the order of the code.

  A handler returns the response or an \<^verbatim>\<open>ApiError\<close>, the new state and the audit events it emitted, in
  order. Parameters: the JSON decoding of the bodies, base64 and hexadecimal encoding, the request
  identifier (a fresh \<^verbatim>\<open>Ulid\<close>) and what the authenticator and the keys need. \<^verbatim>\<open>ApiError::new\<close> drops its
  title and detail arguments, which are left out.
\<close>

section \<open>Errors\<close>

record api_error =
  er_status :: nat
  er_slug :: string
  er_request_id :: string
  er_authenticate :: bool
  er_keys :: "string list"

definition api_error_new :: "nat \<Rightarrow> string \<Rightarrow> string \<Rightarrow> api_error" where
  "api_error_new status slug request_id =
     \<lparr>er_status = status, er_slug = slug, er_request_id = request_id, er_authenticate = False, er_keys = []\<rparr>"

definition with_keys :: "string list \<Rightarrow> api_error \<Rightarrow> api_error" where
  "with_keys keys e = e\<lparr>er_keys := keys\<rparr>"

definition without_request_id :: "nat \<Rightarrow> string \<Rightarrow> api_error" where
  "without_request_id status slug = api_error_new status slug []"

definition unprocessable :: "string \<Rightarrow> api_error" where
  "unprocessable slug = without_request_id 422 slug"

definition unauthorized :: "string \<Rightarrow> api_error" where
  "unauthorized request_id =
     (api_error_new 401 ''authentication-required'' request_id)\<lparr>er_authenticate := True\<rparr>"

record error_response =
  rp_status :: nat
  rp_www_authenticate :: "string option"
  rp_error :: string
  rp_request_id :: string
  rp_keys :: "string list option"

definition into_response :: "api_error \<Rightarrow> error_response" where
  \<comment> \<open>an empty key list is not serialized\<close>
  "into_response e =
     \<lparr>rp_status = er_status e,
      rp_www_authenticate = (if er_authenticate e then Some ''Bearer'' else None),
      rp_error = er_slug e, rp_request_id = er_request_id e,
      rp_keys = (if er_keys e = [] then None else Some (er_keys e))\<rparr>"

fun oauth_flow_api_error :: "oauth_flow_error \<Rightarrow> string \<Rightarrow> api_error" where
  "oauth_flow_api_error FlowTokenValidationFailed rid = api_error_new 401 ''oauth-token-invalid'' rid"
| "oauth_flow_api_error FlowTokenReplayed rid = api_error_new 409 ''oauth-token-replayed'' rid"
| "oauth_flow_api_error FlowReplayCacheUnavailable rid =
     api_error_new 503 ''oauth-replay-cache-unavailable'' rid"
| "oauth_flow_api_error FlowScopeNotGranted rid = api_error_new 403 ''oauth-scope-not-granted'' rid"
| "oauth_flow_api_error FlowIdentityProviderUnavailable rid =
     api_error_new 503 ''identity-provider-unavailable'' rid"
| "oauth_flow_api_error FlowTokenRevocationFailed rid =
     api_error_new 503 ''oauth-token-revocation-failed'' rid"
| "oauth_flow_api_error FlowClaimsDenied rid = api_error_new 403 ''identity-not-authorized'' rid"
| "oauth_flow_api_error FlowTwoFactorRequired rid = api_error_new 403 ''github-2fa-required'' rid"
| "oauth_flow_api_error FlowSessionCapacity rid = api_error_new 503 ''oauth-capacity-exhausted'' rid"

fun device_exchange_api_error :: "device_exchange_limit_error \<Rightarrow> string \<Rightarrow> api_error" where
  "device_exchange_api_error RateLimited rid = api_error_new 429 ''oauth-device-rate-limited'' rid"
| "device_exchange_api_error Busy rid = api_error_new 503 ''oauth-device-busy'' rid"

fun auth_api_error :: "auth_error \<Rightarrow> string \<Rightarrow> api_error" where
  "auth_api_error ClaimsDenied rid = api_error_new 403 ''identity-not-authorized'' rid"
| "auth_api_error KeyDiscovery rid = api_error_new 503 ''oidc-key-discovery-unavailable'' rid"
| "auth_api_error IdentityProviderUnavailable rid = api_error_new 503 ''identity-provider-unavailable'' rid"
| "auth_api_error ReplayCacheUnavailable rid = api_error_new 503 ''oidc-replay-cache-unavailable'' rid"
| "auth_api_error TokenReplayed rid = (unauthorized rid)\<lparr>er_slug := ''token-replayed''\<rparr>"
| "auth_api_error MissingBearer rid = unauthorized rid"
| "auth_api_error TokenTooLarge rid = unauthorized rid"
| "auth_api_error InvalidToken rid = unauthorized rid"

definition unknown_key_error :: api_error where
  "unknown_key_error = without_request_id 404 ''unknown-key''"

definition policy_denied_error :: api_error where
  "policy_denied_error = without_request_id 403 ''policy-denied''"

section \<open>Audit events\<close>

record audit_record =
  ad_request_id :: string
  ad_operation :: string
  ad_success :: bool
  ad_reason :: string
  ad_key_id :: "string option"
  ad_firmware_digest :: "string option"
  ad_identity_id :: "string option"
  ad_principal :: "string option"
  ad_auth_method :: "string option"
  ad_issuer :: "string option"
  ad_audience :: "string option"
  ad_subject :: "string option"
  ad_github_login :: "string option"
  ad_github_user_id :: "string option"
  ad_actor :: "string option"
  ad_actor_id :: "string option"
  ad_repository :: "string option"
  ad_repository_id :: "string option"
  ad_git_ref :: "string option"
  ad_ref_protected :: "bool option"
  ad_environment :: "string option"
  ad_commit_sha :: "string option"
  ad_event_name :: "string option"
  ad_workflow_ref :: "string option"
  ad_run_id :: "string option"
  ad_run_attempt :: "string option"
  ad_jti :: "string option"

record audit_details =
  dt_key_id :: "string option"
  dt_firmware_digest :: "string option"

definition account_of :: "auth_principal \<Rightarrow> github_account_identity option" where
  "account_of p = (case pr_source p of GithubAccount account \<Rightarrow> Some account | GithubActions _ \<Rightarrow> None)"

definition actions_of :: "auth_principal \<Rightarrow> github_actions_identity option" where
  "actions_of p = (case pr_source p of GithubAccount _ \<Rightarrow> None | GithubActions actions \<Rightarrow> Some actions)"

definition make_audit_record ::
  "string \<Rightarrow> string \<Rightarrow> bool \<Rightarrow> string \<Rightarrow> auth_principal option \<Rightarrow> audit_details \<Rightarrow> audit_record" where
  "make_audit_record request_id operation success reason who details =
     (let account = Option.bind who account_of; actions = Option.bind who actions_of in
      \<lparr>ad_request_id = request_id, ad_operation = operation, ad_success = success, ad_reason = reason,
       ad_key_id = dt_key_id details, ad_firmware_digest = dt_firmware_digest details,
       ad_identity_id = map_option pr_identity_id who, ad_principal = map_option pr_principal_key who,
       ad_auth_method = map_option pr_auth_method who, ad_issuer = map_option pr_issuer who,
       ad_audience = Option.bind who pr_audience, ad_subject = map_option pr_subject who,
       ad_github_login = map_option acc_login account, ad_github_user_id = map_option acc_user_id account,
       ad_actor = Option.bind actions act_actor, ad_actor_id = Option.bind actions act_actor_id,
       ad_repository = map_option act_repository actions,
       ad_repository_id = map_option act_repository_id actions,
       ad_git_ref = map_option act_git_ref actions, ad_ref_protected = map_option act_ref_protected actions,
       ad_environment = Option.bind actions act_environment, ad_commit_sha = map_option act_sha actions,
       ad_event_name = map_option act_event_name actions,
       ad_workflow_ref = map_option act_workflow_ref actions, ad_run_id = map_option act_run_id actions,
       ad_run_attempt = map_option act_run_attempt actions, ad_jti = Option.bind who pr_jti\<rparr>)"

datatype audit_event =
    SignAudit audit_record
  | LoginAudit string oauth_flow_error
  | UnlockKeyAudit string bool string string
  | UnlockKeyringAudit string bool string string "string list"

section \<open>Content types and contexts\<close>

definition is_json_content_type :: "header_map \<Rightarrow> bool" where
  \<comment> \<open>\<^verbatim>\<open>split(';').next()\<close> is the part before the first semicolon\<close>
  "is_json_content_type headers =
     (case Option.bind (content_type headers) to_str of
        None \<Rightarrow> False
      | Some value \<Rightarrow>
          eq_ignore_ascii_case (trim (takeWhile (\<lambda>c. c \<noteq> CHR '';'') value)) ''application/json'')"

definition validate_signing_context :: "auth_principal \<Rightarrow> (api_error, unit) outcome" where
  "validate_signing_context who =
     (case pr_source who of
        GithubAccount _ \<Rightarrow> Ok ()
      | GithubActions actions \<Rightarrow>
          if act_ref_type actions \<noteq> ''tag'' then Err (without_request_id 403 ''tag-required'') else
          if \<not> act_ref_protected actions then Err (without_request_id 403 ''protected-ref-required'') else
          (case strip_prefix ''refs/tags/'' (act_git_ref actions) of
             None \<Rightarrow> Err (without_request_id 403 ''tag-required'')
           | Some tag \<Rightarrow>
               if tag = [] then Err (without_request_id 403 ''tag-required'') else Ok ()))"

definition validate_signing_request ::
  "'sk key_store \<Rightarrow> authorizer \<Rightarrow> (string \<Rightarrow> string option) \<Rightarrow> auth_principal \<Rightarrow> string \<Rightarrow> string
   \<Rightarrow> (api_error, string) outcome" where
  "validate_signing_request keys authz b64_decode who key_id request_digest =
     (if \<not> valid_key_id key_id then Err unknown_key_error else
      and_then (map_err (\<lambda>_. policy_denied_error) (authorize authz who Sign key_id)) (\<lambda>_.
      and_then (ks_get keys key_id) (\<lambda>found.
      case found of None \<Rightarrow> Err unknown_key_error | Some key \<Rightarrow>
      if km_state key \<noteq> Active then Err (without_request_id 409 ''key-state-conflict'') else
      if \<not> is_unlocked key then Err (without_request_id 423 ''key-locked'') else
      and_then (ok_or (unprocessable ''invalid-digest-base64'') (b64_decode request_digest)) (\<lambda>decoded.
      if length decoded \<noteq> 32 then Err (unprocessable ''invalid-digest-length'') else
      and_then (validate_signing_context who) (\<lambda>_. Ok decoded)))))"

section \<open>Handlers of the public API\<close>

record ('h, 'sk) app_state =
  ap_keys :: "'sk key_store"
  ap_auth :: "'h inner"
  ap_authz :: authorizer
  ap_limiter :: device_exchange_limiter

definition app_state_new ::
  "'sk key_store \<Rightarrow> 'h inner \<Rightarrow> authorizer \<Rightarrow> ('h, 'sk) app_state" where
  "app_state_new keys auth authz =
     \<lparr>ap_keys = keys, ap_auth = auth, ap_authz = authz, ap_limiter = limiter_new\<rparr>"

record ('h, 'd, 'sk) sign_env =
  sg_request_id :: string
  sg_sha256 :: "string \<Rightarrow> 'h"
  sg_actions :: "'d actions_env"
  sg_parse :: "string \<Rightarrow> string option"
  sg_b64_decode :: "string \<Rightarrow> string option"
  sg_b64_encode :: "string \<Rightarrow> string"
  sg_hex_encode :: "string \<Rightarrow> string"
  sg_crypto :: "'sk crypto"
  sg_rng :: string

definition sign_audit ::
  "('h, 'd, 'sk) sign_env \<Rightarrow> bool \<Rightarrow> string \<Rightarrow> auth_principal \<Rightarrow> string \<Rightarrow> string option \<Rightarrow> audit_event" where
  "sign_audit env success reason who key_id firmware_digest =
     SignAudit (make_audit_record (sg_request_id env) ''sign'' success reason (Some who)
       \<lparr>dt_key_id = Some key_id, dt_firmware_digest = firmware_digest\<rparr>)"

definition anonymous_sign_audit :: "('h, 'd, 'sk) sign_env \<Rightarrow> string \<Rightarrow> audit_event" where
  "anonymous_sign_audit env reason =
     SignAudit (make_audit_record (sg_request_id env) ''sign'' False reason None
       \<lparr>dt_key_id = None, dt_firmware_digest = None\<rparr>)"

text \<open>The signing handler after authentication.\<close>

definition sign_authenticated ::
  "('h, 'd, 'sk) sign_env \<Rightarrow> string \<Rightarrow> string \<Rightarrow> auth_principal \<Rightarrow> 'sk key_store \<Rightarrow> authorizer
   \<Rightarrow> (api_error, string) outcome \<times> audit_event list" where
  "sign_authenticated env key_id body who keys authz =
     (let rid = sg_request_id env in
      case sg_parse env body of
        None \<Rightarrow> (Err (api_error_new 400 ''malformed-json'' rid),
                 [sign_audit env False ''malformed-json'' who key_id None])
      | Some request_digest \<Rightarrow>
          (case validate_signing_request keys authz (sg_b64_decode env) who key_id request_digest of
             Panic \<Rightarrow> (Panic, [])
           | Err e \<Rightarrow> (Err (e\<lparr>er_request_id := rid\<rparr>), [sign_audit env False (er_slug e) who key_id None])
           | Ok digest \<Rightarrow>
               (case (ks_get keys key_id :: (api_error, 'sk key_material option) outcome) of
                  Ok (Some key) \<Rightarrow>
                    (case sign_digest (sg_crypto env) (sg_rng env) key digest of
                       Ok signature \<Rightarrow>
                         (Ok (sg_b64_encode env signature),
                          [sign_audit env True ''ok'' who key_id (Some (sg_hex_encode env digest))])
                     | Err Locked \<Rightarrow> (Err (api_error_new 423 ''key-locked'' rid), [])
                     | Err Failed \<Rightarrow> (Err (api_error_new 500 ''signing-failed'' rid), [])
                     | Panic \<Rightarrow> (Panic, []))
                | _ \<Rightarrow> (Panic, []))))"

definition create_signature ::
  "('h, 'd, 'sk) sign_env \<Rightarrow> string \<Rightarrow> header_map \<Rightarrow> string \<Rightarrow> ('h, 'sk) app_state
   \<Rightarrow> (api_error, string) outcome \<times> ('h, 'sk) app_state \<times> audit_event list" where
  "create_signature env key_id headers body st =
     (if \<not> is_json_content_type headers
      then (Err (api_error_new 415 ''unsupported-content-type'' (sg_request_id env)), st, []) else
      let (authenticated, auth) = authenticate (sg_sha256 env) (sg_actions env) headers (ap_auth st);
          st1 = st\<lparr>ap_auth := auth\<rparr> in
      case authenticated of
        Panic \<Rightarrow> (Panic, st1, [])
      | Err e \<Rightarrow>
          let api_error = auth_api_error e (sg_request_id env) in
          (Err api_error, st1, [anonymous_sign_audit env (er_slug api_error)])
      | Ok who \<Rightarrow>
          let (result, audit) = sign_authenticated env key_id body who (ap_keys st1) (ap_authz st1) in
          (result, st1, audit))"

definition get_public_key ::
  "'sk crypto \<Rightarrow> string \<Rightarrow> string \<Rightarrow> ('h, 'sk) app_state \<Rightarrow> (api_error, string) outcome" where
  "get_public_key cr request_id key_id st =
     and_then (if valid_key_id key_id then ks_get (ap_keys st) key_id else Ok None) (\<lambda>found.
     and_then (ok_or (api_error_new 404 ''unknown-key'' request_id) found) (\<lambda>key.
     ok_or (api_error_new 423 ''key-locked'' request_id) (public_key_pem cr key)))"

text \<open>The permit of the limiter is held until the handler ends.\<close>

definition drop_admission :: "('h, 'sk) app_state \<Rightarrow> ('h, 'sk) app_state" where
  "drop_admission st = st\<lparr>ap_limiter := release_permit (ap_limiter st)\<rparr>"

definition health :: nat where
  "health = 204"

definition github_oauth_device_config_handler ::
  "('h, 'sk) app_state \<Rightarrow> oauth_device_config \<times> (string \<times> string) list" where
  \<comment> \<open>the body and the header it adds\<close>
  "github_oauth_device_config_handler st =
     (github_oauth_device_config (ap_auth st), [(''cache-control'', ''no-store'')])"

definition github_oauth_device_exchange ::
  "'h exchange_env \<Rightarrow> string \<Rightarrow> instant \<Rightarrow> (string \<Rightarrow> string option) \<Rightarrow> socket_addr \<Rightarrow> header_map \<Rightarrow> string
   \<Rightarrow> ('h, 'sk) app_state
   \<Rightarrow> (api_error, oauth_session_grant) outcome \<times> ('h, 'sk) app_state \<times> audit_event list \<times> http_request list" where
  "github_oauth_device_exchange env request_id now parse_exchange peer headers body st =
     (case admit now (sa_ip peer) (ap_limiter st) of
        (Err e, lm) \<Rightarrow> (Err (device_exchange_api_error e request_id), st\<lparr>ap_limiter := lm\<rparr>, [], [])
      | (Panic, lm) \<Rightarrow> (Panic, st\<lparr>ap_limiter := lm\<rparr>, [], [])
      | (Ok _, lm) \<Rightarrow>
          let st1 = st\<lparr>ap_limiter := lm\<rparr> in
          if \<not> is_json_content_type headers
          then (Err (api_error_new 415 ''unsupported-content-type'' request_id), drop_admission st1, [], []) else
          (case parse_exchange body of
             None \<Rightarrow> (Err (api_error_new 400 ''malformed-json'' request_id), drop_admission st1, [], [])
           | Some access_token \<Rightarrow>
               let (result, auth, requests) = complete_github_device_oauth env access_token (ap_auth st1);
                   st2 = drop_admission (st1\<lparr>ap_auth := auth\<rparr>) in
               (case result of
                  Ok grant \<Rightarrow> (Ok grant, st2, [], requests)
                | Err e \<Rightarrow> (Err (oauth_flow_api_error e request_id), st2, [LoginAudit request_id e], requests)
                | Panic \<Rightarrow> (Panic, st2, [], requests))))"

section \<open>Handlers of the admin API\<close>

definition parse_unlock_request ::
  "(string \<Rightarrow> string option) \<Rightarrow> string \<Rightarrow> string \<Rightarrow> (api_error, string) outcome" where
  "parse_unlock_request parse body request_id =
     and_then (ok_or (api_error_new 400 ''malformed-json'' request_id) (parse body)) (\<lambda>passphrase.
     if passphrase = [] then Err (api_error_new 400 ''empty-passphrase'' request_id) else Ok passphrase)"

definition require_json_unlock_request :: "header_map \<Rightarrow> string \<Rightarrow> (api_error, unit) outcome" where
  "require_json_unlock_request headers request_id =
     (if is_json_content_type headers then Ok ()
      else Err (api_error_new 415 ''unsupported-content-type'' request_id))"

definition unlock_task_failed :: "string \<Rightarrow> string \<Rightarrow> api_error \<times> audit_event list" where
  "unlock_task_failed request_id key_id =
     (api_error_new 500 ''key-unlock-failure'' request_id,
      [UnlockKeyAudit request_id False ''unlock-task-failed'' key_id])"

definition keyring_unlock_task_failed :: "string \<Rightarrow> string \<Rightarrow> api_error \<times> audit_event list" where
  "keyring_unlock_task_failed request_id keyring =
     (api_error_new 500 ''key-unlock-failure'' request_id,
      [UnlockKeyringAudit request_id False ''unlock-task-failed'' keyring []])"

fun unlock_key_response ::
  "string \<Rightarrow> string \<Rightarrow> (unlock_error, unlock_outcome) outcome
   \<Rightarrow> (api_error, nat) outcome \<times> audit_event list" where
  "unlock_key_response rid key_id (Ok outcome) =
     (Ok 204, [UnlockKeyAudit rid True (if outcome = AlreadyUnlocked then ''already-unlocked'' else ''ok'') key_id])"
| "unlock_key_response rid key_id (Err Inactive) =
     (Err (api_error_new 409 ''key-state-conflict'' rid), [UnlockKeyAudit rid False ''key-not-active'' key_id])"
| "unlock_key_response rid key_id (Err InvalidPassphrase) =
     (Err (api_error_new 403 ''invalid-key-passphrase'' rid),
      [UnlockKeyAudit rid False ''invalid-passphrase'' key_id])"
| "unlock_key_response rid key_id (Err LockPoisoned) =
     (Err (api_error_new 500 ''key-lock-failure'' rid), [])"
| "unlock_key_response rid key_id Panic =
     (Err (fst (unlock_task_failed rid key_id)), snd (unlock_task_failed rid key_id))"

definition store_key :: "'sk key_store \<Rightarrow> 'sk key_material \<Rightarrow> 'sk key_store" where
  \<comment> \<open>the key is unlocked in place; identifiers are unique\<close>
  "store_key store k =
     store\<lparr>ks_keys := map (\<lambda>k'. if km_id k' = km_id k then k else k') (ks_keys store)\<rparr>"

definition unlock_key ::
  "'sk crypto \<Rightarrow> string \<Rightarrow> (string \<Rightarrow> string option) \<Rightarrow> string \<Rightarrow> header_map \<Rightarrow> string \<Rightarrow> 'sk key_store
   \<Rightarrow> (api_error, nat) outcome \<times> 'sk key_store \<times> audit_event list" where
  "unlock_key cr rid parse key_id headers body keys =
     (case require_json_unlock_request headers rid of
        Err e \<Rightarrow> (Err e, keys, [])
      | Panic \<Rightarrow> (Panic, keys, [])
      | Ok _ \<Rightarrow>
          (case if valid_key_id key_id then ks_get keys key_id else Ok None of
             Err e \<Rightarrow> (Err e, keys, [])
           | Panic \<Rightarrow> (Panic, keys, [])
           | Ok None \<Rightarrow> (Err (api_error_new 404 ''unknown-key'' rid), keys,
                        [UnlockKeyAudit rid False ''unknown-key'' key_id])
           | Ok (Some key) \<Rightarrow>
               (case parse_unlock_request parse body rid of
                  Err e \<Rightarrow> (Err e, keys, [])
                | Panic \<Rightarrow> (Panic, keys, [])
                | Ok passphrase \<Rightarrow>
                    let (result, key') = unlock cr key passphrase;
                        (response, audit) = unlock_key_response rid (km_id key) result in
                    (response, store_key keys key', audit))))"

fun keyring_unlock_response ::
  "string \<Rightarrow> string \<Rightarrow> (keyring_unlock_error, keyring_member_outcome list) outcome
   \<Rightarrow> (api_error, string \<times> (string \<times> string) list) outcome \<times> audit_event list" where
  "keyring_unlock_response rid keyring (Ok outcomes) =
     (Ok (keyring, map (\<lambda>o'. (mo_key_id o', keyring_member_result_as_str (mo_result o'))) outcomes),
      map (\<lambda>o'. UnlockKeyringAudit rid True (keyring_member_result_as_str (mo_result o')) keyring
                  [mo_key_id o']) outcomes)"
| "keyring_unlock_response rid keyring (Err UnknownKeyring) =
     (Err (api_error_new 404 ''unknown-keyring'' rid),
      [UnlockKeyringAudit rid False ''unknown-keyring'' keyring []])"
| "keyring_unlock_response rid keyring (Err NoActiveKeys) =
     (Err (api_error_new 409 ''keyring-has-no-active-keys'' rid),
      [UnlockKeyringAudit rid False ''no-active-keys'' keyring []])"
| "keyring_unlock_response rid keyring (Err KeyringInvalidPassphrase) =
     (Err (api_error_new 403 ''invalid-key-passphrase'' rid),
      [UnlockKeyringAudit rid False ''invalid-passphrase'' keyring []])"
| "keyring_unlock_response rid keyring (Err (PassphraseMismatch opened failed)) =
     (Err (with_keys failed (api_error_new 409 ''keyring-passphrase-mismatch'' rid)),
      [UnlockKeyringAudit rid False ''keyring-passphrase-mismatch'' keyring failed])"
| "keyring_unlock_response rid keyring (Err KeyringLockPoisoned) =
     (Err (api_error_new 500 ''key-lock-failure'' rid), [])"
| "keyring_unlock_response rid keyring Panic =
     (Err (fst (keyring_unlock_task_failed rid keyring)), snd (keyring_unlock_task_failed rid keyring))"

definition unlock_keyring_handler ::
  "'sk crypto \<Rightarrow> string \<Rightarrow> (string \<Rightarrow> string option) \<Rightarrow> string \<Rightarrow> header_map \<Rightarrow> string \<Rightarrow> 'sk key_store
   \<Rightarrow> (api_error, string \<times> (string \<times> string) list) outcome \<times> 'sk key_store \<times> audit_event list" where
  "unlock_keyring_handler cr rid parse keyring headers body keys =
     (case require_json_unlock_request headers rid of
        Err e \<Rightarrow> (Err e, keys, [])
      | Panic \<Rightarrow> (Panic, keys, [])
      | Ok _ \<Rightarrow>
          if \<not> valid_keyring_name keyring \<or> \<not> has_keyring keys keyring
          then (Err (api_error_new 404 ''unknown-keyring'' rid), keys,
                [UnlockKeyringAudit rid False ''unknown-keyring'' keyring []]) else
          (case parse_unlock_request parse body rid of
             Err e \<Rightarrow> (Err e, keys, [])
           | Panic \<Rightarrow> (Panic, keys, [])
           | Ok passphrase \<Rightarrow>
               let (result, keys') = unlock_keyring cr keys keyring passphrase;
                   (response, audit) = keyring_unlock_response rid keyring result in
               (response, keys', audit)))"

end
