(* ===== verification/Api_Facts.thy ===== *)
theory Api_Facts
  imports Api_Model
begin

text \<open>
  Correctness of the handlers: exactly which requests are signed, that no handler panics, what is
  audited, and the effect and the answers of the admin handlers.

  The handlers rely on the key store through the locale \<open>key_table\<close>: lookups are total on well-formed
  stores and answer with the key of that identifier.
\<close>

section \<open>What the handlers need of the key store\<close>

locale key_table =
  fixes wf :: "'s \<Rightarrow> bool"
    and get :: "'s \<Rightarrow> string \<Rightarrow> ('e, 'k option) outcome"
    and ident :: "'k \<Rightarrow> string"
  assumes get_total: "wf s \<Longrightarrow> \<exists>found. get s i = Ok found"
    and get_ident: "wf s \<Longrightarrow> get s i = Ok (Some k) \<Longrightarrow> ident k = i"
begin

lemma get_no_panic: "wf s \<Longrightarrow> get s i \<noteq> Panic"
  using get_total [of s i] by auto

lemma get_no_error: "wf s \<Longrightarrow> get s i \<noteq> Err e"
  using get_total [of s i] by auto

lemma guarded_get_total: "wf s \<Longrightarrow> \<exists>found. (if c then get s i else Ok None) = Ok found"
  using get_total by auto

end

interpretation ks: key_table store_wf ks_get km_id
proof unfold_locales
  show "\<exists>found. ks_get s i = Ok found" if "store_wf s" for s :: "'a key_store" and i
    using that by (simp add: ks_get_wf)
  show "km_id k = i" if "store_wf s" "ks_get s i = Ok (Some k)" for s :: "'a key_store" and i k
    using that by (auto simp: ks_get_wf dest: find_id_same)
qed

section \<open>Signing requests\<close>

lemma validate_signing_context_Ok:
  "validate_signing_context who = Ok () \<longleftrightarrow>
     (\<forall>actions. pr_source who = GithubActions actions \<longrightarrow>
        act_ref_type actions = ''tag'' \<and> act_ref_protected actions
        \<and> (\<exists>tag. tag \<noteq> [] \<and> act_git_ref actions = ''refs/tags/'' @ tag))"
  by (auto simp: validate_signing_context_def strip_prefix_Some strip_prefix_None prefix_def
      split: auth_source.splits option.splits)

lemma validate_signing_context_not_Panic [simp]: "validate_signing_context who \<noteq> Panic"
  by (simp add: validate_signing_context_def split: auth_source.splits option.splits)

lemma validate_signing_request_Ok:
  assumes "store_wf keys"
  shows "validate_signing_request keys authz b64 who key_id d64 = Ok digest \<longleftrightarrow>
    valid_key_id key_id \<and> authorize authz who Sign key_id = Ok ()
    \<and> (\<exists>key. find (\<lambda>k. km_id k = key_id) (ks_keys keys) = Some key \<and> km_state key = Active \<and> is_unlocked key)
    \<and> b64 d64 = Some digest \<and> length digest = 32 \<and> validate_signing_context who = Ok ()"
  by (auto simp: validate_signing_request_def ks_get_wf [OF assms] split: option.splits)

lemma validate_signing_request_not_Panic:
  assumes "store_wf keys"
  shows "validate_signing_request keys authz b64 who key_id d64 \<noteq> Panic"
  by (auto simp: validate_signing_request_def ks_get_wf [OF assms] split: option.splits)

lemma sign_digest_not_Panic [simp]: "sign_digest cr rng k d \<noteq> Panic"
  by (simp add: sign_digest_def split: option.splits)

lemma sign_digest_unlocked: "is_unlocked k \<Longrightarrow> sign_digest cr rng k d \<noteq> Err Locked"
  by (cases "km_unlocked k") (auto simp: sign_digest_def is_unlocked_def ok_or_def split: option.splits if_splits)

lemma sign_authenticated_Ok:
  assumes "store_wf keys"
  shows "fst (sign_authenticated env key_id body who keys authz) = Ok sig \<longleftrightarrow>
    (\<exists>d64 digest key raw. sg_parse env body = Some d64
       \<and> validate_signing_request keys authz (sg_b64_decode env) who key_id d64 = Ok digest
       \<and> find (\<lambda>k. km_id k = key_id) (ks_keys keys) = Some key
       \<and> sign_digest (sg_crypto env) (sg_rng env) key digest = Ok raw \<and> sig = sg_b64_encode env raw)"
proof (cases "sg_parse env body")
  case None
  then show ?thesis by (simp add: sign_authenticated_def)
next
  case (Some d64)
  show ?thesis
  proof (cases "validate_signing_request keys authz (sg_b64_decode env) who key_id d64")
    case (Ok digest)
    then obtain key where key: "find (\<lambda>k. km_id k = key_id) (ks_keys keys) = Some key"
      by (auto simp: validate_signing_request_Ok [OF assms])
    show ?thesis
      using Some Ok key
      by (cases "sign_digest (sg_crypto env) (sg_rng env) key digest")
        (auto simp: sign_authenticated_def ks_get_wf [OF assms] Let_def split: sign_error.splits)
  qed (use Some in \<open>simp_all add: sign_authenticated_def\<close>)
qed

lemma sign_authenticated_not_Panic:
  assumes "store_wf keys"
  shows "fst (sign_authenticated env key_id body who keys authz) \<noteq> Panic"
proof (cases "sg_parse env body")
  case None
  then show ?thesis by (simp add: sign_authenticated_def)
next
  case (Some d64)
  show ?thesis
  proof (cases "validate_signing_request keys authz (sg_b64_decode env) who key_id d64")
    case (Ok digest)
    then obtain key where key: "find (\<lambda>k. km_id k = key_id) (ks_keys keys) = Some key"
      by (auto simp: validate_signing_request_Ok [OF assms])
    show ?thesis
      using Some Ok key
      by (cases "sign_digest (sg_crypto env) (sg_rng env) key digest")
        (auto simp: sign_authenticated_def ks_get_wf [OF assms] Let_def split: sign_error.splits)
  qed (use Some validate_signing_request_not_Panic [OF assms] in \<open>simp_all add: sign_authenticated_def\<close>)
qed

lemma sign_authenticated_audit:
  assumes "store_wf keys" and "sign_authenticated env key_id body who keys authz = (r, audit)"
  shows "case r of
      Ok sig \<Rightarrow> \<exists>digest. audit = [sign_audit env True ''ok'' who key_id (Some (sg_hex_encode env digest))]
        \<and> (\<exists>key raw. ks_get keys key_id = (Ok (Some key) :: (api_error, _) outcome)
             \<and> sign_digest (sg_crypto env) (sg_rng env) key digest = Ok raw \<and> sig = sg_b64_encode env raw)
    | Err e \<Rightarrow> er_request_id e = sg_request_id env
        \<and> (audit = [] \<and> er_slug e = ''signing-failed''
           \<or> (\<exists>entry. audit = [SignAudit entry] \<and> \<not> ad_success entry
                \<and> ad_reason entry = er_slug e \<and> ad_request_id entry = sg_request_id env))
    | Panic \<Rightarrow> audit = []"
proof (cases "sg_parse env body")
  case None
  then show ?thesis
    using assms(2) by (auto simp: sign_authenticated_def sign_audit_def make_audit_record_def api_error_new_def Let_def)
next
  case (Some d64)
  show ?thesis
  proof (cases "validate_signing_request keys authz (sg_b64_decode env) who key_id d64")
    case (Ok digest)
    then obtain key where key: "find (\<lambda>k. km_id k = key_id) (ks_keys keys) = Some key" and "is_unlocked key"
      by (auto simp: validate_signing_request_Ok [OF assms(1)])
    then have "sign_digest (sg_crypto env) (sg_rng env) key digest \<noteq> Err Locked"
      by (simp add: sign_digest_unlocked)
    then show ?thesis
      using assms(2) Some Ok key
      by (cases "sign_digest (sg_crypto env) (sg_rng env) key digest")
        (auto simp: sign_authenticated_def ks_get_wf [OF assms(1)] api_error_new_def Let_def
          split: sign_error.splits, blast)
  next
    case (Err e)
    then show ?thesis
      using assms(2) Some by (auto simp: sign_authenticated_def sign_audit_def make_audit_record_def Let_def)
  next
    case Panic
    then show ?thesis using assms(2) Some by (auto simp: sign_authenticated_def)
  qed
qed

lemma auth_api_error_id: "er_request_id (auth_api_error e rid) = rid"
  by (cases e) (simp_all add: unauthorized_def api_error_new_def)

text \<open>The parts of a successful signature.\<close>

lemma create_signature_Ok:
  assumes "store_wf (ap_keys st)"
  shows "fst (create_signature env key_id headers body st) = Ok sig \<longleftrightarrow>
    is_json_content_type headers
    \<and> (\<exists>who auth d64 digest key raw.
         authenticate (sg_sha256 env) (sg_actions env) headers (ap_auth st) = (Ok who, auth)
         \<and> sg_parse env body = Some d64
         \<and> valid_key_id key_id \<and> authorize (ap_authz st) who Sign key_id = Ok ()
         \<and> find (\<lambda>k. km_id k = key_id) (ks_keys (ap_keys st)) = Some key
         \<and> km_state key = Active \<and> is_unlocked key
         \<and> sg_b64_decode env d64 = Some digest \<and> length digest = 32
         \<and> validate_signing_context who = Ok ()
         \<and> sign_digest (sg_crypto env) (sg_rng env) key digest = Ok raw \<and> sig = sg_b64_encode env raw)"
proof (cases "is_json_content_type headers")
  case False
  then show ?thesis by (simp add: create_signature_def)
next
  case True
  obtain r auth where auth: "authenticate (sg_sha256 env) (sg_actions env) headers (ap_auth st) = (r, auth)"
    by fastforce
  show ?thesis
  proof (cases r)
    case (Ok who)
    have "fst (create_signature env key_id headers body st) = Ok sig \<longleftrightarrow>
        fst (sign_authenticated env key_id body who (ap_keys st) (ap_authz st)) = Ok sig"
      using True auth Ok by (simp add: create_signature_def split: prod.split)
    also have "\<dots> \<longleftrightarrow> (\<exists>d64 digest key raw. sg_parse env body = Some d64
         \<and> valid_key_id key_id \<and> authorize (ap_authz st) who Sign key_id = Ok ()
         \<and> find (\<lambda>k. km_id k = key_id) (ks_keys (ap_keys st)) = Some key
         \<and> km_state key = Active \<and> is_unlocked key
         \<and> sg_b64_decode env d64 = Some digest \<and> length digest = 32
         \<and> validate_signing_context who = Ok ()
         \<and> sign_digest (sg_crypto env) (sg_rng env) key digest = Ok raw \<and> sig = sg_b64_encode env raw)"
      unfolding sign_authenticated_Ok [OF assms] validate_signing_request_Ok [OF assms]
      by (cases "find (\<lambda>k. km_id k = key_id) (ks_keys (ap_keys st))") auto
    finally show ?thesis using True auth Ok by (simp del: and_then_eq_Ok)
  qed (use True auth in \<open>simp_all add: create_signature_def Let_def\<close>)
qed

section \<open>Absence of panics\<close>

lemma record_jti_not_Panic:
  "now + int (from_secs (jti_remaining unix_now exp)) < INSTANT_LIMIT \<Longrightarrow>
     fst (record_jti now unix_now jti exp seen) \<noteq> Panic"
  by (simp add: record_jti_def Let_def instant_add_def)

lemma authenticate_actions_not_Panic:
  assumes "\<And>v key claims. jl_decode (ae_jwt env) (ae_decode_unix env) v key token = Some claims \<Longrightarrow>
      ae_now env + int (from_secs (jti_remaining (ae_unix env) (cl_exp claims))) < INSTANT_LIMIT"
  shows "fst (authenticate_github_actions env token st) \<noteq> Panic"
proof -
  obtain r st' where r: "authenticate_github_actions env token st = (r, st')" by fastforce
  have rec: "fst (record_jti (ae_now env) (ae_unix env) jti (cl_exp claims) seen) \<noteq> Panic"
    if "verify_actions_token env token jwk st1 = Ok (claims, jti, i)" for jwk st1 claims jti i seen
    using verify_actions_token_Ok [OF that] assms record_jti_not_Panic by blast
  from r show ?thesis
  proof (cases rule: authenticate_actions_cases)
    case (3 kid jwk jwks attempts claims jti identity recorded seen)
    have "recorded \<noteq> Panic" using rec [OF 3(2)] 3(3) by (metis fst_conv)
    then show ?thesis using r 3(4) by auto
  qed (use r in simp_all)
qed

lemma session_not_Panic: "authenticate_github_account_session sha256 now token st \<noteq> Panic"
  by (simp add: authenticate_github_account_session_def split: option.splits)

lemma authenticate_not_Panic:
  assumes "\<And>v key token claims. jl_decode (ae_jwt env) (ae_decode_unix env) v key token = Some claims \<Longrightarrow>
      ae_now env + int (from_secs (jti_remaining (ae_unix env) (cl_exp claims))) < INSTANT_LIMIT"
  shows "fst (authenticate sha256 env headers st) \<noteq> Panic"
  using authenticate_actions_not_Panic [of env _ st] assms
  by (auto simp: authenticate_def session_not_Panic bearer_token_not_Panic split: outcome.splits)

section \<open>Unlocking one key\<close>

lemma store_key_nth:
  assumes "store_wf keys" and "find (\<lambda>k. km_id k = i) (ks_keys keys) = Some k" and "km_id k' = km_id k"
  shows "\<exists>p < length (ks_keys keys). ks_keys keys ! p = k \<and> ks_keys (store_key keys k') = (ks_keys keys)[p := k']"
proof -
  obtain p where p: "p < length (ks_keys keys)" "ks_keys keys ! p = k"
    using assms(2) by (auto simp: find_Some_iff)
  have "km_id (ks_keys keys ! q) = km_id k \<longleftrightarrow> q = p" if "q < length (ks_keys keys)" for q
    using store_wf_ids [OF assms(1)] that p by (auto simp: distinct_conv_nth)
  then have "ks_keys (store_key keys k') = (ks_keys keys)[p := k']"
    using assms(3) p by (intro nth_equalityI) (auto simp: store_key_def nth_list_update)
  with p show ?thesis by blast
qed

lemma unlock_same_id: "key_inv cr k \<Longrightarrow> km_id (snd (unlock cr k pw)) = km_id k"
  using unlock_extends key_extends_same by blast

lemma unlock_key_cases:
  assumes "store_inv cr keys" and "unlock_key cr rid parse key_id headers body keys = (r, keys', audit)"
  obtains e where "r = Err e" "keys' = keys"
  | key pw where "find (\<lambda>k. km_id k = key_id) (ks_keys keys) = Some key" "parse body = Some pw" "pw \<noteq> []"
      "r = fst (unlock_key_response rid key_id (fst (unlock cr key pw)))"
      "keys' = store_key keys (snd (unlock cr key pw))"
proof -
  have wf: "store_wf keys" using assms(1) by (simp add: store_inv_def)
  show ?thesis
  proof (cases "is_json_content_type headers \<and> valid_key_id key_id
      \<and> (\<exists>pw. parse body = Some pw \<and> pw \<noteq> [])")
    case False
    then have "\<exists>e. r = Err e \<and> keys' = keys"
      using assms(2)
      by (cases "parse body")
        (auto simp: unlock_key_def require_json_unlock_request_def parse_unlock_request_def ks_get_wf [OF wf]
          split: option.splits if_splits)
    then show ?thesis using that(1) by blast
  next
    case True
    then obtain pw where pw: "parse body = Some pw" "pw \<noteq> []" by blast
    show ?thesis
    proof (cases "find (\<lambda>k. km_id k = key_id) (ks_keys keys)")
      case None
      then show ?thesis
        using assms(2) True that(1)
        by (auto simp: unlock_key_def require_json_unlock_request_def ks_get_wf [OF wf])
    next
      case (Some key)
      have "(r, keys', audit) = (let (result, key') = unlock cr key pw;
          (response, audit) = unlock_key_response rid (km_id key) result in
          (response, store_key keys key', audit))"
        using assms(2) True Some pw
        by (simp add: unlock_key_def require_json_unlock_request_def parse_unlock_request_def ks_get_wf [OF wf])
      then show ?thesis
        using that(2) [OF Some pw] find_id_same [OF Some] by (auto split: prod.splits)
    qed
  qed
qed

lemma unlock_response_Ok:
  "fst (unlock_key_response rid i r) = Ok status \<longleftrightarrow> is_ok r \<and> status = 204"
  by (cases "(rid, i, r)" rule: unlock_key_response.cases) auto

lemma unlock_response_not_Panic: "fst (unlock_key_response rid i r) \<noteq> Panic"
  by (cases "(rid, i, r)" rule: unlock_key_response.cases) auto

lemma unlock_not_Ok: "key_inv cr k \<Longrightarrow> \<not> is_ok (fst (unlock cr k pw)) \<Longrightarrow> snd (unlock cr k pw) = k"
  by (auto simp: unlock_cases split: outcome.splits if_splits)

lemma unlock_is_Ok: "key_inv cr k \<Longrightarrow> is_ok (fst (unlock cr k pw)) \<Longrightarrow> is_unlocked (snd (unlock cr k pw))"
  by (auto simp: unlock_cases is_unlocked_def key_inv_def split: outcome.splits if_splits)

lemma unlock_key_effect:
  assumes "store_inv cr keys" and "unlock_key cr rid parse key_id headers body keys = (r, keys', audit)"
  shows "store_inv cr keys' \<and> r \<noteq> Panic
    \<and> (\<forall>e. r = Err e \<longrightarrow> keys' = keys)
    \<and> (\<forall>status. r = Ok status \<longrightarrow> status = 204
         \<and> (\<exists>p < length (ks_keys keys). km_id (ks_keys keys ! p) = key_id
              \<and> is_unlocked (ks_keys keys' ! p) \<and> key_extends (ks_keys keys ! p) (ks_keys keys' ! p)
              \<and> (\<forall>q < length (ks_keys keys). q \<noteq> p \<longrightarrow> ks_keys keys' ! q = ks_keys keys ! q)))"
  using assms(2)
proof (cases rule: unlock_key_cases [OF assms])
  case (1 e)
  then show ?thesis using assms(1) by simp
next
  case (2 key pw)
  have wf: "store_wf keys" and inv: "\<forall>k\<in>set (ks_keys keys). key_inv cr k"
    using assms(1) by (simp_all add: store_inv_def)
  let ?k = "snd (unlock cr key pw)"
  have key: "key_inv cr key" using 2(1) inv by (auto simp: find_Some_iff)
  obtain p where p: "p < length (ks_keys keys)" "ks_keys keys ! p = key"
      "ks_keys (store_key keys ?k) = (ks_keys keys)[p := ?k]"
    using store_key_nth [OF wf 2(1) unlock_same_id [OF key]] by blast
  have id: "km_id key = key_id" using find_id_same [OF 2(1)] .
  have keys': "keys' = keys\<lparr>ks_keys := (ks_keys keys)[p := ?k]\<rparr>"
    using 2(5) p(3) by (simp add: store_key_def)
  have "map km_id ((ks_keys keys)[p := ?k]) = map km_id (ks_keys keys)"
    using p unlock_same_id [OF key] by (simp add: map_update list_update_same_conv)
  then have inv': "store_inv cr keys'"
    using store_wf_extends [OF wf] inv unlock_key_inv [OF key, of pw]
    by (auto simp: store_inv_def keys' dest!: set_update_subset_insert [THEN subsetD])
  show ?thesis
  proof (cases "is_ok (fst (unlock cr key pw))")
    case True
    then have "r = Ok 204" using 2(4) unlock_response_Ok by metis
    then show ?thesis
      using inv' p id keys' unlock_is_Ok [OF key True] unlock_extends [OF key, of pw] by auto
  next
    case False
    then have "\<exists>e. r = Err e"
      using 2(4) unlock_response_Ok unlock_response_not_Panic by (metis outcome.exhaust)
    moreover have "keys' = keys" using keys' p unlock_not_Ok [OF key False] by (cases keys) auto
    ultimately show ?thesis using assms(1) by auto
  qed
qed

section \<open>Unlocking a keyring\<close>

lemma keyring_mismatch:
  assumes "store_inv cr keys" and "unlock_keyring cr keys keyring pw = (Err (PassphraseMismatch ok bad), keys')"
  shows "bad \<noteq> [] \<and> bad = map km_id (filter (\<lambda>k. needs_unlock k \<and> \<not> opens cr pw k) (ring_keys keys keyring))"
  using assms(2)
  by (auto simp: unlock_keyring_closed [OF assms(1)] Let_def filter_empty_conv conj_commute split: if_splits)

lemma keyring_answer:
  assumes "store_inv cr keys" and "unlock_keyring cr keys keyring pw = (result, keys')"
  shows "case fst (keyring_unlock_response rid keyring result) of
      Ok (name, members) \<Rightarrow> name = keyring
        \<and> map fst members = map km_id (ring_keys keys keyring)
        \<and> length (snd (keyring_unlock_response rid keyring result)) = length members
        \<and> store_inv cr keys'
        \<and> (\<forall>k\<in>set (ring_keys keys' keyring). km_state k = Active \<longrightarrow> is_unlocked k)
    | Err e \<Rightarrow> keys' = keys
        \<and> (er_slug e = ''keyring-passphrase-mismatch'' \<longrightarrow> er_keys e \<noteq> []
             \<and> er_keys e = map km_id (filter (\<lambda>k. needs_unlock k \<and> \<not> opens cr pw k) (ring_keys keys keyring)))
    | Panic \<Rightarrow> False"
proof (cases result)
  case (Ok outcomes)
  then show ?thesis
    using unlock_keyring_effect [OF assms(1), of keyring pw] assms(2) by (simp add: comp_def)
next
  case (Err e)
  then show ?thesis
    using unlock_keyring_effect [OF assms(1), of keyring pw] assms(2) keyring_mismatch [OF assms(1)]
    by (cases e) (auto simp: api_error_new_def with_keys_def)
next
  case Panic
  then show ?thesis using unlock_keyring_effect [OF assms(1), of keyring pw] assms(2) by simp
qed

section \<open>Sessions and the exchange\<close>

definition sessions_within :: "'h inner \<Rightarrow> 'h inner \<Rightarrow> bool" where
  "sessions_within st' st \<longleftrightarrow>
     (\<forall>h s. hm_get (in_oauth_sessions st') h = Some s \<longrightarrow> hm_get (in_oauth_sessions st) h = Some s)"

lemma sessions_within_refl [simp]: "sessions_within st st"
  by (simp add: sessions_within_def)

lemma sessions_within_same: "in_oauth_sessions st' = in_oauth_sessions st \<Longrightarrow> sessions_within st' st"
  by (simp add: sessions_within_def)

lemma mint_not_Ok:
  assumes "hm_wf (in_oauth_sessions st)"
    and "mint_github_account_session sha256 now token identity_id user st = (r, st')" and "\<not> is_ok r"
  shows "sessions_within st' st"
  using assms
  by (auto simp: mint_github_account_session_def sessions_within_def hm_get_retain Let_def
      split: option.splits if_splits)

lemma finish_not_Ok:
  assumes "hm_wf (in_oauth_sessions st)"
    and "finish_device_oauth env key account st = (r, st')" and "\<not> is_ok r"
  shows "sessions_within st' st"
proof -
  obtain m replay where mark: "mark_consumed (xe_consume env) key (in_device_token_replay st) = (m, replay)"
    by fastforce
  show ?thesis
  proof (cases "is_ok m \<and> is_ok account")
    case True
    then obtain identity_id user where "account = Ok (identity_id, user)" by (auto simp: is_ok_iff)
    then have "mint_github_account_session (xe_sha256 env) (xe_mint env) (xe_token env) identity_id user
        (with_replay replay st) = (r, st')"
      using True assms(2) mark by (auto simp: finish_device_oauth_def is_ok_iff)
    from mint_not_Ok [OF _ this assms(3)] show ?thesis using assms(1) by (simp add: sessions_within_def)
  next
    case False
    then have "in_oauth_sessions st' = in_oauth_sessions st"
      using assms(2) mark by (cases m; cases account) (auto simp: finish_device_oauth_def)
    then show ?thesis by (rule sessions_within_same)
  qed
qed

lemma drop_use_guard_sessions [simp]: "in_oauth_sessions (drop_use_guard key st) = in_oauth_sessions st"
  by (simp add: drop_use_guard_def)

lemma complete_not_Ok:
  assumes "auth_inv st" and "complete_github_device_oauth env token st = (r, st', requests)" and "\<not> is_ok r"
  shows "sessions_within st' st"
proof -
  have wf: "hm_wf (in_oauth_sessions st)" using assms(1) by (simp add: auth_inv_def sessions_inv_def)
  have fin: "sessions_within (drop_use_guard key st2) st"
    if "finish_device_oauth env key account (with_replay replay st) = (r, st2)" for key account replay st2
    using finish_not_Ok [OF _ that assms(3)] wf by (simp add: sessions_within_def)
  show ?thesis
    using assms(2) fin
    by (auto simp: complete_github_device_oauth_def Let_def sessions_within_same
        split: if_splits outcome.splits prod.splits)
qed

section \<open>Properties\<close>

text \<open>
  C11: exactly which requests are signed. The signature in the answer is the key's signature of the
  32-byte digest in the request, and it is given if and only if the request is JSON, its bearer
  authenticates, the key identifier is valid and configured, one policy lets the identity sign with that
  key, the key is active and unlocked, the digest decodes to 32 bytes, and a GitHub Actions principal runs
  for a protected tag.
\<close>

theorem create_signature_exact:
  assumes "store_wf (ap_keys st)"
  shows "fst (create_signature env key_id headers body st) = Ok sig \<longleftrightarrow>
    is_json_content_type headers
    \<and> (\<exists>who auth d64 digest key raw.
         authenticate (sg_sha256 env) (sg_actions env) headers (ap_auth st) = (Ok who, auth)
         \<and> sg_parse env body = Some d64
         \<and> valid_key_id key_id \<and> authorize (ap_authz st) who Sign key_id = Ok ()
         \<and> find (\<lambda>k. km_id k = key_id) (ks_keys (ap_keys st)) = Some key
         \<and> km_state key = Active \<and> is_unlocked key
         \<and> sg_b64_decode env d64 = Some digest \<and> length digest = 32
         \<and> (\<forall>actions. pr_source who = GithubActions actions \<longrightarrow>
              act_ref_type actions = ''tag'' \<and> act_ref_protected actions
              \<and> (\<exists>tag. tag \<noteq> [] \<and> act_git_ref actions = ''refs/tags/'' @ tag))
         \<and> sign_digest (sg_crypto env) (sg_rng env) key digest = Ok raw \<and> sig = sg_b64_encode env raw)"
  unfolding create_signature_Ok [OF assms] validate_signing_context_Ok ..

text \<open>
  C35: the signing handler does not panic on a well-formed key store, whatever the request, as long as the
  library accepts no token whose expiry lies beyond the range of the clock; the second lookup of the key
  always finds it.
\<close>

theorem create_signature_no_panic:
  assumes "store_wf (ap_keys st)"
    and "\<And>v key token claims. jl_decode (ae_jwt (sg_actions env)) (ae_decode_unix (sg_actions env)) v key token = Some claims \<Longrightarrow>
      ae_now (sg_actions env) + int (from_secs (jti_remaining (ae_unix (sg_actions env)) (cl_exp claims))) < INSTANT_LIMIT"
  shows "fst (create_signature env key_id headers body st) \<noteq> Panic"
proof -
  obtain r auth where auth: "authenticate (sg_sha256 env) (sg_actions env) headers (ap_auth st) = (r, auth)"
    by fastforce
  have "fst (authenticate (sg_sha256 env) (sg_actions env) headers (ap_auth st)) \<noteq> Panic"
    by (rule authenticate_not_Panic) (rule assms(2))
  then have "r \<noteq> Panic" using auth by simp
  moreover have "fst (sign_authenticated env key_id body who (ap_keys st) (ap_authz st)) \<noteq> Panic" for who
    by (rule sign_authenticated_not_Panic [OF assms(1)])
  ultimately show ?thesis
    using auth by (cases r) (simp_all add: create_signature_def Let_def split: prod.split, metis fst_conv)
qed

text \<open>
  Unlocking a key through the admin API. The handler answers 204 only if the key is unlocked
  afterwards; it never touches another key, keeps the invariant of the store, and changes nothing when it
  answers with an error.
\<close>

theorem unlock_key_handler_effect:
  assumes "store_inv cr keys" and "unlock_key cr rid parse key_id headers body keys = (r, keys', audit)"
  shows "store_inv cr keys' \<and> r \<noteq> Panic
    \<and> (\<forall>e. r = Err e \<longrightarrow> keys' = keys)
    \<and> (\<forall>status. r = Ok status \<longrightarrow> status = 204
         \<and> (\<exists>p < length (ks_keys keys). km_id (ks_keys keys ! p) = key_id
              \<and> is_unlocked (ks_keys keys' ! p) \<and> key_extends (ks_keys keys ! p) (ks_keys keys' ! p)
              \<and> (\<forall>q < length (ks_keys keys). q \<noteq> p \<longrightarrow> ks_keys keys' ! q = ks_keys keys ! q)))"
  using assms by (rule unlock_key_effect)


text \<open>
  C32: the device-token exchange is gated. Requests go to GitHub only for a request that the limiter
  admitted, that is JSON and that parses, and they are those of the device flow on that token; a session
  exists afterwards that did not exist before only if the answer is a grant; keys and policies are
  untouched, and the permit of the limiter is back when the handler has answered.
\<close>

theorem device_exchange_gated:
  assumes "auth_inv (ap_auth st)"
    and "github_oauth_device_exchange env rid now parse peer headers body st = (r, st', audit, requests)"
  shows "(requests \<noteq> [] \<or> is_ok r \<longrightarrow>
       fst (admit now (sa_ip peer) (ap_limiter st)) = Ok () \<and> is_json_content_type headers
       \<and> (\<exists>token result. parse body = Some token
            \<and> complete_github_device_oauth env token (ap_auth st) = (result, ap_auth st', requests)
            \<and> (\<forall>grant. r = Ok grant \<longleftrightarrow> result = Ok grant)))
     \<and> (\<not> is_ok r \<longrightarrow> sessions_within (ap_auth st') (ap_auth st))
     \<and> auth_inv (ap_auth st') \<and> ap_keys st' = ap_keys st \<and> ap_authz st' = ap_authz st
     \<and> lm_permits (ap_limiter st') = lm_permits (ap_limiter st)"
proof -
  obtain a lm where adm: "admit now (sa_ip peer) (ap_limiter st) = (a, lm)" by fastforce
  have permits: "lm_permits (ap_limiter st) = (if a = Ok () then Suc (lm_permits lm) else lm_permits lm)"
    using admit_permits [of "ap_limiter st" now "sa_ip peer"] adm by simp
  show ?thesis
  proof (cases "a = Ok () \<and> is_json_content_type headers \<and> parse body \<noteq> None")
    case False
    then show ?thesis
      using assms adm permits
      by (cases a) (auto simp: github_oauth_device_exchange_def drop_admission_def release_permit_def is_ok_iff
          Let_def split: if_splits option.splits)
  next
    case True
    then obtain token where token: "parse body = Some token" by blast
    obtain result auth reqs where run: "complete_github_device_oauth env token (ap_auth st) = (result, auth, reqs)"
      by (metis prod_cases3)
    have inv: "auth_inv auth" using complete_inv [OF assms(1), of env token] run by simp
    have fail: "\<not> is_ok result \<Longrightarrow> sessions_within auth (ap_auth st)"
      using complete_not_Ok [OF assms(1) run] .
    show ?thesis
      using True token run assms(2) adm permits inv fail
      by (cases result) (auto simp: github_oauth_device_exchange_def drop_admission_def release_permit_def is_ok_iff)
  qed
qed

text \<open>
  Unlocking a keyring through the admin API. It answers with every configured member, in order, and
  then every active member is unlocked; when it answers with an error nothing changed, and a mismatch
  names exactly the locked active members that the passphrase does not open.
\<close>

theorem unlock_keyring_handler_effect:
  assumes "store_inv cr keys"
    and "unlock_keyring_handler cr rid parse keyring headers body keys = (r, keys', audit)"
  shows "case r of
      Ok (name, members) \<Rightarrow> name = keyring \<and> has_keyring keys keyring
        \<and> map fst members = map km_id (ring_keys keys keyring) \<and> length audit = length members
        \<and> store_inv cr keys'
        \<and> (\<forall>k\<in>set (ring_keys keys' keyring). km_state k = Active \<longrightarrow> is_unlocked k)
    | Err e \<Rightarrow> keys' = keys
        \<and> (er_slug e = ''keyring-passphrase-mismatch'' \<longrightarrow>
             (\<exists>pw. parse body = Some pw \<and> er_keys e \<noteq> []
                \<and> er_keys e = map km_id (filter (\<lambda>k. needs_unlock k \<and> \<not> opens cr pw k) (ring_keys keys keyring))))
    | Panic \<Rightarrow> False"
proof -
  have wf: "store_wf keys" using assms(1) by (simp add: store_inv_def)
  show ?thesis
  proof (cases "is_json_content_type headers \<and> has_keyring keys keyring \<and> (\<exists>pw. parse body = Some pw \<and> pw \<noteq> [])")
    case False
    then show ?thesis
      using assms(2)
      by (cases "parse body")
        (auto simp: unlock_keyring_handler_def require_json_unlock_request_def parse_unlock_request_def
          api_error_new_def split: if_splits)
  next
    case True
    then obtain pw where pw: "parse body = Some pw" "pw \<noteq> []" by blast
    show ?thesis
    proof (cases "valid_keyring_name keyring")
      case False
      then show ?thesis
        using True assms(2)
        by (auto simp: unlock_keyring_handler_def require_json_unlock_request_def api_error_new_def)
    next
      case valid: True
      obtain result keys1 where run: "unlock_keyring cr keys keyring pw = (result, keys1)" by fastforce
      have answer: "(r, audit) = keyring_unlock_response rid keyring result" "keys' = keys1"
        using True valid pw assms(2) run
        by (auto simp: unlock_keyring_handler_def require_json_unlock_request_def parse_unlock_request_def
            split: prod.splits)
      have rr: "fst (keyring_unlock_response rid keyring result) = r" "snd (keyring_unlock_response rid keyring result) = audit"
        using answer(1) by (simp_all flip: answer(1))
      from keyring_answer [OF assms(1) run, of rid] show ?thesis
        unfolding rr answer(2) using True pw by (cases r) auto
    qed
  qed
qed

section \<open>A concrete service\<close>

text \<open>The service of the example configuration, with its key unlocked and one session open.\<close>

definition signing_key :: "nat key_material" where
  "signing_key = demo_key\<lparr>km_id := ''microtun-firmware-prod'', km_unlocked := Some (P256Key (length demo_pem))\<rparr>"

definition signing_store :: "nat key_store" where
  "signing_store =
     \<lparr>ks_keys = [signing_key], ks_index = [(''microtun-firmware-prod'', 0)],
      ks_keyrings = [(''firmware-prod'', [0])],
      ks_keyring_by_key = [(''microtun-firmware-prod'', ''firmware-prod'')]\<rparr>"

definition demo_app :: "(string, nat) app_state" where
  "demo_app = app_state_new signing_store demo_session_inner (authorizer_new (cfg_policies example_config))"

definition demo_digest :: string where
  "demo_digest = replicate 32 (CHR ''d'')"

definition demo_sign_env :: "(string, unit, nat) sign_env" where
  "demo_sign_env =
     \<lparr>sg_request_id = ''01J'', sg_sha256 = (\<lambda>s. s), sg_actions = demo_actions_env,
      sg_parse = Some, sg_b64_decode = Some, sg_b64_encode = (\<lambda>s. s), sg_hex_encode = (\<lambda>s. s),
      sg_crypto = demo_crypto, sg_rng = []\<rparr>"

definition json_headers :: header_map where
  "json_headers = demo_headers\<lparr>content_type := Some (Visible ''application/json; charset=utf-8'')\<rparr>"

lemma json_headers_json [simp]: "is_json_content_type json_headers"
  by code_simp

lemma json_authenticated:
  "authenticate (\<lambda>s. s) demo_actions_env json_headers demo_session_inner
     = (Ok (session_principal (in_github demo_session_inner) demo_session), demo_session_inner)"
proof -
  have "bearer_token json_headers = bearer_token demo_headers"
    by (simp add: bearer_token_def json_headers_def)
  then show ?thesis using demo_authenticated by (simp add: authenticate_def)
qed

lemma signing_store_built: "from_keys [signing_key] (cfg_keyrings example_config) = Ok signing_store"
  by code_simp

lemma signing_store_inv: "store_inv demo_crypto signing_store"
proof -
  have "decrypt demo_crypto signing_key ''pw'' = Ok (P256Key (length demo_pem))"
    by (simp add: decrypt_def signing_key_def demo_key_def demo_crypto_def)
  then have "key_inv demo_crypto signing_key"
    using demo_key_inv by (auto simp: key_inv_def signing_key_def demo_key_def)
  then show ?thesis
    using from_keys_wf [OF signing_store_built] by (simp add: store_inv_def signing_store_def)
qed

lemma demo_app_wf: "store_wf (ap_keys demo_app)"
  using signing_store_inv by (simp add: demo_app_def app_state_new_def store_inv_def)

lemma demo_authorized:
  "authorize (cfg_policies example_config) (session_principal github demo_session) Sign ''microtun-firmware-prod''
     = Ok ()"
  by (simp add: example_config_def example_policy_def authorize_Ok session_principal_def demo_session_def)

lemma demo_key_id: "valid_key_id ''microtun-firmware-prod''"
  by code_simp

lemma session_source: "pr_source (session_principal github s) =
    GithubAccount \<lparr>acc_user_id = se_user_id s, acc_login = se_login s\<rparr>"
  by (simp add: session_principal_def)

lemmas demo_sign_simps = session_source json_authenticated demo_authorized demo_key_id demo_sign_env_def demo_app_def
  app_state_new_def authorizer_new_def signing_store_def signing_key_def demo_key_def is_unlocked_def
  demo_digest_def sign_digest_def demo_crypto_def

theorem create_signature_exact_witness:
  "fst (create_signature demo_sign_env ''microtun-firmware-prod'' json_headers demo_digest demo_app) = Ok demo_digest"
  unfolding create_signature_exact [OF demo_app_wf] by (simp add: demo_sign_simps)

definition release_library :: "unit jwt_library" where
  \<comment> \<open>a library that accepts every token, with the claims of the release workflow\<close>
  "release_library = \<lparr>jl_decode_header = (\<lambda>token. Some \<lparr>jh_alg = RS256, jh_kid = Some ''key-1''\<rparr>),
     jl_from_rsa_components = (\<lambda>n e. Some ()), jl_decode = (\<lambda>t v k token. Some release_claims)\<rparr>"

definition release_env :: "(string, unit, nat) sign_env" where
  "release_env = demo_sign_env\<lparr>sg_actions := demo_actions_env\<lparr>ae_jwt := release_library\<rparr>\<rparr>"

theorem create_signature_no_panic_witness:
  "fst (create_signature release_env ''microtun-firmware-prod'' json_headers demo_digest demo_app) \<noteq> Panic"
proof (rule create_signature_no_panic)
  show "store_wf (ap_keys demo_app)" by (rule demo_app_wf)
  fix v key token claims
  assume "jl_decode (ae_jwt (sg_actions release_env)) (ae_decode_unix (sg_actions release_env)) v key token = Some claims"
  then have "claims = release_claims" by (simp add: release_env_def release_library_def)
  moreover have "jti_remaining 1 100 = 159"
    by (simp add: jti_remaining_def saturating_add_def saturating_sub_def JWT_LEEWAY_SECONDS_def)
  ultimately show "ae_now (sg_actions release_env)
      + int (from_secs (jti_remaining (ae_unix (sg_actions release_env)) (cl_exp claims))) < INSTANT_LIMIT"
    by (simp add: release_env_def demo_sign_env_def demo_actions_env_def release_claims_def from_secs_def
        NANOS_def INSTANT_LIMIT_def)
qed

theorem unlock_key_handler_effect_witness:
  "\<exists>keys' audit. unlock_key demo_crypto ''01J'' Some ''k'' json_headers ''pw'' demo_store = (Ok 204, keys', audit)
     \<and> is_unlocked (ks_keys keys' ! 0) \<and> ks_keys keys' ! 1 = demo_key2"
proof -
  obtain r keys' audit where
    run: "unlock_key demo_crypto ''01J'' Some ''k'' json_headers ''pw'' demo_store = (r, keys', audit)"
    by (metis prod_cases3)
  have "is_ok (fst (unlock_key demo_crypto ''01J'' Some ''k'' json_headers ''pw'' demo_store))" by code_simp
  then obtain status where ok: "r = Ok status" using run by (auto simp: is_ok_iff)
  have eff: "status = 204
      \<and> (\<exists>p < length (ks_keys demo_store). km_id (ks_keys demo_store ! p) = ''k''
           \<and> is_unlocked (ks_keys keys' ! p) \<and> key_extends (ks_keys demo_store ! p) (ks_keys keys' ! p)
           \<and> (\<forall>q < length (ks_keys demo_store). q \<noteq> p \<longrightarrow> ks_keys keys' ! q = ks_keys demo_store ! q))"
    using unlock_key_handler_effect [OF demo_store_inv run] ok by blast
  then obtain p where
    p: "p < length (ks_keys demo_store)" "km_id (ks_keys demo_store ! p) = ''k''" "is_unlocked (ks_keys keys' ! p)"
      "\<forall>q < length (ks_keys demo_store). q \<noteq> p \<longrightarrow> ks_keys keys' ! q = ks_keys demo_store ! q"
    by blast
  have "p = 0"
    using p(1,2) by (auto simp: demo_store_def demo_key2_def demo_retired_def nth_Cons split: nat.splits)
  then show ?thesis using p run ok eff by (auto simp: demo_store_def)
qed


theorem device_exchange_gated_witness:
  "\<exists>grant st' audit requests.
     github_oauth_device_exchange demo_exchange ''01J'' 1000000000000 Some \<lparr>sa_ip = demo_source, sa_port = 1\<rparr>
       json_headers ''gho'' (demo_app\<lparr>ap_auth := demo_inner\<rparr>) = (Ok grant, st', audit, requests)
     \<and> lm_permits (ap_limiter st') = 8 \<and> auth_inv (ap_auth st')"
proof -
  let ?st = "demo_app\<lparr>ap_auth := demo_inner\<rparr>" and ?peer = "\<lparr>sa_ip = demo_source, sa_port = 1\<rparr>"
  obtain grant auth requests where
    g: "complete_github_device_oauth demo_exchange ''gho'' demo_inner = (Ok grant, auth, requests)"
    using demo_exchange_granted by blast
  obtain lm where lm: "admit 1000000000000 demo_source limiter_new = (Ok (), lm)"
    by (simp add: admit_def Let_def limiter_new_def hm_new_def hm_len_def entries_of_def hm_get_def
        MAX_DEVICE_EXCHANGE_SOURCES_def DEVICE_EXCHANGE_RATE_LIMIT_def DEVICE_EXCHANGE_MAX_CONCURRENT_def
        try_acquire_def)
  obtain st' audit where run: "github_oauth_device_exchange demo_exchange ''01J'' 1000000000000 Some ?peer
      json_headers ''gho'' ?st = (Ok grant, st', audit, requests)"
    using lm g by (auto simp: github_oauth_device_exchange_def demo_app_def app_state_new_def)
  have inv: "auth_inv (ap_auth ?st)" by (simp add: demo_inner_inv)
  from device_exchange_gated [OF inv run] run show ?thesis
    by (auto simp: demo_app_def app_state_new_def limiter_new_def DEVICE_EXCHANGE_MAX_CONCURRENT_def)
qed

theorem unlock_keyring_handler_effect_witness:
  "\<exists>members keys' audit. unlock_keyring_handler demo_crypto ''01J'' Some ''prod'' json_headers ''pw'' demo_store
       = (Ok (''prod'', members), keys', audit)
     \<and> map fst members = [''k2'', ''old'', ''k'']
     \<and> (\<forall>k\<in>set (ring_keys keys' ''prod''). km_state k = Active \<longrightarrow> is_unlocked k)"
proof -
  let ?run = "unlock_keyring_handler demo_crypto ''01J'' Some ''prod'' json_headers ''pw'' demo_store"
  obtain r keys' audit where run: "?run = (r, keys', audit)" by (metis prod_cases3)
  have "is_ok (fst ?run)" by code_simp
  then obtain name members where r: "r = Ok (name, members)" using run by (auto simp: is_ok_iff)
  have "map km_id (ring_keys demo_store ''prod'') = [''k2'', ''old'', ''k'']" by code_simp
  with unlock_keyring_handler_effect [OF demo_store_inv run] run show ?thesis unfolding r by auto
qed

end
