(* ===== verification/Key_Concurrency.thy ===== *)
theory Key_Concurrency
  imports Key_Vault
begin

text \<open>
  The key store under concurrent requests. Unlock requests run on worker threads
  (\<^verbatim>\<open>spawn_blocking\<close>) and share the keys: \<^verbatim>\<open>KeyMaterial::unlock\<close> looks under the read lock, decrypts
  without a lock and installs under the write lock; \<^verbatim>\<open>KeyStore::unlock_keyring\<close> looks at one member
  after the other, decrypting as it goes, and installs under all the write locks together. A step of
  the system starts a request or advances one request from one lock acquisition to the next. The
  installation of a keyring is one step: all its write locks are held before the first key is written,
  and a reader of a key whose lock is held waits.

  Whatever the interleaving, no lock is ever poisoned, no key loses or exchanges its material, and a
  keyring unlock that reports success leaves every active member unlocked.

  The locale \<open>key_history\<close> states what the rest of the service relies on: keys keep their identity
  and their material along every step.
\<close>

section \<open>Requests in progress\<close>

datatype 'sk task =
    UnlockKey nat string
  | UnlockDecrypting nat string
  | UnlockInstalling nat "'sk unlocked_key_material"
  | UnlockDone "(unlock_error, unlock_outcome) outcome"
  | UnlockRing string string
  | RingScanning string string "nat list" "'sk ring_scan"
  | RingInstalling string string "'sk ring_scan"
  | RingDone "(keyring_unlock_error, keyring_member_outcome list) outcome"

definition empty_scan :: "'sk ring_scan" where
  "empty_scan = \<lparr>rs_outcomes = [], rs_decrypted = [], rs_opened = [], rs_failed = []\<rparr>"

definition update_key :: "'sk key_store \<Rightarrow> nat \<Rightarrow> 'sk key_material \<Rightarrow> 'sk key_store" where
  "update_key store p k = store\<lparr>ks_keys := (ks_keys store)[p := k]\<rparr>"

text \<open>One request, from one lock acquisition to the next; \<open>None\<close> when it is finished.\<close>

fun task_step ::
  "'sk crypto \<Rightarrow> 'sk key_store \<Rightarrow> 'sk task \<Rightarrow> ('sk task \<times> 'sk key_store) option" where
  "task_step cr store (UnlockKey p pw) =
     Some (case unlock_begin (ks_keys store ! p) of
             Some r \<Rightarrow> UnlockDone r
           | None \<Rightarrow> UnlockDecrypting p pw, store)"
| "task_step cr store (UnlockDecrypting p pw) =
     Some (case decrypt cr (ks_keys store ! p) pw of
             Ok m \<Rightarrow> UnlockInstalling p m
           | Err e \<Rightarrow> UnlockDone (Err e)
           | Panic \<Rightarrow> UnlockDone Panic, store)"
| "task_step cr store (UnlockInstalling p m) =
     (let (r, k) = install (ks_keys store ! p) m in Some (UnlockDone r, update_key store p k))"
| "task_step cr store (UnlockDone r) = None"
| "task_step cr store (UnlockRing name pw) =
     Some (case keyring_members store name of
             Ok members \<Rightarrow>
               if members = [] then RingDone (Err UnknownKeyring)
               else if list_all (\<lambda>pk. km_state (snd pk) \<noteq> Active) members
               then RingDone (Err NoActiveKeys)
               else RingScanning name pw (keyring_positions store name) empty_scan
           | Err e \<Rightarrow> RingDone (Err e)
           | Panic \<Rightarrow> RingDone Panic, store)"
| "task_step cr store (RingScanning name pw (p # ps) rs) =
     Some (RingScanning name pw ps (scan_member cr pw (p, ks_keys store ! p) rs), store)"
| "task_step cr store (RingScanning name pw [] rs) =
     Some (if rs_failed rs \<noteq> []
           then RingDone (Err (if rs_opened rs = [] then KeyringInvalidPassphrase
                               else PassphraseMismatch (rs_opened rs) (rs_failed rs)))
           else RingInstalling name pw rs, store)"
| "task_step cr store (RingInstalling name pw rs) =
     (let (r, store') = install_keyring store rs in Some (RingDone r, store'))"
| "task_step cr store (RingDone r) = None"

record 'sk world =
  w_store :: "'sk key_store"
  w_tasks :: "'sk task list"

fun request_ok :: "'sk key_store \<Rightarrow> 'sk task \<Rightarrow> bool" where
  "request_ok store (UnlockKey p pw) \<longleftrightarrow> p < length (ks_keys store)"
| "request_ok store (UnlockRing name pw) \<longleftrightarrow> True"
| "request_ok store t \<longleftrightarrow> False"

inductive key_step :: "'sk crypto \<Rightarrow> 'sk world \<Rightarrow> 'sk world \<Rightarrow> bool" for cr where
  request: "request_ok (w_store w) t \<Longrightarrow> key_step cr w (w\<lparr>w_tasks := w_tasks w @ [t]\<rparr>)"
| advance: "i < length (w_tasks w) \<Longrightarrow> task_step cr (w_store w) (w_tasks w ! i) = Some (t, store)
    \<Longrightarrow> key_step cr w (w\<lparr>w_store := store, w_tasks := (w_tasks w)[i := t]\<rparr>)"

section \<open>How a store may change\<close>

definition store_extends :: "'sk key_store \<Rightarrow> 'sk key_store \<Rightarrow> bool" where
  "store_extends s s' \<longleftrightarrow>
     s' = s\<lparr>ks_keys := ks_keys s'\<rparr> \<and> list_all2 key_extends (ks_keys s) (ks_keys s')"

lemma store_extends_refl [simp]: "store_extends s s"
  by (simp add: store_extends_def list_all2_refl)

lemma store_extends_trans:
  assumes "store_extends a b" and "store_extends b c"
  shows "store_extends a c"
proof -
  have "list_all2 key_extends (ks_keys a) (ks_keys c)"
    using assms list_all2_trans [of key_extends key_extends key_extends] key_extends_trans
    unfolding store_extends_def by blast
  moreover have "c = a\<lparr>ks_keys := ks_keys c\<rparr>"
    using assms unfolding store_extends_def by (metis key_store.update_convs(1) key_store.surjective)
  ultimately show ?thesis by (simp add: store_extends_def)
qed

lemma store_extends_same:
  assumes "store_extends s s'"
  shows "length (ks_keys s') = length (ks_keys s)"
    and "keyring_positions s' name = keyring_positions s name"
    and "p < length (ks_keys s) \<Longrightarrow> key_extends (ks_keys s ! p) (ks_keys s' ! p)"
    and "ks_keyrings s' = ks_keyrings s" and "ks_index s' = ks_index s"
proof -
  obtain keys where s': "s' = s\<lparr>ks_keys := keys\<rparr>" and ext: "list_all2 key_extends (ks_keys s) keys"
    using assms unfolding store_extends_def by blast
  then show "length (ks_keys s') = length (ks_keys s)"
    and "keyring_positions s' name = keyring_positions s name"
    and "p < length (ks_keys s) \<Longrightarrow> key_extends (ks_keys s ! p) (ks_keys s' ! p)"
    and "ks_keyrings s' = ks_keyrings s" and "ks_index s' = ks_index s"
    by (auto simp: keyring_positions_def list_all2_conv_all_nth)
qed

lemma key_extends_decrypt: "key_extends k k' \<Longrightarrow> decrypt cr k' pw = decrypt cr k pw"
  by (metis decrypt_frame key_extendsE)

lemma key_extends_is_unlocked: "key_extends k k' \<Longrightarrow> is_unlocked k \<Longrightarrow> is_unlocked k'"
  using key_extends_same [of k k'] by (auto simp: is_unlocked_def key_extends_def)

lemma store_extends_update:
  assumes "p < length (ks_keys s)" and "key_extends (ks_keys s ! p) k"
  shows "store_extends s (update_key s p k)"
  using assms by (auto simp: store_extends_def update_key_def list_all2_conv_all_nth nth_list_update)

section \<open>Installing a keyring, in any state\<close>

lemma mark_already_unlocked_map:
  "distinct (map mo_key_id os) \<Longrightarrow>
     mark_already_unlocked i os =
       map (\<lambda>o'. if mo_key_id o' = i then o'\<lparr>mo_result := MemberAlreadyUnlocked\<rparr> else o') os"
proof (induction os)
  case (Cons o' os)
  then have "map (\<lambda>o'. if mo_key_id o' = i then o'\<lparr>mo_result := MemberAlreadyUnlocked\<rparr> else o') os = os"
    if "mo_key_id o' = i" using that by (intro map_idI) (auto simp: image_iff)
  with Cons show ?case by auto
qed simp

lemma mark_already_unlocked_ids [simp]:
  "map mo_key_id (mark_already_unlocked i os) = map mo_key_id os"
  by (induction os) auto

lemma install_member_cases:
  "install_member (p, m) (os, store) =
     (if km_unlocked (ks_keys store ! p) \<noteq> None
      then (mark_already_unlocked (km_id (ks_keys store ! p)) os, store)
      else (os, update_key store p ((ks_keys store ! p)\<lparr>km_unlocked := Some m\<rparr>)))"
  by (simp add: install_member_def update_key_def Let_def)

lemma install_member_extends:
  assumes "p < length (ks_keys store)"
  shows "store_extends store (snd (install_member (p, m) (os, store)))"
  using assms by (auto simp: install_member_cases key_extends_def intro!: store_extends_update)

text \<open>Every key in the list ends up unlocked, and nothing is lost.\<close>

lemma install_fold_extends:
  assumes "\<forall>(p, m)\<in>set dec. p < length (ks_keys store)"
  shows "store_extends store (snd (fold install_member dec (os, store)))
    \<and> (\<forall>(p, m)\<in>set dec. km_unlocked (ks_keys (snd (fold install_member dec (os, store))) ! p) \<noteq> None)
    \<and> map mo_key_id (fst (fold install_member dec (os, store))) = map mo_key_id os"
  using assms
proof (induction dec arbitrary: os store)
  case (Cons e dec)
  obtain p m where e: "e = (p, m)" by (cases e)
  obtain os1 s1 where st: "install_member (p, m) (os, store) = (os1, s1)" by fastforce
  have p: "p < length (ks_keys store)" using Cons.prems e by auto
  have ext: "store_extends store s1" using install_member_extends [OF p, of m os] st by simp
  have un: "km_unlocked (ks_keys s1 ! p) \<noteq> None"
    using st p by (auto simp: install_member_cases update_key_def split: if_splits)
  have ids: "map mo_key_id os1 = map mo_key_id os"
    using st by (auto simp: install_member_cases split: if_splits)
  have "\<forall>(p, m)\<in>set dec. p < length (ks_keys s1)"
    using Cons.prems store_extends_same(1) [OF ext] by auto
  note IH = Cons.IH [OF this, of os1]
  have "km_unlocked (ks_keys (snd (fold install_member dec (os1, s1))) ! p) \<noteq> None"
    using store_extends_same(3) [OF conjunct1 [OF IH]] un p store_extends_same(1) [OF ext]
    unfolding key_extends_def by fastforce
  then show ?case using IH ids store_extends_trans [OF ext] by (auto simp: e st)
qed simp

lemma install_fold_inv:
  assumes "\<forall>k\<in>set (ks_keys store). key_inv cr k"
    and "\<forall>(p, m)\<in>set dec. p < length (ks_keys store) \<and> km_state (ks_keys store ! p) = Active
           \<and> decrypt cr (ks_keys store ! p) pw = Ok m"
  shows "\<forall>k\<in>set (ks_keys (snd (fold install_member dec (os, store)))). key_inv cr k"
  using assms
proof (induction dec arbitrary: os store)
  case (Cons e dec)
  obtain p m where e: "e = (p, m)" by (cases e)
  obtain os1 s1 where st: "install_member (p, m) (os, store) = (os1, s1)" by fastforce
  have p: "p < length (ks_keys store)" "km_state (ks_keys store ! p) = Active"
      "decrypt cr (ks_keys store ! p) pw = Ok m" using Cons.prems(2) e by auto
  have ext: "store_extends store s1" using install_member_extends [OF p(1), of m os] st by simp
  have "key_inv cr ((ks_keys store ! p)\<lparr>km_unlocked := Some m\<rparr>)"
    using Cons.prems(1) p by (auto simp: key_inv_def)
  then have "\<forall>k\<in>set (ks_keys s1). key_inv cr k"
    using Cons.prems(1) st
    by (auto simp: install_member_cases update_key_def split: if_splits
        dest!: set_update_subset_insert [THEN subsetD])
  moreover have "\<forall>(q, m)\<in>set dec. q < length (ks_keys s1) \<and> km_state (ks_keys s1 ! q) = Active
           \<and> decrypt cr (ks_keys s1 ! q) pw = Ok m"
  proof clarify
    fix q m' assume "(q, m') \<in> set dec"
    then have q: "q < length (ks_keys store)" "km_state (ks_keys store ! q) = Active"
      "decrypt cr (ks_keys store ! q) pw = Ok m'" using Cons.prems(2) by auto
    then show "q < length (ks_keys s1) \<and> km_state (ks_keys s1 ! q) = Active
        \<and> decrypt cr (ks_keys s1 ! q) pw = Ok m'"
      using store_extends_same(1,3) [OF ext] key_extends_same key_extends_decrypt by metis
  qed
  ultimately show ?case using Cons.IH [of s1 os1] by (simp add: e st)
qed simp

section \<open>The invariant\<close>

definition scan_ok ::
  "'sk crypto \<Rightarrow> 'sk key_store \<Rightarrow> string \<Rightarrow> nat list \<Rightarrow> 'sk ring_scan \<Rightarrow> bool" where
  "scan_ok cr store pw seen rs \<longleftrightarrow>
     distinct (map fst (rs_decrypted rs))
     \<and> (\<forall>(p, m)\<in>set (rs_decrypted rs). p \<in> set seen \<and> km_state (ks_keys store ! p) = Active
          \<and> decrypt cr (ks_keys store ! p) pw = Ok m)
     \<and> map mo_key_id (rs_outcomes rs) = map (\<lambda>p. km_id (ks_keys store ! p)) seen
     \<and> (\<forall>p\<in>set seen. km_state (ks_keys store ! p) = Active \<longrightarrow>
          is_unlocked (ks_keys store ! p) \<or> p \<in> fst ` set (rs_decrypted rs) \<or> rs_failed rs \<noteq> [])"

fun task_ok :: "'sk crypto \<Rightarrow> 'sk key_store \<Rightarrow> 'sk task \<Rightarrow> bool" where
  "task_ok cr store (UnlockKey p pw) \<longleftrightarrow> p < length (ks_keys store)"
| "task_ok cr store (UnlockDecrypting p pw) \<longleftrightarrow>
     p < length (ks_keys store) \<and> km_state (ks_keys store ! p) = Active"
| "task_ok cr store (UnlockInstalling p m) \<longleftrightarrow>
     p < length (ks_keys store) \<and> km_state (ks_keys store ! p) = Active
     \<and> (\<exists>pw. decrypt cr (ks_keys store ! p) pw = Ok m)"
| "task_ok cr store (UnlockDone r) \<longleftrightarrow> r \<noteq> Panic \<and> r \<noteq> Err LockPoisoned"
| "task_ok cr store (UnlockRing name pw) \<longleftrightarrow> True"
| "task_ok cr store (RingScanning name pw ps rs) \<longleftrightarrow>
     (\<exists>seen. keyring_positions store name = seen @ ps \<and> scan_ok cr store pw seen rs)"
| "task_ok cr store (RingInstalling name pw rs) \<longleftrightarrow>
     scan_ok cr store pw (keyring_positions store name) rs \<and> rs_failed rs = []"
| "task_ok cr store (RingDone r) \<longleftrightarrow> r \<noteq> Panic \<and> r \<noteq> Err KeyringLockPoisoned"

definition world_inv :: "'sk crypto \<Rightarrow> 'sk world \<Rightarrow> bool" where
  "world_inv cr w \<longleftrightarrow> store_inv cr (w_store w) \<and> (\<forall>t\<in>set (w_tasks w). task_ok cr (w_store w) t)"

lemma scan_ok_extends:
  assumes "store_extends s s'" and "scan_ok cr s pw seen rs"
    and "\<forall>p\<in>set seen. p < length (ks_keys s)"
  shows "scan_ok cr s' pw seen rs"
proof -
  have ext: "key_extends (ks_keys s ! p) (ks_keys s' ! p)" if "p \<in> set seen" for p
    using that assms(3) store_extends_same(3) [OF assms(1)] by blast
  have same: "km_state (ks_keys s' ! p) = km_state (ks_keys s ! p)"
    "km_id (ks_keys s' ! p) = km_id (ks_keys s ! p)"
    "decrypt cr (ks_keys s' ! p) pw = decrypt cr (ks_keys s ! p) pw"
    "is_unlocked (ks_keys s ! p) \<Longrightarrow> is_unlocked (ks_keys s' ! p)" if "p \<in> set seen" for p
    using key_extends_same [OF ext [OF that]] key_extends_decrypt [OF ext [OF that]]
      key_extends_is_unlocked [OF ext [OF that]] by auto
  have "map (\<lambda>p. km_id (ks_keys s' ! p)) seen = map (\<lambda>p. km_id (ks_keys s ! p)) seen"
    using same(2) by simp
  moreover have "\<forall>(p, m)\<in>set (rs_decrypted rs). p \<in> set seen \<and> km_state (ks_keys s' ! p) = Active
          \<and> decrypt cr (ks_keys s' ! p) pw = Ok m"
    using assms(2) same(1,3) unfolding scan_ok_def by fastforce
  moreover have "\<forall>p\<in>set seen. km_state (ks_keys s' ! p) = Active \<longrightarrow>
          is_unlocked (ks_keys s' ! p) \<or> p \<in> fst ` set (rs_decrypted rs) \<or> rs_failed rs \<noteq> []"
    using assms(2) same(1,4) unfolding scan_ok_def by metis
  ultimately show ?thesis using assms(2) by (simp add: scan_ok_def)
qed

lemma task_ok_extends:
  assumes "store_extends s s'" and "store_wf s" and "task_ok cr s t"
  shows "task_ok cr s' t"
proof -
  have key: "km_state (ks_keys s' ! p) = km_state (ks_keys s ! p)"
    "decrypt cr (ks_keys s' ! p) pw = decrypt cr (ks_keys s ! p) pw"
    if "p < length (ks_keys s)" for p pw
    using store_extends_same(3) [OF assms(1) that] key_extends_same key_extends_decrypt by metis+
  have pos: "\<forall>p\<in>set (keyring_positions s name). p < length (ks_keys s)" for name
    using keyring_positions_wf(2) [OF assms(2)] by blast
  show ?thesis
  proof (cases t)
    case (RingScanning name pw ps rs)
    then obtain seen where seen: "keyring_positions s name = seen @ ps" "scan_ok cr s pw seen rs"
      using assms(3) by auto
    have "\<forall>p\<in>set seen. p < length (ks_keys s)" using pos [of name] seen by simp
    then show ?thesis
      using RingScanning seen scan_ok_extends [OF assms(1)] by (auto simp: store_extends_same(2) [OF assms(1)])
  next
    case (RingInstalling name pw rs)
    then show ?thesis
      using assms(3) scan_ok_extends [OF assms(1) _ pos] by (simp add: store_extends_same(2) [OF assms(1)])
  qed (use assms(3) key store_extends_same(1) [OF assms(1)] in auto)
qed

lemma store_inv_update:
  assumes "store_inv cr s" and "p < length (ks_keys s)" and "key_extends (ks_keys s ! p) k"
    and "key_inv cr k"
  shows "store_inv cr (update_key s p k)"
proof -
  have "map km_id ((ks_keys s)[p := k]) = map km_id (ks_keys s)"
    using key_extends_same [OF assms(3)] assms(2) by (simp add: map_update list_update_same_conv)
  then show ?thesis
    using assms store_wf_extends [of s "(ks_keys s)[p := k]"]
    by (auto simp: store_inv_def update_key_def dest!: set_update_subset_insert [THEN subsetD])
qed

lemma install_step:
  assumes "store_inv cr s" and "task_ok cr s (UnlockInstalling p m)"
    and "install (ks_keys s ! p) m = (r, k)"
  shows "store_inv cr (update_key s p k) \<and> store_extends s (update_key s p k)
    \<and> task_ok cr (update_key s p k) (UnlockDone r)"
proof -
  have p: "p < length (ks_keys s)" and inv: "key_inv cr (ks_keys s ! p)"
    using assms by (auto simp: store_inv_def)
  have k: "k = snd (install (ks_keys s ! p) m)" using assms(3) by simp
  have "key_extends (ks_keys s ! p) k" unfolding k by (rule install_extends)
  moreover have "key_inv cr k" unfolding k using assms(2) inv by (auto intro: key_inv_install)
  moreover have "r \<noteq> Panic" "r \<noteq> Err LockPoisoned"
    using assms(3) inv by (auto simp: install_def key_inv_def split: if_splits)
  ultimately show ?thesis using store_inv_update [OF assms(1) p] store_extends_update [OF p] by simp
qed

lemma scan_step:
  assumes "store_inv cr s" and "keyring_positions s name = seen @ p # ps" and "scan_ok cr s pw seen rs"
  shows "scan_ok cr s pw (seen @ [p]) (scan_member cr pw (p, ks_keys s ! p) rs)"
proof -
  have "p \<notin> set seen" and p: "p < length (ks_keys s)"
    using keyring_positions_wf(1) [of s name] keyring_positions_wf(2) [of s p name] assms(1,2)
    by (auto simp: store_inv_def)
  then have fresh: "p \<notin> fst ` set (rs_decrypted rs)"
    using assms(3) by (auto simp: scan_ok_def)
  show ?thesis
    using assms(3) fresh
    by (cases "decrypt cr (ks_keys s ! p) pw")
      (auto simp: scan_ok_def scan_member_def Let_def)
qed

lemma ring_install_step:
  assumes "store_inv cr s" and "task_ok cr s (RingInstalling name pw rs)"
    and "install_keyring s rs = (r, s')"
  shows "(\<exists>outcomes. r = Ok outcomes
           \<and> map mo_key_id outcomes = map (\<lambda>p. km_id (ks_keys s ! p)) (keyring_positions s name))
    \<and> store_inv cr s' \<and> store_extends s s'
    \<and> (\<forall>p\<in>set (keyring_positions s name). km_state (ks_keys s' ! p) = Active \<longrightarrow>
         is_unlocked (ks_keys s' ! p))"
proof -
  let ?dec = "rs_decrypted rs"
  have wf: "store_wf s" and inv: "\<forall>k\<in>set (ks_keys s). key_inv cr k"
    using assms(1) by (auto simp: store_inv_def)
  have scan: "scan_ok cr s pw (keyring_positions s name) rs" and ok: "rs_failed rs = []"
    using assms(2) by auto
  have pos: "p < length (ks_keys s)" if "p \<in> set (keyring_positions s name)" for p
    using keyring_positions_wf(2) [OF wf that] .
  have dec: "\<forall>(p, m)\<in>set ?dec. p < length (ks_keys s) \<and> km_state (ks_keys s ! p) = Active
      \<and> decrypt cr (ks_keys s ! p) pw = Ok m"
    using scan pos by (fastforce simp: scan_ok_def)
  have "take_guards s ?dec = Ok ()"
    using scan dec inv by (intro take_guards_ok) (auto simp: scan_ok_def key_inv_def)
  then have r: "r = Ok (fst (fold install_member ?dec (rs_outcomes rs, s)))"
    and s': "s' = snd (fold install_member ?dec (rs_outcomes rs, s))"
    using assms(3) by (auto simp: install_keyring_def Let_def)
  have "\<forall>(p, m)\<in>set ?dec. p < length (ks_keys s)" using dec by auto
  note fold = install_fold_extends [OF this, of "rs_outcomes rs", folded s']
  have ext: "store_extends s s'" using fold by blast
  have inv': "\<forall>k\<in>set (ks_keys s'). key_inv cr k"
    using install_fold_inv [OF inv dec] unfolding s' .
  have "map km_id (ks_keys s') = map km_id (ks_keys s)"
    by (rule nth_equalityI) (use store_extends_same(1,3) [OF ext] key_extends_same in auto)
  then have "store_inv cr s'"
    using store_wf_extends [OF wf] ext inv' unfolding store_extends_def store_inv_def by metis
  moreover have "is_unlocked (ks_keys s' ! p)"
    if p: "p \<in> set (keyring_positions s name)" "km_state (ks_keys s' ! p) = Active" for p
  proof -
    have e: "key_extends (ks_keys s ! p) (ks_keys s' ! p)"
      using store_extends_same(3) [OF ext] pos [OF p(1)] by blast
    have "is_unlocked (ks_keys s ! p) \<or> p \<in> fst ` set ?dec"
      using scan ok p key_extends_same [OF e] by (auto simp: scan_ok_def)
    moreover have "is_unlocked (ks_keys s' ! p)" if "p \<in> fst ` set ?dec"
      using that fold inv' pos [OF p(1)] store_extends_same(1) [OF ext]
      by (auto simp: is_unlocked_def key_inv_def)
    ultimately show ?thesis using key_extends_is_unlocked [OF e] by blast
  qed
  ultimately show ?thesis
    using r ext fold scan unfolding s' by (auto simp: scan_ok_def)
qed

text \<open>One step of one request keeps the invariant and only adds material.\<close>

lemma task_step_ok:
  assumes "store_inv cr s" and "task_ok cr s t" and "task_step cr s t = Some (t', s')"
  shows "store_inv cr s' \<and> store_extends s s' \<and> task_ok cr s' t'"
proof (cases t)
  case (UnlockKey p pw)
  then have "key_inv cr (ks_keys s ! p)" using assms(1,2) by (auto simp: store_inv_def)
  then show ?thesis
    using assms UnlockKey by (auto simp: unlock_begin_def key_inv_def split: if_splits)
next
  case (UnlockDecrypting p pw)
  then show ?thesis
    using assms decrypt_Err [of cr "ks_keys s ! p" pw] by (auto split: outcome.splits)
next
  case (UnlockInstalling p m)
  then show ?thesis
    using assms install_step [OF assms(1), of p m] by (auto simp: Let_def split: prod.splits)
next
  case (UnlockRing name pw)
  have wf: "store_wf s" using assms(1) by (simp add: store_inv_def)
  show ?thesis
    using assms UnlockRing
    by (auto simp: keyring_members_wf [OF wf] scan_ok_def empty_scan_def split: if_splits)
next
  case (RingScanning name pw ps rs)
  then show ?thesis
  proof (cases ps)
    case Nil
    then show ?thesis using assms RingScanning by (auto split: if_splits)
  next
    case (Cons p ps')
    then obtain seen where seen: "keyring_positions s name = seen @ p # ps'" "scan_ok cr s pw seen rs"
      using assms(2) RingScanning by auto
    show ?thesis
      using assms RingScanning Cons seen scan_step [OF assms(1) seen] by auto
  qed
next
  case (RingInstalling name pw rs)
  then show ?thesis
    using assms ring_install_step [OF assms(1), of name pw rs] by (auto simp: Let_def split: prod.splits)
qed (use assms in simp_all)

lemma world_inv_step:
  assumes "world_inv cr w" and "key_step cr w w'"
  shows "world_inv cr w' \<and> store_extends (w_store w) (w_store w')"
  using assms(2)
proof (cases rule: key_step.cases)
  case (request t)
  then have "task_ok cr (w_store w) t" by (cases t) simp_all
  with request assms(1) show ?thesis by (auto simp: world_inv_def)
next
  case (advance i t store)
  have inv: "store_inv cr (w_store w)" and ok: "\<forall>t\<in>set (w_tasks w). task_ok cr (w_store w) t"
    using assms(1) by (auto simp: world_inv_def)
  have step: "store_inv cr store \<and> store_extends (w_store w) store \<and> task_ok cr store t"
    using task_step_ok [OF inv _ advance(3)] ok advance(2) by simp
  have "task_ok cr store u" if "u \<in> set (w_tasks w)" for u
    using task_ok_extends [of "w_store w" store cr u] step ok inv that by (auto simp: store_inv_def)
  then show ?thesis
    using advance step by (auto simp: world_inv_def dest!: set_update_subset_insert [THEN subsetD])
qed

section \<open>What the rest of the service relies on\<close>

locale key_history =
  fixes inv :: "'s \<Rightarrow> bool"
    and lookup :: "'s \<Rightarrow> string \<Rightarrow> 'k option"
    and step :: "'s \<Rightarrow> 's \<Rightarrow> bool"
    and grows :: "'k \<Rightarrow> 'k \<Rightarrow> bool"
  assumes inv_step: "inv s \<Longrightarrow> step s s' \<Longrightarrow> inv s'"
    and lookup_step: "inv s \<Longrightarrow> step s s' \<Longrightarrow> rel_option grows (lookup s i) (lookup s' i)"
    and grows_refl: "grows k k"
    and grows_trans: "grows a b \<Longrightarrow> grows b c \<Longrightarrow> grows a c"
begin

lemma history:
  assumes "step\<^sup>*\<^sup>* s s'" and "inv s"
  shows "inv s' \<and> rel_option grows (lookup s i) (lookup s' i)"
  using assms
proof (induction rule: rtranclp_induct)
  case base
  then show ?case using grows_refl by (simp add: option.rel_refl)
next
  case (step s' s'')
  then have "inv s''" and "rel_option grows (lookup s i) (lookup s' i)"
    and "rel_option grows (lookup s' i) (lookup s'' i)"
    using inv_step lookup_step by blast+
  then show ?case
    by (cases "lookup s i"; cases "lookup s' i"; cases "lookup s'' i") (auto intro: grows_trans)
qed

lemma history_lookup:
  assumes "step\<^sup>*\<^sup>* s s'" and "inv s" and "lookup s i = Some k"
  shows "\<exists>k'. lookup s' i = Some k' \<and> grows k k'"
  using history [OF assms(1,2), of i] assms(3) by (cases "lookup s' i") auto

lemma history_unknown:
  assumes "step\<^sup>*\<^sup>* s s'" and "inv s" and "lookup s i = None"
  shows "lookup s' i = None"
  using history [OF assms(1,2), of i] assms(3) by (cases "lookup s' i") auto

end

definition find_key :: "'sk key_store \<Rightarrow> string \<Rightarrow> 'sk key_material option" where
  "find_key store i = find (\<lambda>k. km_id k = i) (ks_keys store)"

lemma find_id_rel:
  "list_all2 key_extends ks ks' \<Longrightarrow>
     rel_option key_extends (find (\<lambda>k. km_id k = i) ks) (find (\<lambda>k. km_id k = i) ks')"
  by (induction rule: list_all2_induct) (auto dest: key_extends_same)

interpretation kh: key_history "world_inv cr" "\<lambda>w. find_key (w_store w)" "key_step cr" key_extends
  for cr
proof unfold_locales
  show "world_inv cr w' " if "world_inv cr w" "key_step cr w w'" for w w'
    using world_inv_step that by blast
  show "rel_option key_extends (find_key (w_store w) i) (find_key (w_store w') i)"
    if "world_inv cr w" "key_step cr w w'" for w w' i
    using world_inv_step [OF that] by (auto simp: find_key_def store_extends_def intro: find_id_rel)
qed (auto intro: key_extends_trans)

section \<open>A request that runs alone\<close>

fun run_task :: "nat \<Rightarrow> 'sk crypto \<Rightarrow> 'sk key_store \<Rightarrow> 'sk task \<Rightarrow> 'sk task \<times> 'sk key_store" where
  "run_task 0 cr store t = (t, store)"
| "run_task (Suc n) cr store t =
     (case task_step cr store t of
        None \<Rightarrow> (t, store)
      | Some (t', store') \<Rightarrow> run_task n cr store' t')"

lemma run_task_done [simp]:
  "run_task n cr store (UnlockDone r) = (UnlockDone r, store)"
  "run_task n cr store (RingDone r') = (RingDone r', store)"
  by (cases n; simp)+

lemma run_scan:
  "run_task (length ps + n) cr store (RingScanning name pw ps rs) =
     run_task n cr store (RingScanning name pw []
       (fold (scan_member cr pw) (map (\<lambda>p. (p, ks_keys store ! p)) ps) rs))"
  by (induction ps arbitrary: rs) simp_all

lemma run_ring:
  assumes "store_wf store"
  shows "run_task (length (keyring_positions store name) + 3 + n) cr store (UnlockRing name pw) =
    (RingDone (fst (unlock_keyring cr store name pw)), snd (unlock_keyring cr store name pw))"
proof -
  let ?ps = "keyring_positions store name"
  let ?ms = "map (\<lambda>p. (p, ks_keys store ! p)) ?ps"
  let ?rs = "fold (scan_member cr pw) ?ms empty_scan"
  have fuel: "length ?ps + 3 + n = Suc (length ?ps + Suc (Suc n))" by simp
  have first: "run_task (Suc m) cr store (UnlockRing name pw) = run_task m cr store
      (if ?ms = [] then RingDone (Err UnknownKeyring)
       else if list_all (\<lambda>pk. km_state (snd pk) \<noteq> Active) ?ms then RingDone (Err NoActiveKeys)
       else RingScanning name pw ?ps empty_scan)" for m
    by (simp add: keyring_members_wf [OF assms])
  have last: "run_task (Suc (Suc n)) cr store (RingScanning name pw [] rs) =
      (if rs_failed rs \<noteq> []
       then (RingDone (Err (if rs_opened rs = [] then KeyringInvalidPassphrase
               else PassphraseMismatch (rs_opened rs) (rs_failed rs))), store)
       else (RingDone (fst (install_keyring store rs)), snd (install_keyring store rs)))" for rs
    by (simp split: prod.split)
  have scan: "run_task (length ?ps + Suc (Suc n)) cr store (RingScanning name pw ?ps empty_scan) =
     run_task (Suc (Suc n)) cr store (RingScanning name pw [] ?rs)" by (rule run_scan)
  show ?thesis
    unfolding fuel first unlock_keyring_def scan_keyring_def keyring_members_wf [OF assms] Let_def
      empty_scan_def [symmetric] and_then.simps
    using scan last [of ?rs] by (simp del: run_task.simps)
qed

section \<open>Properties\<close>

text \<open>
  C17: in every interleaving of unlock requests, starting from an intact store without requests, the
  store stays intact, no request ever panics or meets a poisoned lock, and every key keeps its
  identity, file, state and, once it has it, its private material.
\<close>

theorem concurrent_unlocks_safe:
  assumes "(key_step cr)\<^sup>*\<^sup>* \<lparr>w_store = store, w_tasks = []\<rparr> w" and "store_inv cr store"
  shows "store_inv cr (w_store w)
    \<and> (\<forall>t\<in>set (w_tasks w). t \<noteq> UnlockDone Panic \<and> t \<noteq> UnlockDone (Err LockPoisoned)
         \<and> t \<noteq> RingDone Panic \<and> t \<noteq> RingDone (Err KeyringLockPoisoned))
    \<and> (\<forall>i k. find_key store i = Some k \<longrightarrow>
         (\<exists>k'. find_key (w_store w) i = Some k' \<and> key_extends k k'))"
proof -
  have init: "world_inv cr \<lparr>w_store = store, w_tasks = []\<rparr>"
    using assms(2) by (simp add: world_inv_def)
  have inv: "world_inv cr w" using kh.history [OF assms(1) init] by blast
  have "t \<noteq> UnlockDone Panic \<and> t \<noteq> UnlockDone (Err LockPoisoned)
         \<and> t \<noteq> RingDone Panic \<and> t \<noteq> RingDone (Err KeyringLockPoisoned)"
    if "t \<in> set (w_tasks w)" for t
    using inv that by (auto simp: world_inv_def)
  moreover have "\<exists>k'. find_key (w_store w) i = Some k' \<and> key_extends k k'"
    if "find_key store i = Some k" for i k
    using kh.history_lookup [OF assms(1) init, of i k] that by simp
  ultimately show ?thesis using inv by (auto simp: world_inv_def)
qed

text \<open>
  When a keyring unlock installs its keys, in whatever state other requests have left the
  store, it reports success for exactly the configured members in order and every active member is
  unlocked afterwards, whether this request unlocked it or another one did.
\<close>

theorem concurrent_keyring_unlock_complete:
  assumes "(key_step cr)\<^sup>*\<^sup>* \<lparr>w_store = store, w_tasks = []\<rparr> w" and "store_inv cr store"
    and "RingInstalling name pw rs \<in> set (w_tasks w)"
  shows "\<exists>outcomes store'.
      task_step cr (w_store w) (RingInstalling name pw rs) = Some (RingDone (Ok outcomes), store')
      \<and> map mo_key_id outcomes = map km_id (ring_keys (w_store w) name)
      \<and> (\<forall>k\<in>set (ring_keys store' name). km_state k = Active \<longrightarrow> is_unlocked k)"
proof -
  have "world_inv cr \<lparr>w_store = store, w_tasks = []\<rparr>"
    using assms(2) by (simp add: world_inv_def)
  then have "world_inv cr w" using kh.history [OF assms(1)] by blast
  then have inv: "store_inv cr (w_store w)"
    and ok: "task_ok cr (w_store w) (RingInstalling name pw rs)"
    using assms(3) by (auto simp: world_inv_def)
  obtain r store' where r: "install_keyring (w_store w) rs = (r, store')" by fastforce
  note res = ring_install_step [OF inv ok r]
  then have "keyring_positions store' name = keyring_positions (w_store w) name"
    using store_extends_same(2) by blast
  with res r show ?thesis by (auto simp: ring_keys_def comp_def)
qed

text \<open>
  A request that runs alone ends after a fixed number of steps with the result of the
  sequential operation: the step relation and \<open>unlock_keyring\<close> describe the same code.
\<close>

theorem run_keyring_request:
  assumes "store_wf store" and "length (keyring_positions store name) + 3 \<le> n"
  shows "run_task n cr store (UnlockRing name pw) =
    (RingDone (fst (unlock_keyring cr store name pw)), snd (unlock_keyring cr store name pw))"
proof -
  obtain d where "n = length (keyring_positions store name) + 3 + d"
    using assms(2) by (metis le_Suc_ex)
  then show ?thesis using run_ring [OF assms(1)] by simp
qed

section \<open>A concrete interleaving\<close>

datatype 'sk action = Request "'sk task" | Advance nat

fun play :: "'sk crypto \<Rightarrow> 'sk action list \<Rightarrow> 'sk world \<Rightarrow> 'sk world option" where
  "play cr [] w = Some w"
| "play cr (Request t # as) w =
     (if request_ok (w_store w) t then play cr as (w\<lparr>w_tasks := w_tasks w @ [t]\<rparr>) else None)"
| "play cr (Advance i # as) w =
     (if i < length (w_tasks w) then
        (case task_step cr (w_store w) (w_tasks w ! i) of
           None \<Rightarrow> None
         | Some (t, store) \<Rightarrow> play cr as (w\<lparr>w_store := store, w_tasks := (w_tasks w)[i := t]\<rparr>))
      else None)"

lemma play_steps: "play cr as w = Some w' \<Longrightarrow> (key_step cr)\<^sup>*\<^sup>* w w'"
proof (induction cr as w rule: play.induct)
  case (2 cr t as w)
  then show ?case by (auto split: if_splits intro: key_step.request converse_rtranclp_into_rtranclp)
next
  case (3 cr i as w)
  then show ?case
    by (auto split: if_splits option.splits intro: key_step.advance converse_rtranclp_into_rtranclp)
qed simp

text \<open>A keyring unlock whose member \<^verbatim>\<open>k\<close> is unlocked by another request after it was scanned.\<close>

definition demo_race :: "nat action list" where
  "demo_race =
     [Request (UnlockRing ''prod'' ''pw''), Request (UnlockKey 0 ''pw''),
      Advance 0, Advance 1, Advance 0, Advance 0, Advance 0, Advance 1, Advance 1, Advance 0]"

definition demo_world :: "nat world" where
  "demo_world = the (play demo_crypto demo_race \<lparr>w_store = demo_store, w_tasks = []\<rparr>)"

lemma demo_world_reached: "(key_step demo_crypto)\<^sup>*\<^sup>* \<lparr>w_store = demo_store, w_tasks = []\<rparr> demo_world"
proof -
  have "play demo_crypto demo_race \<lparr>w_store = demo_store, w_tasks = []\<rparr> \<noteq> None" by code_simp
  then show ?thesis by (auto simp: demo_world_def intro!: play_steps)
qed

lemma demo_world_installing: "\<exists>rs. RingInstalling ''prod'' ''pw'' rs \<in> set (w_tasks demo_world)"
proof -
  have "case w_tasks demo_world of
      RingInstalling name pw rs # _ \<Rightarrow> name = ''prod'' \<and> pw = ''pw'' | _ \<Rightarrow> False" by code_simp
  then show ?thesis by (auto split: list.splits task.splits)
qed

theorem concurrent_unlocks_safe_witness:
  "store_inv demo_crypto (w_store demo_world)"
  using concurrent_unlocks_safe [OF demo_world_reached demo_store_inv] by blast

theorem concurrent_keyring_unlock_complete_witness:
  "\<exists>rs outcomes store'.
      task_step demo_crypto (w_store demo_world) (RingInstalling ''prod'' ''pw'' rs)
        = Some (RingDone (Ok outcomes), store')
      \<and> map mo_key_id outcomes = map km_id (ring_keys (w_store demo_world) ''prod'')
      \<and> (\<forall>k\<in>set (ring_keys store' ''prod''). km_state k = Active \<longrightarrow> is_unlocked k)"
  using demo_world_installing
    concurrent_keyring_unlock_complete [OF demo_world_reached demo_store_inv] by blast

theorem run_keyring_request_witness:
  "run_task 6 demo_crypto demo_store (UnlockRing ''prod'' ''pw'') =
    (RingDone (fst (unlock_keyring demo_crypto demo_store ''prod'' ''pw'')),
     snd (unlock_keyring demo_crypto demo_store ''prod'' ''pw''))"
proof -
  have "length (keyring_positions demo_store ''prod'') + 3 \<le> 6" by code_simp
  moreover have "store_wf demo_store" using demo_store_inv by (simp add: store_inv_def)
  ultimately show ?thesis by (intro run_keyring_request)
qed

end
