(* ===== verification/Service.thy ===== *)
theory Service
  imports Api_Facts Key_Concurrency
begin

text \<open>
  The service as a whole: the start of \<^verbatim>\<open>run_server\<close> in \<^verbatim>\<open>src/main.rs\<close> up to the shared state of the
  handlers, and the service as a state machine whose steps are the requests of its two routers. The public
  router has the signing and the device-login handlers, the admin router, on its own Unix socket, the two
  unlock handlers; the remaining routes do not change the state. Each request is one step; the
  interleavings inside the unlock handlers are the subject of \<open>Key_Concurrency\<close>.

  The properties tie the components together: what a signature implies about the configuration file, and
  that nothing but the admin API makes a key usable.
\<close>

section \<open>Starting the service\<close>

datatype startup_error =
    ConfigUnreadable string
  | ConfigUnparsable string
  | ConfigInvalid config_error
  | KeysUnavailable key_store_error
  | AuthenticatorUnavailable file_error

record boot_env =
  bo_read_to_string :: "string \<Rightarrow> string option"
  bo_toml :: "string \<Rightarrow> config option"
  bo_parse_url :: url_parser
  bo_files :: file_system
  bo_euid :: u32
  bo_from_pem :: "string \<Rightarrow> (string \<times> string) option"
  bo_parse_epki :: "string \<Rightarrow> encryption_scheme option"
  bo_credentials_directory :: "string option"

definition config_load :: "boot_env \<Rightarrow> string \<Rightarrow> (startup_error, config) outcome" where
  "config_load env path =
     and_then (ok_or (ConfigUnreadable path) (bo_read_to_string env path)) (\<lambda>text.
     and_then (ok_or (ConfigUnparsable path) (bo_toml env text)) (\<lambda>config.
     and_then (map_err ConfigInvalid (normalize_and_validate (bo_parse_url env) config)) (\<lambda>_.
     Ok config)))"

definition start_service ::
  "boot_env \<Rightarrow> string \<Rightarrow> (startup_error, config \<times> ('h, 'sk) app_state) outcome" where
  "start_service env config_path =
     and_then (config_load env config_path) (\<lambda>config.
     and_then (map_err KeysUnavailable
                 (key_store_load (bo_files env) (bo_euid env) (bo_from_pem env) (bo_parse_epki env)
                    (cfg_keys config) (cfg_keyrings config))) (\<lambda>keys.
     and_then (map_err AuthenticatorUnavailable
                 (authenticator_new (bo_files env) (bo_credentials_directory env)
                    (cfg_github config) (cfg_github_actions config) (cfg_identities config))) (\<lambda>authenticator.
     Ok (config, app_state_new keys authenticator (authorizer_new (cfg_policies config))))))"

section \<open>Requests\<close>

text \<open>The libraries \<open>lib\<close> (tokens) and \<open>cr\<close> (keys) are the same for every request.\<close>

inductive public_step ::
  "'d jwt_library \<Rightarrow> 'sk crypto \<Rightarrow> ('h, 'sk) app_state \<Rightarrow> ('h, 'sk) app_state \<Rightarrow> bool" for lib cr where
  post_sign:
    "create_signature env key_id headers body st = (r, st', audit) \<Longrightarrow> sg_crypto env = cr \<Longrightarrow>
       ae_jwt (sg_actions env) = lib \<Longrightarrow> public_step lib cr st st'"
| post_device:
    "github_oauth_device_exchange xenv rid now parse peer headers body st = (r', st', audit, requests) \<Longrightarrow>
       public_step lib cr st st'"

inductive admin_step :: "'sk crypto \<Rightarrow> ('h, 'sk) app_state \<Rightarrow> ('h, 'sk) app_state \<Rightarrow> bool" for cr where
  post_unlock:
    "unlock_key cr rid parse key_id headers body (ap_keys st) = (r, keys', audit) \<Longrightarrow>
       admin_step cr st (st\<lparr>ap_keys := keys'\<rparr>)"
| post_unlock_keyring:
    "unlock_keyring_handler cr rid parse keyring headers body (ap_keys st) = (r', keys', audit) \<Longrightarrow>
       admin_step cr st (st\<lparr>ap_keys := keys'\<rparr>)"

definition service_step ::
  "'d jwt_library \<Rightarrow> 'sk crypto \<Rightarrow> ('h, 'sk) app_state \<Rightarrow> ('h, 'sk) app_state \<Rightarrow> bool" where
  "service_step lib cr st st' \<longleftrightarrow> public_step lib cr st st' \<or> admin_step cr st st'"

section \<open>The invariant\<close>

definition service_inv :: "config \<Rightarrow> 'sk crypto \<Rightarrow> ('h, 'sk) app_state \<Rightarrow> bool" where
  "service_inv c cr st \<longleftrightarrow>
     store_inv cr (ap_keys st) \<and> auth_inv (ap_auth st) \<and> limiter_inv (ap_limiter st)
     \<and> in_identities (ap_auth st) = cfg_identities c \<and> in_github (ap_auth st) = cfg_github c
     \<and> ap_authz st = cfg_policies c"

text \<open>The settings of the authenticator, which no request changes.\<close>

definition auth_settings :: "'h inner \<Rightarrow> identity_config list \<times> github_config" where
  "auth_settings st = (in_identities st, in_github st)"

lemma auth_settings_with_replay [simp]: "auth_settings (with_replay replay st) = auth_settings st"
  by (simp add: auth_settings_def)

lemma mint_settings: "auth_settings (snd (mint_github_account_session sha256 now token i user st)) = auth_settings st"
  by (simp add: mint_github_account_session_def Let_def auth_settings_def split: option.split)

lemma finish_settings: "auth_settings (snd (finish_device_oauth env key account st)) = auth_settings st"
proof -
  obtain m replay where mark: "mark_consumed (xe_consume env) key (in_device_token_replay st) = (m, replay)"
    by fastforce
  show ?thesis
    using mark by (cases m; cases account) (auto simp: finish_device_oauth_def mint_settings)
qed

lemma finish_settings_eq:
  "finish_device_oauth env key account (with_replay replay st) = (r, st') \<Longrightarrow> auth_settings st' = auth_settings st"
  using finish_settings [of env key account "with_replay replay st"] by simp

lemma complete_settings:
  "auth_settings (fst (snd (complete_github_device_oauth env token st))) = auth_settings st"
  by (auto simp: complete_github_device_oauth_def Let_def drop_use_guard_def
      split: outcome.splits prod.splits dest: finish_settings_eq)

lemma exchange_keeps:
  assumes "github_oauth_device_exchange env rid now parse peer headers body st = (r, st', audit, requests)"
    and "auth_inv (ap_auth st)" and "limiter_inv (ap_limiter st)"
  shows "auth_inv (ap_auth st') \<and> limiter_inv (ap_limiter st')
    \<and> auth_settings (ap_auth st') = auth_settings (ap_auth st)
    \<and> ap_keys st' = ap_keys st \<and> ap_authz st' = ap_authz st"
proof -
  obtain a lm where adm: "admit now (sa_ip peer) (ap_limiter st) = (a, lm)" by fastforce
  have lm: "limiter_inv lm" using admit_inv [OF assms(3), of now "sa_ip peer"] adm by simp
  have free: "a = Ok () \<Longrightarrow> limiter_inv (release_permit lm)"
    using lm assms(3) admit_permits [of "ap_limiter st" now "sa_ip peer"] adm
    by (simp add: limiter_inv_def release_permit_def)
  have auth: "auth_inv (fst (snd (complete_github_device_oauth env token (ap_auth st))))" for token
    using complete_inv [OF assms(2)] .
  show ?thesis
  proof (cases a)
    case (Ok u)
    then show ?thesis
      using assms adm free auth complete_settings [of env _ "ap_auth st"]
      by (auto simp: github_oauth_device_exchange_def drop_admission_def Let_def
          split: if_splits option.splits prod.splits outcome.splits) (metis fst_conv snd_conv)+
  qed (use assms adm lm in \<open>auto simp: github_oauth_device_exchange_def\<close>)
qed

lemma create_signature_state:
  "fst (snd (create_signature env key_id headers body st)) =
     (if is_json_content_type headers
      then st\<lparr>ap_auth := snd (authenticate (sg_sha256 env) (sg_actions env) headers (ap_auth st))\<rparr> else st)"
  by (cases "authenticate (sg_sha256 env) (sg_actions env) headers (ap_auth st)";
      cases "fst (authenticate (sg_sha256 env) (sg_actions env) headers (ap_auth st))")
    (auto simp: create_signature_def Let_def split: prod.split)

lemma public_step_keeps:
  assumes "public_step lib cr st st'" and "service_inv c cr st"
  shows "service_inv c cr st' \<and> ap_keys st' = ap_keys st"
  using assms(1)
proof (cases rule: public_step.cases)
  case (post_sign env key_id headers body r audit)
  have "auth_inv (snd (authenticate (sg_sha256 env) (sg_actions env) headers (ap_auth st)))
      \<and> auth_settings (snd (authenticate (sg_sha256 env) (sg_actions env) headers (ap_auth st)))
          = auth_settings (ap_auth st)"
    using authenticate_inv [of "ap_auth st" "sg_sha256 env" "sg_actions env" headers] assms(2)
    by (cases "authenticate (sg_sha256 env) (sg_actions env) headers (ap_auth st)")
       (simp add: service_inv_def auth_settings_def)
  moreover have "st' = (if is_json_content_type headers
      then st\<lparr>ap_auth := snd (authenticate (sg_sha256 env) (sg_actions env) headers (ap_auth st))\<rparr> else st)"
    using post_sign(1) create_signature_state [of env key_id headers body st] by simp
  ultimately show ?thesis using assms(2) by (auto simp: service_inv_def auth_settings_def)
next
  case (post_device xenv rid now parse peer headers body r' audit requests)
  then show ?thesis using assms(2) exchange_keeps [OF post_device(1)]
    by (auto simp: service_inv_def auth_settings_def)
qed

lemma unlock_key_grows:
  assumes "store_inv cr keys" and "unlock_key cr rid parse key_id headers body keys = (r, keys', audit)"
  shows "store_inv cr keys' \<and> (\<forall>i. rel_option key_extends (find_key keys i) (find_key keys' i))"
proof -
  note eff = unlock_key_effect [OF assms]
  have "list_all2 key_extends (ks_keys keys) (ks_keys keys')"
  proof (cases "keys' = keys")
    case False
    then obtain status where "r = Ok status" using eff by (cases r) auto
    have "length (ks_keys keys') = length (ks_keys keys)"
      using assms by (cases rule: unlock_key_cases) (auto simp: store_key_def)
    then show ?thesis
      using eff \<open>r = Ok status\<close> by (auto simp: list_all2_conv_all_nth)
  qed (simp add: list_all2_refl)
  then show ?thesis using eff by (auto simp: find_key_def intro: find_id_rel)
qed

lemma unlock_keyring_length:
  "store_inv cr keys \<Longrightarrow> length (ks_keys (snd (unlock_keyring cr keys keyring pw))) = length (ks_keys keys)"
  by (simp add: unlock_keyring_closed Let_def)

lemma unlock_keyring_grows:
  assumes "store_inv cr keys" and "unlock_keyring_handler cr rid parse keyring headers body keys = (r, keys', audit)"
  shows "store_inv cr keys' \<and> (\<forall>i. rel_option key_extends (find_key keys i) (find_key keys' i))"
proof -
  have "keys' = keys \<or> (\<exists>pw. keys' = snd (unlock_keyring cr keys keyring pw))"
    using assms(2)
    by (auto simp: unlock_keyring_handler_def split: outcome.splits if_splits prod.splits) (metis snd_conv)
  moreover have "list_all2 key_extends (ks_keys keys) (ks_keys (snd (unlock_keyring cr keys keyring pw)))" for pw
    using unlock_keyring_effect [OF assms(1), of keyring pw] unlock_keyring_length [OF assms(1), of keyring pw]
    by (cases "unlock_keyring cr keys keyring pw"; cases "fst (unlock_keyring cr keys keyring pw)")
      (auto simp: list_all2_conv_all_nth)
  ultimately show ?thesis
    using assms(1) unlock_keyring_inv [OF assms(1)]
    by (auto simp: find_key_def option.rel_refl intro: find_id_rel)
qed

lemma admin_step_keeps:
  assumes "admin_step cr st st'" and "service_inv c cr st"
  shows "service_inv c cr st' \<and> (\<forall>i. rel_option key_extends (find_key (ap_keys st) i) (find_key (ap_keys st') i))"
  using assms(1)
proof (cases rule: admin_step.cases)
  case (post_unlock rid parse key_id headers body r keys' audit)
  then show ?thesis using assms(2) unlock_key_grows [OF _ post_unlock(2)] by (auto simp: service_inv_def)
next
  case (post_unlock_keyring rid parse keyring headers body r' keys' audit)
  then show ?thesis using assms(2) unlock_keyring_grows [OF _ post_unlock_keyring(2)] by (auto simp: service_inv_def)
qed

interpretation sv: key_history "service_inv c cr" "\<lambda>st. find_key (ap_keys st)" "service_step lib cr" key_extends
  for c cr lib
proof unfold_locales
  show "service_inv c cr st'" if "service_inv c cr st" "service_step lib cr st st'" for st st'
    using that public_step_keeps admin_step_keeps unfolding service_step_def by blast
  show "rel_option key_extends (find_key (ap_keys st) i) (find_key (ap_keys st') i)"
    if "service_inv c cr st" "service_step lib cr st st'" for st st' i
    using that public_step_keeps admin_step_keeps by (fastforce simp: service_step_def option.rel_refl)
qed (auto intro: key_extends_trans)

section \<open>The initial state\<close>

lemma key_store_load_keys:
  assumes "key_store_load fs euid fp pe configs rings = Ok store"
  shows "store_inv cr store \<and> list_all2 (\<lambda>config k. key_material_load fs euid fp pe config = Ok k) configs (ks_keys store)
    \<and> (\<forall>k\<in>set (ks_keys store). \<not> is_unlocked k)"
proof -
  obtain keys where keys: "load_keys fs euid fp pe configs = Ok keys" and store: "from_keys keys rings = Ok store"
    using assms by (auto simp: key_store_load_eq)
  have all: "list_all2 (\<lambda>config k. key_material_load fs euid fp pe config = Ok k) configs keys"
    using keys by (simp add: load_keys_def load_loop)
  have "ks_keys store = keys" using store by (auto simp: from_keys_Ok)
  then show ?thesis using all from_keys_wf [OF store] loaded_inv [OF all] by (auto simp: store_inv_def)
qed

lemma start_service_Ok:
  assumes "start_service env path = Ok (c, st)"
  shows "normalize_and_validate (bo_parse_url env) c = Ok () \<and> service_inv c cr st
    \<and> (\<forall>k\<in>set (ks_keys (ap_keys st)). \<not> is_unlocked k)
    \<and> list_all2 (\<lambda>config k. key_material_load (bo_files env) (bo_euid env) (bo_from_pem env) (bo_parse_epki env)
          config = Ok k) (cfg_keys c) (ks_keys (ap_keys st))"
proof -
  obtain keys auth where conf: "config_load env path = Ok c"
    and keys: "key_store_load (bo_files env) (bo_euid env) (bo_from_pem env) (bo_parse_epki env)
      (cfg_keys c) (cfg_keyrings c) = Ok keys"
    and auth: "authenticator_new (bo_files env) (bo_credentials_directory env) (cfg_github c)
      (cfg_github_actions c) (cfg_identities c) = Ok auth"
    and st: "st = app_state_new keys auth (authorizer_new (cfg_policies c))"
    using assms by (auto simp: start_service_def)
  have "in_identities auth = cfg_identities c" "in_github auth = cfg_github c" using auth by (auto simp: authenticator_new_def)
  then show ?thesis
    using conf key_store_load_keys [OF keys, of cr] auth_inv_new [OF auth]
    by (auto simp: st config_load_def service_inv_def app_state_new_def authorizer_new_def)
qed

lemma public_steps_keep:
  "(public_step lib cr)\<^sup>*\<^sup>* st st' \<Longrightarrow> service_inv c cr st \<Longrightarrow> service_inv c cr st' \<and> ap_keys st' = ap_keys st"
proof (induction rule: rtranclp_induct)
  case (step st1 st2)
  then show ?case using public_step_keeps by metis
qed simp

section \<open>What a signature implies\<close>

lemma unique_id:
  assumes "distinct (map f xs)" and "x \<in> set xs" and "y \<in> set xs" and "f x = f y"
  shows "x = y"
  using assms by (metis distinct_map inj_onD)

text \<open>The identity behind a signature, under the invariant.\<close>

lemma signature_identity:
  assumes "normalize_and_validate parse_url c = Ok ()" and "service_inv c cr st"
    and "authenticate sha256 env headers (ap_auth st) = (Ok who, auth)"
    and "authorize (ap_authz st) who Sign key_id = Ok ()"
  shows "\<exists>i\<in>set (cfg_identities c). \<exists>p\<in>set (cfg_policies c).
      ic_id i = pr_identity_id who \<and> pc_identity p = ic_id i \<and> Sign \<in> set (pc_actions p)
      \<and> set (pc_keys p) \<inter> {''*'', key_id} \<noteq> {}
      \<and> (case pr_source who of
           GithubAccount a \<Rightarrow> matches_github_account_identity i (acc_user_id a) (acc_login a)
         | GithubActions a \<Rightarrow> sign_constrained i
             \<and> (\<exists>token key claims jti path.
                  jl_decode (ae_jwt env) (ae_decode_unix env) (actions_validation (in_actions (ap_auth st))) key token
                    = Some claims
                  \<and> ic_repository_id i = Some (cl_repository_id claims)
                  \<and> ic_workflow_path i = Some path \<and> claims_satisfy i path claims
                  \<and> who = actions_principal i claims jti))"
proof -
  have inv: "auth_inv (ap_auth st)" and ids: "in_identities (ap_auth st) = cfg_identities c"
    and pol: "ap_authz st = cfg_policies c" using assms(2) by (auto simp: service_inv_def)
  have ok: "config_ok parse_url c" using assms(1) by (simp add: normalize_and_validate_iff)
  obtain p where p: "p \<in> set (cfg_policies c)" "pc_identity p = pr_identity_id who" "Sign \<in> set (pc_actions p)"
    "set (pc_keys p) \<inter> {''*'', key_id} \<noteq> {}"
    using assms(4) pol by (auto simp: authorize_Ok)
  obtain j where j: "j \<in> set (cfg_identities c)" "ic_id j = pr_identity_id who"
      "ic_kind j = GithubAccountKind \<or> sign_constrained j"
    using config_ok_sign_policy [OF ok p(1,3)] p(2) by auto
  from authenticate_meaning [OF inv assms(3)] obtain i where
    i: "i \<in> set (cfg_identities c)" "ic_id i = pr_identity_id who"
    and src: "case pr_source who of
         GithubAccount a \<Rightarrow> matches_github_account_identity i (acc_user_id a) (acc_login a)
       | GithubActions a \<Rightarrow> (\<exists>token key claims jti.
              jl_decode (ae_jwt env) (ae_decode_unix env) (actions_validation (in_actions (ap_auth st))) key token
                  = Some claims
              \<and> filter (\<lambda>i. matches_github_actions_identity i claims) (cfg_identities c) = [i]
              \<and> who = actions_principal i claims jti)"
    using ids by (fastforce split: auth_source.splits)
  have "i = j"
    using ok i j(1,2) unique_id [of ic_id "cfg_identities c"] by (auto simp: config_ok_def identities_ok_def)
  have "case pr_source who of
           GithubAccount a \<Rightarrow> matches_github_account_identity i (acc_user_id a) (acc_login a)
         | GithubActions a \<Rightarrow> sign_constrained i
             \<and> (\<exists>token key claims jti path.
                  jl_decode (ae_jwt env) (ae_decode_unix env) (actions_validation (in_actions (ap_auth st))) key token
                    = Some claims
                  \<and> ic_repository_id i = Some (cl_repository_id claims)
                  \<and> ic_workflow_path i = Some path \<and> claims_satisfy i path claims
                  \<and> who = actions_principal i claims jti)"
  proof (cases "pr_source who")
    case (GithubActions a)
    then obtain token key claims jti where dec: "jl_decode (ae_jwt env) (ae_decode_unix env)
        (actions_validation (in_actions (ap_auth st))) key token = Some claims"
      and fil: "filter (\<lambda>i. matches_github_actions_identity i claims) (cfg_identities c) = [i]"
      and who: "who = actions_principal i claims jti"
      using src by auto
    have m: "matches_github_actions_identity i claims" using fil by (auto dest: filter_eq_ConsD)
    then have "sign_constrained i" using j(3) \<open>i = j\<close> by (auto simp: matches_github_actions_identity_iff)
    moreover from this obtain path where "ic_workflow_path i = Some path" by (auto simp: sign_constrained_def)
    ultimately show ?thesis
      using GithubActions dec who m by (auto simp: matches_github_actions_identity_iff)
  qed (use src in auto)
  then show ?thesis using i p by (intro bexI [of _ i] bexI [of _ p]) auto
qed

lemma signing_key_configured:
  assumes "start_service boot path = Ok (c, st0)" and "(service_step lib cr)\<^sup>*\<^sup>* st0 st"
    and "find_key (ap_keys st) key_id = Some k" and "km_state k = Active"
  shows "\<exists>config\<in>set (cfg_keys c). kc_id config = key_id \<and> kc_state config = Active"
proof -
  note start = start_service_Ok [OF assms(1), of cr]
  obtain k0 where k0: "find_key (ap_keys st0) key_id = Some k0" "key_extends k0 k"
    using sv.history [OF assms(2), of c key_id] start assms(3)
    by (cases "find_key (ap_keys st0) key_id") auto
  obtain n where n: "n < length (ks_keys (ap_keys st0))" "ks_keys (ap_keys st0) ! n = k0" "km_id k0 = key_id"
    using k0(1) by (auto simp: find_key_def find_Some_iff)
  have len: "length (cfg_keys c) = length (ks_keys (ap_keys st0))"
    using start by (auto dest: list_all2_lengthD)
  have "key_material_load (bo_files boot) (bo_euid boot) (bo_from_pem boot) (bo_parse_epki boot)
      (cfg_keys c ! n) = Ok k0"
    using start n len by (auto simp: list_all2_conv_all_nth)
  then have "kc_id (cfg_keys c ! n) = key_id \<and> kc_state (cfg_keys c ! n) = km_state k0"
    using n(3) by (auto simp: key_material_load_def split: if_splits)
  moreover have "km_state k0 = Active" using k0(2) assms(4) key_extends_same by metis
  ultimately show ?thesis using n(1) len by (intro bexI [of _ "cfg_keys c ! n"]) auto
qed

lemma public_key_locked: "\<not> is_unlocked k \<Longrightarrow> public_key_pem cr k = None"
  by (auto simp: public_key_pem_def is_unlocked_def split: option.splits if_splits)

section \<open>A concrete run\<close>

text \<open>
  The example configuration, started from files with the right owner and mode; a device login, an unlock
  request and then a signature.
\<close>

definition demo_boot :: boot_env where
  "demo_boot =
     \<lparr>bo_read_to_string = (\<lambda>path. Some ''toml''), bo_toml = (\<lambda>text. Some example_config),
      bo_parse_url = https_parser,
      bo_files = (\<lambda>path. if path = ''/run/credentials/github-oauth-client-secret''
        then Some \<lparr>of_metadata = Some \<lparr>md_is_file = True, md_uid = 0, md_mode = 0, md_len = 6\<rparr>,
                   of_bytes = ''secret'', of_io_error = False\<rparr>
        else demo_key_files ''/etc/k.pem''),
      bo_euid = 1000, bo_from_pem = demo_from_pem, bo_parse_epki = demo_parse_epki,
      bo_credentials_directory = Some ''/run/credentials''\<rparr>"

definition locked_key :: "nat key_material" where
  "locked_key = demo_key\<lparr>km_id := ''microtun-firmware-prod''\<rparr>"

definition demo_start :: "(string, nat) app_state" where
  "demo_start = app_state_new (signing_store\<lparr>ks_keys := [locked_key]\<rparr>) demo_inner (cfg_policies example_config)"

lemma demo_boot_keys:
  "key_store_load (bo_files demo_boot) 1000 demo_from_pem demo_parse_epki
     (cfg_keys example_config) (cfg_keyrings example_config) = Ok (signing_store\<lparr>ks_keys := [locked_key]\<rparr>)"
proof -
  let ?p = "''/etc/microtun-signer/firmware-signing-key.encrypted.pem''"
  have "read_protected_file (bo_files demo_boot) 1000 ?p 0b000011111
      = read_protected_file demo_key_files 1000 ''/etc/k.pem'' 0b000011111"
    by (simp add: read_protected_file_def demo_boot_def)
  then have "key_material_load (bo_files demo_boot) 1000 demo_from_pem demo_parse_epki example_key = Ok locked_key"
    using demo_key_loads
    by (auto simp: key_material_load_def demo_key_config_def example_key_def locked_key_def demo_key_def
        split: if_splits)
  moreover have "from_keys [locked_key] (cfg_keyrings example_config) = Ok (signing_store\<lparr>ks_keys := [locked_key]\<rparr>)"
    by code_simp
  ultimately show ?thesis by (simp add: key_store_load_def example_config_def)
qed

lemma demo_started: "start_service demo_boot ''config.toml'' = Ok (example_config, demo_start)"
proof -
  have conf: "config_load demo_boot ''config.toml'' = Ok example_config"
    using example_config_accepted by (simp add: config_load_def demo_boot_def)
  have "pop_newlines ''secret'' = ''secret''" by (subst pop_newlines.simps) (simp add: ends_with_def)
  moreover have "path_join ''/run/credentials'' default_github_oauth_client_secret_credential
      = ''/run/credentials/github-oauth-client-secret''"
    by (simp add: path_join_def starts_with_def ends_with_def default_github_oauth_client_secret_credential_def)
  ultimately have "load_systemd_credential (bo_files demo_boot) (Some ''/run/credentials'')
      (gh_oauth_client_secret_credential (cfg_github example_config)) = Ok ''secret''"
    by (simp add: load_systemd_credential_def load_credential_from_def demo_boot_def read_limited_Ok example_config_def)
  then have "authenticator_new (bo_files demo_boot) (bo_credentials_directory demo_boot) (cfg_github example_config)
      (cfg_github_actions example_config) (cfg_identities example_config) = Ok demo_inner"
    by (simp add: authenticator_new_def demo_inner_def demo_boot_def)
  then show ?thesis
    using conf demo_boot_keys
    by (simp add: start_service_def demo_start_def authorizer_new_def) (simp add: demo_boot_def)
qed

text \<open>The state after the login and the unlock.\<close>

lemma demo_run:
  obtains auth lm session st1 where
    "service_step lib demo_crypto demo_start st1"
    "service_step lib demo_crypto st1 \<lparr>ap_keys = signing_store, ap_auth = auth, ap_authz = cfg_policies example_config, ap_limiter = lm\<rparr>"
    "authenticate (\<lambda>s. s) demo_actions_env json_headers auth = (Ok (session_principal (cfg_github example_config) session), auth)"
    "se_identity_id session = ''firmware-maintainer''"
proof -
  let ?peer = "\<lparr>sa_ip = demo_source, sa_port = 1\<rparr>"
  obtain grant auth requests where
    g: "complete_github_device_oauth demo_exchange ''gho'' demo_inner = (Ok grant, auth, requests)"
    using demo_exchange_granted by blast
  obtain r st1 audit reqs where run: "github_oauth_device_exchange demo_exchange ''01J'' 1000000000000 Some ?peer
      json_headers ''gho'' demo_start = (r, st1, audit, reqs)" by (metis prod_cases4)
  obtain lm where lm: "admit 1000000000000 demo_source limiter_new = (Ok (), lm)"
    by (simp add: admit_def Let_def limiter_new_def hm_new_def hm_len_def entries_of_def hm_get_def
        MAX_DEVICE_EXCHANGE_SOURCES_def DEVICE_EXCHANGE_RATE_LIMIT_def DEVICE_EXCHANGE_MAX_CONCURRENT_def
        try_acquire_def)
  have st1: "st1 = \<lparr>ap_keys = signing_store\<lparr>ks_keys := [locked_key]\<rparr>, ap_auth = auth,
      ap_authz = cfg_policies example_config, ap_limiter = release_permit lm\<rparr>"
    using run lm g by (simp add: github_oauth_device_exchange_def demo_start_def app_state_new_def drop_admission_def)
  have one: "service_step lib demo_crypto demo_start st1"
    unfolding service_step_def by (intro disjI1 public_step.post_device [OF run])
  obtain r' audit' where unl: "unlock_key demo_crypto ''01J'' Some ''microtun-firmware-prod'' json_headers ''pw''
      (ap_keys st1) = (r', signing_store, audit')"
  proof -
    have "fst (snd (unlock_key demo_crypto ''01J'' Some ''microtun-firmware-prod'' json_headers ''pw''
      (signing_store\<lparr>ks_keys := [locked_key]\<rparr>))) = signing_store" by code_simp
    then show ?thesis using that st1 by (metis app_state.select_convs(1) prod.collapse)
  qed
  have two: "service_step lib demo_crypto st1 (st1\<lparr>ap_keys := signing_store\<rparr>)"
    using post_unlock [OF unl] by (simp add: service_step_def)
  obtain session where get: "hm_get (in_oauth_sessions auth) ''mts_random'' = Some session"
    and exp: "se_expires_at session = 3 + int (from_secs default_oauth_session_ttl_seconds)"
    and gh: "in_github auth = cfg_github example_config" and tok: "og_access_token grant = ''mts_random''"
    using complete_Ok_state [OF demo_inner_inv g]
    by (auto simp: demo_exchange_def session_token_def SESSION_TOKEN_PREFIX_def demo_inner_def example_config_def)
  have "session_ok (cfg_identities example_config) session"
    using device_session_ok [OF demo_inner_inv g] get tok by (simp add: demo_exchange_def demo_inner_def)
  then have ident: "se_identity_id session = ''firmware-maintainer''"
    by (auto simp: session_ok_def example_config_def maintainer_def release_actions_def matches_github_account_identity_def)
  have bearer: "bearer_token json_headers = Ok ''mts_random''" by code_simp
  have "se_expires_at session > 4"
    by (simp add: exp default_oauth_session_ttl_seconds_def from_secs_def NANOS_def)
  then have "authenticate (\<lambda>s. s) demo_actions_env json_headers auth
      = (Ok (session_principal (cfg_github example_config) session), auth)"
    using bearer get gh
    by (simp add: authenticate_def is_github_actions_jwt_def demo_actions_env_def starts_with_def
        SESSION_TOKEN_PREFIX_def authenticate_github_account_session_def)
  then show ?thesis using that [of st1 auth "release_permit lm" session] one two ident st1 by simp
qed

section \<open>Properties\<close>

lemma signature_covered:
  assumes "start_service boot path = Ok (c, st0)" and "(service_step lib cr)\<^sup>*\<^sup>* st0 st"
    and "fst (create_signature env key_id headers body st) = Ok sig"
  shows "\<exists>who i p. fst (authenticate (sg_sha256 env) (sg_actions env) headers (ap_auth st)) = Ok who
    \<and> i \<in> set (cfg_identities c) \<and> p \<in> set (cfg_policies c)
    \<and> ic_id i = pr_identity_id who \<and> pc_identity p = ic_id i \<and> Sign \<in> set (pc_actions p)
    \<and> set (pc_keys p) \<inter> {''*'', key_id} \<noteq> {}
    \<and> (case pr_source who of
         GithubAccount a \<Rightarrow> matches_github_account_identity i (acc_user_id a) (acc_login a)
       | GithubActions a \<Rightarrow> sign_constrained i \<and> act_ref_type a = ''tag'' \<and> act_ref_protected a
           \<and> (\<exists>token key claims jti path.
                jl_decode (ae_jwt (sg_actions env)) (ae_decode_unix (sg_actions env))
                  (actions_validation (in_actions (ap_auth st))) key token = Some claims
                \<and> ic_repository_id i = Some (cl_repository_id claims)
                \<and> ic_workflow_path i = Some path \<and> claims_satisfy i path claims
                \<and> who = actions_principal i claims jti))
    \<and> (\<exists>config\<in>set (cfg_keys c). kc_id config = key_id \<and> kc_state config = Active)
    \<and> (\<exists>k m passphrase. find_key (ap_keys st) key_id = Some k \<and> km_unlocked k = Some m
         \<and> decrypt cr k passphrase = Ok m)"
proof -
  note start = start_service_Ok [OF assms(1), of cr]
  have inv: "service_inv c cr st" using sv.history [OF assms(2)] start by blast
  then have wf: "store_wf (ap_keys st)" and keys: "\<forall>k\<in>set (ks_keys (ap_keys st)). key_inv cr k"
    by (auto simp: service_inv_def store_inv_def)
  from assms(3) [unfolded create_signature_Ok [OF wf]] obtain who auth key where
    who: "authenticate (sg_sha256 env) (sg_actions env) headers (ap_auth st) = (Ok who, auth)"
    and pol: "authorize (ap_authz st) who Sign key_id = Ok ()"
    and key: "find (\<lambda>k. km_id k = key_id) (ks_keys (ap_keys st)) = Some key" "km_state key = Active" "is_unlocked key"
    and ctx: "validate_signing_context who = Ok ()" by blast
  obtain i p where ip: "i \<in> set (cfg_identities c)" "p \<in> set (cfg_policies c)"
      "ic_id i = pr_identity_id who" "pc_identity p = ic_id i" "Sign \<in> set (pc_actions p)"
      "set (pc_keys p) \<inter> {''*'', key_id} \<noteq> {}"
    and src: "case pr_source who of
         GithubAccount a \<Rightarrow> matches_github_account_identity i (acc_user_id a) (acc_login a)
       | GithubActions a \<Rightarrow> sign_constrained i
           \<and> (\<exists>token key claims jti path.
                jl_decode (ae_jwt (sg_actions env)) (ae_decode_unix (sg_actions env))
                  (actions_validation (in_actions (ap_auth st))) key token = Some claims
                \<and> ic_repository_id i = Some (cl_repository_id claims)
                \<and> ic_workflow_path i = Some path \<and> claims_satisfy i path claims
                \<and> who = actions_principal i claims jti)"
    using signature_identity [OF conjunct1 [OF start] inv who pol] by blast
  have conf: "\<exists>config\<in>set (cfg_keys c). kc_id config = key_id \<and> kc_state config = Active"
    using signing_key_configured [OF assms(1,2)] key by (simp add: find_key_def)
  have mat: "\<exists>k m passphrase. find_key (ap_keys st) key_id = Some k \<and> km_unlocked k = Some m
      \<and> decrypt cr k passphrase = Ok m"
  proof -
    have "key_inv cr key" using key(1) keys by (auto simp: find_Some_iff)
    then show ?thesis using key(1,3) by (auto simp: find_key_def is_unlocked_def key_inv_def split: if_splits)
  qed
  have "case pr_source who of
         GithubAccount a \<Rightarrow> matches_github_account_identity i (acc_user_id a) (acc_login a)
       | GithubActions a \<Rightarrow> sign_constrained i \<and> act_ref_type a = ''tag'' \<and> act_ref_protected a
           \<and> (\<exists>token key claims jti path.
                jl_decode (ae_jwt (sg_actions env)) (ae_decode_unix (sg_actions env))
                  (actions_validation (in_actions (ap_auth st))) key token = Some claims
                \<and> ic_repository_id i = Some (cl_repository_id claims)
                \<and> ic_workflow_path i = Some path \<and> claims_satisfy i path claims
                \<and> who = actions_principal i claims jti)"
    using src ctx by (cases "pr_source who") (auto simp: validate_signing_context_Ok)
  then show ?thesis using who ip conf mat by (intro exI [of _ who] exI [of _ i] exI [of _ p]) simp
qed

text \<open>
  C1: every signature the service ever issues is covered by its configuration file. Whatever requests the
  started service has handled, a signature with a key implies that the key is configured as active and its
  material is what its own file decrypts to under some passphrase; that one policy of the file allows one
  configured identity to sign with it; and that the requester is this identity: an account that matches
  it, or a GitHub Actions run whose verified claims satisfy its workflow, event, ref and environment
  constraints, for a protected tag.
\<close>

theorem service_signs_by_policy:
  assumes "start_service boot path = Ok (c, st0)" and "(service_step lib cr)\<^sup>*\<^sup>* st0 st"
    and "fst (create_signature env key_id headers body st) = Ok sig"
  shows "\<exists>who i p. fst (authenticate (sg_sha256 env) (sg_actions env) headers (ap_auth st)) = Ok who
    \<and> i \<in> set (cfg_identities c) \<and> p \<in> set (cfg_policies c)
    \<and> ic_id i = pr_identity_id who \<and> pc_identity p = ic_id i \<and> Sign \<in> set (pc_actions p)
    \<and> set (pc_keys p) \<inter> {''*'', key_id} \<noteq> {}
    \<and> (case pr_source who of
         GithubAccount a \<Rightarrow> matches_github_account_identity i (acc_user_id a) (acc_login a)
       | GithubActions a \<Rightarrow> sign_constrained i \<and> act_ref_type a = ''tag'' \<and> act_ref_protected a
           \<and> (\<exists>token key claims jti path.
                jl_decode (ae_jwt (sg_actions env)) (ae_decode_unix (sg_actions env))
                  (actions_validation (in_actions (ap_auth st))) key token = Some claims
                \<and> ic_repository_id i = Some (cl_repository_id claims)
                \<and> ic_workflow_path i = Some path \<and> claims_satisfy i path claims
                \<and> who = actions_principal i claims jti))
    \<and> (\<exists>config\<in>set (cfg_keys c). kc_id config = key_id \<and> kc_state config = Active)
    \<and> (\<exists>k m passphrase. find_key (ap_keys st) key_id = Some k \<and> km_unlocked k = Some m
         \<and> decrypt cr k passphrase = Ok m)"
  using assms by (rule signature_covered)

text \<open>
  C3: nothing on the public listener makes a key usable. From its start, and until a request of the admin
  API succeeds, the service signs nothing and shows no public key, whatever the public requests were.
\<close>

theorem public_api_cannot_unlock:
  assumes "start_service boot path = Ok (c, st0)" and "(public_step lib cr)\<^sup>*\<^sup>* st0 st"
  shows "fst (create_signature env key_id headers body st) \<noteq> Ok sig
    \<and> get_public_key cr' rid key_id st \<noteq> Ok pem"
proof -
  note start = start_service_Ok [OF assms(1), of cr]
  have inv: "service_inv c cr st" and keys: "ap_keys st = ap_keys st0"
    using public_steps_keep [OF assms(2)] start by blast+
  have wf: "store_wf (ap_keys st)" using inv by (auto simp: service_inv_def store_inv_def)
  have locked: "\<not> is_unlocked k" if "find (\<lambda>k. km_id k = key_id) (ks_keys (ap_keys st)) = Some k" for k
    using that start keys by (auto simp: find_Some_iff)
  have "fst (create_signature env key_id headers body st) \<noteq> Ok sig"
    using locked unfolding create_signature_Ok [OF wf] by blast
  moreover have "get_public_key cr' rid key_id st \<noteq> Ok pem"
    using locked
    by (cases "find (\<lambda>k. km_id k = key_id) (ks_keys (ap_keys st))")
      (auto simp: get_public_key_def ks_get_wf [OF wf] public_key_locked)
  ultimately show ?thesis ..
qed

text \<open>A reachable state in which the session \<^verbatim>\<open>mts_random\<close> may sign.\<close>

lemma demo_signing_state:
  obtains st where "(service_step (ae_jwt demo_actions_env) demo_crypto)\<^sup>*\<^sup>* demo_start st"
    "\<forall>headers. is_json_content_type headers \<longrightarrow> bearer_token headers = Ok ''mts_random'' \<longrightarrow>
       fst (create_signature demo_sign_env ''microtun-firmware-prod'' headers demo_digest st) = Ok demo_digest"
proof -
  obtain auth lm session st1 where
    steps: "service_step (ae_jwt demo_actions_env) demo_crypto demo_start st1"
      "service_step (ae_jwt demo_actions_env) demo_crypto st1
         \<lparr>ap_keys = signing_store, ap_auth = auth, ap_authz = cfg_policies example_config, ap_limiter = lm\<rparr>"
    and auth: "authenticate (\<lambda>s. s) demo_actions_env json_headers auth
      = (Ok (session_principal (cfg_github example_config) session), auth)"
    and ident: "se_identity_id session = ''firmware-maintainer''"
    using demo_run [of "ae_jwt demo_actions_env"] by metis
  let ?st = "\<lparr>ap_keys = signing_store, ap_auth = auth, ap_authz = cfg_policies example_config, ap_limiter = lm\<rparr>"
  have reach: "(service_step (ae_jwt demo_actions_env) demo_crypto)\<^sup>*\<^sup>* demo_start ?st"
    using steps by (meson converse_rtranclp_into_rtranclp rtranclp.rtrancl_refl)
  have wf: "store_wf (ap_keys ?st)" using signing_store_inv by (simp add: store_inv_def)
  have pol: "authorize (cfg_policies example_config) (session_principal (cfg_github example_config) session) Sign
      ''microtun-firmware-prod'' = Ok ()"
    using ident by (simp add: example_config_def example_policy_def authorize_Ok session_principal_def)
  have "bearer_token json_headers = Ok ''mts_random''" by code_simp
  then have same: "authenticate (\<lambda>s. s) demo_actions_env headers auth
      = (Ok (session_principal (cfg_github example_config) session), auth)"
    if "bearer_token headers = Ok ''mts_random''" for headers
    using auth that by (simp add: authenticate_def)
  have "fst (create_signature demo_sign_env ''microtun-firmware-prod'' headers demo_digest ?st) = Ok demo_digest"
    if "is_json_content_type headers" "bearer_token headers = Ok ''mts_random''" for headers
    unfolding create_signature_Ok [OF wf]
    using same [OF that(2)] pol that(1) by (simp add: demo_sign_simps validate_signing_context_def)
  with reach show ?thesis using that by blast
qed

theorem service_signs_by_policy_witness:
  "\<exists>st (who :: auth_principal) i p. (service_step (ae_jwt demo_actions_env) demo_crypto)\<^sup>*\<^sup>* demo_start st
     \<and> fst (create_signature demo_sign_env ''microtun-firmware-prod'' json_headers demo_digest st) = Ok demo_digest
     \<and> i \<in> set (cfg_identities example_config) \<and> p \<in> set (cfg_policies example_config)
     \<and> ic_id i = pr_identity_id who \<and> pc_identity p = ic_id i"
proof -
  obtain st where reach: "(service_step (ae_jwt demo_actions_env) demo_crypto)\<^sup>*\<^sup>* demo_start st"
    and sign: "\<forall>headers. is_json_content_type headers \<longrightarrow> bearer_token headers = Ok ''mts_random'' \<longrightarrow>
       fst (create_signature demo_sign_env ''microtun-firmware-prod'' headers demo_digest st) = Ok demo_digest"
    by (rule demo_signing_state)
  have "bearer_token json_headers = Ok ''mts_random''" by code_simp
  with sign have sig: "fst (create_signature demo_sign_env ''microtun-firmware-prod'' json_headers demo_digest st)
      = Ok demo_digest" by simp
  from service_signs_by_policy [OF demo_started reach sig] obtain who :: auth_principal and i p where
    "i \<in> set (cfg_identities example_config)" "p \<in> set (cfg_policies example_config)"
    "ic_id i = pr_identity_id who" "pc_identity p = ic_id i"
    by (elim exE conjE) (erule (3) that)
  with reach sig show ?thesis by blast
qed

theorem public_api_cannot_unlock_witness:
  "fst (create_signature demo_sign_env ''microtun-firmware-prod'' json_headers demo_digest
      (fst (snd (create_signature demo_sign_env ''k'' json_headers demo_digest demo_start)))) \<noteq> Ok demo_digest"
proof -
  let ?run = "create_signature demo_sign_env ''k'' json_headers demo_digest demo_start"
  have "?run = (fst ?run, fst (snd ?run), snd (snd ?run))" by simp
  then have "public_step (ae_jwt demo_actions_env) demo_crypto demo_start (fst (snd ?run))"
    by (rule public_step.post_sign) (simp_all add: demo_sign_env_def)
  then have "(public_step (ae_jwt demo_actions_env) demo_crypto)\<^sup>*\<^sup>* demo_start (fst (snd ?run))" by blast
  from public_api_cannot_unlock [OF demo_started this] show ?thesis by blast
qed

end
