(* ===== verification/Http_Router.thy ===== *)
theory Http_Router
  imports Service
begin

text \<open>
  The two HTTP routers of the service, as \<^verbatim>\<open>run_server\<close> of \<^verbatim>\<open>src/main.rs\<close> builds them: the table of routes, the limit
  on request bodies, the layer that turns a panic of a handler into an answer, and the answers the handlers
  of \<^verbatim>\<open>src/api.rs\<close> turn into.

  What is used of \<^verbatim>\<open>axum\<close>: a parameter of a route is one nonempty segment of the path, percent-decoded; an
  unknown path is answered with 404, a method without handler with 405, a body over the limit with 413
  before the handler runs. The JSON text of a body is not part of the model; \<open>web_body\<close> has the values
  that are serialised.
\<close>

section \<open>Requests and answers\<close>

record web_request =
  wr_method :: http_method
  wr_path :: string
  wr_headers :: header_map
  wr_body :: string
  wr_peer :: socket_addr

datatype web_body =
    NoContent
  | VersionBody string
  | DeviceConfigBody oauth_device_config
  | SessionBody string u64
  | PemBody string
  | SignatureBody string
  | KeyringBody string "(string \<times> string) list"
  | FailureBody error_response

record web_response =
  ws_status :: nat
  ws_headers :: "(string \<times> string) list"
  ws_body :: web_body

definition plain_response :: "nat \<Rightarrow> web_response" where
  "plain_response status = \<lparr>ws_status = status, ws_headers = [], ws_body = NoContent\<rparr>"

definition failure_response :: "api_error \<Rightarrow> web_response" where
  "failure_response e =
     \<lparr>ws_status = er_status e,
      ws_headers = (case rp_www_authenticate (into_response e) of
                      None \<Rightarrow> [] | Some value \<Rightarrow> [(''www-authenticate'', value)]),
      ws_body = FailureBody (into_response e)\<rparr>"

text \<open>The answer to a handler's result, under \<^verbatim>\<open>CatchPanicLayer\<close>.\<close>

fun respond :: "('a \<Rightarrow> web_response) \<Rightarrow> (api_error, 'a) outcome \<Rightarrow> web_response" where
  "respond f (Ok a) = f a"
| "respond f (Err e) = failure_response e"
| "respond f Panic = plain_response 500"

section \<open>The public router\<close>

definition PUBLIC_BODY_LIMIT :: nat where
  "PUBLIC_BODY_LIMIT = 16 * 1024"

definition ADMIN_BODY_LIMIT :: nat where
  "ADMIN_BODY_LIMIT = 8 * 1024"

datatype public_route =
    HealthRoute
  | VersionRoute
  | DeviceRoute
  | PublicKeyRoute string
  | SignRoute string

definition segment_after :: "string \<Rightarrow> string \<Rightarrow> string option" where
  "segment_after front path =
     (case strip_prefix front path of
        None \<Rightarrow> None
      | Some rest \<Rightarrow> if rest = [] \<or> CHR ''/'' \<in> set rest then None else Some rest)"

definition public_route_of :: "string \<Rightarrow> public_route option" where
  "public_route_of path =
     (if path = ''/healthz'' then Some HealthRoute
      else if path = ''/version'' then Some VersionRoute
      else if path = ''/v1/auth/github/device'' then Some DeviceRoute
      else case segment_after ''/v1/public-key/'' path of
        Some key_id \<Rightarrow> Some (PublicKeyRoute key_id)
      | None \<Rightarrow> map_option SignRoute (segment_after ''/v1/sign/'' path))"

record ('h, 'd, 'sk) web_env =
  we_percent_decode :: "string \<Rightarrow> string option"
  we_version :: string
  we_sign :: "('h, 'd, 'sk) sign_env"
  we_exchange :: "'h exchange_env"
  we_request_id :: string
  we_now :: instant
  we_parse_exchange :: "string \<Rightarrow> string option"

definition signature_response :: "string \<Rightarrow> web_response" where
  "signature_response signature = \<lparr>ws_status = 200, ws_headers = [], ws_body = SignatureBody signature\<rparr>"

definition session_response :: "oauth_session_grant \<Rightarrow> web_response" where
  "session_response grant =
     \<lparr>ws_status = 200, ws_headers = [(''cache-control'', ''no-store''), (''pragma'', ''no-cache'')],
      ws_body = SessionBody (og_access_token grant) (og_expires_in grant)\<rparr>"

definition pem_response :: "string \<Rightarrow> web_response" where
  "pem_response pem =
     \<lparr>ws_status = 200, ws_headers = [(''content-type'', ''application/x-pem-file'')], ws_body = PemBody pem\<rparr>"

definition version_response :: "string \<Rightarrow> web_response" where
  "version_response version = \<lparr>ws_status = 200, ws_headers = [], ws_body = VersionBody version\<rparr>"

definition device_config_web_response :: "oauth_device_config \<times> (string \<times> string) list \<Rightarrow> web_response" where
  "device_config_web_response answer =
     \<lparr>ws_status = 200, ws_headers = snd answer, ws_body = DeviceConfigBody (fst answer)\<rparr>"

definition public_router ::
  "('h, 'd, 'sk) web_env \<Rightarrow> web_request \<Rightarrow> ('h, 'sk) app_state
   \<Rightarrow> web_response \<times> ('h, 'sk) app_state \<times> audit_event list \<times> http_request list" where
  "public_router env rq st =
     (case public_route_of (wr_path rq) of
        None \<Rightarrow> (plain_response 404, st, [], [])
      | Some HealthRoute \<Rightarrow>
          (plain_response (if wr_method rq = HttpGet then health else 405), st, [], [])
      | Some VersionRoute \<Rightarrow>
          (if wr_method rq = HttpGet then version_response (we_version env) else plain_response 405, st, [], [])
      | Some DeviceRoute \<Rightarrow>
          (case wr_method rq of
             HttpGet \<Rightarrow> (device_config_web_response (github_oauth_device_config_handler st), st, [], [])
           | HttpPost \<Rightarrow>
               if length (wr_body rq) > PUBLIC_BODY_LIMIT then (plain_response 413, st, [], []) else
               (case github_oauth_device_exchange (we_exchange env) (we_request_id env) (we_now env)
                       (we_parse_exchange env) (wr_peer rq) (wr_headers rq) (wr_body rq) st of
                  (r, st', audit, requests) \<Rightarrow> (respond session_response r, st', audit, requests))
           | _ \<Rightarrow> (plain_response 405, st, [], []))
      | Some (PublicKeyRoute segment) \<Rightarrow>
          if wr_method rq \<noteq> HttpGet then (plain_response 405, st, [], []) else
          (case we_percent_decode env segment of
             None \<Rightarrow> (plain_response 400, st, [], [])
           | Some key_id \<Rightarrow>
               (respond pem_response (get_public_key (sg_crypto (we_sign env)) (we_request_id env) key_id st),
                st, [], []))
      | Some (SignRoute segment) \<Rightarrow>
          if wr_method rq \<noteq> HttpPost then (plain_response 405, st, [], []) else
          (case we_percent_decode env segment of
             None \<Rightarrow> (plain_response 400, st, [], [])
           | Some key_id \<Rightarrow>
               if length (wr_body rq) > PUBLIC_BODY_LIMIT then (plain_response 413, st, [], []) else
               (case create_signature (we_sign env) key_id (wr_headers rq) (wr_body rq) st of
                  (r, st', audit) \<Rightarrow> (respond signature_response r, st', audit, []))))"

section \<open>The admin router\<close>

record 'sk admin_env =
  am_percent_decode :: "string \<Rightarrow> string option"
  am_crypto :: "'sk crypto"
  am_request_id :: string
  am_parse :: "string \<Rightarrow> string option"

definition keyring_response :: "string \<times> (string \<times> string) list \<Rightarrow> web_response" where
  "keyring_response answer =
     \<lparr>ws_status = 200, ws_headers = [], ws_body = KeyringBody (fst answer) (snd answer)\<rparr>"

definition admin_router ::
  "'sk admin_env \<Rightarrow> web_request \<Rightarrow> 'sk key_store \<Rightarrow> web_response \<times> 'sk key_store \<times> audit_event list" where
  "admin_router env rq keys =
     (case segment_after ''/v1/unlock/'' (wr_path rq) of
        Some segment \<Rightarrow>
          if wr_method rq \<noteq> HttpPost then (plain_response 405, keys, []) else
          (case am_percent_decode env segment of
             None \<Rightarrow> (plain_response 400, keys, [])
           | Some key_id \<Rightarrow>
               if length (wr_body rq) > ADMIN_BODY_LIMIT then (plain_response 413, keys, []) else
               (case unlock_key (am_crypto env) (am_request_id env) (am_parse env) key_id (wr_headers rq)
                       (wr_body rq) keys of
                  (r, keys', audit) \<Rightarrow> (respond plain_response r, keys', audit)))
      | None \<Rightarrow>
          (case segment_after ''/v1/unlock-keyring/'' (wr_path rq) of
             None \<Rightarrow> (plain_response 404, keys, [])
           | Some segment \<Rightarrow>
               if wr_method rq \<noteq> HttpPost then (plain_response 405, keys, []) else
               (case am_percent_decode env segment of
                  None \<Rightarrow> (plain_response 400, keys, [])
                | Some keyring \<Rightarrow>
                    if length (wr_body rq) > ADMIN_BODY_LIMIT then (plain_response 413, keys, []) else
                    (case unlock_keyring_handler (am_crypto env) (am_request_id env) (am_parse env) keyring
                            (wr_headers rq) (wr_body rq) keys of
                       (r, keys', audit) \<Rightarrow> (respond keyring_response r, keys', audit)))))"

section \<open>Lemmas\<close>

lemma segment_after_Some:
  "segment_after front path = Some s \<longleftrightarrow> path = front @ s \<and> s \<noteq> [] \<and> CHR ''/'' \<notin> set s"
  by (auto simp: segment_after_def strip_prefix_Some strip_prefix_None split: option.split)

lemma segment_after_append:
  "segment_after front (front @ s) = (if s = [] \<or> CHR ''/'' \<in> set s then None else Some s)"
  by (simp add: segment_after_def strip_prefix_def)

lemma valid_key_id_chars:
  assumes "valid_key_id s"
  shows "s \<noteq> []" "CHR ''/'' \<notin> set s" "CHR ''%'' \<notin> set s"
proof -
  have ok: "is_ascii_alphanumeric c \<or> c \<in> {CHR ''.'', CHR ''_'', CHR ''-''}" if "c \<in> set s" for c
    using assms that by (auto simp: valid_key_id_def list_all_iff)
  have "\<not> is_ascii_alphanumeric (CHR ''/'')" "\<not> is_ascii_alphanumeric (CHR ''%'')" by code_simp+
  then show "CHR ''/'' \<notin> set s" "CHR ''%'' \<notin> set s" using ok by fastforce+
  show "s \<noteq> []" using assms by (simp add: valid_key_id_def)
qed

lemma public_route_of_sign:
  "public_route_of path = Some (SignRoute s) \<longleftrightarrow> path = ''/v1/sign/'' @ s \<and> s \<noteq> [] \<and> CHR ''/'' \<notin> set s"
proof
  assume "public_route_of path = Some (SignRoute s)"
  then have "segment_after ''/v1/sign/'' path = Some s"
    unfolding public_route_of_def by (simp split: if_split_asm option.split_asm)
  then show "path = ''/v1/sign/'' @ s \<and> s \<noteq> [] \<and> CHR ''/'' \<notin> set s" by (rule segment_after_Some [THEN iffD1])
next
  assume path: "path = ''/v1/sign/'' @ s \<and> s \<noteq> [] \<and> CHR ''/'' \<notin> set s"
  then have "segment_after ''/v1/sign/'' path = Some s" by (rule segment_after_Some [THEN iffD2])
  moreover have "segment_after ''/v1/public-key/'' path = None"
    using path by (simp add: segment_after_def strip_prefix_def)
  ultimately show "public_route_of path = Some (SignRoute s)"
    using path by (simp add: public_route_of_def)
qed

lemma response_bodies [simp]:
  "ws_body (plain_response n) = NoContent" "ws_status (plain_response n) = n"
  "ws_body (failure_response e) = FailureBody (into_response e)" "ws_status (failure_response e) = er_status e"
  "ws_body (signature_response sig) = SignatureBody sig" "ws_status (signature_response sig) = 200"
  "ws_body (session_response g) = SessionBody (og_access_token g) (og_expires_in g)"
  "ws_body (pem_response pem) = PemBody pem"
  "ws_body (version_response v) = VersionBody v"
  "ws_body (device_config_web_response answer) = DeviceConfigBody (fst answer)"
  "ws_body (keyring_response kr) = KeyringBody (fst kr) (snd kr)" "ws_status (keyring_response kr) = 200"
  by (simp_all add: plain_response_def failure_response_def signature_response_def session_response_def
      pem_response_def version_response_def device_config_web_response_def keyring_response_def)

lemma respond_body:
  "ws_body (respond signature_response r) = SignatureBody sig \<longleftrightarrow> r = Ok sig"
  "ws_body (respond pem_response r') = PemBody pem \<longleftrightarrow> r' = Ok pem"
  "ws_body (respond session_response r'') \<noteq> SignatureBody sig"
  "ws_body (respond session_response r'') \<noteq> PemBody pem"
  "ws_body (respond signature_response r) \<noteq> PemBody pem"
  "ws_body (respond pem_response r') \<noteq> SignatureBody sig"
  by (cases r; cases r'; cases r''; simp)+

text \<open>Every request to the public router is a step of the service or leaves it as it is.\<close>

lemma public_router_step:
  assumes "public_router env rq st = (resp, st', audit, requests)"
  shows "st' = st \<or> public_step (ae_jwt (sg_actions (we_sign env))) (sg_crypto (we_sign env)) st st'"
proof (cases "public_route_of (wr_path rq)")
  case None
  then show ?thesis using assms by (simp add: public_router_def)
next
  case (Some route)
  show ?thesis
  proof (cases route)
    case DeviceRoute
    then show ?thesis using assms Some
      by (auto simp: public_router_def split: http_method.splits if_splits prod.splits intro: public_step.post_device)
  next
    case (PublicKeyRoute segment)
    then show ?thesis using assms Some
      by (auto simp: public_router_def split: if_splits option.splits)
  next
    case (SignRoute segment)
    then show ?thesis using assms Some
      by (auto simp: public_router_def split: if_splits option.splits prod.splits intro: public_step.post_sign)
  qed (use assms Some in \<open>simp_all add: public_router_def\<close>)
qed

lemma public_router_signature:
  assumes "public_router env rq st = (resp, st', audit, requests)"
  shows "ws_body resp = SignatureBody sig \<longleftrightarrow>
    (\<exists>segment key_id. wr_method rq = HttpPost \<and> public_route_of (wr_path rq) = Some (SignRoute segment)
       \<and> we_percent_decode env segment = Some key_id \<and> length (wr_body rq) \<le> PUBLIC_BODY_LIMIT
       \<and> fst (create_signature (we_sign env) key_id (wr_headers rq) (wr_body rq) st) = Ok sig)"
proof (cases "public_route_of (wr_path rq)")
  case None
  then show ?thesis using assms by (auto simp: public_router_def)
next
  case (Some route)
  show ?thesis
  proof (cases route)
    case HealthRoute
    then show ?thesis using assms Some by (auto simp: public_router_def)
  next
    case VersionRoute
    then show ?thesis using assms Some by (auto simp: public_router_def split: if_splits)
  next
    case DeviceRoute
    then show ?thesis using assms Some
      by (auto simp: public_router_def respond_body split: http_method.splits if_splits prod.splits)
  next
    case (PublicKeyRoute segment)
    then show ?thesis using assms Some
      by (auto simp: public_router_def respond_body split: if_splits option.splits)
  next
    case (SignRoute segment)
    then show ?thesis using assms Some
      by (auto simp: public_router_def respond_body split: if_splits option.splits prod.splits)
  qed
qed

lemma admin_router_step:
  assumes "admin_router env rq (ap_keys st) = (resp, keys', audit)"
  shows "keys' = ap_keys st \<or> admin_step (am_crypto env) st (st\<lparr>ap_keys := keys'\<rparr>)"
  using assms unfolding admin_router_def
  by (auto split: option.splits if_splits prod.splits intro: admin_step.intros)

lemma public_router_changes:
  assumes "public_router env rq st = (resp, st', audit, requests)" and "st' \<noteq> st"
  shows "wr_method rq = HttpPost \<and> length (wr_body rq) \<le> PUBLIC_BODY_LIMIT
    \<and> (public_route_of (wr_path rq) = Some DeviceRoute
       \<or> (\<exists>segment. public_route_of (wr_path rq) = Some (SignRoute segment)))"
proof (cases "public_route_of (wr_path rq)")
  case (Some route)
  then show ?thesis
    using assms
    by (cases route)
       (auto simp: public_router_def split: http_method.splits if_splits option.splits prod.splits)
qed (use assms in \<open>simp add: public_router_def\<close>)

section \<open>Properties\<close>

text \<open>
  C5: the public router implements the service. Whatever the request, it gets an answer, and the state changes
  by one step of the service or not at all; it changes only for a POST, with a body of at most 16 KiB, to
  the signing or the login route. An answer carries a signature exactly if the request is such a POST to
  the signing route of one key and the signing handler signed for that key.
\<close>

theorem public_router_refines:
  assumes "public_router env rq st = (resp, st', audit, requests)"
  shows "(st' = st \<or> public_step (ae_jwt (sg_actions (we_sign env))) (sg_crypto (we_sign env)) st st')
    \<and> (st' \<noteq> st \<longrightarrow> wr_method rq = HttpPost \<and> length (wr_body rq) \<le> 16384
         \<and> (wr_path rq = ''/v1/auth/github/device'' \<or> (\<exists>segment. wr_path rq = ''/v1/sign/'' @ segment)))
    \<and> (\<forall>sig. ws_body resp = SignatureBody sig \<longleftrightarrow>
         (\<exists>segment key_id. wr_method rq = HttpPost \<and> wr_path rq = ''/v1/sign/'' @ segment
            \<and> segment \<noteq> [] \<and> CHR ''/'' \<notin> set segment
            \<and> we_percent_decode env segment = Some key_id \<and> length (wr_body rq) \<le> 16384
            \<and> fst (create_signature (we_sign env) key_id (wr_headers rq) (wr_body rq) st) = Ok sig))"
proof -
  have limit: "PUBLIC_BODY_LIMIT = 16384" by (simp add: PUBLIC_BODY_LIMIT_def)
  have device: "wr_path rq = ''/v1/auth/github/device''" if "public_route_of (wr_path rq) = Some DeviceRoute"
    using that unfolding public_route_of_def by (simp split: if_split_asm option.split_asm)
  have "wr_method rq = HttpPost \<and> length (wr_body rq) \<le> 16384
      \<and> (wr_path rq = ''/v1/auth/github/device'' \<or> (\<exists>segment. wr_path rq = ''/v1/sign/'' @ segment))"
    if "st' \<noteq> st"
    using public_router_changes [OF assms that] device unfolding limit public_route_of_sign by blast
  moreover have "ws_body resp = SignatureBody sig \<longleftrightarrow>
         (\<exists>segment key_id. wr_method rq = HttpPost \<and> wr_path rq = ''/v1/sign/'' @ segment
            \<and> segment \<noteq> [] \<and> CHR ''/'' \<notin> set segment
            \<and> we_percent_decode env segment = Some key_id \<and> length (wr_body rq) \<le> 16384
            \<and> fst (create_signature (we_sign env) key_id (wr_headers rq) (wr_body rq) st) = Ok sig)" for sig
    using public_router_signature [OF assms, of sig] unfolding limit public_route_of_sign by blast
  ultimately show ?thesis using public_router_step [OF assms] by blast
qed

section \<open>A signing request\<close>

definition demo_web_env :: "(string, unit, nat) web_env" where
  "demo_web_env =
     \<lparr>we_percent_decode = Some, we_version = ''0.11.0'', we_sign = demo_sign_env, we_exchange = demo_exchange,
      we_request_id = ''01J'', we_now = 1000000000000, we_parse_exchange = Some\<rparr>"

definition demo_web_request :: web_request where
  "demo_web_request =
     \<lparr>wr_method = HttpPost, wr_path = ''/v1/sign/microtun-firmware-prod'', wr_headers = json_headers,
      wr_body = demo_digest, wr_peer = \<lparr>sa_ip = demo_source, sa_port = 1\<rparr>\<rparr>"

lemma demo_signed:
  "fst (create_signature demo_sign_env ''microtun-firmware-prod'' json_headers demo_digest demo_app) = Ok demo_digest"
  unfolding create_signature_Ok [OF demo_app_wf] by (simp add: demo_sign_simps validate_signing_context_def)

theorem public_router_refines_witness:
  "ws_body (fst (public_router demo_web_env demo_web_request demo_app)) = SignatureBody demo_digest"
proof -
  obtain resp st' audit requests where
    run: "public_router demo_web_env demo_web_request demo_app = (resp, st', audit, requests)"
    by (metis prod_cases4)
  have "wr_path demo_web_request = ''/v1/sign/'' @ ''microtun-firmware-prod''"
    by (simp add: demo_web_request_def)
  moreover have "CHR ''/'' \<notin> set ''microtun-firmware-prod''" by simp
  moreover have "length (wr_body demo_web_request) \<le> 16384"
    by (simp add: demo_web_request_def demo_digest_def)
  moreover have "fst (create_signature (we_sign demo_web_env) ''microtun-firmware-prod''
      (wr_headers demo_web_request) (wr_body demo_web_request) demo_app) = Ok demo_digest"
    using demo_signed by (simp add: demo_web_env_def demo_web_request_def)
  moreover have "wr_method demo_web_request = HttpPost"
      "we_percent_decode demo_web_env ''microtun-firmware-prod'' = Some ''microtun-firmware-prod''"
    by (simp_all add: demo_web_request_def demo_web_env_def)
  ultimately have "ws_body resp = SignatureBody demo_digest"
    using conjunct2 [OF conjunct2 [OF public_router_refines [OF run]], rule_format, of demo_digest] by blast
  then show ?thesis by (simp add: run)
qed

end
