(* ===== verification/Local_Files.thy ===== *)
theory Local_Files
  imports Signer_Prelude
begin

unbundle bit_operations_syntax

text \<open>
  What the client and the service use of the local file system: the calls of \<^verbatim>\<open>std::fs\<close> and
  \<^verbatim>\<open>std::os::unix\<close>, as operations on a map from paths to nodes.

  Paths are compared as they are written; only the last component of a path may be a symbolic link. A
  call may also fail for a reason outside this model (permissions, a full disk): the parameter
  \<open>fault\<close> says which calls do. \<^verbatim>\<open>create_dir_all\<close> is the loop of the standard library.
\<close>

section \<open>Nodes\<close>

datatype file_kind =
    Regular string
  | Directory
  | SocketFile
  | Symlink string
  | OtherKind

record node =
  nd_kind :: file_kind
  nd_uid :: u32
  nd_gid :: u32
  nd_mode :: u32

type_synonym local_fs = "string \<Rightarrow> node option"

datatype io_error = NotFound | OtherIo

datatype sys_call =
    SysStat
  | SysLstat
  | SysOpen
  | SysFstat
  | SysUnlink
  | SysMkdir
  | SysChmod
  | SysChown
  | SysBind

type_synonym faults = "sys_call \<Rightarrow> string \<Rightarrow> bool"

record process =
  ps_euid :: u32
  ps_egid :: u32
  ps_umask :: u32

text \<open>Permission bits for group and others; the twelve bits that \<^verbatim>\<open>mode()\<close> keeps are not told apart.\<close>

definition group_other_bits :: "u32 \<Rightarrow> u32" where
  \<comment> \<open>\<^verbatim>\<open>mode & 0o077\<close>\<close>
  "group_other_bits mode = mode AND 63"

definition group_other_write_bits :: "u32 \<Rightarrow> u32" where
  \<comment> \<open>\<^verbatim>\<open>mode & 0o777 & 0o022\<close>\<close>
  "group_other_write_bits mode = (mode AND 511) AND 18"

definition group_bits :: "u32 \<Rightarrow> u32" where
  \<comment> \<open>\<^verbatim>\<open>mode & 0o070\<close>\<close>
  "group_bits mode = mode AND 56"

section \<open>Paths\<close>

definition is_absolute :: "string \<Rightarrow> bool" where
  "is_absolute path \<longleftrightarrow> starts_with ''/'' path"

text \<open>
  \<^verbatim>\<open>Path::parent\<close>: the path without its last component. Repeated separators and a \<^verbatim>\<open>.\<close> after a
  separator are not components.
\<close>

function trim_back :: "string \<Rightarrow> string" where
  "trim_back s =
     (if length s > 1 \<and> last s = CHR ''/'' then trim_back (butlast s)
      else if length s > 1 \<and> ends_with ''/.'' s then trim_back (butlast s)
      else s)"
  by pat_completeness auto
termination by (relation "measure length") auto

declare trim_back.simps [simp del]

definition drop_last_component :: "string \<Rightarrow> string" where
  "drop_last_component s = rev (dropWhile (\<lambda>c. c \<noteq> CHR ''/'') (rev s))"

definition path_parent :: "string \<Rightarrow> string option" where
  "path_parent path =
     (let p = trim_back path in
      if p = [] \<or> p = ''/'' then None else Some (trim_back (drop_last_component p)))"

lemma trim_back_length: "length (trim_back s) \<le> length s"
proof (induction s rule: trim_back.induct)
  case (1 s)
  show ?case
  proof (cases "length s > 1 \<and> (last s = CHR ''/'' \<or> ends_with ''/.'' s)")
    case True
    then have "trim_back s = trim_back (butlast s)" by (subst trim_back.simps) auto
    moreover have "length (trim_back (butlast s)) \<le> length (butlast s)" using 1 True by blast
    ultimately show ?thesis by simp
  next
    case False
    then have "trim_back s = s" by (subst trim_back.simps) auto
    then show ?thesis by simp
  qed
qed

lemma trim_back_last: "length (trim_back s) > 1 \<Longrightarrow> last (trim_back s) \<noteq> CHR ''/''"
  by (induction s rule: trim_back.induct) (subst (asm) (2) trim_back.simps, subst trim_back.simps, auto split: if_splits)

lemma path_parent_shorter:
  assumes "path_parent path = Some parent"
  shows "length parent < length path"
proof -
  let ?p = "trim_back path"
  have p: "?p \<noteq> []" "?p \<noteq> ''/''" and parent: "parent = trim_back (drop_last_component ?p)"
    using assms by (auto simp: path_parent_def Let_def split: if_splits)
  have "last ?p \<noteq> CHR ''/''"
  proof (cases "length ?p > 1")
    case True
    then show ?thesis by (rule trim_back_last)
  next
    case False
    with p show ?thesis by (cases ?p) auto
  qed
  then obtain c q where q: "rev ?p = c # q" "c \<noteq> CHR ''/''"
    using p(1) that by (cases ?p rule: rev_cases) auto
  have "length (drop_last_component ?p) \<le> length q"
    using q by (simp add: drop_last_component_def) (metis length_dropWhile_le)
  also have "\<dots> < length ?p" using arg_cong [OF q(1), of length] by simp
  finally show ?thesis
    using trim_back_length [of "drop_last_component ?p"] trim_back_length [of path] parent by simp
qed

section \<open>Calls\<close>

definition MAXSYMLINKS :: nat where
  "MAXSYMLINKS = 40"

fun follow :: "nat \<Rightarrow> local_fs \<Rightarrow> string \<Rightarrow> (io_error, string \<times> node) outcome" where
  "follow 0 fs p = Err OtherIo"
| "follow (Suc n) fs p =
     (case fs p of
        None \<Rightarrow> Err NotFound
      | Some nd \<Rightarrow> (case nd_kind nd of Symlink target \<Rightarrow> follow n fs target | _ \<Rightarrow> Ok (p, nd)))"

definition resolve :: "local_fs \<Rightarrow> string \<Rightarrow> (io_error, string \<times> node) outcome" where
  "resolve fs p = follow (Suc MAXSYMLINKS) fs p"

definition fs_metadata :: "faults \<Rightarrow> local_fs \<Rightarrow> string \<Rightarrow> (io_error, node) outcome" where
  "fs_metadata fault fs p =
     (if fault SysStat p then Err OtherIo else and_then (resolve fs p) (\<lambda>(q, nd). Ok nd))"

definition fs_symlink_metadata :: "faults \<Rightarrow> local_fs \<Rightarrow> string \<Rightarrow> (io_error, node) outcome" where
  "fs_symlink_metadata fault fs p =
     (if fault SysLstat p then Err OtherIo else ok_or NotFound (fs p))"

definition file_open :: "faults \<Rightarrow> local_fs \<Rightarrow> string \<Rightarrow> (io_error, node) outcome" where
  \<comment> \<open>\<^verbatim>\<open>File::open\<close>: the open file is the node that the path stands for\<close>
  "file_open fault fs p =
     (if fault SysOpen p then Err OtherIo else and_then (resolve fs p) (\<lambda>(q, nd). Ok nd))"

definition remove_file :: "faults \<Rightarrow> local_fs \<Rightarrow> string \<Rightarrow> (io_error, local_fs) outcome" where
  \<comment> \<open>\<^verbatim>\<open>unlink\<close> removes the entry itself, not what a symbolic link points to\<close>
  "remove_file fault fs p =
     (case fs p of
        None \<Rightarrow> Err (if fault SysUnlink p then OtherIo else NotFound)
      | Some nd \<Rightarrow>
          if fault SysUnlink p \<or> nd_kind nd = Directory then Err OtherIo else Ok (fs(p := None)))"

definition is_dir :: "faults \<Rightarrow> local_fs \<Rightarrow> string \<Rightarrow> bool" where
  \<comment> \<open>\<^verbatim>\<open>Path::is_dir\<close>\<close>
  "is_dir fault fs p = (case fs_metadata fault fs p of Ok nd \<Rightarrow> nd_kind nd = Directory | _ \<Rightarrow> False)"

definition parent_present :: "local_fs \<Rightarrow> string \<Rightarrow> (io_error, unit) outcome" where
  \<comment> \<open>the empty parent is the current directory\<close>
  "parent_present fs p =
     (case path_parent p of
        None \<Rightarrow> Ok ()
      | Some parent \<Rightarrow>
          if parent = [] then Ok ()
          else and_then (resolve fs parent) (\<lambda>(q, nd). ensure (nd_kind nd = Directory) OtherIo))"

definition create_node :: "process \<Rightarrow> file_kind \<Rightarrow> u32 \<Rightarrow> node" where
  "create_node ps kind mode =
     \<lparr>nd_kind = kind, nd_uid = ps_euid ps, nd_gid = ps_egid ps, nd_mode = mode AND NOT (ps_umask ps)\<rparr>"

definition mkdir :: "faults \<Rightarrow> process \<Rightarrow> local_fs \<Rightarrow> string \<Rightarrow> (io_error, local_fs) outcome" where
  "mkdir fault ps fs p =
     and_then (parent_present fs p) (\<lambda>_.
     if fault SysMkdir p \<or> fs p \<noteq> None then Err OtherIo
     else Ok (fs(p \<mapsto> create_node ps Directory 511)))"

text \<open>The loop of \<^verbatim>\<open>std::fs::DirBuilder\<close> with \<^verbatim>\<open>recursive(true)\<close>.\<close>

function create_dir_all :: "faults \<Rightarrow> process \<Rightarrow> local_fs \<Rightarrow> string \<Rightarrow> (io_error, unit) outcome \<times> local_fs" where
  "create_dir_all fault ps fs p =
     (if p = [] then (Ok (), fs) else
      case mkdir fault ps fs p of
        Ok fs1 \<Rightarrow> (Ok (), fs1)
      | Panic \<Rightarrow> (Panic, fs)
      | Err e \<Rightarrow>
          if e \<noteq> NotFound then (if is_dir fault fs p then Ok () else Err e, fs) else
          (case path_parent p of
             None \<Rightarrow> (Err OtherIo, fs)
           | Some parent \<Rightarrow>
               (case create_dir_all fault ps fs parent of
                  (Ok _, fs1) \<Rightarrow>
                    (case mkdir fault ps fs1 p of
                       Ok fs2 \<Rightarrow> (Ok (), fs2)
                     | Panic \<Rightarrow> (Panic, fs1)
                     | Err e' \<Rightarrow> (if is_dir fault fs1 p then Ok () else Err e', fs1))
                | (r, fs1) \<Rightarrow> (r, fs1))))"
  by pat_completeness auto
termination
  by (relation "measure (\<lambda>(fault, ps, fs, p). length p)") (auto dest: path_parent_shorter)

declare create_dir_all.simps [simp del]

definition set_permissions :: "faults \<Rightarrow> local_fs \<Rightarrow> string \<Rightarrow> u32 \<Rightarrow> (io_error, local_fs) outcome" where
  "set_permissions fault fs p mode =
     and_then (resolve fs p) (\<lambda>(q, nd).
     if fault SysChmod p then Err OtherIo else Ok (fs(q \<mapsto> nd\<lparr>nd_mode := mode\<rparr>)))"

definition chown_group :: "faults \<Rightarrow> local_fs \<Rightarrow> string \<Rightarrow> u32 \<Rightarrow> (io_error, local_fs) outcome" where
  \<comment> \<open>\<^verbatim>\<open>chown(path, None, Some(gid))\<close>\<close>
  "chown_group fault fs p gid =
     and_then (resolve fs p) (\<lambda>(q, nd).
     if fault SysChown p then Err OtherIo else Ok (fs(q \<mapsto> nd\<lparr>nd_gid := gid\<rparr>)))"

definition bind_socket :: "faults \<Rightarrow> process \<Rightarrow> local_fs \<Rightarrow> string \<Rightarrow> (io_error, local_fs) outcome" where
  \<comment> \<open>\<^verbatim>\<open>bind\<close> of a Unix socket creates the entry, and fails when there is one\<close>
  "bind_socket fault ps fs p =
     and_then (parent_present fs p) (\<lambda>_.
     if fault SysBind p \<or> fs p \<noteq> None then Err OtherIo
     else Ok (fs(p \<mapsto> create_node ps SocketFile 511)))"

section \<open>Facts about the calls\<close>

lemma follow_not_Panic [simp]: "follow n fs p \<noteq> Panic"
  by (induction n arbitrary: p) (auto split: option.splits file_kind.splits)

lemma resolve_not_Panic [simp]: "resolve fs p \<noteq> Panic"
  unfolding resolve_def by (rule follow_not_Panic)

lemma follow_Ok: "follow n fs p = Ok (q, nd) \<Longrightarrow> fs q = Some nd \<and> (\<forall>t. nd_kind nd \<noteq> Symlink t)"
  by (induction n arbitrary: p) (auto split: option.splits file_kind.splits)

lemma resolve_Ok: "resolve fs p = Ok (q, nd) \<Longrightarrow> fs q = Some nd \<and> (\<forall>t. nd_kind nd \<noteq> Symlink t)"
  unfolding resolve_def by (rule follow_Ok)

lemma resolve_plain:
  "fs p = Some nd \<Longrightarrow> (\<And>t. nd_kind nd \<noteq> Symlink t) \<Longrightarrow> resolve fs p = Ok (p, nd)"
  by (simp add: resolve_def split: file_kind.split)

lemma resolve_missing: "fs p = None \<Longrightarrow> resolve fs p = Err NotFound"
  by (simp add: resolve_def)

lemma metadata_Ok: "fs_metadata fault fs p = Ok nd \<longleftrightarrow> \<not> fault SysStat p \<and> (\<exists>q. resolve fs p = Ok (q, nd))"
  by (auto simp: fs_metadata_def)

lemma metadata_not_Panic [simp]: "fs_metadata fault fs p \<noteq> Panic"
  by (auto simp: fs_metadata_def)

lemma symlink_metadata_Ok: "fs_symlink_metadata fault fs p = Ok nd \<longleftrightarrow> \<not> fault SysLstat p \<and> fs p = Some nd"
  by (simp add: fs_symlink_metadata_def)

lemma symlink_metadata_not_Panic [simp]: "fs_symlink_metadata fault fs p \<noteq> Panic"
  by (simp add: fs_symlink_metadata_def)

lemma open_Ok: "file_open fault fs p = Ok nd \<longleftrightarrow> \<not> fault SysOpen p \<and> (\<exists>q. resolve fs p = Ok (q, nd))"
  by (auto simp: file_open_def)

lemma open_not_Panic [simp]: "file_open fault fs p \<noteq> Panic"
  by (auto simp: file_open_def)

lemma remove_file_Ok:
  "remove_file fault fs p = Ok fs' \<longleftrightarrow>
     (\<exists>nd. fs p = Some nd \<and> nd_kind nd \<noteq> Directory) \<and> \<not> fault SysUnlink p \<and> fs' = fs(p := None)"
  by (auto simp: remove_file_def split: option.splits)

lemma remove_file_not_Panic [simp]: "remove_file fault fs p \<noteq> Panic"
  by (simp add: remove_file_def split: option.split)

lemma parent_present_not_Panic [simp]: "parent_present fs p \<noteq> Panic"
  by (auto simp: parent_present_def split: option.splits)

lemma mkdir_not_Panic [simp]: "mkdir fault ps fs p \<noteq> Panic"
  by (simp add: mkdir_def)

lemma mkdir_Ok: "mkdir fault ps fs p = Ok fs' \<Longrightarrow> fs p = None \<and> fs' = fs(p \<mapsto> create_node ps Directory 511)"
  by (auto simp: mkdir_def split: if_splits)

lemma bind_socket_Ok:
  "bind_socket fault ps fs p = Ok fs' \<Longrightarrow> fs p = None \<and> fs' = fs(p \<mapsto> create_node ps SocketFile 511)"
  by (auto simp: bind_socket_def split: if_splits)

lemma bind_socket_not_Panic [simp]: "bind_socket fault ps fs p \<noteq> Panic"
  by (simp add: bind_socket_def)

text \<open>
  \<^verbatim>\<open>create_dir_all\<close> only ever adds directories, owned by the process; when it reports success the path
  is a directory.
\<close>

definition dirs_added :: "process \<Rightarrow> local_fs \<Rightarrow> local_fs \<Rightarrow> bool" where
  "dirs_added ps fs fs' \<longleftrightarrow>
     (\<forall>p. fs' p = fs p \<or> (fs p = None \<and> fs' p = Some (create_node ps Directory 511)))"

lemma dirs_added_refl [simp]: "dirs_added ps fs fs"
  by (simp add: dirs_added_def)

lemma dirs_added_trans: "dirs_added ps a b \<Longrightarrow> dirs_added ps b c \<Longrightarrow> dirs_added ps a c"
  unfolding dirs_added_def by (metis)

lemma mkdir_dirs_added: "mkdir fault ps fs p = Ok fs' \<Longrightarrow> dirs_added ps fs fs'"
  using mkdir_Ok [of fault ps fs p fs'] by (auto simp: dirs_added_def)

lemma create_dir_all_adds: "dirs_added ps fs (snd (create_dir_all fault ps fs p))"
proof (induction fault ps fs p rule: create_dir_all.induct)
  case (1 fault ps fs p)
  show ?case
  proof (cases "p = [] \<or> mkdir fault ps fs p \<noteq> Err NotFound")
    case True
    then show ?thesis
      using mkdir_dirs_added by (subst create_dir_all.simps) (auto split: outcome.splits)
  next
    case False
    then have ne: "p \<noteq> []" and nf: "mkdir fault ps fs p = Err NotFound" by auto
    show ?thesis
    proof (cases "path_parent p")
      case None
      then show ?thesis using ne nf by (subst create_dir_all.simps) simp
    next
      case (Some parent)
      obtain r fs1 where par: "create_dir_all fault ps fs parent = (r, fs1)" by fastforce
      have one: "dirs_added ps fs fs1" using 1 [OF ne nf _ Some] par by simp
      have "dirs_added ps fs1 (snd (create_dir_all fault ps fs p)) \<or> snd (create_dir_all fault ps fs p) = fs1"
        using ne nf Some par mkdir_dirs_added [of fault ps fs1 p]
        by (subst (1 2) create_dir_all.simps) (auto split: outcome.splits)
      then show ?thesis using one dirs_added_trans by auto
    qed
  qed
qed

end
