(* ===== verification/Admin_Socket.thy ===== *)
theory Admin_Socket
  imports Service Local_Files
begin

unbundle bit_operations_syntax

text \<open>
  The local side of the admin API in \<^verbatim>\<open>src/main.rs\<close>: the group lookup, the creation and the removal of the
  Unix socket by the service, and the \<^verbatim>\<open>unlock\<close> command that talks to it.

  Parameters: \<^verbatim>\<open>getgrnam_r\<close>, the terminal prompt, the HTTP client over the Unix socket (and whether it could be built) and the JSON
  decoders of the answers. \<open>bind_admin_socket\<close> also returns the states of the file system between its
  calls, so that what other users could see in between can be stated.
\<close>

section \<open>Group lookup\<close>

datatype socket_error =
    GroupNameHasNul
  | GroupLookupFailed int
  | GroupMissing
  | GroupMismatch
  | NoParentDirectory
  | ParentStatFailed
  | ParentNotDirectory
  | ParentWritable
  | RefusedNonSocket
  | StaleSocketKept
  | BindFailed
  | ChownFailed
  | ChmodFailed

definition ERANGE :: int where
  "ERANGE = 34"

record group_answer =
  ga_rc :: int
  ga_group :: "(string \<times> u32) option"

text \<open>The buffer starts at 16 KiB and doubles; after \<open>k\<close> doublings it has this length.\<close>

definition group_buffer :: "nat \<Rightarrow> nat" where
  "group_buffer k = 16 * 1024 * 2 ^ k"

lemma group_buffer_small: "group_buffer k < 1048576 \<Longrightarrow> k < 6"
proof -
  assume "group_buffer k < 1048576"
  then have "(2 :: nat) ^ k < 2 ^ 6" by (simp add: group_buffer_def)
  then show ?thesis by (rule power_less_imp_less_exp [rotated]) simp
qed

function lookup_group_loop ::
  "(string \<Rightarrow> nat \<Rightarrow> group_answer) \<Rightarrow> string \<Rightarrow> nat \<Rightarrow> (socket_error, u32) outcome" where
  "lookup_group_loop getgrnam_r name k =
     (let answer = getgrnam_r name (group_buffer k) in
      if ga_rc answer = ERANGE \<and> group_buffer k < 1024 * 1024
      then lookup_group_loop getgrnam_r name (Suc k) else
      if ga_rc answer \<noteq> 0 then Err (GroupLookupFailed (ga_rc answer)) else
      (case ga_group answer of
         None \<Rightarrow> Err GroupMissing
       | Some (found, gid) \<Rightarrow> if found \<noteq> name then Err GroupMismatch else Ok gid))"
  by pat_completeness auto
termination
  by (relation "measure (\<lambda>(g, name, k). 6 - k)") (auto dest!: group_buffer_small)

declare lookup_group_loop.simps [simp del]

definition lookup_group_id ::
  "(string \<Rightarrow> nat \<Rightarrow> group_answer) \<Rightarrow> string \<Rightarrow> (socket_error, u32) outcome" where
  "lookup_group_id getgrnam_r name =
     (if CHR 0x00 \<in> set name then Err GroupNameHasNul else lookup_group_loop getgrnam_r name 0)"

section \<open>The socket\<close>

definition finish_bind ::
  "faults \<Rightarrow> string \<Rightarrow> u32 \<Rightarrow> u32 option \<Rightarrow> local_fs \<Rightarrow> (socket_error, unit) outcome \<times> local_fs list" where
  "finish_bind fault path mode gid fs =
     (let chowned = (case gid of
            None \<Rightarrow> Ok fs
          | Some g \<Rightarrow> map_err (\<lambda>_. ChownFailed) (chown_group fault fs path g)) in
      case chowned of
        Err e \<Rightarrow> (Err e, [])
      | Panic \<Rightarrow> (Panic, [])
      | Ok fs1 \<Rightarrow>
          let seen = (if gid = None then [] else [fs1]) in
          (case set_permissions fault fs1 path mode of
             Err _ \<Rightarrow> (Err ChmodFailed, seen)
           | Panic \<Rightarrow> (Panic, seen)
           | Ok fs2 \<Rightarrow> (Ok (), seen @ [fs2])))"

definition bind_fresh ::
  "faults \<Rightarrow> process \<Rightarrow> string \<Rightarrow> u32 \<Rightarrow> u32 option \<Rightarrow> local_fs
   \<Rightarrow> (socket_error, unit) outcome \<times> local_fs list" where
  "bind_fresh fault ps path mode gid fs =
     (case bind_socket fault ps fs path of
        Err _ \<Rightarrow> (Err BindFailed, [])
      | Panic \<Rightarrow> (Panic, [])
      | Ok fs1 \<Rightarrow> (case finish_bind fault path mode gid fs1 of (r, seen) \<Rightarrow> (r, fs1 # seen)))"

definition bind_admin_socket ::
  "faults \<Rightarrow> process \<Rightarrow> string \<Rightarrow> u32 \<Rightarrow> u32 option \<Rightarrow> local_fs
   \<Rightarrow> (socket_error, unit) outcome \<times> local_fs list" where
  "bind_admin_socket fault ps path mode gid fs =
     (case path_parent path of None \<Rightarrow> (Err NoParentDirectory, []) | Some parent \<Rightarrow>
      case fs_metadata fault fs parent of
        Err _ \<Rightarrow> (Err ParentStatFailed, [])
      | Panic \<Rightarrow> (Panic, [])
      | Ok parent_metadata \<Rightarrow>
          if nd_kind parent_metadata \<noteq> Directory then (Err ParentNotDirectory, []) else
          if group_other_write_bits (nd_mode parent_metadata) \<noteq> 0 then (Err ParentWritable, []) else
          (case fs_symlink_metadata fault fs path of
             Ok metadata \<Rightarrow>
               if nd_kind metadata \<noteq> SocketFile then (Err RefusedNonSocket, []) else
               (case remove_file fault fs path of
                  Err _ \<Rightarrow> (Err StaleSocketKept, [])
                | Panic \<Rightarrow> (Panic, [])
                | Ok fs1 \<Rightarrow> (case bind_fresh fault ps path mode gid fs1 of (r, seen) \<Rightarrow> (r, fs1 # seen)))
           | _ \<Rightarrow> bind_fresh fault ps path mode gid fs))"

text \<open>\<^verbatim>\<open>AdminSocketGuard::drop\<close>; the warnings are left out.\<close>

definition drop_admin_socket_guard :: "faults \<Rightarrow> string \<Rightarrow> local_fs \<Rightarrow> local_fs" where
  "drop_admin_socket_guard fault path fs =
     (case fs_symlink_metadata fault fs path of
        Ok metadata \<Rightarrow>
          if nd_kind metadata \<noteq> SocketFile then fs
          else (case remove_file fault fs path of Ok fs1 \<Rightarrow> fs1 | _ \<Rightarrow> fs)
      | _ \<Rightarrow> fs)"

section \<open>The unlock command\<close>

datatype cli_error =
    BadKeyId
  | BadKeyring
  | TargetRequired
  | CliConfig startup_error
  | SocketUnavailable
  | NotASocket
  | PromptFailed
  | EmptyPassphrase
  | NoAdminClient
  | AdminCallFailed
  | UnlockRefused string
  | BadKeyringAnswer

definition KEY_UNLOCK_TIMEOUT :: duration where
  "KEY_UNLOCK_TIMEOUT = from_secs 30"

definition KEYRING_UNLOCK_TIMEOUT :: duration where
  "KEYRING_UNLOCK_TIMEOUT = from_secs 300"

definition resolve_admin_socket ::
  "boot_env \<Rightarrow> faults \<Rightarrow> local_fs \<Rightarrow> string option \<Rightarrow> string option \<Rightarrow> (cli_error, string) outcome" where
  "resolve_admin_socket env fault fs socket config_path =
     and_then
       (case (socket, config_path) of
          (Some path, _) \<Rightarrow> Ok path
        | (None, Some config) \<Rightarrow>
            and_then (map_err CliConfig (config_load env config)) (\<lambda>c. Ok (sc_admin_socket_path (cfg_server c)))
        | (None, None) \<Rightarrow> Ok DEFAULT_ADMIN_SOCKET_PATH) (\<lambda>path.
     and_then (map_err (\<lambda>_. SocketUnavailable) (fs_metadata fault fs path)) (\<lambda>metadata.
     if nd_kind metadata \<noteq> SocketFile then Err NotASocket else Ok path))"

datatype unlock_target = TargetKey string | TargetKeyring string

definition unlock_target_of :: "string option \<Rightarrow> string option \<Rightarrow> (cli_error, unlock_target) outcome" where
  "unlock_target_of key_id keyring =
     (case (key_id, keyring) of
        (Some key, None) \<Rightarrow> if \<not> valid_key_id key then Err BadKeyId else Ok (TargetKey key)
      | (None, Some ring) \<Rightarrow> if \<not> valid_keyring_name ring then Err BadKeyring else Ok (TargetKeyring ring)
      | _ \<Rightarrow> Err TargetRequired)"

record admin_request =
  aq_socket :: string
  aq_url :: string
  aq_timeout :: duration
  aq_passphrase :: string

record admin_error_body =
  eb_error :: string
  eb_request_id :: string
  eb_keys :: "string list"

record unlock_env =
  ue_prompt :: "string \<Rightarrow> string option"
  ue_send :: "admin_request \<Rightarrow> (nat \<times> string option) option"
  ue_parse_error :: "string \<Rightarrow> admin_error_body option"
  ue_parse_keyring :: "string \<Rightarrow> (string \<times> string) list option"
  ue_status_text :: "nat \<Rightarrow> string"
  ue_body_error :: string
  ue_client_built :: bool

definition join_with :: "string \<Rightarrow> string list \<Rightarrow> string" where
  \<comment> \<open>\<^verbatim>\<open>[T]::join\<close>\<close>
  "join_with sep parts = concat (case parts of [] \<Rightarrow> [] | p # ps \<Rightarrow> p # map (\<lambda>q. sep @ q) ps)"

definition admin_response_error :: "unlock_env \<Rightarrow> nat \<times> string option \<Rightarrow> string \<Rightarrow> string" where
  "admin_response_error env response action =
     (case snd response of
        Some body \<Rightarrow>
          (case ue_parse_error env body of
             Some problem \<Rightarrow>
               if eb_keys problem \<noteq> []
               then action @ '' failed: '' @ eb_error problem @ '' for key(s) ''
                      @ join_with '', '' (eb_keys problem) @ '' (request '' @ eb_request_id problem @ '')''
               else action @ '' failed: '' @ eb_error problem @ '' (request '' @ eb_request_id problem @ '')''
           | None \<Rightarrow> action @ '' failed with HTTP status '' @ ue_status_text env (fst response))
      | None \<Rightarrow>
          action @ '' failed with HTTP status '' @ ue_status_text env (fst response)
            @ '': '' @ ue_body_error env)"

fun unlock_call :: "unlock_target \<Rightarrow> string \<times> string \<times> duration" where
  "unlock_call (TargetKey key_id) =
     (''Passphrase for firmware signing key '' @ key_id @ '':'',
      ''http://localhost/v1/unlock/'' @ key_id, KEY_UNLOCK_TIMEOUT)"
| "unlock_call (TargetKeyring keyring) =
     (''Passphrase for keyring '' @ keyring @ '':'',
      ''http://localhost/v1/unlock-keyring/'' @ keyring, KEYRING_UNLOCK_TIMEOUT)"

definition member_status :: "string \<Rightarrow> string" where
  "member_status result =
     (if result = ''unlocked'' then ''is unlocked''
      else if result = ''already-unlocked'' then ''was already unlocked''
      else if result = ''skipped-inactive'' then ''was skipped (not active)'' else result)"

definition unlock_command ::
  "boot_env \<Rightarrow> unlock_env \<Rightarrow> faults \<Rightarrow> local_fs \<Rightarrow> string option \<Rightarrow> string option \<Rightarrow> string option
   \<Rightarrow> string option \<Rightarrow> (cli_error, string list) outcome \<times> admin_request list" where
  "unlock_command boot env fault fs key_id keyring socket config_path =
     (case and_then (unlock_target_of key_id keyring) (\<lambda>target.
           and_then (resolve_admin_socket boot fault fs socket config_path) (\<lambda>path.
           and_then (ok_or PromptFailed (ue_prompt env (fst (unlock_call target) @ '' ''))) (\<lambda>passphrase.
           if passphrase = [] then Err EmptyPassphrase else
           if \<not> ue_client_built env then Err NoAdminClient
           else Ok (target, \<lparr>aq_socket = path, aq_url = fst (snd (unlock_call target)),
                             aq_timeout = snd (snd (unlock_call target)), aq_passphrase = passphrase\<rparr>)))) of
        Err e \<Rightarrow> (Err e, [])
      | Panic \<Rightarrow> (Panic, [])
      | Ok (target, request) \<Rightarrow>
          (case ue_send env request of
             None \<Rightarrow> (Err AdminCallFailed, [request])
           | Some response \<Rightarrow>
               if \<not> (200 \<le> fst response \<and> fst response < 300)
               then (Err (UnlockRefused (admin_response_error env response ''unlock'')), [request]) else
               (case target of
                  TargetKey key \<Rightarrow> (Ok [''key '' @ key @ '' is unlocked''], [request])
                | TargetKeyring ring \<Rightarrow>
                    (and_then (ok_or BadKeyringAnswer (Option.bind (snd response) (ue_parse_keyring env))) (\<lambda>keys.
                       Ok (map (\<lambda>(key, result). ''key '' @ key @ '' '' @ member_status result) keys)),
                     [request]))))"

section \<open>Lemmas\<close>

definition lookup_ends :: "(string \<Rightarrow> nat \<Rightarrow> group_answer) \<Rightarrow> string \<Rightarrow> u32 \<Rightarrow> nat \<Rightarrow> nat \<Rightarrow> bool" where
  \<comment> \<open>from buffer \<open>k\<close> on, buffer \<open>n\<close> is the first that suffices, and the group is found there\<close>
  "lookup_ends g name gid k n \<longleftrightarrow>
     k \<le> n \<and> (\<forall>j\<in>{k..<n}. ga_rc (g name (group_buffer j)) = ERANGE \<and> j < 6)
     \<and> ga_rc (g name (group_buffer n)) = 0 \<and> ga_group (g name (group_buffer n)) = Some (name, gid)"

lemma group_buffer_iff: "group_buffer k < 1048576 \<longleftrightarrow> k < 6"
  using power_strict_increasing [of k 6 "2 :: nat"] group_buffer_small by (auto simp: group_buffer_def)

lemma lookup_group_loop_Ok: "lookup_group_loop g name k = Ok gid \<longleftrightarrow> (\<exists>n. lookup_ends g name gid k n)"
proof (induction g name k rule: lookup_group_loop.induct)
  case (1 g name k)
  show ?case
  proof (cases "ga_rc (g name (group_buffer k)) = ERANGE \<and> group_buffer k < 1024 * 1024")
    case True
    have "lookup_ends g name gid k n \<longleftrightarrow> lookup_ends g name gid (Suc k) n" for n
    proof (cases "k < n")
      case less: True
      then have "{k..<n} = insert k {Suc k..<n}" by auto
      then show ?thesis using True less by (simp add: lookup_ends_def group_buffer_iff)
    next
      case False
      then show ?thesis using True by (auto simp: lookup_ends_def ERANGE_def)
    qed
    then have "lookup_ends g name gid k = lookup_ends g name gid (Suc k)" by blast
    then show ?thesis using 1 [OF refl True] True by (subst lookup_group_loop.simps) (simp add: Let_def)
  next
    case False
    then have "lookup_ends g name gid k n \<longleftrightarrow> n = k \<and> lookup_ends g name gid k k" for n
      by (cases "k < n") (auto simp: lookup_ends_def group_buffer_iff)
    then have "(\<exists>n. lookup_ends g name gid k n) \<longleftrightarrow> lookup_ends g name gid k k" by metis
    then show ?thesis
      using False by (subst lookup_group_loop.simps) (auto simp: Let_def lookup_ends_def split: option.splits)
  qed
qed

lemma socket_resolves: "fs path = Some nd \<Longrightarrow> nd_kind nd = SocketFile \<Longrightarrow> resolve fs path = Ok (path, nd)"
  by (rule resolve_plain) auto

text \<open>What every state of the socket satisfies while it is set up.\<close>

definition socket_state :: "process \<Rightarrow> u32 \<Rightarrow> u32 option \<Rightarrow> node \<Rightarrow> bool" where
  "socket_state ps mode gid nd \<longleftrightarrow>
     nd_kind nd = SocketFile \<and> nd_uid nd = ps_euid ps
     \<and> (nd_mode nd = 511 AND NOT (ps_umask ps)
        \<or> nd_mode nd = mode \<and> nd_gid nd = (case gid of None \<Rightarrow> ps_egid ps | Some g \<Rightarrow> g))"

lemma finish_bind_states:
  assumes "finish_bind fault path mode gid fs = (r, seen)" and "fs path = Some (create_node ps SocketFile 511)"
  shows "r \<noteq> Panic
    \<and> (\<forall>s\<in>set seen. (\<forall>p. p \<noteq> path \<longrightarrow> s p = fs p) \<and> (\<exists>nd. s path = Some nd \<and> socket_state ps mode gid nd))
    \<and> (r = Ok () \<longrightarrow> seen \<noteq> [] \<and> (\<exists>nd. last seen path = Some nd \<and> nd_kind nd = SocketFile \<and> nd_mode nd = mode
         \<and> nd_uid nd = ps_euid ps \<and> nd_gid nd = (case gid of None \<Rightarrow> ps_egid ps | Some g \<Rightarrow> g)))"
proof -
  let ?nd = "create_node ps SocketFile 511"
  have res: "resolve fs path = Ok (path, ?nd)"
    using assms(2) by (intro socket_resolves) (simp_all add: create_node_def)
  have res': "resolve (fs(path \<mapsto> ?nd\<lparr>nd_gid := g\<rparr>)) path = Ok (path, ?nd\<lparr>nd_gid := g\<rparr>)" for g
    by (intro socket_resolves) (simp_all add: create_node_def)
  show ?thesis
  proof (cases gid)
    case None
    then show ?thesis
      using assms(1) res
      by (auto simp: finish_bind_def set_permissions_def socket_state_def create_node_def split: if_splits)
  next
    case (Some g)
    then show ?thesis
      using assms(1) res res' [of g]
      by (auto simp: finish_bind_def chown_group_def set_permissions_def socket_state_def create_node_def
          split: if_splits)
  qed
qed

lemma bind_fresh_states:
  assumes "bind_fresh fault ps path mode gid fs = (r, seen)"
  shows "r \<noteq> Panic \<and> (seen \<noteq> [] \<longrightarrow> fs path = None)
    \<and> (\<forall>s\<in>set seen. (\<forall>p. p \<noteq> path \<longrightarrow> s p = fs p) \<and> (\<exists>nd. s path = Some nd \<and> socket_state ps mode gid nd))
    \<and> (r = Ok () \<longrightarrow> seen \<noteq> [] \<and> (\<exists>nd. last seen path = Some nd \<and> nd_kind nd = SocketFile \<and> nd_mode nd = mode
         \<and> nd_uid nd = ps_euid ps \<and> nd_gid nd = (case gid of None \<Rightarrow> ps_egid ps | Some g \<Rightarrow> g)))"
proof (cases "bind_socket fault ps fs path")
  case (Ok fs1)
  note fs1 = bind_socket_Ok [OF Ok]
  obtain r' seen' where fin: "finish_bind fault path mode gid fs1 = (r', seen')" by fastforce
  have r: "r = r'" "seen = fs1 # seen'" using assms Ok fin by (auto simp: bind_fresh_def)
  have new: "socket_state ps mode gid (create_node ps SocketFile 511)"
    by (simp add: socket_state_def create_node_def)
  have "fs1 path = Some (create_node ps SocketFile 511)" using fs1 by simp
  from finish_bind_states [OF fin this] show ?thesis
    using fs1 r new by auto
next
  case (Err e)
  then show ?thesis using assms by (auto simp: bind_fresh_def)
qed (use bind_socket_not_Panic in auto)

lemma bind_admin_socket_effect:
  assumes "bind_admin_socket fault ps path mode gid fs = (r, states)"
  shows "r \<noteq> Panic
    \<and> (\<forall>s\<in>set states. \<forall>p. p \<noteq> path \<longrightarrow> s p = fs p)
    \<and> (\<forall>nd. fs path = Some nd \<and> nd_kind nd \<noteq> SocketFile \<longrightarrow> states = [] \<and> r \<noteq> Ok ())
    \<and> (r = Ok () \<longrightarrow>
         (\<exists>parent q d. path_parent path = Some parent \<and> resolve fs parent = Ok (q, d) \<and> nd_kind d = Directory
            \<and> group_other_write_bits (nd_mode d) = 0)
         \<and> states \<noteq> []
         \<and> (\<exists>nd. last states path = Some nd \<and> nd_kind nd = SocketFile \<and> nd_mode nd = mode
              \<and> nd_uid nd = ps_euid ps \<and> nd_gid nd = (case gid of None \<Rightarrow> ps_egid ps | Some g \<Rightarrow> g)))
    \<and> (group_bits (511 AND NOT (ps_umask ps)) = 0 \<longrightarrow>
         (\<forall>s\<in>set states. \<forall>nd g. s path = Some nd \<and> group_bits (nd_mode nd) \<noteq> 0 \<and> gid = Some g
            \<longrightarrow> nd_gid nd = g))"
proof -
  note fresh = bind_fresh_states [of fault ps path mode gid]
  have group: "nd_gid nd = g" if "socket_state ps mode gid nd" "group_bits (511 AND NOT (ps_umask ps)) = 0"
      "group_bits (nd_mode nd) \<noteq> 0" "gid = Some g" for nd g
    using that by (auto simp: socket_state_def)
  show ?thesis
  proof (cases "\<exists>parent d q. path_parent path = Some parent \<and> fs_metadata fault fs parent = Ok d
      \<and> resolve fs parent = Ok (q, d) \<and> nd_kind d = Directory \<and> group_other_write_bits (nd_mode d) = 0")
    case False
    then have "r \<noteq> Panic \<and> r \<noteq> Ok () \<and> states = []"
      using assms
      by (auto simp: bind_admin_socket_def metadata_Ok split: option.splits outcome.splits if_splits)
    then show ?thesis by simp
  next
    case True
    then obtain parent d q where par: "path_parent path = Some parent" "fs_metadata fault fs parent = Ok d"
      "resolve fs parent = Ok (q, d)" "nd_kind d = Directory" "group_other_write_bits (nd_mode d) = 0" by blast
    show ?thesis
    proof (cases "\<exists>md. fs_symlink_metadata fault fs path = Ok md")
      case False
      then have run: "bind_fresh fault ps path mode gid fs = (r, states)"
        using assms par
        by (cases "fs_symlink_metadata fault fs path") (auto simp: bind_admin_socket_def)
      then show ?thesis using fresh [OF run] par group by fastforce
    next
      case True
      then obtain md where md: "fs_symlink_metadata fault fs path = Ok md" "fs path = Some md"
        by (auto simp: symlink_metadata_Ok)
      show ?thesis
      proof (cases "nd_kind md = SocketFile \<and> \<not> fault SysUnlink path")
        case False
        then have "r \<noteq> Panic \<and> r \<noteq> Ok () \<and> states = []"
          using assms par md
          by (auto simp: bind_admin_socket_def remove_file_def split: if_splits)
        then show ?thesis by simp
      next
        case True
        obtain seen where run: "bind_fresh fault ps path mode gid (fs(path := None)) = (r, seen)"
            and states: "states = fs(path := None) # seen"
          using assms par md True
          by (auto simp: bind_admin_socket_def remove_file_def split: prod.splits)
        show ?thesis using fresh [OF run] states par group md True by fastforce
      qed
    qed
  qed
qed

section \<open>Properties\<close>

text \<open>
  C34: the group lookup ends, after at most seven calls with buffers from 16 KiB to 1 MiB, and gives a group
  identifier exactly if the first call whose buffer sufficed found a group of exactly this name.
\<close>

theorem lookup_group_id_exact:
  "lookup_group_id g name = Ok gid \<longleftrightarrow>
     CHR 0x00 \<notin> set name
     \<and> (\<exists>n \<le> 6. list_all (\<lambda>j. ga_rc (g name (16384 * 2 ^ j)) = ERANGE) [0..<n]
          \<and> ga_rc (g name (16384 * 2 ^ n)) = 0 \<and> ga_group (g name (16384 * 2 ^ n)) = Some (name, gid))"
proof -
  have "lookup_ends g name gid 0 n \<longleftrightarrow> n \<le> 6 \<and> list_all (\<lambda>j. ga_rc (g name (16384 * 2 ^ j)) = ERANGE) [0..<n]
      \<and> ga_rc (g name (16384 * 2 ^ n)) = 0 \<and> ga_group (g name (16384 * 2 ^ n)) = Some (name, gid)" for n
  proof -
    have "n \<le> 6 \<longleftrightarrow> (\<forall>j\<in>{0..<n}. j < 6)" by (auto simp: not_le [symmetric])
    then show ?thesis by (auto simp: lookup_ends_def list_all_iff group_buffer_def)
  qed
  then show ?thesis by (auto simp: lookup_group_id_def lookup_group_loop_Ok)
qed


text \<open>
  The unlock command. It sends at most one request, over a path that is a Unix socket, with a
  nonempty passphrase and to the unlock route of a valid identifier; it reports success only if the service
  answered that request with a success status.
\<close>

theorem unlock_command_sound:
  assumes "unlock_command boot env fault fs key_id keyring socket config_path = (r, requests)"
  shows "r \<noteq> Panic \<and> length requests \<le> 1
    \<and> (\<forall>q\<in>set requests. aq_passphrase q \<noteq> []
         \<and> (\<exists>nd. fs_metadata fault fs (aq_socket q) = Ok nd \<and> nd_kind nd = SocketFile)
         \<and> (\<exists>i. valid_key_id i \<and> (key_id = Some i \<and> aq_url q = ''http://localhost/v1/unlock/'' @ i
               \<or> keyring = Some i \<and> aq_url q = ''http://localhost/v1/unlock-keyring/'' @ i)))
    \<and> (\<forall>lines. r = Ok lines \<longrightarrow>
         (\<exists>q response. requests = [q] \<and> ue_send env q = Some response \<and> 200 \<le> fst response \<and> fst response < 300))"
proof -
  have res: "\<exists>nd. fs_metadata fault fs path = Ok nd \<and> nd_kind nd = SocketFile"
    if "resolve_admin_socket boot fault fs socket config_path = Ok path" for path
    using that by (auto simp: resolve_admin_socket_def split: if_splits)
  have noP: "resolve_admin_socket boot fault fs socket config_path \<noteq> Panic"
    using normalize_not_Panic [of "bo_parse_url boot"]
    by (auto simp: resolve_admin_socket_def config_load_def split: option.splits)
  show ?thesis
    using assms res noP
    by (auto simp: unlock_command_def unlock_target_of_def valid_keyring_name_def
        split: outcome.splits option.splits if_splits unlock_target.splits prod.splits)
qed

section \<open>A concrete socket\<close>

definition socket_fs :: local_fs where
  "socket_fs = [''/run'' \<mapsto> \<lparr>nd_kind = Directory, nd_uid = 0, nd_gid = 0, nd_mode = 493\<rparr>]"

definition socket_process :: process where
  "socket_process = \<lparr>ps_euid = 1000, ps_egid = 1000, ps_umask = 63\<rparr>"

lemma socket_parent: "path_parent ''/run/s'' = Some ''/run''"
  by (simp add: path_parent_def drop_last_component_def trim_back.simps ends_with_def)

text \<open>When no call fails, the socket of an absent path in a protected directory is set up.\<close>

lemma bind_admin_socket_succeeds:
  assumes parent: "path_parent path = Some dir" "fs dir = Some d" "nd_kind d = Directory"
    and protected: "group_other_write_bits (nd_mode d) = 0" and absent: "fs path = None"
    and works: "\<And>call p. \<not> fault call p"
  shows "\<exists>states. bind_admin_socket fault ps path mode (Some g) fs = (Ok (), states)"
proof -
  let ?nd = "create_node ps SocketFile 511"
  have dir: "resolve fs dir = Ok (dir, d)"
    using parent by (intro resolve_plain) auto
  have one: "resolve (fs(path \<mapsto> ?nd)) path = Ok (path, ?nd)"
    by (intro socket_resolves) (simp_all add: create_node_def)
  have two: "resolve (fs(path \<mapsto> ?nd\<lparr>nd_gid := g\<rparr>)) path = Ok (path, ?nd\<lparr>nd_gid := g\<rparr>)"
    by (intro socket_resolves) (simp_all add: create_node_def)
  have "finish_bind fault path mode (Some g) (fs(path \<mapsto> ?nd))
      = (Ok (), [fs(path \<mapsto> ?nd\<lparr>nd_gid := g\<rparr>), fs(path \<mapsto> ?nd\<lparr>nd_gid := g, nd_mode := mode\<rparr>)])"
    using one two works by (simp add: finish_bind_def chown_group_def set_permissions_def)
  then show ?thesis
    using dir parent protected absent works
    by (simp add: bind_admin_socket_def fs_metadata_def
        fs_symlink_metadata_def bind_fresh_def bind_socket_def parent_present_def)
qed

lemma socket_bound:
  "\<exists>states. bind_admin_socket (\<lambda>call path. False) socket_process ''/run/s'' 432 (Some 27) socket_fs = (Ok (), states)"
  by (rule bind_admin_socket_succeeds [OF socket_parent]) (auto simp: socket_fs_def group_other_write_bits_def)


definition demo_unlock_env :: unlock_env where
  "demo_unlock_env =
     \<lparr>ue_prompt = (\<lambda>prompt. Some ''pw''), ue_send = (\<lambda>request. Some (204, Some [])), ue_parse_error = (\<lambda>body. None),
      ue_parse_keyring = (\<lambda>body. None), ue_status_text = (\<lambda>status. []),
      ue_body_error = [], ue_client_built = True\<rparr>"

theorem unlock_command_sound_witness:
  "\<exists>q. unlock_command demo_boot demo_unlock_env (\<lambda>call path. False)
       (socket_fs(''/run/s'' \<mapsto> create_node socket_process SocketFile 511)) (Some ''k'') None (Some ''/run/s'') None
     = (Ok [''key k is unlocked''], [q]) \<and> aq_passphrase q = ''pw'' \<and> length [q] \<le> 1"
proof -
  let ?fs = "socket_fs(''/run/s'' \<mapsto> create_node socket_process SocketFile 511)"
  have "resolve ?fs ''/run/s'' = Ok (''/run/s'', create_node socket_process SocketFile 511)"
    by (intro socket_resolves) (simp_all add: create_node_def)
  then have "resolve_admin_socket demo_boot (\<lambda>call path. False) ?fs (Some ''/run/s'') None = Ok ''/run/s''"
    by (simp add: resolve_admin_socket_def fs_metadata_def create_node_def)
  moreover have "valid_key_id ''k''" by code_simp
  ultimately obtain q where run: "unlock_command demo_boot demo_unlock_env (\<lambda>call path. False) ?fs (Some ''k'') None
      (Some ''/run/s'') None = (Ok [''key k is unlocked''], [q])" "aq_passphrase q = ''pw''"
    by (simp add: unlock_command_def unlock_target_of_def demo_unlock_env_def)
  with unlock_command_sound [OF run(1)] show ?thesis by blast
qed

end
