(* ===== verification/Session_Cache.thy ===== *)
theory Session_Cache
  imports Local_Files Url_Model Key_Policy
begin

text \<open>
  The cache of signer sessions of the command-line client (\<^verbatim>\<open>src/session_cache.rs\<close>): one private file per
  signer, in a private directory.

  Parameters, in \<open>cache_env\<close>: the environment and the directories of the platform (\<^verbatim>\<open>dirs\<close>), SHA-256 in
  hexadecimal, the clock, the JSON codec of the cached record, and \<open>ce_write\<close>, which stands for
  \<^verbatim>\<open>AtomicWriteFile\<close> from \<^verbatim>\<open>open\<close> over \<^verbatim>\<open>set_permissions\<close> to \<^verbatim>\<open>commit\<close>: until the commit the file itself is
  untouched.
\<close>

section \<open>Data\<close>

definition CACHE_VERSION :: "8 word" where
  "CACHE_VERSION = 1"

definition SESSION_TOKEN_PREFIX :: string where
  "SESSION_TOKEN_PREFIX = ''mts_''"

definition MAX_SESSION_TOKEN_BYTES :: nat where
  "MAX_SESSION_TOKEN_BYTES = 16 * 1024"

definition EXPIRY_SAFETY_MARGIN_SECONDS :: u64 where
  "EXPIRY_SAFETY_MARGIN_SECONDS = 30"

record cached_session =
  cs_version :: "8 word"
  cs_access_token :: string
  cs_expires_at :: u64

datatype cache_error =
    CacheOpenFailed
  | CacheInspectFailed
  | CacheRemoveFailed
  | CacheDirectoryFailed
  | CacheDirectoryNotPrivate
  | CacheDirectoryNotOwned
  | CacheWriteFailed
  | ClockBeforeEpoch

record cache_env =
  ce_cache_dir_variable :: "string option"
  ce_runtime_dir :: "string option"
  ce_cache_dir :: "string option"
  ce_sha256_hex :: "string \<Rightarrow> string"
  ce_process :: process
  ce_fault :: faults
  ce_clock :: "u64 option"
  ce_decode :: "string \<Rightarrow> cached_session option"
  ce_encode :: "cached_session \<Rightarrow> string"
  ce_write :: "local_fs \<Rightarrow> string \<Rightarrow> u32 \<Rightarrow> string \<Rightarrow> local_fs option"

section \<open>Operations\<close>

definition absolute_env_path :: "string option \<Rightarrow> string option" where
  "absolute_env_path variable =
     (case variable of
        None \<Rightarrow> None
      | Some value \<Rightarrow> if value = [] then None else if is_absolute value then Some value else None)"

definition cache_root :: "cache_env \<Rightarrow> string option" where
  "cache_root env =
     (case absolute_env_path (ce_cache_dir_variable env) of
        Some path \<Rightarrow> Some path
      | None \<Rightarrow>
          map_option (\<lambda>path. path_join path ''microtun-signer/sessions'')
            (case ce_runtime_dir env of Some path \<Rightarrow> Some path | None \<Rightarrow> ce_cache_dir env))"

definition session_path :: "cache_env \<Rightarrow> url \<Rightarrow> string option" where
  "session_path env signer_base_url =
     map_option (\<lambda>root. path_join root (ce_sha256_hex env (url_as_str signer_base_url) @ ''.json''))
       (cache_root env)"

definition valid_session_token :: "string \<Rightarrow> bool" where
  "valid_session_token token \<longleftrightarrow>
     starts_with SESSION_TOKEN_PREFIX token
     \<and> length token \<le> MAX_SESSION_TOKEN_BYTES
     \<and> \<not> has_whitespace token"

definition cache_file_is_private :: "u32 \<Rightarrow> node \<Rightarrow> bool" where
  "cache_file_is_private euid metadata \<longleftrightarrow>
     (\<exists>contents. nd_kind metadata = Regular contents)
     \<and> nd_uid metadata = euid
     \<and> group_other_bits (nd_mode metadata) = 0"

lemma cache_file_is_private_code [code]:
  "cache_file_is_private euid metadata \<longleftrightarrow>
     (case nd_kind metadata of Regular contents \<Rightarrow> True | _ \<Rightarrow> False)
     \<and> nd_uid metadata = euid \<and> group_other_bits (nd_mode metadata) = 0"
  by (simp add: cache_file_is_private_def split: file_kind.split)

definition file_contents :: "node \<Rightarrow> string" where
  "file_contents nd = (case nd_kind nd of Regular contents \<Rightarrow> contents | _ \<Rightarrow> [])"

definition discard :: "cache_env \<Rightarrow> local_fs \<Rightarrow> string \<Rightarrow> local_fs" where
  \<comment> \<open>\<^verbatim>\<open>let _ = fs::remove_file(&path)\<close>\<close>
  "discard env fs path = (case remove_file (ce_fault env) fs path of Ok fs' \<Rightarrow> fs' | _ \<Rightarrow> fs)"

definition cache_load ::
  "cache_env \<Rightarrow> url \<Rightarrow> local_fs \<Rightarrow> (cache_error, string option) outcome \<times> local_fs" where
  "cache_load env signer_base_url fs =
     (case session_path env signer_base_url of None \<Rightarrow> (Ok None, fs) | Some path \<Rightarrow>
      case file_open (ce_fault env) fs path of
        Panic \<Rightarrow> (Panic, fs)
      | Err NotFound \<Rightarrow> (Ok None, fs)
      | Err OtherIo \<Rightarrow> (Err CacheOpenFailed, fs)
      | Ok file \<Rightarrow>
          if ce_fault env SysFstat path then (Err CacheInspectFailed, fs) else
          if \<not> cache_file_is_private (ps_euid (ce_process env)) file then (Ok None, discard env fs path) else
          (case ce_decode env (file_contents file) of
             None \<Rightarrow> (Ok None, discard env fs path)
           | Some cached \<Rightarrow>
               (case ce_clock env of
                  None \<Rightarrow> (Err ClockBeforeEpoch, fs)
                | Some now \<Rightarrow>
                    if cs_version cached \<noteq> CACHE_VERSION
                       \<or> \<not> valid_session_token (cs_access_token cached)
                       \<or> cs_expires_at cached \<le> saturating_add now EXPIRY_SAFETY_MARGIN_SECONDS
                    then (Ok None, discard env fs path)
                    else (Ok (Some (cs_access_token cached)), fs))))"

definition ensure_private_dir ::
  "cache_env \<Rightarrow> string \<Rightarrow> local_fs \<Rightarrow> (cache_error, unit) outcome \<times> local_fs" where
  "ensure_private_dir env path fs =
     (case create_dir_all (ce_fault env) (ce_process env) fs path of
        (Panic, fs1) \<Rightarrow> (Panic, fs1)
      | (Err e, fs1) \<Rightarrow> (Err CacheDirectoryFailed, fs1)
      | (Ok _, fs1) \<Rightarrow>
          (case fs_symlink_metadata (ce_fault env) fs1 path of
             Panic \<Rightarrow> (Panic, fs1)
           | Err e \<Rightarrow> (Err CacheInspectFailed, fs1)
           | Ok metadata \<Rightarrow>
               if nd_kind metadata \<noteq> Directory then (Err CacheDirectoryNotPrivate, fs1) else
               if nd_uid metadata \<noteq> ps_euid (ce_process env) then (Err CacheDirectoryNotOwned, fs1) else
               if group_other_bits (nd_mode metadata) \<noteq> 0 then
                 (case set_permissions (ce_fault env) fs1 path 448 of
                    Ok fs2 \<Rightarrow> (Ok (), fs2)
                  | Err e \<Rightarrow> (Err CacheDirectoryFailed, fs1)
                  | Panic \<Rightarrow> (Panic, fs1))
               else (Ok (), fs1)))"

definition cache_store ::
  "cache_env \<Rightarrow> url \<Rightarrow> string \<Rightarrow> u64 \<Rightarrow> local_fs \<Rightarrow> (cache_error, bool) outcome \<times> local_fs" where
  "cache_store env signer_base_url access_token expires_in fs =
     (if \<not> valid_session_token access_token \<or> expires_in = 0 then (Ok False, fs) else
      case session_path env signer_base_url of None \<Rightarrow> (Ok False, fs) | Some path \<Rightarrow>
      case path_parent path of None \<Rightarrow> (Ok False, fs) | Some parent \<Rightarrow>
      case ensure_private_dir env parent fs of
        (Panic, fs1) \<Rightarrow> (Panic, fs1)
      | (Err e, fs1) \<Rightarrow> (Err e, fs1)
      | (Ok _, fs1) \<Rightarrow>
          (case ce_clock env of
             None \<Rightarrow> (Err ClockBeforeEpoch, fs1)
           | Some now \<Rightarrow>
               let cached = \<lparr>cs_version = CACHE_VERSION, cs_access_token = access_token,
                             cs_expires_at = saturating_add now expires_in\<rparr> in
               (case ce_write env fs1 path 384 (ce_encode env cached) of
                  None \<Rightarrow> (Err CacheWriteFailed, fs1)
                | Some fs2 \<Rightarrow> (Ok True, fs2))))"

definition cache_remove ::
  "cache_env \<Rightarrow> url \<Rightarrow> local_fs \<Rightarrow> (cache_error, unit) outcome \<times> local_fs" where
  "cache_remove env signer_base_url fs =
     (case session_path env signer_base_url of None \<Rightarrow> (Ok (), fs) | Some path \<Rightarrow>
      case remove_file (ce_fault env) fs path of
        Ok fs1 \<Rightarrow> (Ok (), fs1)
      | Err NotFound \<Rightarrow> (Ok (), fs)
      | Err OtherIo \<Rightarrow> (Err CacheRemoveFailed, fs)
      | Panic \<Rightarrow> (Panic, fs))"

section \<open>What the code relies on\<close>

text \<open>
  The crate that writes the file: after a successful commit the path holds a regular file of the process
  with the requested mode and contents, and nothing else changed.
\<close>

definition atomic_write :: "cache_env \<Rightarrow> bool" where
  "atomic_write env \<longleftrightarrow>
     (\<forall>fs path mode contents fs'. ce_write env fs path mode contents = Some fs' \<longrightarrow>
        (\<exists>nd. fs' = fs(path \<mapsto> nd) \<and> nd_kind nd = Regular contents
           \<and> nd_uid nd = ps_euid (ce_process env) \<and> nd_mode nd = mode))"

text \<open>The JSON codec reads back what it wrote.\<close>

definition codec :: "cache_env \<Rightarrow> bool" where
  "codec env \<longleftrightarrow> (\<forall>cached. ce_decode env (ce_encode env cached) = Some cached)"

section \<open>Lemmas\<close>

lemma discard_effect:
  "discard env fs path = fs \<or> discard env fs path = fs(path := None)"
  using remove_file_Ok [of "ce_fault env" fs path]
  by (cases "remove_file (ce_fault env) fs path") (auto simp: discard_def)

lemma group_other_bits_448: "group_other_bits 448 = 0" and group_other_bits_384: "group_other_bits 384 = 0"
  by (simp_all add: group_other_bits_def)

lemma ensure_private_dir_Ok:
  assumes "ensure_private_dir env path fs = (Ok u, fs')"
  shows "\<exists>fs1 nd. dirs_added (ce_process env) fs fs1 \<and> fs' path = Some nd \<and> nd_kind nd = Directory
    \<and> nd_uid nd = ps_euid (ce_process env) \<and> group_other_bits (nd_mode nd) = 0
    \<and> (\<forall>p. p \<noteq> path \<longrightarrow> fs' p = fs1 p)"
proof -
  obtain r fs1 where mk: "create_dir_all (ce_fault env) (ce_process env) fs path = (r, fs1)" by fastforce
  have add: "dirs_added (ce_process env) fs fs1"
    using create_dir_all_adds [of "ce_process env" fs "ce_fault env" path] mk by simp
  obtain nd where nd: "fs1 path = Some nd" "nd_kind nd = Directory" "nd_uid nd = ps_euid (ce_process env)"
    using assms mk
    by (auto simp: ensure_private_dir_def symlink_metadata_Ok split: outcome.splits if_splits)
  have res: "resolve fs1 path = Ok (path, nd)" using nd by (intro resolve_plain) auto
  show ?thesis
  proof (cases "group_other_bits (nd_mode nd) = 0")
    case True
    then have "fs' = fs1"
      using assms mk nd
      by (auto simp: ensure_private_dir_def fs_symlink_metadata_def split: outcome.splits if_splits)
    then show ?thesis using add nd True by blast
  next
    case False
    then have "fs' = fs1(path \<mapsto> nd\<lparr>nd_mode := 448\<rparr>)"
      using assms mk nd res
      by (auto simp: ensure_private_dir_def fs_symlink_metadata_def set_permissions_def
          split: outcome.splits if_splits)
    then show ?thesis
      using add nd group_other_bits_448 by (intro exI [of _ fs1] exI [of _ "nd\<lparr>nd_mode := 448\<rparr>"]) auto
  qed
qed

lemma cache_load_Some:
  assumes "cache_load env u fs = (Ok (Some token), fs')"
  shows "fs' = fs \<and> (\<exists>path q nd contents cached now. session_path env u = Some path
    \<and> resolve fs path = Ok (q, nd) \<and> nd_kind nd = Regular contents
    \<and> nd_uid nd = ps_euid (ce_process env) \<and> group_other_bits (nd_mode nd) = 0
    \<and> ce_decode env contents = Some cached \<and> cs_version cached = 1 \<and> cs_access_token cached = token
    \<and> valid_session_token token \<and> ce_clock env = Some now \<and> unat now + 30 < unat (cs_expires_at cached))"
proof -
  obtain path where path: "session_path env u = Some path"
    using assms by (cases "session_path env u") (auto simp: cache_load_def)
  obtain q nd where nd: "resolve fs path = Ok (q, nd)" "file_open (ce_fault env) fs path = Ok nd"
    using assms path
    by (cases "file_open (ce_fault env) fs path")
      (auto simp: cache_load_def open_Ok split: io_error.splits)
  have priv: "cache_file_is_private (ps_euid (ce_process env)) nd" "\<not> ce_fault env SysFstat path"
    using assms path nd by (auto simp: cache_load_def split: if_splits)
  then obtain contents where contents: "nd_kind nd = Regular contents"
    by (auto simp: cache_file_is_private_def)
  obtain cached where cached: "ce_decode env contents = Some cached"
    using assms path nd priv contents
    by (cases "ce_decode env contents") (auto simp: cache_load_def file_contents_def)
  obtain now where now: "ce_clock env = Some now"
    using assms path nd priv contents cached
    by (cases "ce_clock env") (auto simp: cache_load_def file_contents_def)
  have ok: "cs_version cached = CACHE_VERSION" "valid_session_token (cs_access_token cached)"
      "\<not> cs_expires_at cached \<le> saturating_add now EXPIRY_SAFETY_MARGIN_SECONDS"
      "token = cs_access_token cached" "fs' = fs"
    using assms path nd priv contents cached now
    by (auto simp: cache_load_def file_contents_def split: if_splits)
  have "unat (saturating_add now EXPIRY_SAFETY_MARGIN_SECONDS) < unat (cs_expires_at cached)"
    using ok(3) by (simp add: word_le_nat_alt)
  moreover have "unat (cs_expires_at cached) < 2 ^ 64" using unsigned_less [of "cs_expires_at cached"] by simp
  ultimately have "unat now + 30 < unat (cs_expires_at cached)"
    by (simp add: unat_saturating_add EXPIRY_SAFETY_MARGIN_SECONDS_def min_def split: if_splits)
  then show ?thesis
    using path nd(1) priv contents cached now ok
    by (auto simp: cache_file_is_private_def CACHE_VERSION_def)
qed

lemma cache_load_stored:
  assumes "session_path env u = Some path" and "fs path = Some nd" and "nd_kind nd = Regular contents"
    and "nd_uid nd = ps_euid (ce_process env)" and "group_other_bits (nd_mode nd) = 0"
    and "ce_decode env contents = Some \<lparr>cs_version = CACHE_VERSION, cs_access_token = token, cs_expires_at = t\<rparr>"
    and "valid_session_token token" and "ce_clock env = Some now" and "unat now + 30 < unat t"
    and "\<not> ce_fault env SysOpen path" and "\<not> ce_fault env SysFstat path"
  shows "cache_load env u fs = (Ok (Some token), fs)"
proof -
  have "file_open (ce_fault env) fs path = Ok nd"
    using assms resolve_plain [of fs path nd] by (auto simp: open_Ok)
  moreover have "\<not> t \<le> saturating_add now EXPIRY_SAFETY_MARGIN_SECONDS"
    using assms(9) unsigned_less [of t]
    by (simp add: word_le_nat_alt unat_saturating_add EXPIRY_SAFETY_MARGIN_SECONDS_def min_def)
  ultimately show ?thesis
    using assms by (simp add: cache_load_def cache_file_is_private_def file_contents_def)
qed

lemma cache_store_True:
  assumes "cache_store env u token expires_in fs = (Ok True, fs')" and "atomic_write env"
  shows "\<exists>path parent fs1 now nd. session_path env u = Some path \<and> path_parent path = Some parent
    \<and> ensure_private_dir env parent fs = (Ok (), fs1) \<and> valid_session_token token \<and> expires_in \<noteq> 0
    \<and> ce_clock env = Some now \<and> fs' = fs1(path \<mapsto> nd)
    \<and> nd_kind nd = Regular (ce_encode env \<lparr>cs_version = CACHE_VERSION, cs_access_token = token,
                                         cs_expires_at = saturating_add now expires_in\<rparr>)
    \<and> nd_uid nd = ps_euid (ce_process env) \<and> nd_mode nd = 384"
  using assms
  by (auto simp: cache_store_def atomic_write_def Let_def split: if_splits option.splits outcome.splits prod.splits)

section \<open>Properties\<close>

text \<open>
  C25: the client only reuses a session it can trust. A token from the cache comes from a regular file of
  the user without access for anyone else, it is a well-formed session token of the known cache version, and
  it has more than 30 seconds to live; loading it changes nothing.
\<close>

theorem cached_session_trusted:
  assumes "cache_load env u fs = (Ok (Some token), fs')"
  shows "fs' = fs \<and> (\<exists>path q nd contents cached now. session_path env u = Some path
    \<and> resolve fs path = Ok (q, nd) \<and> nd_kind nd = Regular contents
    \<and> nd_uid nd = ps_euid (ce_process env) \<and> group_other_bits (nd_mode nd) = 0
    \<and> ce_decode env contents = Some cached \<and> cs_version cached = 1 \<and> cs_access_token cached = token
    \<and> valid_session_token token \<and> ce_clock env = Some now \<and> unat now + 30 < unat (cs_expires_at cached))"
  using assms by (rule cache_load_Some)

text \<open>
  An unusable cache file does not survive. When the cache has no session to offer, the file of this
  signer is gone or was not there, unless the system refused to remove it; no other file is touched,
  and an error leaves everything as it was.
\<close>

theorem unusable_cache_discarded:
  assumes "cache_load env u fs = (r, fs')" and "session_path env u = Some path"
  shows "r \<noteq> Panic \<and> (\<forall>p. p \<noteq> path \<longrightarrow> fs' p = fs p) \<and> (\<forall>e. r = Err e \<longrightarrow> fs' = fs)
    \<and> (r = Ok None \<and> (\<exists>nd. fs path = Some nd \<and> (\<exists>contents. nd_kind nd = Regular contents))
        \<and> \<not> ce_fault env SysUnlink path \<longrightarrow> fs' path = None)"
proof -
  have other: "discard env fs path p = fs p" if "p \<noteq> path" for p
    using discard_effect [of env fs path] that by (metis fun_upd_other)
  have gone: "discard env fs path path = None"
    if "fs path = Some nd" "nd_kind nd = Regular contents" "\<not> ce_fault env SysUnlink path" for nd contents
    using that by (simp add: discard_def remove_file_def)
  show ?thesis
  proof (cases "file_open (ce_fault env) fs path")
    case (Ok nd)
    then show ?thesis
      using assms other gone
      by (auto simp: cache_load_def split: if_splits option.splits)
  next
    case (Err e)
    have "fs path = None \<or> (\<forall>nd contents. fs path = Some nd \<longrightarrow> nd_kind nd \<noteq> Regular contents)" if "e = NotFound"
    proof (rule ccontr)
      assume "\<not> ?thesis"
      then obtain nd contents where "fs path = Some nd" "nd_kind nd = Regular contents" by auto
      then have "resolve fs path = Ok (path, nd)" by (intro resolve_plain) auto
      then show False using Err that by (simp add: file_open_def split: if_splits)
    qed
    then show ?thesis using assms Err by (cases e) (auto simp: cache_load_def)
  qed simp
qed

text \<open>
  C26: round trip of the cache. After a session was stored, loading gives it back, for the same user and
  signer and as long as more than 30 seconds of its lifetime are left; whatever the cache held before.
\<close>

theorem session_cache_roundtrip:
  assumes "cache_store env u token expires_in fs = (Ok True, fs')" and "atomic_write env" and "codec env"
    and "ce_clock env = Some now" and "env' = env\<lparr>ce_clock := Some later, ce_fault := fault'\<rparr>"
    and "unat later + 30 < min (unat now + unat expires_in) (2 ^ 64 - 1)"
    and "\<And>path. \<not> fault' SysOpen path \<and> \<not> fault' SysFstat path"
  shows "cache_load env' u fs' = (Ok (Some token), fs')"
proof -
  obtain path nd where path: "session_path env u = Some path" and nd: "fs' path = Some nd"
      "nd_kind nd = Regular (ce_encode env \<lparr>cs_version = CACHE_VERSION, cs_access_token = token,
                                         cs_expires_at = saturating_add now expires_in\<rparr>)"
      "nd_uid nd = ps_euid (ce_process env)" "nd_mode nd = 384"
    and tok: "valid_session_token token"
    using cache_store_True [OF assms(1,2)] assms(4) by auto
  have exp: "unat later + 30 < unat (saturating_add now expires_in)"
    using assms(6) by (simp add: unat_saturating_add min_def split: if_splits)
  have dec: "ce_decode env' (ce_encode env c) = Some c" for c using assms(3,5) by (simp add: codec_def)
  have path': "session_path env' u = Some path"
    using path assms(5) by (simp add: session_path_def cache_root_def cong: option.case_cong)
  show ?thesis
  proof (rule cache_load_stored [of env' u path fs' nd, OF path' nd(1,2)])
    show "unat later + 30 < unat (saturating_add now expires_in)" by (rule exp)
  qed (use nd dec tok assms(5,7) group_other_bits_384 in auto)
qed

text \<open>
  C27: storing a session is private. On success the file has mode 0600 and belongs to the user, in a
  directory of the user that nobody else can enter; besides the file and that directory, only missing
  directories were created.
\<close>

theorem stored_session_private:
  assumes "cache_store env u token expires_in fs = (Ok True, fs')" and "atomic_write env"
  shows "\<exists>path parent nd dir. session_path env u = Some path \<and> path_parent path = Some parent
    \<and> fs' path = Some nd \<and> nd_uid nd = ps_euid (ce_process env) \<and> nd_mode nd = 384
    \<and> fs' parent = Some dir \<and> nd_kind dir = Directory \<and> nd_uid dir = ps_euid (ce_process env)
    \<and> group_other_bits (nd_mode dir) = 0
    \<and> (\<forall>p. p \<noteq> path \<and> p \<noteq> parent \<longrightarrow>
          fs' p = fs p \<or> (fs p = None \<and> fs' p = Some (create_node (ce_process env) Directory 511)))"
proof -
  obtain path parent fs1 nd where path: "session_path env u = Some path" "path_parent path = Some parent"
      and dir: "ensure_private_dir env parent fs = (Ok (), fs1)" and fs': "fs' = fs1(path \<mapsto> nd)"
      and nd: "nd_uid nd = ps_euid (ce_process env)" "nd_mode nd = 384"
    using cache_store_True [OF assms] by auto
  have ne: "parent \<noteq> path" using path_parent_shorter [OF path(2)] by auto
  from ensure_private_dir_Ok [OF dir] obtain fs0 d where d: "dirs_added (ce_process env) fs fs0"
      "fs1 parent = Some d" "nd_kind d = Directory" "nd_uid d = ps_euid (ce_process env)"
      "group_other_bits (nd_mode d) = 0" "\<forall>p. p \<noteq> parent \<longrightarrow> fs1 p = fs0 p" by blast
  show ?thesis
    using path fs' nd ne d
    by (intro exI [of _ path] exI [of _ parent] exI [of _ nd] exI [of _ d]) (auto simp: dirs_added_def)
qed

section \<open>A concrete cache\<close>

text \<open>A codec with fixed-width binary fields, and a writer that replaces the file.\<close>

definition bits_of :: "nat \<Rightarrow> 'w::len word \<Rightarrow> string" where
  "bits_of n w = map (\<lambda>i. if bit w i then CHR ''1'' else CHR ''0'') [0..<n]"

definition of_bits :: "string \<Rightarrow> 'w::len word" where
  "of_bits s = horner_sum of_bool 2 (map (\<lambda>c. c = CHR ''1'') s)"

definition demo_encode :: "cached_session \<Rightarrow> string" where
  "demo_encode c = bits_of 8 (cs_version c) @ bits_of 64 (cs_expires_at c) @ cs_access_token c"

definition demo_decode :: "string \<Rightarrow> cached_session option" where
  "demo_decode s = Some \<lparr>cs_version = of_bits (take 8 s), cs_access_token = drop 72 s,
     cs_expires_at = of_bits (take 64 (drop 8 s))\<rparr>"

definition demo_cache_env :: cache_env where
  "demo_cache_env =
     \<lparr>ce_cache_dir_variable = Some ''/c'', ce_runtime_dir = None, ce_cache_dir = None,
      ce_sha256_hex = (\<lambda>s. ''h''), ce_process = \<lparr>ps_euid = 1000, ps_egid = 1000, ps_umask = 18\<rparr>,
      ce_fault = (\<lambda>call path. False), ce_clock = Some 100, ce_decode = demo_decode, ce_encode = demo_encode,
      ce_write = (\<lambda>fs path mode contents. Some (fs(path \<mapsto>
        \<lparr>nd_kind = Regular contents, nd_uid = 1000, nd_gid = 1000, nd_mode = mode\<rparr>)))\<rparr>"

definition demo_fs :: local_fs where
  "demo_fs = [''/'' \<mapsto> \<lparr>nd_kind = Directory, nd_uid = 0, nd_gid = 0, nd_mode = 493\<rparr>]"

lemma of_bits_bits: "of_bits (bits_of LENGTH('w) w) = (w :: 'w::len word)"
proof -
  have "map (\<lambda>c. c = CHR ''1'') (bits_of LENGTH('w) w) = map (bit w) [0..<LENGTH('w)]"
    by (simp add: bits_of_def comp_def)
  then show ?thesis by (simp add: of_bits_def horner_sum_bit_eq_take_bit)
qed

lemma demo_codec: "codec demo_cache_env"
proof -
  have "demo_decode (demo_encode c) = Some c" for c
    using of_bits_bits [of "cs_version c"] of_bits_bits [of "cs_expires_at c"]
    by (simp add: demo_decode_def demo_encode_def bits_of_def)
  then show ?thesis by (simp add: codec_def demo_cache_env_def)
qed

lemma demo_atomic: "atomic_write demo_cache_env"
  by (auto simp: atomic_write_def demo_cache_env_def)

lemma demo_cache_faults: "ce_fault demo_cache_env call path = False"
  by (simp add: demo_cache_env_def)

lemma demo_paths: "trim_back ''/c/h.json'' = ''/c/h.json''" "trim_back ''/c/'' = ''/c''" "trim_back ''/c'' = ''/c''"
    "trim_back ''/'' = ''/''"
  by (simp_all add: trim_back.simps ends_with_def)

lemma demo_parent: "path_parent ''/c/h.json'' = Some ''/c''" "path_parent ''/c'' = Some ''/''"
  by (simp_all add: path_parent_def demo_paths drop_last_component_def)

lemma demo_session_path: "session_path demo_cache_env u = Some ''/c/h.json''"
  by (simp add: session_path_def cache_root_def absolute_env_path_def demo_cache_env_def is_absolute_def
      starts_with_def path_join_def ends_with_def)

lemma demo_token: "valid_session_token ''mts_token''"
  by code_simp

lemma demo_dir:
  "\<exists>fs'. ensure_private_dir demo_cache_env ''/c'' demo_fs = (Ok (), fs')"
proof -
  let ?c = "create_node (ce_process demo_cache_env) Directory 511"
  have root: "resolve demo_fs ''/'' = Ok (''/'', \<lparr>nd_kind = Directory, nd_uid = 0, nd_gid = 0, nd_mode = 493\<rparr>)"
    by (intro resolve_plain) (auto simp: demo_fs_def)
  have mk: "create_dir_all (\<lambda>call path. False) (ce_process demo_cache_env) demo_fs ''/c''
      = (Ok (), demo_fs(''/c'' \<mapsto> ?c))"
    using root by (subst create_dir_all.simps) (simp add: mkdir_def parent_present_def demo_parent demo_fs_def)
  have res: "resolve (demo_fs(''/c'' \<mapsto> ?c)) ''/c'' = Ok (''/c'', ?c)"
    by (intro resolve_plain) (auto simp: create_node_def)
  show ?thesis
    using mk res
    by (simp add: ensure_private_dir_def demo_cache_env_def fs_symlink_metadata_def set_permissions_def
        create_node_def)
qed

lemma demo_stored: "\<exists>fs'. cache_store demo_cache_env u ''mts_token'' 3600 demo_fs = (Ok True, fs')"
proof -
  obtain fs1 where "ensure_private_dir demo_cache_env ''/c'' demo_fs = (Ok (), fs1)" using demo_dir by blast
  then show ?thesis
    by (simp add: cache_store_def demo_token demo_session_path demo_parent) (simp add: demo_cache_env_def)
qed

definition demo_url :: url where
  "demo_url = \<lparr>url_as_str = ''https://signer/'', url_scheme = ''https'', url_username = [], url_password = None,
     url_host_str = Some ''signer'', url_path = ''/'', url_query_pairs = [], url_fragment = None,
     url_cannot_be_a_base = False\<rparr>"

theorem session_cache_roundtrip_witness:
  "\<exists>fs'. cache_store demo_cache_env demo_url ''mts_token'' 3600 demo_fs = (Ok True, fs')
     \<and> cache_load (demo_cache_env\<lparr>ce_clock := Some 200, ce_fault := (\<lambda>call path. False)\<rparr>) demo_url fs'
         = (Ok (Some ''mts_token''), fs')"
proof -
  obtain fs' where st: "cache_store demo_cache_env demo_url ''mts_token'' 3600 demo_fs = (Ok True, fs')"
    using demo_stored by blast
  have "cache_load (demo_cache_env\<lparr>ce_clock := Some 200, ce_fault := (\<lambda>call path. False)\<rparr>) demo_url fs'
      = (Ok (Some ''mts_token''), fs')"
    by (rule session_cache_roundtrip [OF st demo_atomic demo_codec, where now = 100 and later = 200])
      (auto simp: demo_cache_env_def)
  with st show ?thesis by blast
qed

theorem cached_session_trusted_witness:
  "\<exists>fs' path q nd. cache_store demo_cache_env demo_url ''mts_token'' 3600 demo_fs = (Ok True, fs')
     \<and> session_path demo_cache_env demo_url = Some path \<and> resolve fs' path = Ok (q, nd)
     \<and> group_other_bits (nd_mode nd) = 0"
proof -
  obtain fs' where st: "cache_store demo_cache_env demo_url ''mts_token'' 3600 demo_fs = (Ok True, fs')"
    using demo_stored by blast
  obtain nd where nd: "fs' ''/c/h.json'' = Some nd" "nd_mode nd = 384" "nd_uid nd = 1000"
    "nd_kind nd = Regular (demo_encode \<lparr>cs_version = CACHE_VERSION, cs_access_token = ''mts_token'',
       cs_expires_at = saturating_add 100 3600\<rparr>)"
    using cache_store_True [OF st demo_atomic] by (auto simp: demo_session_path) (auto simp: demo_cache_env_def)
  have sat: "saturating_add 100 (3600 :: u64) = 3700" by (simp add: saturating_add_def)
  have "cache_load demo_cache_env demo_url fs' = (Ok (Some ''mts_token''), fs')"
  proof (rule cache_load_stored [of demo_cache_env demo_url _ fs' nd, OF demo_session_path nd(1,4)])
    show "ce_decode demo_cache_env (demo_encode \<lparr>cs_version = CACHE_VERSION, cs_access_token = ''mts_token'',
        cs_expires_at = saturating_add 100 3600\<rparr>) = Some \<lparr>cs_version = CACHE_VERSION,
        cs_access_token = ''mts_token'', cs_expires_at = 3700\<rparr>"
      using demo_codec sat by (auto simp: codec_def demo_cache_env_def)
  qed (use nd demo_token group_other_bits_384 in \<open>auto simp: demo_cache_env_def\<close>)
  from cached_session_trusted [OF this] st show ?thesis by blast
qed

theorem unusable_cache_discarded_witness:
  "snd (cache_load demo_cache_env demo_url (demo_fs(''/c/h.json'' \<mapsto>
     \<lparr>nd_kind = Regular [], nd_uid = 1000, nd_gid = 0, nd_mode = 420\<rparr>))) ''/c/h.json'' = None"
proof -
  let ?nd = "\<lparr>nd_kind = Regular [], nd_uid = 1000, nd_gid = 0, nd_mode = 420\<rparr>"
  let ?fs = "demo_fs(''/c/h.json'' \<mapsto> ?nd)"
  obtain r fs' where run: "cache_load demo_cache_env demo_url ?fs = (r, fs')" by fastforce
  have "resolve ?fs ''/c/h.json'' = Ok (''/c/h.json'', ?nd)" by (intro resolve_plain) auto
  then have "fst (cache_load demo_cache_env demo_url ?fs) = Ok None"
    by (simp add: cache_load_def demo_session_path file_open_def cache_file_is_private_def group_other_bits_def
        demo_cache_faults)
  then have "r = Ok None" using run by simp
  with unusable_cache_discarded [OF run demo_session_path] have "fs' ''/c/h.json'' = None"
    by (simp add: demo_cache_env_def)
  then show ?thesis using run by simp
qed

theorem stored_session_private_witness:
  "\<exists>fs' dir. cache_store demo_cache_env demo_url ''mts_token'' 3600 demo_fs = (Ok True, fs')
     \<and> fs' ''/c'' = Some dir \<and> group_other_bits (nd_mode dir) = 0"
proof -
  obtain fs' where st: "cache_store demo_cache_env demo_url ''mts_token'' 3600 demo_fs = (Ok True, fs')"
    using demo_stored by blast
  from stored_session_private [OF st demo_atomic] st show ?thesis
    by (auto simp: demo_session_path demo_parent)
qed

end
