(* ===== verification/Client_Model.thy ===== *)
theory Client_Model
  imports Session_Cache Auth_Flow
begin

text \<open>
  The signing client (\<^verbatim>\<open>src/client.rs\<close>): the choice of a credential, the device login, the request for a
  GitHub Actions token, the signing request with its single retry, and the public-key command.

  The state of a command is the file system and the list of requests it has sent. The network is a function
  of the requests sent so far, so that two equal requests may be answered differently. Parameters, in
  \<open>client_env\<close>: URL parsing and joining, base64, the JSON decoders, the environment variables of the
  GitHub runner, whether the HTTP client could be built,
  and the two requests of the device flow of the \<^verbatim>\<open>oauth2\<close> crate, which get the client's HTTP function. Messages on standard error are left out.
\<close>

section \<open>Data\<close>

datatype os_value = Unicode string | NotUnicode

datatype client_body = NoBody | DigestBody string | ExchangeBody string

record client_request =
  cq_method :: http_method
  cq_url :: url
  cq_auth :: http_auth
  cq_body :: client_body

record client_response =
  cr_status :: nat
  cr_body :: "string option"

record device_config_response =
  dc_client_id :: string
  dc_device_code_url :: string
  dc_access_token_url :: string
  dc_scope :: string

record device_authorization =
  da_device_code :: string
  da_interval :: duration
  da_expires_in :: duration

datatype client_error =
    InvalidKeyId
  | ConflictingModes
  | AudienceWithoutActions
  | EmptyAudience
  | DigestNotBase64
  | DigestWrongLength
  | BadUrl
  | UrlNotHttp
  | UrlNotHierarchical
  | EndpointUrl
  | EmptyToken
  | NoCredential
  | CallFailed
  | RequestRefused string
  | BadAnswer
  | SignatureNotBase64
  | EmptySignature
  | BadPublicKey
  | RunnerVariableMissing
  | RunnerTokenEmpty
  | RunnerUrlRefused
  | EmptyOidcToken
  | IncompleteDeviceConfig
  | OAuthUrlRefused
  | DeviceFlowFailed
  | EmptyGithubToken
  | InvalidSession
  | NoHttpClient

text \<open>The HTTP client given to the \<^verbatim>\<open>oauth2\<close> crate: a request and the status and body of its answer.\<close>

type_synonym oauth_http = "string \<Rightarrow> (nat \<times> string) option"

record client_env =
  cn_net :: "client_request list \<Rightarrow> client_request \<Rightarrow> client_response option"
  cn_parse_url :: url_parser
  cn_join :: "url \<Rightarrow> string \<Rightarrow> url option"
  cn_set_path :: "string \<Rightarrow> url \<Rightarrow> url"
  cn_append_pair :: "string \<Rightarrow> string \<Rightarrow> url \<Rightarrow> url"
  cn_b64_decode :: "string \<Rightarrow> string option"
  cn_parse_signature :: "string \<Rightarrow> string option"
  cn_parse_oidc :: "string \<Rightarrow> string option"
  cn_parse_device_config :: "string \<Rightarrow> device_config_response option"
  cn_parse_session :: "string \<Rightarrow> (string \<times> u64) option"
  cn_parse_error :: "string \<Rightarrow> (string \<times> string) option"
  cn_status_text :: "nat \<Rightarrow> string"
  cn_body_error :: string
  cn_client_built :: bool
  cn_runner_url :: "os_value option"
  cn_runner_token :: "os_value option"
  cn_oauth_call :: oauth_http
  cn_has_oauth_error :: "string \<Rightarrow> bool"
  cn_device_code ::
    "oauth_http \<Rightarrow> string \<Rightarrow> string \<Rightarrow> string list \<Rightarrow> device_authorization option"
  cn_device_token ::
    "oauth_http \<Rightarrow> string \<Rightarrow> string \<Rightarrow> device_authorization \<Rightarrow> duration \<Rightarrow> string option"
  cn_cache :: cache_env

record client_world =
  cw_fs :: local_fs
  cw_sent :: "client_request list"

type_synonym 'a command = "client_world \<Rightarrow> (client_error, 'a) outcome \<times> client_world"

record sign_args =
  sn_key_id :: string
  sn_token :: "string option"
  sn_github_login :: bool
  sn_github_actions :: bool
  sn_audience :: "string option"
  sn_digest :: string

section \<open>Commands\<close>

definition done_with :: "(client_error, 'a) outcome \<Rightarrow> 'a command" where
  "done_with r w = (r, w)"

definition next_do :: "'a command \<Rightarrow> ('a \<Rightarrow> 'b command) \<Rightarrow> 'b command" where
  "next_do m f w =
     (case m w of (Ok a, w') \<Rightarrow> f a w' | (Err e, w') \<Rightarrow> (Err e, w') | (Panic, w') \<Rightarrow> (Panic, w'))"

definition send :: "client_env \<Rightarrow> client_request \<Rightarrow> client_response command" where
  "send env request w =
     (ok_or CallFailed (cn_net env (cw_sent w) request), w\<lparr>cw_sent := cw_sent w @ [request]\<rparr>)"

definition env_var :: "os_value option \<Rightarrow> (client_error, string) outcome" where
  \<comment> \<open>\<^verbatim>\<open>env::var\<close>\<close>
  "env_var v = (case v of Some (Unicode s) \<Rightarrow> Ok s | _ \<Rightarrow> Err RunnerVariableMissing)"

definition is_success_status :: "nat \<Rightarrow> bool" where
  "is_success_status status \<longleftrightarrow> 200 \<le> status \<and> status < 300"

definition client_response_error :: "client_env \<Rightarrow> client_response \<Rightarrow> string \<Rightarrow> string" where
  "client_response_error env response action =
     (case cr_body response of
        Some body \<Rightarrow>
          (case cn_parse_error env body of
             Some (error, request_id) \<Rightarrow> action @ '' failed: '' @ error @ '' (request '' @ request_id @ '')''
           | None \<Rightarrow> action @ '' failed with HTTP status '' @ cn_status_text env (cr_status response))
      | None \<Rightarrow>
          action @ '' failed with HTTP status '' @ cn_status_text env (cr_status response)
            @ '': '' @ cn_body_error env)"

definition expect_json ::
  "client_env \<Rightarrow> (string \<Rightarrow> 'a option) \<Rightarrow> string \<Rightarrow> client_response \<Rightarrow> 'a command" where
  \<comment> \<open>a response that is no success is an error; a success is decoded\<close>
  "expect_json env parse action response =
     done_with (if \<not> is_success_status (cr_status response)
                then Err (RequestRefused (client_response_error env response action))
                else ok_or BadAnswer (Option.bind (cr_body response) parse))"

section \<open>URLs\<close>

definition signer_base_url :: "client_env \<Rightarrow> string \<Rightarrow> (client_error, url) outcome" where
  "signer_base_url env value =
     and_then (ok_or BadUrl (cn_parse_url env value)) (\<lambda>base_url.
     if url_scheme base_url \<noteq> ''http'' \<and> url_scheme base_url \<noteq> ''https'' then Err UrlNotHttp else
     if url_cannot_be_a_base base_url then Err UrlNotHierarchical else
     Ok (if \<not> ends_with ''/'' (url_path base_url)
         then cn_set_path env (url_path base_url @ ''/'') base_url else base_url))"

definition should_use_github_actions :: "bool \<Rightarrow> bool \<Rightarrow> bool \<Rightarrow> bool \<Rightarrow> bool" where
  "should_use_github_actions explicit github_login has_bearer_token has_oidc_request_url \<longleftrightarrow>
     explicit \<or> (\<not> github_login \<and> \<not> has_bearer_token \<and> has_oidc_request_url)"

definition github_actions_request_url ::
  "client_env \<Rightarrow> string \<Rightarrow> string \<Rightarrow> (client_error, url) outcome" where
  "github_actions_request_url env request_url audience =
     (if trim audience = [] then Err EmptyAudience else
      and_then (ok_or RunnerUrlRefused (cn_parse_url env request_url)) (\<lambda>u.
      if url_scheme u \<noteq> ''https'' \<or> url_cannot_be_a_base u \<or> url_username u \<noteq> []
         \<or> url_password u \<noteq> None \<or> url_fragment u \<noteq> None
      then Err RunnerUrlRefused else
      if list_ex (\<lambda>(key, _). key = ''audience'') (url_query_pairs u) then Err RunnerUrlRefused else
      Ok (cn_append_pair env ''audience'' audience u)))"

definition https_oauth_url :: "client_env \<Rightarrow> string \<Rightarrow> (client_error, url) outcome" where
  "https_oauth_url env value =
     and_then (ok_or OAuthUrlRefused (cn_parse_url env value)) (\<lambda>u.
     if url_scheme u \<noteq> ''https'' \<or> url_cannot_be_a_base u then Err OAuthUrlRefused else Ok u)"

definition normalize_github_oauth_error_response :: "(string \<Rightarrow> bool) \<Rightarrow> nat \<times> string \<Rightarrow> nat \<times> string" where
  \<comment> \<open>\<open>has_oauth_error body\<close>: the body is JSON whose member \<^verbatim>\<open>error\<close> is a string\<close>
  "normalize_github_oauth_error_response has_oauth_error response =
     (if fst response \<noteq> 200 then response
      else if has_oauth_error (snd response) then (400, snd response) else response)"

definition github_oauth_http_request :: "client_env \<Rightarrow> oauth_http" where
  "github_oauth_http_request env request =
     map_option (normalize_github_oauth_error_response (cn_has_oauth_error env)) (cn_oauth_call env request)"

definition public_api_client :: "client_env \<Rightarrow> (client_error, unit) outcome" where
  \<comment> \<open>redirects are not followed: an answer of the network is the answer to the request as sent\<close>
  "public_api_client env = (if cn_client_built env then Ok () else Err NoHttpClient)"

definition validate_key_id :: "string \<Rightarrow> (client_error, unit) outcome" where
  "validate_key_id value = (if valid_key_id value then Ok () else Err InvalidKeyId)"

section \<open>Credentials\<close>

definition DEFAULT_GITHUB_ACTIONS_AUDIENCE :: string where
  "DEFAULT_GITHUB_ACTIONS_AUDIENCE = ''microtun-signer''"

definition runner_request :: "url \<Rightarrow> string \<Rightarrow> client_request" where
  "runner_request endpoint request_token =
     \<lparr>cq_method = HttpGet, cq_url = endpoint, cq_auth = BearerAuth request_token, cq_body = NoBody\<rparr>"

definition github_actions_token :: "client_env \<Rightarrow> string \<Rightarrow> string command" where
  "github_actions_token env audience =
     next_do (done_with
       (and_then (env_var (cn_runner_url env)) (\<lambda>request_url.
        and_then (env_var (cn_runner_token env)) (\<lambda>request_token.
        if request_token = [] then Err RunnerTokenEmpty else
        and_then (github_actions_request_url env request_url audience) (\<lambda>endpoint.
        Ok (runner_request endpoint request_token)))))) (\<lambda>request.
     next_do (send env request) (\<lambda>response.
     next_do (expect_json env (cn_parse_oidc env) ''GitHub Actions OIDC token request'' response) (\<lambda>value.
     done_with (if value = [] then Err EmptyOidcToken else Ok value))))"

text \<open>\<^verbatim>\<open>str::split_ascii_whitespace\<close>\<close>

definition is_ascii_whitespace :: "char \<Rightarrow> bool" where
  "is_ascii_whitespace c \<longleftrightarrow> c \<in> {CHR 0x20, CHR 0x09, CHR 0x0A, CHR 0x0C, CHR 0x0D}"

fun split_words :: "string \<Rightarrow> string \<Rightarrow> string list" where
  "split_words acc [] = (if acc = [] then [] else [rev acc])"
| "split_words acc (c # cs) =
     (if is_ascii_whitespace c then (if acc = [] then split_words [] cs else rev acc # split_words [] cs)
      else split_words (c # acc) cs)"

definition split_ascii_whitespace :: "string \<Rightarrow> string list" where
  "split_ascii_whitespace s = split_words [] s"

definition device_flow :: "client_env \<Rightarrow> device_config_response \<Rightarrow> (client_error, string) outcome" where
  \<comment> \<open>the poll interval has passed before the first poll; subtraction of durations saturates\<close>
  "device_flow env config =
     (if dc_client_id config = [] \<or> dc_scope config = [] then Err IncompleteDeviceConfig else
      and_then (https_oauth_url env (dc_device_code_url config)) (\<lambda>device_code_url.
      and_then (https_oauth_url env (dc_access_token_url config)) (\<lambda>access_token_url.
      and_then (ok_or DeviceFlowFailed (cn_parse_url env (url_as_str device_code_url))) (\<lambda>_.
      and_then (ok_or DeviceFlowFailed (cn_parse_url env (url_as_str access_token_url))) (\<lambda>_.
      and_then (ok_or DeviceFlowFailed
                 (cn_device_code env (github_oauth_http_request env) (dc_client_id config) (url_as_str device_code_url)
                    (split_ascii_whitespace (dc_scope config)))) (\<lambda>device.
      and_then (ok_or DeviceFlowFailed
                 (cn_device_token env (github_oauth_http_request env) (dc_client_id config)
                    (url_as_str access_token_url) device
                    (da_expires_in device - da_interval device))) (\<lambda>token.
      if token = [] then Err EmptyGithubToken else Ok token)))))))"

definition config_request :: "url \<Rightarrow> client_request" where
  "config_request endpoint = \<lparr>cq_method = HttpGet, cq_url = endpoint, cq_auth = NoAuth, cq_body = NoBody\<rparr>"

definition exchange_request :: "url \<Rightarrow> string \<Rightarrow> client_request" where
  "exchange_request endpoint github_token =
     \<lparr>cq_method = HttpPost, cq_url = endpoint, cq_auth = NoAuth, cq_body = ExchangeBody github_token\<rparr>"

definition cache_session :: "client_env \<Rightarrow> url \<Rightarrow> string \<times> u64 \<Rightarrow> string command" where
  \<comment> \<open>a failure to cache is only a warning\<close>
  "cache_session env base_url session w =
     (Ok (fst session),
      w\<lparr>cw_fs := snd (cache_store (cn_cache env) base_url (fst session) (snd session) (cw_fs w))\<rparr>)"

definition github_device_login :: "client_env \<Rightarrow> url \<Rightarrow> string command" where
  "github_device_login env base_url =
     next_do (done_with (ok_or EndpointUrl (cn_join env base_url ''v1/auth/github/device''))) (\<lambda>endpoint.
     next_do (send env (config_request endpoint)) (\<lambda>response.
     next_do (expect_json env (cn_parse_device_config env) ''GitHub device authentication setup'' response) (\<lambda>config.
     next_do (done_with (device_flow env config)) (\<lambda>github_token.
     next_do (send env (exchange_request endpoint github_token)) (\<lambda>exchanged.
     next_do (expect_json env (cn_parse_session env) ''GitHub device token exchange'' exchanged) (\<lambda>session.
     next_do (done_with (if fst session = [] \<or> snd session = 0 then Err InvalidSession else Ok session)) (\<lambda>valid.
     cache_session env base_url valid)))))))"

section \<open>Signing\<close>

definition check_sign_args :: "client_env \<Rightarrow> sign_args \<Rightarrow> (client_error, bool) outcome" where
  "check_sign_args env args =
     and_then (validate_key_id (sn_key_id args)) (\<lambda>_.
      if sn_github_login args \<and> sn_github_actions args then Err ConflictingModes else
      let use_actions = should_use_github_actions (sn_github_actions args) (sn_github_login args)
                          (sn_token args \<noteq> None) (cn_runner_url env \<noteq> None) in
      and_then
        (case sn_audience args of
           None \<Rightarrow> Ok ()
         | Some audience \<Rightarrow>
             if \<not> use_actions then Err AudienceWithoutActions
             else if trim audience = [] then Err EmptyAudience else Ok ()) (\<lambda>_.
      and_then (ok_or DigestNotBase64 (cn_b64_decode env (sn_digest args))) (\<lambda>decoded.
      if length decoded \<noteq> 32 then Err DigestWrongLength else Ok use_actions)))"

definition cached_token :: "client_env \<Rightarrow> url \<Rightarrow> string option command" where
  \<comment> \<open>an unreadable cache is only a warning\<close>
  "cached_token env base_url w =
     (case cache_load (cn_cache env) base_url (cw_fs w) of
        (Ok cached, fs) \<Rightarrow> (Ok cached, w\<lparr>cw_fs := fs\<rparr>)
      | (Err _, fs) \<Rightarrow> (Ok None, w\<lparr>cw_fs := fs\<rparr>)
      | (Panic, fs) \<Rightarrow> (Panic, w\<lparr>cw_fs := fs\<rparr>))"

definition choose_token :: "client_env \<Rightarrow> url \<Rightarrow> sign_args \<Rightarrow> bool \<Rightarrow> (string \<times> bool) command" where
  "choose_token env base_url args use_actions =
     (if sn_github_login args then
        next_do (cached_token env base_url) (\<lambda>cached.
        case cached of
          Some token \<Rightarrow> done_with (Ok (token, True))
        | None \<Rightarrow> next_do (github_device_login env base_url) (\<lambda>token. done_with (Ok (token, False))))
      else if use_actions then
        next_do (github_actions_token env
                   (case sn_audience args of Some audience \<Rightarrow> audience | None \<Rightarrow> DEFAULT_GITHUB_ACTIONS_AUDIENCE))
          (\<lambda>token. done_with (Ok (token, False)))
      else
        (case sn_token args of
           None \<Rightarrow> done_with (Err NoCredential)
         | Some token \<Rightarrow> done_with (if token = [] then Err EmptyToken else Ok (token, False))))"

definition sign_request :: "url \<Rightarrow> string \<Rightarrow> string \<Rightarrow> client_request" where
  "sign_request endpoint token digest =
     \<lparr>cq_method = HttpPost, cq_url = endpoint, cq_auth = BearerAuth token, cq_body = DigestBody digest\<rparr>"

definition send_signing_request :: "client_env \<Rightarrow> url \<Rightarrow> string \<Rightarrow> string \<Rightarrow> client_response command" where
  "send_signing_request env endpoint token digest = send env (sign_request endpoint token digest)"

definition forget_session :: "client_env \<Rightarrow> url \<Rightarrow> unit command" where
  \<comment> \<open>a failure to remove is only a warning\<close>
  "forget_session env base_url w =
     (Ok (), w\<lparr>cw_fs := snd (cache_remove (cn_cache env) base_url (cw_fs w))\<rparr>)"

definition request_signature ::
  "client_env \<Rightarrow> url \<Rightarrow> url \<Rightarrow> sign_args \<Rightarrow> string \<times> bool \<Rightarrow> client_response command" where
  "request_signature env base_url endpoint args credential =
     next_do (send_signing_request env endpoint (fst credential) (sn_digest args)) (\<lambda>response.
     if cr_status response = 401 \<and> sn_github_login args \<and> snd credential then
       next_do (forget_session env base_url) (\<lambda>_.
       next_do (github_device_login env base_url) (\<lambda>token.
       send_signing_request env endpoint token (sn_digest args)))
     else done_with (Ok response))"

definition client_sign :: "client_env \<Rightarrow> string \<Rightarrow> sign_args \<Rightarrow> string command" where
  \<comment> \<open>the result is the line that is printed\<close>
  "client_sign env address args =
     next_do (done_with (check_sign_args env args)) (\<lambda>use_actions.
     next_do (done_with (signer_base_url env address)) (\<lambda>base_url.
     next_do (done_with (ok_or EndpointUrl (cn_join env base_url (''v1/sign/'' @ sn_key_id args)))) (\<lambda>endpoint.
     next_do (done_with (public_api_client env)) (\<lambda>_.
     next_do (choose_token env base_url args use_actions) (\<lambda>credential.
     next_do (request_signature env base_url endpoint args credential) (\<lambda>response.
     next_do (expect_json env (cn_parse_signature env) ''signing request'' response) (\<lambda>signature.
     done_with
       (and_then (ok_or SignatureNotBase64 (cn_b64_decode env signature)) (\<lambda>decoded.
        if decoded = [] then Err EmptySignature else Ok signature)))))))))"

section \<open>Public keys\<close>

definition client_public_key :: "client_env \<Rightarrow> string \<Rightarrow> string \<Rightarrow> string command" where
  \<comment> \<open>the result is what is printed: the answer, with a final newline\<close>
  "client_public_key env address key_id =
     next_do (done_with (validate_key_id key_id)) (\<lambda>_.
     next_do (done_with (signer_base_url env address)) (\<lambda>base_url.
     next_do (done_with (ok_or EndpointUrl (cn_join env base_url (''v1/public-key/'' @ key_id)))) (\<lambda>endpoint.
     next_do (done_with (public_api_client env)) (\<lambda>_.
     next_do (send env (config_request endpoint)) (\<lambda>response.
     next_do (expect_json env Some ''public-key request'' response) (\<lambda>pem.
     done_with
       (if \<not> starts_with ''-----BEGIN PUBLIC KEY-----'' pem
           \<or> \<not> ends_with ''-----END PUBLIC KEY-----'' (trim_end pem)
        then Err BadPublicKey
        else Ok (if ends_with [CHR 0x0A] pem then pem else pem @ [CHR 0x0A]))))))))"

end
