(* ===== verification/Wire_Format.thy ===== *)
theory Wire_Format
  imports Json_Decode Http_Router Admin_Socket Client_Model
begin

text \<open>
  The JSON bodies that the parts of the program exchange with each other and with GitHub: for every type
  with a derived \<^verbatim>\<open>Serialize\<close> the document it writes, and for every type with a derived \<^verbatim>\<open>Deserialize\<close> what it
  reads, by the names and attributes in \<^verbatim>\<open>src/api.rs\<close>, \<^verbatim>\<open>src/client.rs\<close>, \<^verbatim>\<open>src/main.rs\<close>, \<^verbatim>\<open>src/auth.rs\<close> and
  \<^verbatim>\<open>src/session_cache.rs\<close>. The property is that both sides of every exchange agree.
\<close>

section \<open>Requests\<close>

definition client_body_json :: "client_body \<Rightarrow> json option" where
  "client_body_json body =
     (case body of
        NoBody \<Rightarrow> None
      | DigestBody digest \<Rightarrow> Some (JsonObject [(''digest'', JsonString digest)])
      | ExchangeBody token \<Rightarrow> Some (JsonObject [(''access_token'', JsonString token)]))"

definition client_body_text :: "json_text \<Rightarrow> client_body \<Rightarrow> string" where
  "client_body_text text body = (case client_body_json body of None \<Rightarrow> [] | Some j \<Rightarrow> jt_print text j)"

definition unlock_request_json :: "string \<Rightarrow> json" where
  "unlock_request_json passphrase = JsonObject [(''passphrase'', JsonString passphrase)]"

definition de_signing_request :: "json \<Rightarrow> string option" where
  "de_signing_request = one_field True ''digest''"

definition de_device_exchange_request :: "json \<Rightarrow> string option" where
  "de_device_exchange_request = one_field True ''access_token''"

definition de_unlock_request :: "json \<Rightarrow> string option" where
  "de_unlock_request = one_field True ''passphrase''"

section \<open>Answers of the service\<close>

definition error_body_json :: "error_response \<Rightarrow> json" where
  "error_body_json r =
     JsonObject ([(''error'', JsonString (rp_error r)), (''request_id'', JsonString (rp_request_id r))]
       @ (case rp_keys r of None \<Rightarrow> [] | Some keys \<Rightarrow> [(''keys'', JsonArray (map JsonString keys))]))"

definition keyring_key_json :: "string \<times> string \<Rightarrow> json" where
  "keyring_key_json member = JsonObject [(''key_id'', JsonString (fst member)), (''result'', JsonString (snd member))]"

fun web_body_json :: "web_body \<Rightarrow> json option" where
  "web_body_json (VersionBody version) = Some (JsonObject [(''version'', JsonString version)])"
| "web_body_json (DeviceConfigBody c) =
     Some (JsonObject [(''client_id'', JsonString (od_client_id c)),
                       (''device_code_url'', JsonString (od_device_code_url c)),
                       (''access_token_url'', JsonString (od_access_token_url c)),
                       (''scope'', JsonString (od_scope c))])"
| "web_body_json (SessionBody token expires_in) =
     Some (JsonObject [(''access_token'', JsonString token), (''expires_in'', JsonInteger (uint expires_in))])"
| "web_body_json (SignatureBody signature) = Some (JsonObject [(''signature'', JsonString signature)])"
| "web_body_json (KeyringBody name members) =
     Some (JsonObject [(''keyring'', JsonString name), (''keys'', JsonArray (map keyring_key_json members))])"
| "web_body_json (FailureBody r) = Some (error_body_json r)"
| "web_body_json _ = None"

definition web_body_text :: "json_text \<Rightarrow> web_body \<Rightarrow> string" where
  "web_body_text text body =
     (case web_body_json body of
        Some j \<Rightarrow> jt_print text j
      | None \<Rightarrow> (case body of PemBody pem \<Rightarrow> pem | _ \<Rightarrow> []))"

definition de_sign_response :: "json \<Rightarrow> string option" where
  "de_sign_response = one_field False ''signature''"

definition de_device_config_response :: "json \<Rightarrow> device_config_response option" where
  "de_device_config_response =
     json_struct False [''client_id'', ''device_code_url'', ''access_token_url'', ''scope''] (\<lambda>src.
       Option.bind (need json_string src ''client_id'') (\<lambda>client_id.
       Option.bind (need json_string src ''device_code_url'') (\<lambda>code_url.
       Option.bind (need json_string src ''access_token_url'') (\<lambda>token_url.
       Option.bind (need json_string src ''scope'') (\<lambda>scope.
       Some \<lparr>dc_client_id = client_id, dc_device_code_url = code_url, dc_access_token_url = token_url,
             dc_scope = scope\<rparr>)))))"

definition de_session_response :: "json \<Rightarrow> (string \<times> u64) option" where
  "de_session_response = json_struct False [''access_token'', ''expires_in''] (\<lambda>src.
     Option.bind (need json_string src ''access_token'') (\<lambda>token.
     Option.bind (need json_u64 src ''expires_in'') (\<lambda>expires_in. Some (token, expires_in))))"

definition de_error_body :: "json \<Rightarrow> (string \<times> string) option" where
  "de_error_body = json_struct False [''error'', ''request_id''] (\<lambda>src.
     Option.bind (need json_string src ''error'') (\<lambda>error.
     Option.bind (need json_string src ''request_id'') (\<lambda>request_id. Some (error, request_id))))"

definition de_admin_error_body :: "json \<Rightarrow> admin_error_body option" where
  "de_admin_error_body = json_struct False [''error'', ''request_id'', ''keys''] (\<lambda>src.
     Option.bind (need json_string src ''error'') (\<lambda>error.
     Option.bind (need json_string src ''request_id'') (\<lambda>request_id.
     Option.bind (or_default (json_vec json_string) [] src ''keys'') (\<lambda>keys.
     Some \<lparr>eb_error = error, eb_request_id = request_id, eb_keys = keys\<rparr>))))"

definition de_keyring_key :: "json \<Rightarrow> (string \<times> string) option" where
  "de_keyring_key = json_struct False [''key_id'', ''result''] (\<lambda>src.
     Option.bind (need json_string src ''key_id'') (\<lambda>key_id.
     Option.bind (need json_string src ''result'') (\<lambda>result. Some (key_id, result))))"

definition de_keyring_response :: "json \<Rightarrow> (string \<times> (string \<times> string) list) option" where
  "de_keyring_response = json_struct False [''keyring'', ''keys''] (\<lambda>src.
     Option.bind (need json_string src ''keyring'') (\<lambda>keyring.
     Option.bind (need (json_vec de_keyring_key) src ''keys'') (\<lambda>keys. Some (keyring, keys))))"

section \<open>The cached session\<close>

definition cached_session_json :: "cached_session \<Rightarrow> json" where
  "cached_session_json c =
     JsonObject [(''version'', JsonInteger (uint (cs_version c))), (''access_token'', JsonString (cs_access_token c)),
                 (''expires_at'', JsonInteger (uint (cs_expires_at c)))]"

definition de_cached_session :: "json \<Rightarrow> cached_session option" where
  "de_cached_session = json_struct False [''version'', ''access_token'', ''expires_at''] (\<lambda>src.
     Option.bind (need json_u8 src ''version'') (\<lambda>version.
     Option.bind (need json_string src ''access_token'') (\<lambda>token.
     Option.bind (need json_u64 src ''expires_at'') (\<lambda>expires_at.
     Some \<lparr>cs_version = version, cs_access_token = token, cs_expires_at = expires_at\<rparr>))))"

section \<open>GitHub\<close>

definition token_request_json :: "string \<Rightarrow> json" where
  \<comment> \<open>the body of a token check and of a revocation\<close>
  "token_request_json token = JsonObject [(''access_token'', JsonString token)]"

definition de_token_check_app :: "json \<Rightarrow> string option" where
  "de_token_check_app = one_field False ''client_id''"

definition de_token_check_response :: "json \<Rightarrow> github_token_check_response option" where
  "de_token_check_response = json_struct False [''scopes'', ''app''] (\<lambda>src.
     Option.bind (need (json_vec json_string) src ''scopes'') (\<lambda>scopes.
     Option.bind (need de_token_check_app src ''app'') (\<lambda>client_id.
     Some \<lparr>tc_scopes = scopes, tc_client_id = client_id\<rparr>)))"

definition de_github_user_response :: "json \<Rightarrow> github_user_response option" where
  "de_github_user_response = json_struct False [''login'', ''id'', ''two_factor_authentication''] (\<lambda>src.
     Option.bind (need json_string src ''login'') (\<lambda>login.
     Option.bind (need json_u64 src ''id'') (\<lambda>user_id.
     Option.bind (maybe json_bool src ''two_factor_authentication'') (\<lambda>two_factor.
     Some \<lparr>gu_login = login, gu_id = user_id, gu_two_factor_authentication = two_factor\<rparr>))))"

definition de_oidc_response :: "json \<Rightarrow> string option" where
  "de_oidc_response = one_field False ''value''"

definition has_oauth_error :: "json_text \<Rightarrow> string \<Rightarrow> bool" where
  \<comment> \<open>of repeated members the last one counts\<close>
  "has_oauth_error text body =
     (case jt_parse text body of
        Some (JsonObject ms) \<Rightarrow> (case map_of (rev ms) ''error'' of Some (JsonString _) \<Rightarrow> True | _ \<Rightarrow> False)
      | _ \<Rightarrow> False)"

definition de_rsa_jwk :: "json \<Rightarrow> rsa_jwk option" where
  "de_rsa_jwk = json_struct False [''kty'', ''kid'', ''alg'', ''n'', ''e'', ''use''] (\<lambda>src.
     Option.bind (need json_string src ''kty'') (\<lambda>kty.
     Option.bind (need json_string src ''kid'') (\<lambda>kid.
     Option.bind (maybe json_string src ''alg'') (\<lambda>alg.
     Option.bind (need json_string src ''n'') (\<lambda>n.
     Option.bind (need json_string src ''e'') (\<lambda>e.
     Option.bind (maybe json_string src ''use'') (\<lambda>use.
     Some \<lparr>jk_kty = kty, jk_kid = kid, jk_alg = alg, jk_n = n, jk_e = e, jk_use = use\<rparr>)))))))"

definition de_jwks_document :: "json \<Rightarrow> rsa_jwk list option" where
  "de_jwks_document = json_struct False [''keys''] (\<lambda>src. need (json_vec de_rsa_jwk) src ''keys'')"

fun de_json_value :: "json \<Rightarrow> json_value option" where
  "de_json_value (JsonBool b) = Some (JBool b)"
| "de_json_value (JsonString s) = Some (JString s)"
| "de_json_value _ = Some JOther"

fun de_audience :: "json \<Rightarrow> audience option" where
  "de_audience (JsonString s) = Some (One s)"
| "de_audience v = map_option Many (json_vec json_string v)"

definition claim_fields :: "string list" where
  "claim_fields =
     [''iss'', ''aud'', ''sub'', ''exp'', ''jti'', ''actor'', ''actor_id'', ''repository'', ''repository_id'', ''ref'',
      ''ref_type'', ''ref_protected'', ''sha'', ''workflow_ref'', ''workflow_sha'', ''event_name'', ''run_id'',
      ''run_attempt'', ''environment'', ''runner_environment'']"

definition de_github_actions_claims :: "json \<Rightarrow> github_actions_claims option" where
  "de_github_actions_claims = json_struct False claim_fields (\<lambda>src.
     Option.bind (need json_string src ''iss'') (\<lambda>iss.
     Option.bind (need de_audience src ''aud'') (\<lambda>aud.
     Option.bind (need json_string src ''sub'') (\<lambda>sub.
     Option.bind (need json_u64 src ''exp'') (\<lambda>exp.
     Option.bind (maybe json_string src ''jti'') (\<lambda>jti.
     Option.bind (maybe json_string src ''actor'') (\<lambda>actor.
     Option.bind (maybe json_string src ''actor_id'') (\<lambda>actor_id.
     Option.bind (need json_string src ''repository'') (\<lambda>repository.
     Option.bind (need json_string src ''repository_id'') (\<lambda>repository_id.
     Option.bind (need json_string src ''ref'') (\<lambda>git_ref.
     Option.bind (need json_string src ''ref_type'') (\<lambda>ref_type.
     Option.bind (maybe de_json_value src ''ref_protected'') (\<lambda>ref_protected.
     Option.bind (need json_string src ''sha'') (\<lambda>sha.
     Option.bind (need json_string src ''workflow_ref'') (\<lambda>workflow_ref.
     Option.bind (maybe json_string src ''workflow_sha'') (\<lambda>workflow_sha.
     Option.bind (need json_string src ''event_name'') (\<lambda>event_name.
     Option.bind (need json_string src ''run_id'') (\<lambda>run_id.
     Option.bind (need json_string src ''run_attempt'') (\<lambda>run_attempt.
     Option.bind (maybe json_string src ''environment'') (\<lambda>environment.
     Option.bind (maybe json_string src ''runner_environment'') (\<lambda>runner_environment.
     Some \<lparr>cl_iss = iss, cl_aud = aud, cl_sub = sub, cl_exp = exp, cl_jti = jti, cl_actor = actor,
           cl_actor_id = actor_id, cl_repository = repository, cl_repository_id = repository_id,
           cl_git_ref = git_ref, cl_ref_type = ref_type, cl_ref_protected = ref_protected, cl_sha = sha,
           cl_workflow_ref = workflow_ref, cl_workflow_sha = workflow_sha, cl_event_name = event_name,
           cl_run_id = run_id, cl_run_attempt = run_attempt, cl_environment = environment,
           cl_runner_environment = runner_environment\<rparr>)))))))))))))))))))))"

section \<open>Lemmas\<close>

lemma de_keyring_key_json [simp]: "de_keyring_key (keyring_key_json m) = Some m"
  by (simp add: de_keyring_key_def keyring_key_json_def struct_simps)

lemma all_strings [simp]: "all_some (map (json_string \<circ> JsonString) xs) = Some xs"
  using all_some_map [of json_string JsonString xs] by simp

lemma de_keyring_json:
  "web_body_json (KeyringBody name members) = Some j \<Longrightarrow> de_keyring_response j = Some (name, members)"
  using json_vec_map [of de_keyring_key keyring_key_json members]
  by (auto simp: de_keyring_response_def struct_simps)

lemma de_error_json:
  "de_error_body (error_body_json r) = Some (rp_error r, rp_request_id r)"
  by (simp add: de_error_body_def error_body_json_def struct_simps split: option.split)

lemma de_admin_error_json:
  "de_admin_error_body (error_body_json r) =
     Some \<lparr>eb_error = rp_error r, eb_request_id = rp_request_id r,
           eb_keys = (case rp_keys r of None \<Rightarrow> [] | Some keys \<Rightarrow> keys)\<rparr>"
  by (simp add: de_admin_error_body_def error_body_json_def struct_simps split: option.split)

lemma de_cached_json: "de_cached_session (cached_session_json c) = Some c"
  by (simp add: de_cached_session_def cached_session_json_def struct_simps json_u64_uint json_u8_uint
      del: json_u64.simps json_u8.simps)

lemma writable_web: "web_body_json body = Some j \<Longrightarrow> writable 127 j"
  by (cases body) (auto simp: error_body_json_def keyring_key_json_def writable_uint simp del: writable.simps(1)
      split: option.splits)

lemma writable_cached: "writable 127 (cached_session_json c)"
  by (simp add: cached_session_json_def writable_uint del: writable.simps(1))

lemma web_body_read:
  assumes "json_text_laws text" and "web_body_json body = Some j"
  shows "from_slice text de (web_body_text text body) = de j"
  using from_slice_print [OF assms(1) writable_web [OF assms(2)]] by (simp add: web_body_text_def assms(2))

lemma client_body_read:
  assumes "json_text_laws text" and "client_body_json body = Some j"
  shows "from_slice text de (client_body_text text body) = de j"
proof -
  have "writable 127 j" using assms(2) by (cases body) (auto simp: client_body_json_def)
  from from_slice_print [OF assms(1) this] show ?thesis by (simp add: client_body_text_def assms(2))
qed

lemma from_slice_one_field:
  "from_slice text (one_field True name) body = Some s \<longleftrightarrow>
     jt_parse text body \<in> {Some (JsonObject [(name, JsonString s)]), Some (JsonArray [JsonString s])}"
  by (cases "jt_parse text body") (auto simp: from_slice_def one_field_exact)

text \<open>Each exchange, read on the other side.\<close>

lemma signing_request_read:
  "json_text_laws text \<Longrightarrow> from_slice text de_signing_request (client_body_text text (DigestBody digest)) = Some digest"
  by (simp add: client_body_read client_body_json_def de_signing_request_def one_field_object)

lemma signature_read:
  "json_text_laws text \<Longrightarrow> from_slice text de_sign_response (web_body_text text (SignatureBody signature)) = Some signature"
  by (simp add: web_body_read de_sign_response_def one_field_object)

lemma unlock_request_read:
  "json_text_laws text \<Longrightarrow> from_slice text de_unlock_request (jt_print text (unlock_request_json passphrase)) = Some passphrase"
  by (simp add: from_slice_print unlock_request_json_def de_unlock_request_def one_field_object)

lemma keyring_read:
  "json_text_laws text \<Longrightarrow>
     from_slice text de_keyring_response (web_body_text text (KeyringBody name members)) = Some (name, members)"
  by (simp only: web_body_read [OF _ web_body_json.simps(5)] de_keyring_json [OF web_body_json.simps(5)])

lemma device_config_read:
  "json_text_laws text \<Longrightarrow>
     from_slice text de_device_config_response (web_body_text text (DeviceConfigBody config)) =
       Some \<lparr>dc_client_id = od_client_id config, dc_device_code_url = od_device_code_url config,
             dc_access_token_url = od_access_token_url config, dc_scope = od_scope config\<rparr>"
  by (simp add: web_body_read de_device_config_response_def struct_simps)

lemma cached_session_read:
  "json_text_laws text \<Longrightarrow> from_slice text de_cached_session (jt_print text (cached_session_json cached)) = Some cached"
  by (simp add: from_slice_print writable_cached de_cached_json)

lemma cache_codec:
  assumes "json_text_laws text" and "ce_encode env = (\<lambda>cached. jt_print text (cached_session_json cached))"
    and "ce_decode env = from_slice text de_cached_session"
  shows "codec env"
  using assms by (simp add: codec_def cached_session_read)

section \<open>Both sides agree\<close>

text \<open>
  C15: with a JSON library that reads what it wrote, the service reads the digest, the token and the
  passphrase that the commands send, and the commands read the signature, the session, the login
  parameters, the report on a keyring and the errors, with the keys they name, that the service answers; the
  client reads the session that it cached. The service reads nothing else as a request: the body has
  exactly the one field, as an object or an array.
\<close>

theorem wire_formats_agree:
  assumes laws: "json_text_laws text"
  shows "from_slice text de_signing_request (client_body_text text (DigestBody digest)) = Some digest
    \<and> from_slice text de_device_exchange_request (client_body_text text (ExchangeBody token)) = Some token
    \<and> from_slice text de_unlock_request (jt_print text (unlock_request_json passphrase)) = Some passphrase
    \<and> from_slice text de_sign_response (web_body_text text (SignatureBody signature)) = Some signature
    \<and> from_slice text de_session_response (web_body_text text (SessionBody token expires_in)) = Some (token, expires_in)
    \<and> from_slice text de_device_config_response (web_body_text text (DeviceConfigBody config)) =
        Some \<lparr>dc_client_id = od_client_id config, dc_device_code_url = od_device_code_url config,
              dc_access_token_url = od_access_token_url config, dc_scope = od_scope config\<rparr>
    \<and> from_slice text de_keyring_response (web_body_text text (KeyringBody name members)) = Some (name, members)
    \<and> from_slice text de_error_body (web_body_text text (FailureBody (into_response e))) = Some (er_slug e, er_request_id e)
    \<and> from_slice text de_admin_error_body (web_body_text text (FailureBody (into_response e))) =
        Some \<lparr>eb_error = er_slug e, eb_request_id = er_request_id e, eb_keys = er_keys e\<rparr>
    \<and> from_slice text de_cached_session (jt_print text (cached_session_json cached)) = Some cached
    \<and> (from_slice text de_signing_request body = Some s \<longleftrightarrow>
         jt_parse text body \<in> {Some (JsonObject [(''digest'', JsonString s)]), Some (JsonArray [JsonString s])})
    \<and> (from_slice text de_device_exchange_request body = Some s \<longleftrightarrow>
         jt_parse text body \<in> {Some (JsonObject [(''access_token'', JsonString s)]), Some (JsonArray [JsonString s])})
    \<and> (from_slice text de_unlock_request body = Some s \<longleftrightarrow>
         jt_parse text body \<in> {Some (JsonObject [(''passphrase'', JsonString s)]), Some (JsonArray [JsonString s])})"
proof (intro conjI)
  show "from_slice text de_device_exchange_request (client_body_text text (ExchangeBody token)) = Some token"
    by (simp add: client_body_read [OF laws] client_body_json_def de_device_exchange_request_def one_field_object)
  show "from_slice text de_session_response (web_body_text text (SessionBody token expires_in)) = Some (token, expires_in)"
    by (simp add: web_body_read [OF laws] de_session_response_def struct_simps json_u64_uint del: json_u64.simps)
  show "from_slice text de_error_body (web_body_text text (FailureBody (into_response e))) = Some (er_slug e, er_request_id e)"
    by (simp add: web_body_read [OF laws] de_error_json into_response_def)
  show "from_slice text de_admin_error_body (web_body_text text (FailureBody (into_response e))) =
      Some \<lparr>eb_error = er_slug e, eb_request_id = er_request_id e, eb_keys = er_keys e\<rparr>"
    by (simp add: web_body_read [OF laws] de_admin_error_json into_response_def)
qed (rule signing_request_read [OF laws] signature_read [OF laws] unlock_request_read [OF laws] keyring_read [OF laws]
      device_config_read [OF laws] cached_session_read [OF laws]
    | simp only: de_signing_request_def de_device_exchange_request_def de_unlock_request_def from_slice_one_field)+

theorem wire_formats_agree_witness:
  "from_slice plain_json de_admin_error_body
     (web_body_text plain_json (FailureBody (into_response
        \<lparr>er_status = 401, er_slug = ''keyring-passphrase-mismatch'', er_request_id = ''01J'', er_authenticate = False,
         er_keys = [''fw-b'']\<rparr>)))
   = Some \<lparr>eb_error = ''keyring-passphrase-mismatch'', eb_request_id = ''01J'', eb_keys = [''fw-b'']\<rparr>"
  using wire_formats_agree [OF plain_json_laws, where e = "\<lparr>er_status = 401, er_slug = ''keyring-passphrase-mismatch'',
    er_request_id = ''01J'', er_authenticate = False, er_keys = [''fw-b'']\<rparr>"] by simp

end
