(* ===== verification/Server_Run.thy ===== *)
theory Server_Run
  imports Admin_Socket
begin

unbundle bit_operations_syntax

text \<open>
  The whole of \<^verbatim>\<open>run_server\<close> in \<^verbatim>\<open>src/main.rs\<close>: the start of the service, the public listener, the admin
  socket, the serving phase and the removal of the socket at the end.

  The serving phase is a parameter: it gets the initial state and the files, and gives whether the servers
  ended without an error and the files as other processes left them. What it does with the state is the
  subject of theory \<open>Service\<close>. Other parameters: the public listener and the system's group database.
\<close>

datatype server_error =
    ServerStart startup_error
  | ListenFailed
  | GroupFailed socket_error
  | AdminSocketFailed socket_error
  | HttpServerFailed

record server_env =
  sr_boot :: boot_env
  sr_tcp_bind :: "socket_addr \<Rightarrow> bool"
  sr_getgrnam :: "string \<Rightarrow> nat \<Rightarrow> group_answer"
  sr_fault :: faults
  sr_process :: process

definition admin_socket_gid :: "server_env \<Rightarrow> string option \<Rightarrow> (server_error, u32 option) outcome" where
  \<comment> \<open>\<^verbatim>\<open>map(lookup_group_id).transpose()\<close>\<close>
  "admin_socket_gid env group_name =
     (case group_name of
        None \<Rightarrow> Ok None
      | Some name \<Rightarrow>
          and_then (map_err GroupFailed (lookup_group_id (sr_getgrnam env) name)) (\<lambda>gid. Ok (Some gid)))"

definition open_service ::
  "server_env \<Rightarrow> string \<Rightarrow> local_fs \<Rightarrow> (server_error, config \<times> ('h, 'sk) app_state) outcome \<times> local_fs" where
  "open_service env config_path fs =
     (case and_then (map_err ServerStart (start_service (sr_boot env) config_path)) (\<lambda>(config, state).
           if \<not> sr_tcp_bind env (sc_listen (cfg_server config)) then Err ListenFailed else
           and_then (admin_socket_gid env (sc_admin_socket_group (cfg_server config))) (\<lambda>gid.
           Ok (config, state, gid))) of
        Err e \<Rightarrow> (Err e, fs)
      | Panic \<Rightarrow> (Panic, fs)
      | Ok (config, state, gid) \<Rightarrow>
          (case bind_admin_socket (sr_fault env) (sr_process env) (sc_admin_socket_path (cfg_server config))
                  (sc_admin_socket_mode (cfg_server config)) gid fs of
             (r, states) \<Rightarrow>
               (and_then (map_err AdminSocketFailed r) (\<lambda>_. Ok (config, state)), last (fs # states))))"

definition run_server ::
  "server_env \<Rightarrow> (config \<Rightarrow> ('h, 'sk) app_state \<Rightarrow> local_fs \<Rightarrow> bool \<times> local_fs) \<Rightarrow> string \<Rightarrow> local_fs
   \<Rightarrow> (server_error, unit) outcome \<times> local_fs" where
  "run_server env serve config_path fs =
     (case open_service env config_path fs of
        (Ok (config, state), fs1) \<Rightarrow>
          (case serve config state fs1 of
             (served, fs2) \<Rightarrow>
               (if served then Ok () else Err HttpServerFailed,
                drop_admin_socket_guard (sr_fault env) (sc_admin_socket_path (cfg_server config)) fs2))
      | (Err e, fs1) \<Rightarrow> (Err e, fs1)
      | (Panic, fs1) \<Rightarrow> (Panic, fs1))"

section \<open>Opening the service\<close>

lemma admin_socket_gid_Ok:
  "admin_socket_gid env group_name = Ok gid \<longleftrightarrow>
     (case group_name of None \<Rightarrow> gid = None
      | Some name \<Rightarrow> \<exists>g. lookup_group_id (sr_getgrnam env) name = Ok g \<and> gid = Some g)"
  by (auto simp: admin_socket_gid_def split: option.split)

lemma open_service_Ok:
  assumes "open_service env config_path fs = (Ok (c, st), fs')"
  obtains gid states where "start_service (sr_boot env) config_path = Ok (c, st)"
    "sr_tcp_bind env (sc_listen (cfg_server c))"
    "admin_socket_gid env (sc_admin_socket_group (cfg_server c)) = Ok gid"
    "bind_admin_socket (sr_fault env) (sr_process env) (sc_admin_socket_path (cfg_server c))
       (sc_admin_socket_mode (cfg_server c)) gid fs = (Ok (), states)" "fs' = last (fs # states)"
  using assms by (auto simp: open_service_def split: outcome.splits prod.splits if_split_asm)

text \<open>The socket of a service that was opened: its owner, group and mode, and that nothing else changed.\<close>

definition admin_socket_ready :: "server_env \<Rightarrow> server_config \<Rightarrow> local_fs \<Rightarrow> local_fs \<Rightarrow> bool" where
  "admin_socket_ready env s fs fs' \<longleftrightarrow>
     (\<exists>nd. fs' = fs(sc_admin_socket_path s \<mapsto> nd) \<and> nd_kind nd = SocketFile
        \<and> nd_uid nd = ps_euid (sr_process env) \<and> nd_mode nd = sc_admin_socket_mode s
        \<and> nd_mode nd AND 7 = 0
        \<and> (case sc_admin_socket_group s of
             None \<Rightarrow> nd_gid nd = ps_egid (sr_process env)
           | Some name \<Rightarrow> lookup_group_id (sr_getgrnam env) name = Ok (nd_gid nd)))"

lemma open_service_socket:
  assumes "open_service env config_path fs = (Ok (c, st), fs')"
  shows "admin_socket_ready env (cfg_server c) fs fs'"
  using assms
proof (rule open_service_Ok)
  fix gid states
  let ?path = "sc_admin_socket_path (cfg_server c)"
  assume start: "start_service (sr_boot env) config_path = Ok (c, st)"
    and gid: "admin_socket_gid env (sc_admin_socket_group (cfg_server c)) = Ok gid"
    and bound: "bind_admin_socket (sr_fault env) (sr_process env) ?path
       (sc_admin_socket_mode (cfg_server c)) gid fs = (Ok (), states)" and fs': "fs' = last (fs # states)"
  have "config_ok (bo_parse_url (sr_boot env)) c"
    using start_service_Ok [OF start] normalize_and_validate_iff by blast
  then have mode: "sc_admin_socket_mode (cfg_server c) AND 7 = 0"
    by (auto simp: config_ok_def server_ok_def bad_admin_socket_mode_def)
  note eff = bind_admin_socket_effect [OF bound]
  then have ne: "states \<noteq> []" by blast
  then have last: "fs' = last states" by (simp add: fs')
  from eff obtain nd where nd: "last states ?path = Some nd" "nd_kind nd = SocketFile"
      "nd_mode nd = sc_admin_socket_mode (cfg_server c)" "nd_uid nd = ps_euid (sr_process env)"
      "nd_gid nd = (case gid of None \<Rightarrow> ps_egid (sr_process env) | Some g \<Rightarrow> g)" by blast
  have "last states p = fs p" if "p \<noteq> ?path" for p using eff ne that last_in_set by blast
  then have "fs' = fs(?path \<mapsto> nd)" using nd(1) by (auto simp: last)
  then show ?thesis
    using nd(2-5) gid mode
    by (auto simp: admin_socket_ready_def admin_socket_gid_Ok split: option.splits)
qed

text \<open>
  C9: A service that starts to serve was opened safely: its configuration was accepted, every key is locked,
  and the only change to the file system is the admin socket, which belongs to the service, has the
  configured mode, gives nothing to other users and belongs to the configured group. When it ends, the
  socket is gone and everything else is as the serving phase left it; something else that took the place
  of the socket is left alone.
\<close>

theorem run_server_lifecycle:
  fixes st :: "('h, 'sk) app_state"
  assumes opened: "open_service env config_path fs = (Ok (c, st), fs1)"
    and served: "serve c st fs1 = (ok, fs2)"
    and lstat: "\<not> sr_fault env SysLstat (sc_admin_socket_path (cfg_server c))"
    and unlink: "\<not> sr_fault env SysUnlink (sc_admin_socket_path (cfg_server c))"
  shows "normalize_and_validate (bo_parse_url (sr_boot env)) c = Ok ()
    \<and> list_all (\<lambda>k. \<not> is_unlocked k) (ks_keys (ap_keys st))
    \<and> admin_socket_ready env (cfg_server c) fs fs1
    \<and> run_server env serve config_path fs
        = (if ok then Ok () else Err HttpServerFailed,
           if map_option nd_kind (fs2 (sc_admin_socket_path (cfg_server c))) = Some SocketFile
           then fs2(sc_admin_socket_path (cfg_server c) := None) else fs2)"
proof -
  have "start_service (sr_boot env) config_path = Ok (c, st)"
    using opened by (rule open_service_Ok)
  note start = start_service_Ok [OF this]
  have "drop_admin_socket_guard (sr_fault env) (sc_admin_socket_path (cfg_server c)) fs2
      = (if map_option nd_kind (fs2 (sc_admin_socket_path (cfg_server c))) = Some SocketFile
         then fs2(sc_admin_socket_path (cfg_server c) := None) else fs2)"
    using lstat unlink
    by (cases "fs2 (sc_admin_socket_path (cfg_server c))")
       (auto simp: drop_admin_socket_guard_def fs_symlink_metadata_def remove_file_def)
  with opened served have run: "run_server env serve config_path fs
        = (if ok then Ok () else Err HttpServerFailed,
           if map_option nd_kind (fs2 (sc_admin_socket_path (cfg_server c))) = Some SocketFile
           then fs2(sc_admin_socket_path (cfg_server c) := None) else fs2)"
    by (simp add: run_server_def)
  show ?thesis
    using start run open_service_socket [OF opened] by (simp add: list_all_iff)
qed

section \<open>A service that starts\<close>

definition demo_server :: server_env where
  "demo_server =
     \<lparr>sr_boot = demo_boot, sr_tcp_bind = \<lambda>_. True,
      sr_getgrnam = \<lambda>name size. \<lparr>ga_rc = 0, ga_group = Some (name, 27)\<rparr>,
      sr_fault = \<lambda>call path. False, sr_process = socket_process\<rparr>"

definition server_fs :: local_fs where
  "server_fs = [''/run/microtun-signer'' \<mapsto> \<lparr>nd_kind = Directory, nd_uid = 1000, nd_gid = 1000, nd_mode = 493\<rparr>]"

lemma server_socket_parent: "path_parent ''/run/microtun-signer/admin.sock'' = Some ''/run/microtun-signer''"
  by (simp add: path_parent_def drop_last_component_def trim_back.simps ends_with_def)

lemma demo_server_opens: "\<exists>fs1. open_service demo_server ''config.toml'' server_fs = (Ok (example_config, demo_start), fs1)"
proof -
  have path: "sc_admin_socket_path (cfg_server example_config) = ''/run/microtun-signer/admin.sock''"
    by (simp add: example_config_def)
  have "\<exists>states. bind_admin_socket (\<lambda>call path. False) socket_process (sc_admin_socket_path (cfg_server example_config))
      (sc_admin_socket_mode (cfg_server example_config)) (Some 27) server_fs = (Ok (), states)"
    unfolding path
    by (rule bind_admin_socket_succeeds [OF server_socket_parent])
       (auto simp: server_fs_def group_other_write_bits_def)
  moreover have "admin_socket_gid demo_server (sc_admin_socket_group (cfg_server example_config)) = Ok (Some 27)"
    by (simp add: admin_socket_gid_def demo_server_def example_config_def lookup_group_id_def
        lookup_group_loop.simps ERANGE_def)
  ultimately show ?thesis
    using demo_started by (auto simp: open_service_def) (auto simp: demo_server_def)
qed

theorem run_server_lifecycle_witness:
  "\<exists>fs1. open_service demo_server ''config.toml'' server_fs = (Ok (example_config, demo_start), fs1)
     \<and> admin_socket_ready demo_server (cfg_server example_config) server_fs fs1
     \<and> run_server demo_server (\<lambda>(c :: config) (st :: (string, nat) app_state) fs. (True, fs)) ''config.toml'' server_fs
         = (Ok (), server_fs)"
proof -
  obtain fs1 where opened: "open_service demo_server ''config.toml'' server_fs = (Ok (example_config, demo_start), fs1)"
    using demo_server_opens by blast
  have quiet: "\<not> sr_fault demo_server call p" for call p by (simp add: demo_server_def)
  note life = run_server_lifecycle [where serve = "\<lambda>c st fs. (True, fs)", OF opened refl quiet quiet]
  have "server_fs ''/run/microtun-signer/admin.sock'' = None" by (simp add: server_fs_def)
  moreover have "sc_admin_socket_path (cfg_server example_config) = ''/run/microtun-signer/admin.sock''"
    by (simp add: example_config_def)
  ultimately show ?thesis
    using life opened by (auto simp: admin_socket_ready_def fun_upd_idem)
qed

end
