(* ===== verification/Unlock_Run.thy ===== *)
theory Unlock_Run
  imports Wire_Format Server_Run
begin

text \<open>
  The unlock command of \<^verbatim>\<open>src/main.rs\<close> and the admin API of the running service together: what the command
  prints is compared with what the router of the admin socket did to the key store.

  The bodies are the JSON documents of \<open>Wire_Format\<close>. The JSON library, the URL and percent-decoding are
  parameters; the laws used of them are in \<open>admin_laws\<close>.
\<close>

section \<open>The command and the admin router\<close>

record 'sk admin_site =
  at_keys :: "'sk key_store"
  at_env :: "'sk admin_env"
  at_url_path :: "string \<Rightarrow> string"
  at_json :: json_text

definition admin_web_request :: "'sk admin_site \<Rightarrow> admin_request \<Rightarrow> web_request" where
  "admin_web_request site q =
     \<lparr>wr_method = HttpPost, wr_path = at_url_path site (aq_url q),
      wr_headers = \<lparr>authorization = None, content_type = Some (Visible ''application/json'')\<rparr>,
      wr_body = jt_print (at_json site) (unlock_request_json (aq_passphrase q)), wr_peer = \<lparr>sa_ip = V4 0, sa_port = 0\<rparr>\<rparr>"

definition admin_answer :: "'sk admin_site \<Rightarrow> admin_request \<Rightarrow> nat \<times> string option" where
  "admin_answer site q =
     (let resp = fst (admin_router (at_env site) (admin_web_request site q) (at_keys site)) in
      (ws_status resp, Some (web_body_text (at_json site) (ws_body resp))))"

definition keys_after :: "'sk admin_site \<Rightarrow> admin_request \<Rightarrow> 'sk key_store" where
  "keys_after site q = fst (snd (admin_router (at_env site) (admin_web_request site q) (at_keys site)))"

text \<open>A request over the socket reaches this service or gets lost.\<close>

definition admin_connected :: "unlock_env \<Rightarrow> 'sk admin_site \<Rightarrow> bool" where
  "admin_connected env site \<longleftrightarrow> (\<forall>q response. ue_send env q = Some response \<longrightarrow> response = admin_answer site q)"

text \<open>
  The path of a URL on \<^verbatim>\<open>localhost\<close> is what follows the host, except that segments \<^verbatim>\<open>.\<close> and \<^verbatim>\<open>..\<close> are removed;
  percent-decoding keeps a text without percent signs; the JSON library reads what it wrote; the service and
  the command read the types of their own.
\<close>

definition admin_laws :: "unlock_env \<Rightarrow> 'sk admin_site \<Rightarrow> bool" where
  "admin_laws env site \<longleftrightarrow>
     (\<forall>i. valid_key_id i \<and> i \<noteq> ''.'' \<and> i \<noteq> ''..'' \<longrightarrow>
        at_url_path site (''http://localhost/v1/unlock/'' @ i) = ''/v1/unlock/'' @ i
        \<and> at_url_path site (''http://localhost/v1/unlock-keyring/'' @ i) = ''/v1/unlock-keyring/'' @ i)
     \<and> (\<forall>s. CHR ''%'' \<notin> set s \<longrightarrow> am_percent_decode (at_env site) s = Some s)
     \<and> json_text_laws (at_json site)
     \<and> am_parse (at_env site) = from_slice (at_json site) de_unlock_request
     \<and> ue_parse_keyring env = (\<lambda>body. map_option snd (from_slice (at_json site) de_keyring_response body))"

text \<open>The line that is printed for a member of a keyring, by the state the key had before.\<close>

definition member_line :: "'sk key_material \<Rightarrow> string" where
  "member_line k =
     ''key '' @ km_id k @ '' '' @
       (if km_state k \<noteq> Active then ''was skipped (not active)''
        else if is_unlocked k then ''was already unlocked'' else ''is unlocked'')"

section \<open>Lemmas\<close>

lemma admin_laws_read:
  assumes "admin_laws env site"
  shows "am_parse (at_env site) (jt_print (at_json site) (unlock_request_json passphrase)) = Some passphrase"
    and "ue_parse_keyring env (web_body_text (at_json site) (KeyringBody name members)) = Some members"
  using assms by (simp_all add: admin_laws_def unlock_request_read keyring_read)

lemma unlock_response_status: "fst (unlock_key_response rid i r) = Err e \<Longrightarrow> 400 \<le> er_status e"
  by (cases "(rid, i, r)" rule: unlock_key_response.cases) (auto simp: api_error_new_def unlock_task_failed_def)

lemma keyring_response_status: "fst (keyring_unlock_response rid name r) = Err e \<Longrightarrow> 400 \<le> er_status e"
  by (cases "(rid, name, r)" rule: keyring_unlock_response.cases)
    (auto simp: api_error_new_def with_keys_def keyring_unlock_task_failed_def)

lemma parse_unlock_status: "parse_unlock_request parse body rid = Err e \<Longrightarrow> 400 \<le> er_status e"
  by (cases "parse body") (auto simp: parse_unlock_request_def api_error_new_def split: if_splits)


lemma unlock_key_status:
  assumes "store_inv cr keys" and "fst (unlock_key cr rid parse i headers body keys) = Err e"
  shows "400 \<le> er_status e"
proof -
  have wf: "store_wf keys" using assms(1) by (simp add: store_inv_def)
  show ?thesis
    using assms(2) parse_unlock_status [of parse body rid e] unlock_response_status
    by (auto simp: unlock_key_def require_json_unlock_request_def ks_get_wf [OF wf] api_error_new_def Let_def
        split: if_splits option.splits outcome.splits prod.splits) (metis fst_conv)+
qed

lemma find_replaced:
  "km_id k' = i \<Longrightarrow> find (\<lambda>k. km_id k = i) ks \<noteq> None \<Longrightarrow>
     find (\<lambda>k. km_id k = i) (map (\<lambda>k. if km_id k = i then k' else k) ks) = Some k'"
  by (induction ks) auto

text \<open>What a request of the command does to one key: the passphrase that was typed opens it.\<close>

lemma unlock_key_reported:
  assumes inv: "store_inv cr keys" and run: "unlock_key cr rid parse i headers body keys = (r, keys', audit)"
    and parse: "parse body = Some pw"
  shows "case r of
      Ok status \<Rightarrow> status = 204 \<and> (\<exists>k k'. find_key keys i = Some k \<and> km_state k = Active
        \<and> (is_unlocked k \<or> opens cr pw k) \<and> find_key keys' i = Some k' \<and> is_unlocked k')
    | Err e \<Rightarrow> keys' = keys \<and> 400 \<le> er_status e
    | Panic \<Rightarrow> False"
proof (cases r)
  case (Ok status)
  from inv run obtain key where
      key: "find (\<lambda>k. km_id k = i) (ks_keys keys) = Some key"
    and r: "r = fst (unlock_key_response rid i (fst (unlock cr key pw)))"
    and keys': "keys' = store_key keys (snd (unlock cr key pw))"
    by (cases rule: unlock_key_cases) (use Ok parse in auto)
  have kinv: "key_inv cr key" using key inv by (auto simp: store_inv_def find_Some_iff)
  have ok: "is_ok (fst (unlock cr key pw))" and st: "status = 204"
    using r Ok unlock_response_Ok [of rid i "fst (unlock cr key pw)" status] by simp_all
  have "km_state key = Active \<and> (is_unlocked key \<or> opens cr pw key)"
    using ok by (auto simp: unlock_cases [OF kinv] opens_def split: if_splits outcome.splits)
  moreover have "km_id (snd (unlock cr key pw)) = i"
    using unlock_same_id [OF kinv] find_id_same [OF key] by simp
  then have "find_key keys' i = Some (snd (unlock cr key pw))"
    using key by (simp add: keys' find_key_def store_key_def find_replaced)
  ultimately show ?thesis
    using key unlock_is_Ok [OF kinv ok] st by (simp add: Ok find_key_def)
next
  case (Err e)
  then show ?thesis
    using inv run unlock_key_status [OF inv, of rid parse i headers body e] unlock_key_effect [OF inv run] by simp
next
  case Panic
  then show ?thesis using unlock_key_effect [OF inv run] by simp
qed

text \<open>What it does to a keyring.\<close>

lemma keyring_handler_reported:
  assumes inv: "store_inv cr keys"
    and run: "unlock_keyring_handler cr rid parse name headers body keys = (r, keys', audit)"
    and parse: "parse body = Some pw"
  shows "case r of
      Ok (n, members) \<Rightarrow> n = name
        \<and> members = map (\<lambda>k. (km_id k, keyring_member_result_as_str (mo_result (member_result k)))) (ring_keys keys name)
        \<and> (\<forall>k\<in>set (ring_keys keys name). needs_unlock k \<longrightarrow> opens cr pw k)
        \<and> (\<forall>k\<in>set (ring_keys keys' name). km_state k = Active \<longrightarrow> is_unlocked k)
    | Err e \<Rightarrow> keys' = keys \<and> 400 \<le> er_status e
    | Panic \<Rightarrow> False"
proof (cases "is_json_content_type headers \<and> valid_keyring_name name \<and> has_keyring keys name \<and> pw \<noteq> []")
  case False
  then show ?thesis
    using run parse
    by (auto simp: unlock_keyring_handler_def require_json_unlock_request_def parse_unlock_request_def
        api_error_new_def split: if_splits)
next
  case True
  obtain result keys1 where ring: "unlock_keyring cr keys name pw = (result, keys1)" by fastforce
  have r: "r = fst (keyring_unlock_response rid name result)" and k: "keys' = keys1"
    using True run parse ring
    by (auto simp: unlock_keyring_handler_def require_json_unlock_request_def parse_unlock_request_def
        split: prod.splits)
  have eff: "case (result, keys1) of
      (Ok outcomes, store') \<Rightarrow> \<forall>k\<in>set (ring_keys store' name). km_state k = Active \<longrightarrow> is_unlocked k
    | (Err e, store') \<Rightarrow> store' = keys | (Panic, store') \<Rightarrow> False"
    using unlock_keyring_effect [OF inv, of name pw] unfolding ring by (auto split: outcome.splits)
  show ?thesis
  proof (cases result)
    case (Ok outcomes)
    have "outcomes = map member_result (ring_keys keys name)
        \<and> (\<forall>k\<in>set (ring_keys keys name). needs_unlock k \<longrightarrow> opens cr pw k)"
      using ring by (auto simp: Ok unlock_keyring_closed [OF inv] Let_def split: if_splits)
    then show ?thesis using eff by (simp add: r k Ok member_result_def)
  next
    case (Err e)
    obtain e' where "r = Err e'" using r by (cases e) (auto simp: Err)
    then show ?thesis using eff keyring_response_status r by (simp add: k Err)
  qed (use eff in simp)
qed

lemma member_line_status:
  "''key '' @ km_id k @ '' '' @ member_status (keyring_member_result_as_str (mo_result (member_result k))) = member_line k"
  by (simp add: member_line_def member_result_def member_status_def)

lemma key_route:
  assumes "admin_laws env site" and "valid_key_id i" "i \<noteq> ''.''" "i \<noteq> ''..''"
    and "aq_url q = ''http://localhost/v1/unlock/'' @ i"
  shows "admin_router (at_env site) (admin_web_request site q) (at_keys site) =
    (if length (jt_print (at_json site) (unlock_request_json (aq_passphrase q))) > ADMIN_BODY_LIMIT then (plain_response 413, at_keys site, []) else
     (case unlock_key (am_crypto (at_env site)) (am_request_id (at_env site)) (am_parse (at_env site)) i
             (wr_headers (admin_web_request site q)) (jt_print (at_json site) (unlock_request_json (aq_passphrase q))) (at_keys site) of
        (r, keys', audit) \<Rightarrow> (respond plain_response r, keys', audit)))"
proof -
  have "at_url_path site (aq_url q) = ''/v1/unlock/'' @ i" "am_percent_decode (at_env site) i = Some i"
    using assms valid_key_id_chars(3) [OF assms(2)] by (auto simp: admin_laws_def)
  then show ?thesis
    using valid_key_id_chars [OF assms(2)] segment_after_append [of "''/v1/unlock/''" i]
    by (simp add: admin_router_def admin_web_request_def)
qed

lemma keyring_route:
  assumes "admin_laws env site" and "valid_key_id i" "i \<noteq> ''.''" "i \<noteq> ''..''"
    and "aq_url q = ''http://localhost/v1/unlock-keyring/'' @ i"
  shows "admin_router (at_env site) (admin_web_request site q) (at_keys site) =
    (if length (jt_print (at_json site) (unlock_request_json (aq_passphrase q))) > ADMIN_BODY_LIMIT then (plain_response 413, at_keys site, []) else
     (case unlock_keyring_handler (am_crypto (at_env site)) (am_request_id (at_env site)) (am_parse (at_env site)) i
             (wr_headers (admin_web_request site q)) (jt_print (at_json site) (unlock_request_json (aq_passphrase q))) (at_keys site) of
        (r, keys', audit) \<Rightarrow> (respond keyring_response r, keys', audit)))"
proof -
  have "at_url_path site (aq_url q) = ''/v1/unlock-keyring/'' @ i" "am_percent_decode (at_env site) i = Some i"
    using assms valid_key_id_chars(3) [OF assms(2)] by (auto simp: admin_laws_def)
  moreover have "segment_after ''/v1/unlock/'' (''/v1/unlock-keyring/'' @ i) = None"
    by (simp add: segment_after_def strip_prefix_def)
  ultimately show ?thesis
    using valid_key_id_chars [OF assms(2)] segment_after_append [of "''/v1/unlock-keyring/''" i]
    by (simp add: admin_router_def admin_web_request_def)
qed

text \<open>The answers of the router, read by their status.\<close>

lemma key_answer:
  assumes inv: "store_inv (am_crypto (at_env site)) (at_keys site)" and laws: "admin_laws env site"
    and id: "valid_key_id i" "i \<noteq> ''.''" "i \<noteq> ''..''" "aq_url q = ''http://localhost/v1/unlock/'' @ i"
  shows "if 200 \<le> fst (admin_answer site q) \<and> fst (admin_answer site q) < 300
    then \<exists>k k'. find_key (at_keys site) i = Some k \<and> km_state k = Active
      \<and> (is_unlocked k \<or> opens (am_crypto (at_env site)) (aq_passphrase q) k)
      \<and> find_key (keys_after site q) i = Some k' \<and> is_unlocked k'
    else keys_after site q = at_keys site"
proof -
  let ?body = "jt_print (at_json site) (unlock_request_json (aq_passphrase q))"
  have parse: "am_parse (at_env site) ?body = Some (aq_passphrase q)" using admin_laws_read(1) [OF laws] .
  obtain r keys' audit where
    run: "unlock_key (am_crypto (at_env site)) (am_request_id (at_env site)) (am_parse (at_env site)) i
        (wr_headers (admin_web_request site q)) ?body (at_keys site) = (r, keys', audit)"
    by (metis prod_cases3)
  show ?thesis
    using unlock_key_reported [OF inv run parse]
    by (cases r) (auto simp: admin_answer_def keys_after_def key_route [OF laws id] run Let_def)
qed

lemma keyring_answered:
  assumes inv: "store_inv (am_crypto (at_env site)) (at_keys site)" and laws: "admin_laws env site"
    and id: "valid_key_id n" "n \<noteq> ''.''" "n \<noteq> ''..''" "aq_url q = ''http://localhost/v1/unlock-keyring/'' @ n"
  shows "if 200 \<le> fst (admin_answer site q) \<and> fst (admin_answer site q) < 300
    then Option.bind (snd (admin_answer site q)) (ue_parse_keyring env) =
        Some (map (\<lambda>k. (km_id k, keyring_member_result_as_str (mo_result (member_result k)))) (ring_keys (at_keys site) n))
      \<and> (\<forall>k\<in>set (ring_keys (at_keys site) n). needs_unlock k \<longrightarrow> opens (am_crypto (at_env site)) (aq_passphrase q) k)
      \<and> (\<forall>k\<in>set (ring_keys (keys_after site q) n). km_state k = Active \<longrightarrow> is_unlocked k)
    else keys_after site q = at_keys site"
proof -
  let ?body = "jt_print (at_json site) (unlock_request_json (aq_passphrase q))"
  have parse: "am_parse (at_env site) ?body = Some (aq_passphrase q)" using admin_laws_read(1) [OF laws] .
  obtain r keys' audit where
    run: "unlock_keyring_handler (am_crypto (at_env site)) (am_request_id (at_env site)) (am_parse (at_env site)) n
        (wr_headers (admin_web_request site q)) ?body (at_keys site) = (r, keys', audit)"
    by (metis prod_cases3)
  show ?thesis
    using keyring_handler_reported [OF inv run parse] admin_laws_read(2) [OF laws]
    by (cases r) (auto simp: admin_answer_def keys_after_def keyring_route [OF laws id] run Let_def
        keyring_response_def)
qed

text \<open>The command asks for nothing, or for one key, or for one keyring.\<close>

lemma unlock_command_cases:
  assumes "unlock_command boot env fault fs key_id keyring socket cli_config = (r, requests)"
  obtains (none) "r = Panic \<or> (\<exists>e. r = Err e \<and> e \<noteq> BadKeyringAnswer \<and> (\<forall>m. e \<noteq> UnlockRefused m))"
  | (key) i q response where "key_id = Some i" "keyring = None" "valid_key_id i"
      "aq_url q = ''http://localhost/v1/unlock/'' @ i" "requests = [q]" "ue_send env q = Some response"
      "r = (if 200 \<le> fst response \<and> fst response < 300 then Ok [''key '' @ i @ '' is unlocked'']
            else Err (UnlockRefused (admin_response_error env response ''unlock'')))"
  | (ring) n q response where "key_id = None" "keyring = Some n" "valid_key_id n"
      "aq_url q = ''http://localhost/v1/unlock-keyring/'' @ n" "requests = [q]" "ue_send env q = Some response"
      "r = (if 200 \<le> fst response \<and> fst response < 300
            then and_then (ok_or BadKeyringAnswer (Option.bind (snd response) (ue_parse_keyring env))) (\<lambda>keys.
                   Ok (map (\<lambda>(key, result). ''key '' @ key @ '' '' @ member_status result) keys))
            else Err (UnlockRefused (admin_response_error env response ''unlock'')))"
proof -
  have early: "e \<noteq> BadKeyringAnswer \<and> (\<forall>m. e \<noteq> UnlockRefused m)"
    if "resolve_admin_socket boot fault fs socket cli_config = Err e" for e
    using that
    by (auto simp: resolve_admin_socket_def and_then_eq_Err map_err_eq_Err split: option.splits if_splits)
  have target_err: "e \<noteq> BadKeyringAnswer \<and> (\<forall>m. e \<noteq> UnlockRefused m)"
    if "unlock_target_of key_id keyring = Err e" for e
    using that by (auto simp: unlock_target_of_def split: option.splits if_splits)
  define pre where "pre = and_then (unlock_target_of key_id keyring) (\<lambda>target.
           and_then (resolve_admin_socket boot fault fs socket cli_config) (\<lambda>path.
           and_then (ok_or PromptFailed (ue_prompt env (fst (unlock_call target) @ '' ''))) (\<lambda>passphrase.
           if passphrase = [] then Err EmptyPassphrase else
           if \<not> ue_client_built env then Err NoAdminClient
           else Ok (target, \<lparr>aq_socket = path, aq_url = fst (snd (unlock_call target)),
                             aq_timeout = snd (snd (unlock_call target)), aq_passphrase = passphrase\<rparr>))))"
  note run = assms [unfolded unlock_command_def, folded pre_def]
  show ?thesis
  proof (cases pre)
    case (Ok tr)
    obtain target q where tr: "tr = (target, q)" by fastforce
    have t: "unlock_target_of key_id keyring = Ok target" and url: "aq_url q = fst (snd (unlock_call target))"
      using Ok [unfolded pre_def tr] by (auto split: if_splits)
    show ?thesis
    proof (cases "ue_send env q")
      case None
      then have "r = Err AdminCallFailed" using run by (simp add: Ok tr)
      then show ?thesis by (intro none) simp
    next
      case (Some response)
      show ?thesis
      proof (cases target)
        case (TargetKey i)
        have "key_id = Some i" "keyring = None" "valid_key_id i"
          using t unfolding TargetKey by (auto simp: unlock_target_of_def split: option.splits if_splits)
        then show ?thesis
          using run url Some
          by (cases "200 \<le> fst response \<and> fst response < 300")
            (rule key [of _ q response], auto simp: Ok tr TargetKey)+
      next
        case (TargetKeyring n)
        have "key_id = None" "keyring = Some n" "valid_key_id n"
          using t unfolding TargetKeyring
          by (auto simp: unlock_target_of_def valid_keyring_name_def split: option.splits if_splits)
        then show ?thesis
          using run url Some
          by (cases "200 \<le> fst response \<and> fst response < 300")
            (rule ring [of _ q response], auto simp: Ok tr TargetKeyring)+
      qed
    qed
  next
    case (Err e)
    then have "e \<noteq> BadKeyringAnswer \<and> (\<forall>m. e \<noteq> UnlockRefused m)"
      using early target_err by (auto simp: pre_def and_then_eq_Err ok_or_eq_Err split: if_splits)
    moreover have "r = Err e" using run by (simp add: Err)
    ultimately show ?thesis by (intro none) simp
  qed (use run none in auto)
qed

section \<open>What the command reports\<close>


section \<open>An operator who unlocks a keyring\<close>

definition demo_admin_site :: "nat admin_site" where
  "demo_admin_site =
     \<lparr>at_keys = ap_keys demo_start,
      at_env = \<lparr>am_percent_decode = Some, am_crypto = demo_crypto, am_request_id = ''01J'',
        am_parse = from_slice plain_json de_unlock_request\<rparr>,
      at_url_path = drop 16, at_json = plain_json\<rparr>"

definition operator_env :: unlock_env where
  "operator_env =
     demo_unlock_env\<lparr>ue_send := \<lambda>q. Some (admin_answer demo_admin_site q),
       ue_parse_keyring := \<lambda>body. map_option snd (from_slice plain_json de_keyring_response body)\<rparr>"

definition operator_fs :: local_fs where
  "operator_fs = socket_fs(''/run/s'' \<mapsto> create_node socket_process SocketFile 511)"

definition operator_request :: admin_request where
  "operator_request =
     \<lparr>aq_socket = ''/run/s'', aq_url = ''http://localhost/v1/unlock-keyring/firmware-prod'',
      aq_timeout = KEYRING_UNLOCK_TIMEOUT, aq_passphrase = ''pw''\<rparr>"

lemma operator_laws: "admin_laws operator_env demo_admin_site"
  by (simp add: admin_laws_def operator_env_def demo_admin_site_def plain_json_laws)

lemma demo_start_keys: "at_keys demo_admin_site = signing_store\<lparr>ks_keys := [locked_key]\<rparr>"
  by (simp add: demo_admin_site_def demo_start_def app_state_new_def)

lemma operator_answer:
  "admin_answer demo_admin_site operator_request =
     (200, Some (web_body_text plain_json (KeyringBody ''firmware-prod'' [(''microtun-firmware-prod'', ''unlocked'')])))"
proof -
  have url: "aq_url operator_request = ''http://localhost/v1/unlock-keyring/'' @ ''firmware-prod''"
    by (simp add: operator_request_def)
  have valid: "valid_key_id ''firmware-prod''" by code_simp
  have names: "''firmware-prod'' \<noteq> ''.''" "''firmware-prod'' \<noteq> ''..''" by simp_all
  have "fst (unlock_keyring_handler demo_crypto ''01J'' (from_slice plain_json de_unlock_request) ''firmware-prod''
      \<lparr>authorization = None, content_type = Some (Visible ''application/json'')\<rparr>
      (jt_print plain_json (unlock_request_json ''pw''))
      (signing_store\<lparr>ks_keys := [locked_key]\<rparr>)) = Ok (''firmware-prod'', [(''microtun-firmware-prod'', ''unlocked'')])"
    by code_simp
  moreover have "length (jt_print plain_json (unlock_request_json ''pw'')) < 100" by code_simp
  ultimately show ?thesis
    unfolding admin_answer_def keyring_route [OF operator_laws valid names url] unfolding demo_start_keys
    by (auto simp: demo_admin_site_def admin_web_request_def operator_request_def ADMIN_BODY_LIMIT_def
        keyring_response_def Let_def split: prod.split)
qed

lemma operator_run:
  "unlock_command demo_boot operator_env (\<lambda>call path. False) operator_fs None (Some ''firmware-prod'') (Some ''/run/s'') None
     = (Ok [''key microtun-firmware-prod is unlocked''], [operator_request])"
proof -
  have "resolve operator_fs ''/run/s'' = Ok (''/run/s'', create_node socket_process SocketFile 511)"
    unfolding operator_fs_def by (intro socket_resolves) (simp_all add: create_node_def)
  then have "resolve_admin_socket demo_boot (\<lambda>call path. False) operator_fs (Some ''/run/s'') None = Ok ''/run/s''"
    by (simp add: resolve_admin_socket_def fs_metadata_def create_node_def)
  moreover have "valid_keyring_name ''firmware-prod''" by code_simp
  moreover have "admin_answer demo_admin_site operator_request
      = (200, Some (web_body_text plain_json (KeyringBody ''firmware-prod'' [(''microtun-firmware-prod'', ''unlocked'')])))"
    by (rule operator_answer)
  ultimately show ?thesis
    by (simp add: unlock_command_def unlock_target_of_def operator_env_def demo_unlock_env_def
        operator_request_def [symmetric] member_status_def keyring_read plain_json_laws)
qed


end
