(* ===== verification/Client_Facts.thy ===== *)
theory Client_Facts
  imports Client_Model
begin

text \<open>
  What the signing client sends and what it accepts: the requests of a command are counted by a small
  calculus of budgets (\<open>budget\<close>), which gives the bounds on the requests of one command and the confinement
  of its credentials; the answers it accepts are read off by \<open>next_do_Ok\<close>.
\<close>

section \<open>Sequencing\<close>

lemma next_do_Ok [simp]:
  "next_do m f w = (Ok b, w'') \<longleftrightarrow> (\<exists>a w'. m w = (Ok a, w') \<and> f a w' = (Ok b, w''))"
  by (auto simp: next_do_def split: prod.splits outcome.splits)

lemma done_with_eq [simp]: "done_with r w = (r', w') \<longleftrightarrow> r = r' \<and> w = w'"
  by (simp add: done_with_def)

lemma next_do_assoc: "next_do (next_do m f) g = next_do m (\<lambda>x. next_do (f x) g)"
  by (rule ext) (auto simp: next_do_def split: prod.splits outcome.splits)

lemma next_do_done [simp]: "next_do (done_with (Ok x)) f = f x"
  by (rule ext) (simp add: next_do_def done_with_def)

lemma next_do_failed:
  "next_do (done_with (Err e)) f w = (Err e, w)" "next_do (done_with Panic) f w = (Panic, w)"
  by (simp_all add: next_do_def done_with_def)

lemma send_Ok [simp]:
  "send env request w = (Ok response, w') \<longleftrightarrow>
     cn_net env (cw_sent w) request = Some response \<and> w' = w\<lparr>cw_sent := cw_sent w @ [request]\<rparr>"
  by (auto simp: send_def)

lemma expect_json_Ok [simp]:
  "expect_json env parse action response w = (Ok x, w') \<longleftrightarrow>
     is_success_status (cr_status response) \<and> Option.bind (cr_body response) parse = Some x \<and> w' = w"
  by (auto simp: expect_json_def)

section \<open>Counting requests\<close>

text \<open>\<open>budget p m n\<close>: the command \<open>m\<close> only appends requests, and at most \<open>n\<close> of them satisfy \<open>p\<close>.\<close>

definition budget :: "(client_request \<Rightarrow> bool) \<Rightarrow> 'a command \<Rightarrow> nat \<Rightarrow> bool" where
  "budget p m n \<longleftrightarrow>
     (\<forall>w. \<exists>rs. cw_sent (snd (m w)) = cw_sent w @ rs \<and> length (filter p rs) \<le> n)"

lemma budget_mono: "budget p m n \<Longrightarrow> n \<le> k \<Longrightarrow> budget p m k"
  unfolding budget_def by (meson order_trans)

lemma budget_done: "budget p (done_with r) 0"
  by (simp add: budget_def done_with_def)

lemma budget_expect_json: "budget p (expect_json env parse action response) 0"
  by (simp add: expect_json_def budget_done)

lemma budget_send: "budget p (send env request) (if p request then 1 else 0)"
  by (simp add: budget_def send_def)

lemma budget_next:
  assumes first: "budget p m a"
    and second: "\<And>x w w'. m w = (Ok x, w') \<Longrightarrow> budget p (f x) b"
  shows "budget p (next_do m f) (a + b)"
  unfolding budget_def
proof
  fix w
  obtain r w' where m: "m w = (r, w')" by fastforce
  with first obtain rs where rs: "cw_sent w' = cw_sent w @ rs" "length (filter p rs) \<le> a"
    unfolding budget_def by (metis snd_conv)
  show "\<exists>rs. cw_sent (snd (next_do m f w)) = cw_sent w @ rs \<and> length (filter p rs) \<le> a + b"
  proof (cases r)
    case (Ok x)
    from second [of w x w'] m Ok obtain rs' where
      "cw_sent (snd (f x w')) = cw_sent w' @ rs'" "length (filter p rs') \<le> b"
      unfolding budget_def by blast
    with rs m Ok show ?thesis by (intro exI [of _ "rs @ rs'"]) (simp add: next_do_def)
  qed (use rs m in \<open>auto simp: next_do_def intro: exI [of _ rs]\<close>)
qed

text \<open>The forms in which the rule is used: a pure step, a step that costs nothing, a request.\<close>

lemma budget_check:
  "(\<And>x. r = Ok x \<Longrightarrow> budget p (f x) n) \<Longrightarrow> budget p (next_do (done_with r) f) n"
  using budget_next [OF budget_done, where f = f and b = n] by fastforce

lemma budget_free:
  "budget p m 0 \<Longrightarrow> (\<And>x. budget p (f x) n) \<Longrightarrow> budget p (next_do m f) n"
  using budget_next [of p m 0 f n] by auto

lemma budget_request:
  assumes "\<And>x. budget p (f x) n" and "(if p request then 1 else 0) + n \<le> k"
  shows "budget p (next_do (send env request) f) k"
  using budget_next [OF budget_send, where f = f and b = n] assms by (blast intro: budget_mono)

lemma budget_if:
  "(c \<Longrightarrow> budget p m n) \<Longrightarrow> (\<not> c \<Longrightarrow> budget p m' n) \<Longrightarrow> budget p (if c then m else m') n"
  by simp

section \<open>The requests of a command\<close>

definition is_signing :: "client_request \<Rightarrow> bool" where
  "is_signing r \<longleftrightarrow> (case cq_body r of DigestBody _ \<Rightarrow> True | _ \<Rightarrow> False)"

definition is_exchange :: "client_request \<Rightarrow> bool" where
  "is_exchange r \<longleftrightarrow> (case cq_body r of ExchangeBody _ \<Rightarrow> True | _ \<Rightarrow> False)"

definition any_request :: "client_request \<Rightarrow> bool" where
  "any_request r = True"

lemma request_kinds [simp]:
  "is_signing (sign_request u t d)" "\<not> is_signing (config_request u)"
  "\<not> is_signing (exchange_request u t)" "\<not> is_signing (runner_request u t)"
  "\<not> is_exchange (sign_request u t d)" "\<not> is_exchange (config_request u)"
  "is_exchange (exchange_request u t)" "\<not> is_exchange (runner_request u t)"
  "any_request r"
  by (simp_all add: is_signing_def is_exchange_def any_request_def sign_request_def config_request_def
      exchange_request_def runner_request_def)

lemma budget_cache_session: "budget p (cache_session env base_url session) 0"
  by (simp add: budget_def cache_session_def)

lemma budget_forget_session: "budget p (forget_session env base_url) 0"
  by (simp add: budget_def forget_session_def)

lemma budget_cached_token: "budget p (cached_token env base_url) 0"
  by (simp add: budget_def cached_token_def split: prod.splits outcome.splits)

lemma budget_login:
  assumes "\<And>endpoint token. cn_join env base_url ''v1/auth/github/device'' = Some endpoint \<Longrightarrow>
      (if p (config_request endpoint) then 1 else 0) + (if p (exchange_request endpoint token) then 1 else 0) \<le> n"
  shows "budget p (github_device_login env base_url) n"
  unfolding github_device_login_def
proof (rule budget_check)
  fix endpoint
  assume "ok_or EndpointUrl (cn_join env base_url ''v1/auth/github/device'') = Ok endpoint"
  then have n: "(if p (config_request endpoint) then 1 else 0)
      + (if p (exchange_request endpoint token) then 1 else 0) \<le> n" for token
    using assms [of endpoint token] by simp
  have tail: "budget p (next_do (send env (exchange_request endpoint token)) (\<lambda>exchanged.
      next_do (expect_json env (cn_parse_session env) action exchanged) (\<lambda>session.
      next_do (done_with (check session)) (cache_session env base_url))))
      (n - (if p (config_request endpoint) then 1 else 0))" for token action check
    by (rule budget_request [where n = 0])
       (use n [of token] in \<open>auto intro!: budget_free budget_expect_json budget_check budget_cache_session\<close>)
  show "budget p (next_do (send env (config_request endpoint)) (\<lambda>response.
      next_do (expect_json env (cn_parse_device_config env) ''GitHub device authentication setup'' response) (\<lambda>config.
      next_do (done_with (device_flow env config)) (\<lambda>github_token.
      next_do (send env (exchange_request endpoint github_token)) (\<lambda>exchanged.
      next_do (expect_json env (cn_parse_session env) ''GitHub device token exchange'' exchanged) (\<lambda>session.
      next_do (done_with (if fst session = [] \<or> snd session = 0 then Err InvalidSession else Ok session)) (\<lambda>valid.
      cache_session env base_url valid))))))) n"
    by (rule budget_request [where n = "n - (if p (config_request endpoint) then 1 else 0)"],
        rule budget_free, rule budget_expect_json, rule budget_check, rule tail)
       (use n [of "[]"] in auto)
qed

lemma budget_sign:
  assumes "\<And>token. (if p (sign_request endpoint token digest) then 1 else 0) \<le> n"
  shows "budget p (send_signing_request env endpoint token digest) n"
  unfolding send_signing_request_def using budget_send assms by (rule budget_mono)

text \<open>After a refused cached session the client logs in once more and repeats the request once.\<close>

lemma budget_request_signature:
  assumes sign: "\<And>token. (if p (sign_request endpoint token (sn_digest args)) then 1 else 0) \<le> s"
    and login: "budget p (github_device_login env base_url) l"
  shows "budget p (request_signature env base_url endpoint args credential)
           (if sn_github_login args \<and> snd credential then s + (l + s) else s)"
proof -
  have one: "budget p (send_signing_request env endpoint token (sn_digest args)) s" for token
    by (rule budget_sign) (rule sign)
  have again: "budget p (next_do (forget_session env base_url) (\<lambda>_.
      next_do (github_device_login env base_url) (\<lambda>token.
      send_signing_request env endpoint token (sn_digest args)))) (l + s)"
    by (intro budget_free [OF budget_forget_session] budget_next [OF login] one)
  show ?thesis
  proof (cases "sn_github_login args \<and> snd credential")
    case True
    have "budget p (request_signature env base_url endpoint args credential) (s + (l + s))"
      unfolding request_signature_def
      by (intro budget_next [OF one] budget_if again budget_mono [OF budget_done] le0)
    with True show ?thesis by simp
  next
    case False
    then have "request_signature env base_url endpoint args credential
        = next_do (send_signing_request env endpoint (fst credential) (sn_digest args)) (\<lambda>r. done_with (Ok r))"
      unfolding request_signature_def by (intro arg_cong2 [where f = next_do] refl ext) auto
    with False show ?thesis
      using budget_next [OF one budget_done] by auto
  qed
qed

text \<open>Choosing a credential and using it: at most one login in all, whichever way the session is found.\<close>

lemma budget_choose_and_sign:
  assumes sign: "\<And>token. (if p (sign_request endpoint token (sn_digest args)) then 1 else 0) \<le> s"
    and login: "budget p (github_device_login env base_url) l"
    and runner: "\<And>audience. budget p (github_actions_token env audience) g"
  shows "budget p (next_do (choose_token env base_url args use_actions)
             (request_signature env base_url endpoint args))
           (if sn_github_login args then s + (l + s) else g + s)"
proof -
  note use = budget_request_signature [OF sign login]
  have cached: "budget p (next_do (case cached of
          Some token \<Rightarrow> done_with (Ok (token, True))
        | None \<Rightarrow> next_do (github_device_login env base_url) (\<lambda>token. done_with (Ok (token, False))))
        (request_signature env base_url endpoint args)) (s + (l + s))" for cached
  proof (cases cached)
    case None
    have "budget p (request_signature env base_url endpoint args (token, False)) s" for token
      using use [of "(token, False)"] by simp
    from budget_mono [OF budget_next [OF login this], of "s + (l + s)"] None show ?thesis
      by (simp add: next_do_assoc)
  next
    case (Some token)
    then show ?thesis using use [of "(token, True)"] by (auto intro: budget_mono split: if_splits)
  qed
  have plain: "budget p (request_signature env base_url endpoint args credential) s"
    if "\<not> sn_github_login args" for credential
    using use [of credential] that by simp
  have "budget p (next_do (next_do (github_actions_token env audience) (\<lambda>token. done_with (Ok (token, False))))
      (request_signature env base_url endpoint args)) (g + s)" if "\<not> sn_github_login args" for audience
    using budget_next [OF runner plain [OF that]] by (simp add: next_do_assoc)
  moreover have "budget p (next_do (done_with r) (request_signature env base_url endpoint args)) (g + s)"
    if "\<not> sn_github_login args" for r
    using budget_mono [OF plain [OF that]] by (auto intro!: budget_check)
  ultimately show ?thesis
    using cached unfolding choose_token_def
    by (auto simp: next_do_assoc intro!: budget_free [OF budget_cached_token] split: option.split)
qed

lemma budget_client_sign:
  assumes sign: "\<And>base_url endpoint token. signer_base_url env address = Ok base_url \<Longrightarrow>
        cn_join env base_url (''v1/sign/'' @ sn_key_id args) = Some endpoint \<Longrightarrow>
        (if p (sign_request endpoint token (sn_digest args)) then 1 else 0) \<le> s"
    and login: "\<And>base_url. signer_base_url env address = Ok base_url \<Longrightarrow> budget p (github_device_login env base_url) l"
    and runner: "\<And>audience. budget p (github_actions_token env audience) g"
  shows "budget p (client_sign env address args) (if sn_github_login args then s + (l + s) else g + s)"
proof -
  have answer: "budget p (next_do (expect_json env parse action response) (\<lambda>x. done_with (r x))) 0"
    for parse :: "string \<Rightarrow> string option" and action response and r :: "string \<Rightarrow> (client_error, string) outcome"
    by (intro budget_free budget_expect_json budget_done)
  show ?thesis
    unfolding client_sign_def next_do_assoc [symmetric, of "choose_token _ _ _ _"]
    by (rule budget_check, rule budget_check, rule budget_check, rule budget_check,
        rule budget_next [where b = 0, simplified], rule budget_choose_and_sign)
       (use sign login runner answer in auto)
qed

lemma budget_actions_token:
  assumes "\<And>u token endpoint. env_var (cn_runner_url env) = Ok u \<Longrightarrow> env_var (cn_runner_token env) = Ok token \<Longrightarrow>
      github_actions_request_url env u audience = Ok endpoint \<Longrightarrow>
      (if p (runner_request endpoint token) then 1 else 0) \<le> g"
  shows "budget p (github_actions_token env audience) g"
  unfolding github_actions_token_def
proof (rule budget_check)
  fix request
  assume "and_then (env_var (cn_runner_url env)) (\<lambda>request_url.
        and_then (env_var (cn_runner_token env)) (\<lambda>request_token.
        if request_token = [] then Err RunnerTokenEmpty else
        and_then (github_actions_request_url env request_url audience) (\<lambda>endpoint.
        Ok (runner_request endpoint request_token)))) = Ok request"
  then have "(if p request then 1 else 0) + 0 \<le> g"
    using assms by (fastforce split: if_split_asm)
  then show "budget p (next_do (send env request) (\<lambda>response.
     next_do (expect_json env (cn_parse_oidc env) ''GitHub Actions OIDC token request'' response) (\<lambda>value.
     done_with (if value = [] then Err EmptyOidcToken else Ok value)))) g"
    by (rule budget_request [rotated]) (intro budget_free budget_expect_json budget_done)
qed

section \<open>Bounds\<close>

lemma budget_same_requests:
  assumes "budget p m a" "budget q m b" "budget r m c"
  shows "\<exists>rs. cw_sent (snd (m w)) = cw_sent w @ rs \<and> length (filter p rs) \<le> a
           \<and> length (filter q rs) \<le> b \<and> length (filter r rs) \<le> c"
  using assms unfolding budget_def by (metis same_append_eq)

lemma client_sign_budgets:
  "budget is_signing (client_sign env address args) (if sn_github_login args then 2 else 1)"
  "budget is_exchange (client_sign env address args) (if sn_github_login args then 1 else 0)"
  "budget any_request (client_sign env address args) (if sn_github_login args then 4 else 2)"
proof -
  have "budget is_signing (client_sign env address args) (if sn_github_login args then 1 + (0 + 1) else 0 + 1)"
    by (intro budget_client_sign budget_login budget_actions_token) simp_all
  then show "budget is_signing (client_sign env address args) (if sn_github_login args then 2 else 1)"
    by (simp add: numeral_eq_Suc split: if_splits)
  have "budget is_exchange (client_sign env address args) (if sn_github_login args then 0 + (1 + 0) else 0 + 0)"
    by (intro budget_client_sign budget_login budget_actions_token) simp_all
  then show "budget is_exchange (client_sign env address args) (if sn_github_login args then 1 else 0)"
    by (simp split: if_splits)
  have "budget any_request (client_sign env address args) (if sn_github_login args then 1 + (2 + 1) else 1 + 1)"
    by (intro budget_client_sign budget_login budget_actions_token) simp_all
  then show "budget any_request (client_sign env address args) (if sn_github_login args then 4 else 2)"
    by (simp add: numeral_eq_Suc split: if_splits)
qed

lemma check_sign_args_not_Panic: "check_sign_args env args \<noteq> Panic"
  by (simp add: check_sign_args_def validate_key_id_def Let_def split: option.split)

lemma client_sign_bad_args: "check_sign_args env args = Err e \<Longrightarrow> client_sign env address args w = (Err e, w)"
  by (simp add: client_sign_def next_do_failed)


section \<open>Credentials\<close>

text \<open>
  What is documented of \<^verbatim>\<open>query_pairs_mut().append_pair\<close>: a pair is added at the end of the query, and the
  rest of the URL stays.
\<close>

definition append_pair_law :: "client_env \<Rightarrow> bool" where
  "append_pair_law env \<longleftrightarrow>
     (\<forall>k v u. url_scheme (cn_append_pair env k v u) = url_scheme u
        \<and> url_username (cn_append_pair env k v u) = url_username u
        \<and> url_password (cn_append_pair env k v u) = url_password u
        \<and> url_fragment (cn_append_pair env k v u) = url_fragment u
        \<and> url_cannot_be_a_base (cn_append_pair env k v u) = url_cannot_be_a_base u
        \<and> url_query_pairs (cn_append_pair env k v u) = url_query_pairs u @ [(k, v)])"

definition signer_endpoint :: "client_env \<Rightarrow> string \<Rightarrow> string \<Rightarrow> url \<Rightarrow> bool" where
  "signer_endpoint env address path u \<longleftrightarrow>
     and_then (signer_base_url env address) (\<lambda>base_url. ok_or EndpointUrl (cn_join env base_url path)) = Ok u"

definition safe_runner_url :: "url \<Rightarrow> bool" where
  "safe_runner_url u \<longleftrightarrow>
     url_scheme u = ''https'' \<and> \<not> url_cannot_be_a_base u \<and> url_username u = [] \<and> url_password u = None
     \<and> url_fragment u = None \<and> length (filter (\<lambda>(key, _). key = ''audience'') (url_query_pairs u)) = 1"

definition confined :: "client_env \<Rightarrow> string \<Rightarrow> sign_args \<Rightarrow> client_request \<Rightarrow> bool" where
  "confined env address args r \<longleftrightarrow>
     (case (cq_auth r, cq_body r) of
        (NoAuth, NoBody) \<Rightarrow> True
      | (NoAuth, ExchangeBody _) \<Rightarrow> signer_endpoint env address ''v1/auth/github/device'' (cq_url r)
      | (BearerAuth token, NoBody) \<Rightarrow> cn_runner_token env = Some (Unicode token) \<and> safe_runner_url (cq_url r)
      | (BearerAuth _, DigestBody digest) \<Rightarrow>
          digest = sn_digest args \<and> signer_endpoint env address (''v1/sign/'' @ sn_key_id args) (cq_url r)
      | _ \<Rightarrow> False)"

lemma github_actions_request_url_safe:
  assumes "append_pair_law env" and "github_actions_request_url env u audience = Ok endpoint"
  shows "safe_runner_url endpoint"
proof -
  from assms(2) obtain v where v: "endpoint = cn_append_pair env ''audience'' audience v"
      "url_scheme v = ''https''" "\<not> url_cannot_be_a_base v" "url_username v = []" "url_password v = None"
      "url_fragment v = None" "\<not> list_ex (\<lambda>(key, _). key = ''audience'') (url_query_pairs v)"
    unfolding github_actions_request_url_def by (auto split: if_split_asm)
  then have "filter (\<lambda>(key, _). key = ''audience'') (url_query_pairs v) = []"
    by (auto simp: filter_empty_conv list_ex_iff)
  with v assms(1) show ?thesis by (simp add: safe_runner_url_def append_pair_law_def)
qed

lemma env_var_Ok [simp]: "env_var v = Ok t \<longleftrightarrow> v = Some (Unicode t)"
  by (auto simp: env_var_def split: option.splits os_value.splits)

lemma confined_requests:
  "confined env address args (config_request u)"
  "confined env address args (exchange_request u t) \<longleftrightarrow> signer_endpoint env address ''v1/auth/github/device'' u"
  "confined env address args (runner_request u t) \<longleftrightarrow> cn_runner_token env = Some (Unicode t) \<and> safe_runner_url u"
  "confined env address args (sign_request u t d) \<longleftrightarrow>
     d = sn_digest args \<and> signer_endpoint env address (''v1/sign/'' @ sn_key_id args) u"
  by (simp_all add: confined_def config_request_def exchange_request_def runner_request_def sign_request_def)


section \<open>Results\<close>

lemma request_signature_answer:
  assumes "request_signature env base_url endpoint args credential w = (Ok response, w')"
  shows "\<exists>sent token. cw_sent w' = sent @ [sign_request endpoint token (sn_digest args)]
           \<and> cn_net env sent (sign_request endpoint token (sn_digest args)) = Some response"
  using assms unfolding request_signature_def send_signing_request_def
  by (auto split: if_split_asm)

lemma client_sign_Ok:
  assumes "client_sign env address args w = (Ok signature, w')"
  obtains base_url endpoint sent token response decoded where
    "valid_key_id (sn_key_id args)" "map_option length (cn_b64_decode env (sn_digest args)) = Some 32"
    "signer_base_url env address = Ok base_url"
    "cn_join env base_url (''v1/sign/'' @ sn_key_id args) = Some endpoint"
    "cw_sent w' = sent @ [sign_request endpoint token (sn_digest args)]"
    "cn_net env sent (sign_request endpoint token (sn_digest args)) = Some response"
    "is_success_status (cr_status response)"
    "Option.bind (cr_body response) (cn_parse_signature env) = Some signature"
    "cn_b64_decode env signature = Some decoded" "decoded \<noteq> []"
proof -
  from assms obtain use_actions base_url endpoint credential w1 response decoded where run:
      "check_sign_args env args = Ok use_actions" "signer_base_url env address = Ok base_url"
      "cn_join env base_url (''v1/sign/'' @ sn_key_id args) = Some endpoint"
      "request_signature env base_url endpoint args credential w1 = (Ok response, w')"
      "is_success_status (cr_status response)"
      "Option.bind (cr_body response) (cn_parse_signature env) = Some signature"
      "cn_b64_decode env signature = Some decoded" "decoded \<noteq> []"
    unfolding client_sign_def by (auto split: if_split_asm)
  from run(1) have "valid_key_id (sn_key_id args)" "map_option length (cn_b64_decode env (sn_digest args)) = Some 32"
    by (auto simp: check_sign_args_def validate_key_id_def Let_def split: if_split_asm option.splits)
  then show ?thesis using request_signature_answer [OF run(4)] run that by blast
qed

text \<open>
  C21: A signature is printed only for a well-formed request that the signer answered: the key id is valid,
  the digest decodes to 32 bytes, the last request of the command is the POST of that digest, with a bearer
  credential, to the signing endpoint of the key, its answer has a success status, and the printed
  signature is the one of that answer and decodes to a non-empty string.
\<close>

theorem client_sign_sound:
  assumes "client_sign env address args w = (Ok signature, w')"
  shows "valid_key_id (sn_key_id args)
    \<and> map_option length (cn_b64_decode env (sn_digest args)) = Some 32
    \<and> (\<exists>endpoint sent token response decoded.
         signer_endpoint env address (''v1/sign/'' @ sn_key_id args) endpoint
       \<and> cw_sent w' = sent @ [sign_request endpoint token (sn_digest args)]
       \<and> cn_net env sent (sign_request endpoint token (sn_digest args)) = Some response
       \<and> is_success_status (cr_status response)
       \<and> Option.bind (cr_body response) (cn_parse_signature env) = Some signature
       \<and> cn_b64_decode env signature = Some decoded \<and> decoded \<noteq> [])"
proof -
  from assms show ?thesis
    by (rule client_sign_Ok) (auto simp: signer_endpoint_def)
qed

section \<open>A signing job of a GitHub runner\<close>

definition demo_answer :: "client_request \<Rightarrow> client_response" where
  "demo_answer r =
     (case cq_body r of
        NoBody \<Rightarrow> \<lparr>cr_status = 200, cr_body = Some ''oidc''\<rparr>
      | _ \<Rightarrow> \<lparr>cr_status = 200, cr_body = Some ''c2ln''\<rparr>)"

definition demo_client_env :: client_env where
  "demo_client_env = \<lparr>
     cn_net = \<lambda>_ r. Some (demo_answer r), cn_parse_url = \<lambda>s. Some (demo_url\<lparr>url_as_str := s\<rparr>),
     cn_join = \<lambda>u path. Some (u\<lparr>url_path := url_path u @ path\<rparr>), cn_set_path = \<lambda>p u. u\<lparr>url_path := p\<rparr>,
     cn_append_pair = \<lambda>k v u. u\<lparr>url_query_pairs := url_query_pairs u @ [(k, v)]\<rparr>,
     cn_b64_decode = Some, cn_parse_signature = Some, cn_parse_oidc = Some, cn_parse_device_config = \<lambda>_. None,
     cn_parse_session = \<lambda>_. None, cn_parse_error = \<lambda>_. None, cn_status_text = \<lambda>_. [], cn_body_error = [],
     cn_client_built = True, cn_runner_url = Some (Unicode ''https://runner/''),
     cn_runner_token = Some (Unicode ''secret''), cn_oauth_call = \<lambda>_. None, cn_has_oauth_error = \<lambda>_. False,
     cn_device_code = \<lambda>_ _ _ _. None, cn_device_token = \<lambda>_ _ _ _ _. None, cn_cache = demo_cache_env\<rparr>"

definition demo_sign_args :: sign_args where
  "demo_sign_args = \<lparr>sn_key_id = ''k'', sn_token = None, sn_github_login = False, sn_github_actions = True,
     sn_audience = None, sn_digest = replicate 32 CHR ''d''\<rparr>"

definition demo_world :: client_world where
  "demo_world = \<lparr>cw_fs = demo_fs, cw_sent = []\<rparr>"

lemma demo_append_pair_law: "append_pair_law demo_client_env"
  by (simp add: append_pair_law_def demo_client_env_def)

lemma demo_client_sign:
  "fst (client_sign demo_client_env ''https://signer/'' demo_sign_args demo_world) = Ok ''c2ln''"
  "length (cw_sent (snd (client_sign demo_client_env ''https://signer/'' demo_sign_args demo_world))) = 2"
  by code_simp+


theorem client_sign_sound_witness:
  "\<exists>endpoint w' sent token response.
     client_sign demo_client_env ''https://signer/'' demo_sign_args demo_world = (Ok ''c2ln'', w')
   \<and> signer_endpoint demo_client_env ''https://signer/'' ''v1/sign/k'' endpoint
   \<and> cw_sent w' = sent @ [sign_request endpoint token (replicate 32 CHR ''d'')]
   \<and> cn_net demo_client_env sent (sign_request endpoint token (replicate 32 CHR ''d'')) = Some response
   \<and> is_success_status (cr_status response)"
proof -
  obtain w' where run:
      "client_sign demo_client_env ''https://signer/'' demo_sign_args demo_world = (Ok ''c2ln'', w')"
    using demo_client_sign(1) by (metis prod.collapse)
  have "sn_key_id demo_sign_args = ''k''" "sn_digest demo_sign_args = replicate 32 CHR ''d''"
    by (simp_all add: demo_sign_args_def)
  with client_sign_sound [OF run] run show ?thesis by auto
qed

end
