(* ===== verification/End_To_End.thy ===== *)
theory End_To_End
  imports Wire_Format Server_Run Client_Facts
begin

text \<open>
  The commands of the program and the service together: the signing client of \<^verbatim>\<open>src/client.rs\<close> and the
  unlock command of \<^verbatim>\<open>src/main.rs\<close> talk to the routers of the running service.

  The network is what the service answers: a request that reaches it meets the state the service has at
  that time, after whatever requests of others, and may also get lost. The bodies are the JSON documents of
  \<open>Wire_Format\<close>, written and read by one JSON library.
\<close>

section \<open>The signing client and the public API\<close>

record ('h, 'd, 'sk) site =
  si_state :: "client_request list \<Rightarrow> ('h, 'sk) app_state"
  si_env :: "client_request list \<Rightarrow> ('h, 'd, 'sk) web_env"
  si_json :: json_text
  si_peer :: socket_addr

text \<open>
  A header value is text for the server if its bytes are visible characters, spaces or tabs
  (\<^verbatim>\<open>HeaderValue::to_str\<close>). The client sends no basic credentials.
\<close>

definition header_text :: "string \<Rightarrow> header_value" where
  "header_text s =
     (if list_all (\<lambda>c. c = CHR 0x09 \<or> 32 \<le> (of_char c :: nat) \<and> (of_char c :: nat) < 127) s
      then Visible s else Opaque)"

definition web_headers :: "client_request \<Rightarrow> header_map" where
  "web_headers r =
     \<lparr>authorization = (case cq_auth r of BearerAuth token \<Rightarrow> Some (header_text (''Bearer '' @ token)) | _ \<Rightarrow> None),
      content_type = (case cq_body r of NoBody \<Rightarrow> None | _ \<Rightarrow> Some (Visible ''application/json''))\<rparr>"

definition to_web :: "('h, 'd, 'sk) site \<Rightarrow> client_request \<Rightarrow> web_request" where
  "to_web site r =
     \<lparr>wr_method = cq_method r, wr_path = url_path (cq_url r), wr_headers = web_headers r,
      wr_body = client_body_text (si_json site) (cq_body r), wr_peer = si_peer site\<rparr>"

definition site_answer :: "('h, 'd, 'sk) site \<Rightarrow> client_request list \<Rightarrow> client_request \<Rightarrow> client_response" where
  "site_answer site sent r =
     (let resp = fst (public_router (si_env site sent) (to_web site r) (si_state site sent)) in
      \<lparr>cr_status = ws_status resp, cr_body = Some (web_body_text (si_json site) (ws_body resp))\<rparr>)"

text \<open>Signing requests of the client reach this service, if they reach anything.\<close>

definition connected :: "client_env \<Rightarrow> ('h, 'd, 'sk) site \<Rightarrow> bool" where
  "connected env site \<longleftrightarrow>
     (\<forall>sent r response. is_signing r \<and> cn_net env sent r = Some response \<longrightarrow> response = site_answer site sent r)"

text \<open>The states of the service are reachable from its start, by whatever requests.\<close>

definition serving ::
  "boot_env \<Rightarrow> string \<Rightarrow> config \<Rightarrow> 'd jwt_library \<Rightarrow> 'sk crypto \<Rightarrow> ('h, 'd, 'sk) site \<Rightarrow> bool" where
  "serving boot config_path c lib cr site \<longleftrightarrow>
     (\<exists>st0. start_service boot config_path = Ok (c, st0)
        \<and> (\<forall>sent. (service_step lib cr)\<^sup>*\<^sup>* st0 (si_state site sent)
             \<and> sg_crypto (we_sign (si_env site sent)) = cr \<and> ae_jwt (sg_actions (we_sign (si_env site sent))) = lib))"

text \<open>
  What is documented of the libraries: joining a relative path of ordinary segments to a base URL that ends
  in a slash appends it, percent-decoding keeps a text without percent signs, the JSON library reads what it
  wrote, and both sides decode base64 alike. Service and client read the types of their own. A segment \<^verbatim>\<open>.\<close> or \<^verbatim>\<open>..\<close> is removed by joining.
\<close>

definition codecs_agree :: "client_env \<Rightarrow> ('h, 'd, 'sk) site \<Rightarrow> bool" where
  "codecs_agree env site \<longleftrightarrow>
     (\<forall>base_url key_id u. cn_join env base_url (''v1/sign/'' @ key_id) = Some u \<and> valid_key_id key_id
        \<and> key_id \<noteq> ''.'' \<and> key_id \<noteq> ''..'' \<and> ends_with ''/'' (url_path base_url)
        \<longrightarrow> url_path u = url_path base_url @ ''v1/sign/'' @ key_id)
     \<and> (\<forall>sent s. CHR ''%'' \<notin> set s \<longrightarrow> we_percent_decode (si_env site sent) s = Some s)
     \<and> json_text_laws (si_json site)
     \<and> (\<forall>sent. sg_parse (we_sign (si_env site sent)) = from_slice (si_json site) de_signing_request)
     \<and> cn_parse_signature env = from_slice (si_json site) de_sign_response
     \<and> (\<forall>sent. sg_b64_decode (we_sign (si_env site sent)) = cn_b64_decode env)"

section \<open>Answers to signing requests\<close>

lemma sign_request_web:
  "to_web site (sign_request u token digest) =
     \<lparr>wr_method = HttpPost, wr_path = url_path u, wr_headers = web_headers (sign_request u token digest),
      wr_body = client_body_text (si_json site) (DigestBody digest), wr_peer = si_peer site\<rparr>"
  by (simp add: to_web_def sign_request_def)

lemma codecs_read:
  assumes "codecs_agree env site"
  shows "sg_parse (we_sign (si_env site sent)) (client_body_text (si_json site) (DigestBody digest)) = Some digest"
    and "cn_parse_signature env (web_body_text (si_json site) (SignatureBody signature)) = Some signature"
  using assms by (simp_all add: codecs_agree_def signing_request_read signature_read)

lemma auth_api_error_status: "400 \<le> er_status (auth_api_error e rid)"
  by (cases e) (simp_all add: api_error_new_def unauthorized_def)

lemma validate_signing_context_status: "validate_signing_context who = Err e \<Longrightarrow> 400 \<le> er_status e"
  by (auto simp: validate_signing_context_def without_request_id_def api_error_new_def
      split: auth_source.splits if_splits option.splits)

lemma validate_signing_request_status:
  assumes "store_wf keys" and "validate_signing_request keys authz decode who key_id digest = Err e"
  shows "400 \<le> er_status e"
  using assms(2) validate_signing_context_status [of who e]
  by (auto simp: validate_signing_request_def ks_get_wf [OF assms(1)] unknown_key_error_def policy_denied_error_def unprocessable_def
      without_request_id_def api_error_new_def and_then_eq_Err map_err_eq_Err ok_or_eq_Err
      split: if_splits option.splits)

lemma sign_authenticated_status:
  assumes "store_wf keys" and "fst (sign_authenticated env key_id body who keys authz) = Err e"
  shows "400 \<le> er_status e"
proof (cases "sg_parse env body")
  case None
  with assms(2) show ?thesis by (auto simp: sign_authenticated_def api_error_new_def Let_def)
next
  case (Some d64)
  show ?thesis
  proof (cases "validate_signing_request keys authz (sg_b64_decode env) who key_id d64")
    case (Ok digest)
    then show ?thesis
      using assms(2) Some
      by (auto simp: sign_authenticated_def api_error_new_def Let_def
          split: outcome.splits option.splits sign_error.splits)
  next
    case (Err e')
    then show ?thesis
      using assms(2) Some validate_signing_request_status [OF assms(1) Err]
      by (auto simp: sign_authenticated_def Let_def)
  qed (use assms(2) Some in \<open>simp add: sign_authenticated_def Let_def\<close>)
qed

lemma create_signature_status:
  assumes "store_wf (ap_keys st)" and "fst (create_signature env key_id headers body st) = Err e"
  shows "400 \<le> er_status e"
proof (cases "is_json_content_type headers")
  case True
  obtain r auth where a: "authenticate (sg_sha256 env) (sg_actions env) headers (ap_auth st) = (r, auth)" by fastforce
  show ?thesis
  proof (cases r)
    case (Ok who)
    then show ?thesis
      using assms True a sign_authenticated_status [of "ap_keys st" env key_id body who "ap_authz st" e]
      by (auto simp: create_signature_def Let_def split: prod.splits)
  qed (use assms(2) True a auth_api_error_status in \<open>auto simp: create_signature_def Let_def\<close>)
qed (use assms(2) in \<open>auto simp: create_signature_def api_error_new_def\<close>)

text \<open>A success of the signing route carries the signature of the handler.\<close>

lemma sign_route_success:
  assumes "store_wf (ap_keys st)" and "valid_key_id key_id" and "wr_method rq = HttpPost"
    and "wr_path rq = ''/v1/sign/'' @ key_id" and "we_percent_decode env key_id = Some key_id"
    and "is_success_status (ws_status (fst (public_router env rq st)))"
  shows "\<exists>sig. ws_body (fst (public_router env rq st)) = SignatureBody sig
    \<and> fst (create_signature (we_sign env) key_id (wr_headers rq) (wr_body rq) st) = Ok sig"
proof -
  have route: "public_route_of (wr_path rq) = Some (SignRoute key_id)"
    using valid_key_id_chars [OF assms(2)] assms(4) unfolding public_route_of_sign by blast
  obtain r st' audit where
    run: "create_signature (we_sign env) key_id (wr_headers rq) (wr_body rq) st = (r, st', audit)"
    by (metis prod_cases3)
  have "fst (public_router env rq st) =
      (if length (wr_body rq) > PUBLIC_BODY_LIMIT then plain_response 413 else respond signature_response r)"
    using route assms(3,5) run by (simp add: public_router_def)
  then show ?thesis
    using assms(6) run create_signature_status [OF assms(1), of "we_sign env" key_id "wr_headers rq" "wr_body rq"]
    by (cases r) (auto simp: is_success_status_def split: if_splits)
qed

lemma serving_inv:
  assumes "serving boot config_path c lib cr site"
  shows "service_inv c cr (si_state site sent)"
proof -
  from assms obtain st0 where "start_service boot config_path = Ok (c, st0)"
      "(service_step lib cr)\<^sup>*\<^sup>* st0 (si_state site sent)"
    unfolding serving_def by blast
  then show ?thesis using start_service_Ok [of boot config_path c st0 cr] sv.history by blast
qed

text \<open>
  C2: from the command line to the key. When the signing command of the client prints a signature and its
  requests reach a service that was started from a configuration file, then the service has, in some state
  it was in, made this signature with the key that the user named over the digest that the user gave; the
  bearer credential of the client identified a requester, one policy of that file lets this identity sign
  with this key, and the key is configured as active and holds what its own file decrypts to.
\<close>

theorem client_signature_covered:
  assumes serving: "serving boot config_path c lib cr site" and conn: "connected env site"
    and codecs: "codecs_agree env site"
    and base: "signer_base_url env address = Ok base_url" "url_path base_url = ''/''"
    and id: "sn_key_id args \<noteq> ''.''" "sn_key_id args \<noteq> ''..''"
    and run: "client_sign env address args w = (Ok signature, w')"
  shows "\<exists>sent request digest key raw who i p.
      cn_b64_decode env (sn_digest args) = Some digest \<and> length digest = 32
    \<and> find_key (ap_keys (si_state site sent)) (sn_key_id args) = Some key
    \<and> sign_digest cr (sg_rng (we_sign (si_env site sent))) key digest = Ok raw
    \<and> signature = sg_b64_encode (we_sign (si_env site sent)) raw
    \<and> is_signing request
    \<and> fst (authenticate (sg_sha256 (we_sign (si_env site sent))) (sg_actions (we_sign (si_env site sent)))
             (web_headers request) (ap_auth (si_state site sent))) = Ok who
    \<and> i \<in> set (cfg_identities c) \<and> p \<in> set (cfg_policies c)
    \<and> ic_id i = pr_identity_id who \<and> pc_identity p = ic_id i \<and> Sign \<in> set (pc_actions p)
    \<and> set (pc_keys p) \<inter> {''*'', sn_key_id args} \<noteq> {}
    \<and> (\<exists>config\<in>set (cfg_keys c). kc_id config = sn_key_id args \<and> kc_state config = Active)
    \<and> (\<exists>m passphrase. km_unlocked key = Some m \<and> decrypt cr key passphrase = Ok m)"
proof -
  let ?k = "sn_key_id args"
  from client_sign_Ok [OF run] base(1) obtain endpoint sent token response where
      key: "valid_key_id ?k" and join: "cn_join env base_url (''v1/sign/'' @ ?k) = Some endpoint"
    and net: "cn_net env sent (sign_request endpoint token (sn_digest args)) = Some response"
    and ok: "is_success_status (cr_status response)"
    and sig: "Option.bind (cr_body response) (cn_parse_signature env) = Some signature"
    by (metis outcome.inject(1))
  define rq where "rq = sign_request endpoint token (sn_digest args)"
  define st where "st = si_state site sent"
  define wenv where "wenv = si_env site sent"
  have resp: "response = site_answer site sent rq" using conn net by (simp add: connected_def rq_def)
  have "ends_with ''/'' (url_path base_url)" by (simp add: base(2) ends_with_def)
  with join key id have "url_path endpoint = url_path base_url @ ''v1/sign/'' @ ?k"
    using conjunct1 [OF codecs [unfolded codecs_agree_def]] by blast
  then have path: "url_path endpoint = ''/v1/sign/'' @ ?k" by (simp add: base(2))
  have dec: "we_percent_decode wenv ?k = Some ?k"
    using codecs valid_key_id_chars(3) [OF key] by (simp add: codecs_agree_def wenv_def)
  have inv: "service_inv c cr st" using serving_inv [OF serving] by (simp add: st_def)
  then have wf: "store_wf (ap_keys st)" by (simp add: service_inv_def store_inv_def)
  obtain s where body: "ws_body (fst (public_router wenv (to_web site rq) st)) = SignatureBody s"
    and made: "fst (create_signature (we_sign wenv) ?k (web_headers rq)
        (client_body_text (si_json site) (DigestBody (sn_digest args))) st) = Ok s"
    using sign_route_success [OF wf key, of "to_web site rq" wenv] ok path dec
    by (auto simp: resp site_answer_def Let_def rq_def sign_request_web st_def wenv_def)
  have "s = signature"
    using sig body codecs_read [OF codecs] by (simp add: resp site_answer_def Let_def st_def wenv_def)
  note made = made [unfolded this]
  have lib: "sg_crypto (we_sign wenv) = cr" using serving by (auto simp: serving_def wenv_def)
  from made [unfolded create_signature_Ok [OF wf]] obtain digest k raw where
      parts: "cn_b64_decode env (sn_digest args) = Some digest" "length digest = 32"
        "find_key (ap_keys st) ?k = Some k" "sign_digest cr (sg_rng (we_sign wenv)) k digest = Ok raw"
        "signature = sg_b64_encode (we_sign wenv) raw"
    using codecs_read [OF codecs] codecs lib by (auto simp: codecs_agree_def wenv_def find_key_def)
  obtain st0 where start: "start_service boot config_path = Ok (c, st0)" "(service_step lib cr)\<^sup>*\<^sup>* st0 st"
    using serving unfolding serving_def st_def by blast
  have "is_signing rq" by (simp add: rq_def)
  with signature_covered [OF start made] parts show ?thesis
    unfolding st_def wenv_def by (elim exE conjE) (intro exI conjI, (assumption | simp)+)
qed

section \<open>A client that signs with its session\<close>

definition json_sign_env :: "(string, unit, nat) sign_env" where
  "json_sign_env = demo_sign_env\<lparr>sg_parse := from_slice plain_json de_signing_request\<rparr>"

definition demo_site :: "(string, nat) app_state \<Rightarrow> (string, unit, nat) site" where
  "demo_site st =
     \<lparr>si_state = \<lambda>_. st, si_env = \<lambda>_. demo_web_env\<lparr>we_sign := json_sign_env\<rparr>, si_json = plain_json,
      si_peer = \<lparr>sa_ip = demo_source, sa_port = 1\<rparr>\<rparr>"

definition site_client :: "(string, nat) app_state \<Rightarrow> client_env" where
  "site_client st =
     demo_client_env\<lparr>cn_net := \<lambda>sent r. Some (site_answer (demo_site st) sent r), cn_runner_url := None,
       cn_parse_signature := from_slice plain_json de_sign_response\<rparr>"

definition session_args :: sign_args where
  "session_args =
     \<lparr>sn_key_id = ''microtun-firmware-prod'', sn_token = Some ''mts_random'', sn_github_login = False,
      sn_github_actions = False, sn_audience = None, sn_digest = demo_digest\<rparr>"

definition session_request :: client_request where
  "session_request =
     sign_request (demo_url\<lparr>url_path := ''/v1/sign/microtun-firmware-prod''\<rparr>) ''mts_random'' demo_digest"

lemma session_request_headers:
  "is_json_content_type (web_headers session_request)" "bearer_token (web_headers session_request) = Ok ''mts_random''"
  by code_simp+

lemma demo_site_codecs: "codecs_agree (site_client st) (demo_site st)"
  by (simp add: codecs_agree_def site_client_def demo_site_def demo_client_env_def demo_web_env_def demo_sign_env_def
      json_sign_env_def plain_json_laws)

lemma demo_site_connected: "connected (site_client st) (demo_site st)"
  by (simp add: connected_def site_client_def)

lemma demo_site_serving:
  "(service_step (ae_jwt demo_actions_env) demo_crypto)\<^sup>*\<^sup>* demo_start st \<Longrightarrow>
     serving demo_boot ''config.toml'' example_config (ae_jwt demo_actions_env) demo_crypto (demo_site st)"
  using demo_started by (auto simp: serving_def demo_site_def demo_web_env_def demo_sign_env_def json_sign_env_def)

lemma sign_authenticated_parse:
  "q body' = sg_parse env body \<Longrightarrow>
     sign_authenticated (env\<lparr>sg_parse := q\<rparr>) key_id body' who keys authz = sign_authenticated env key_id body who keys authz"
  by (simp add: sign_authenticated_def sign_audit_def Let_def split: option.split outcome.split sign_error.split)

lemma create_signature_parse:
  "q body' = sg_parse env body \<Longrightarrow>
     fst (create_signature (env\<lparr>sg_parse := q\<rparr>) key_id headers body' st) = fst (create_signature env key_id headers body st)"
  by (simp add: create_signature_def sign_authenticated_parse anonymous_sign_audit_def Let_def
      split: prod.split outcome.split)

lemma session_signed:
  assumes "fst (create_signature demo_sign_env ''microtun-firmware-prod'' (web_headers session_request) demo_digest st)
      = Ok demo_digest"
  shows "fst (client_sign (site_client st) ''https://signer/'' session_args \<lparr>cw_fs = demo_fs, cw_sent = []\<rparr>)
      = Ok demo_digest"
proof -
  let ?body = "client_body_text plain_json (DigestBody demo_digest)"
  have "public_route_of ''/v1/sign/microtun-firmware-prod'' = Some (SignRoute ''microtun-firmware-prod'')"
    by code_simp
  moreover have "fst (create_signature json_sign_env ''microtun-firmware-prod'' (web_headers session_request) ?body st)
      = Ok demo_digest"
    using assms create_signature_parse [of "from_slice plain_json de_signing_request" ?body demo_sign_env demo_digest]
    by (simp add: json_sign_env_def signing_request_read plain_json_laws demo_sign_env_def)
  moreover have "length ?body < 100" by code_simp
  ultimately have "site_answer (demo_site st) [] session_request
      = \<lparr>cr_status = 200, cr_body = Some (web_body_text plain_json (SignatureBody demo_digest))\<rparr>"
    by (auto simp: site_answer_def demo_site_def to_web_def session_request_def sign_request_def public_router_def
        demo_web_env_def PUBLIC_BODY_LIMIT_def Let_def split: prod.splits)
  moreover have "valid_key_id ''microtun-firmware-prod''" by code_simp
  ultimately show ?thesis
    by (simp add: client_sign_def next_do_def done_with_def check_sign_args_def validate_key_id_def Let_def
        should_use_github_actions_def session_args_def site_client_def demo_client_env_def demo_digest_def
        signer_base_url_def demo_url_def ends_with_def public_api_client_def choose_token_def
        request_signature_def send_signing_request_def send_def session_request_def expect_json_def
        is_success_status_def signature_read plain_json_laws)
qed

theorem client_signature_covered_witness:
  "\<exists>st w' key raw. client_sign (site_client st) ''https://signer/'' session_args \<lparr>cw_fs = demo_fs, cw_sent = []\<rparr>
      = (Ok demo_digest, w')
   \<and> find_key (ap_keys st) ''microtun-firmware-prod'' = Some key
   \<and> sign_digest demo_crypto [] key demo_digest = Ok raw"
proof -
  obtain st where reach: "(service_step (ae_jwt demo_actions_env) demo_crypto)\<^sup>*\<^sup>* demo_start st"
    and sign: "\<forall>headers. is_json_content_type headers \<longrightarrow> bearer_token headers = Ok ''mts_random'' \<longrightarrow>
       fst (create_signature demo_sign_env ''microtun-firmware-prod'' headers demo_digest st) = Ok demo_digest"
    by (rule demo_signing_state)
  obtain w' where run: "client_sign (site_client st) ''https://signer/'' session_args
      \<lparr>cw_fs = demo_fs, cw_sent = []\<rparr> = (Ok demo_digest, w')"
    using session_signed sign session_request_headers by (metis prod.collapse)
  have base: "signer_base_url (site_client st) ''https://signer/'' = Ok (demo_url\<lparr>url_as_str := ''https://signer/''\<rparr>)"
    "url_path (demo_url\<lparr>url_as_str := ''https://signer/''\<rparr>) = ''/''"
    by (simp_all add: signer_base_url_def site_client_def demo_client_env_def demo_url_def ends_with_def)
  have id: "sn_key_id session_args = ''microtun-firmware-prod''" "sn_digest session_args = demo_digest"
    by (simp_all add: session_args_def)
  have names: "sn_key_id session_args \<noteq> ''.''" "sn_key_id session_args \<noteq> ''..''" by (simp_all add: id)
  from client_signature_covered [OF demo_site_serving [OF reach] demo_site_connected demo_site_codecs base names run]
  obtain sent key raw digest where
    "cn_b64_decode (site_client st) (sn_digest session_args) = Some digest"
    "find_key (ap_keys (si_state (demo_site st) sent)) (sn_key_id session_args) = Some key"
    "sign_digest demo_crypto (sg_rng (we_sign (si_env (demo_site st) sent))) key digest = Ok raw"
    by (elim exE conjE) (erule (2) that)
  then show ?thesis
    using run
    by (auto simp: id demo_site_def site_client_def demo_client_env_def demo_web_env_def demo_sign_env_def json_sign_env_def)
qed

end
