(* ===== verification/Shutdown.thy ===== *)
theory Shutdown
  imports Server_Run
begin

text \<open>
  The end of the service, from \<^verbatim>\<open>run_server\<close>, \<^verbatim>\<open>shutdown_signal\<close> and \<^verbatim>\<open>wait_for_shutdown\<close> in \<^verbatim>\<open>src/main.rs\<close>: a task
  waits for a signal and then sends \<^verbatim>\<open>true\<close> over a watch channel, and each of the two servers waits on a
  receiver of that channel.

  What is used of the channel (\<^verbatim>\<open>tokio::sync::watch\<close>): it keeps the last value and a version number that each
  send increases; a receiver remembers the version it has seen; \<^verbatim>\<open>changed\<close> returns when there is a newer
  version, fails when there is none and the sender is gone, and otherwise waits. The tasks run
  interleaved, one step at a time. That the handler of the signal cannot be installed is a panic of the
  task, which drops the sender.
\<close>

section \<open>Tasks\<close>

datatype signal_task = AwaitSignal | SignalSeen | SignalSent | TaskEnded

datatype wait_task =
    WaitBegin nat
  | AwaitChange nat
  | ReadValue nat
  | WaitDone

record shutdown_state =
  sd_value :: bool
  sd_version :: nat
  sd_closed :: bool
  sd_signal :: signal_task
  sd_waits :: "wait_task list"

definition shutdown_new :: shutdown_state where
  "shutdown_new =
     \<lparr>sd_value = False, sd_version = 0, sd_closed = False, sd_signal = AwaitSignal,
      sd_waits = [WaitBegin 0, WaitBegin 0]\<rparr>"

text \<open>\<^verbatim>\<open>wait_for_shutdown\<close>, up to its next access to the channel; \<open>None\<close> while it waits or after it returned.\<close>

fun wait_for_shutdown :: "shutdown_state \<Rightarrow> wait_task \<Rightarrow> wait_task option" where
  "wait_for_shutdown s (WaitBegin seen) = Some (if sd_value s then WaitDone else AwaitChange seen)"
| "wait_for_shutdown s (AwaitChange seen) =
     (if sd_version s \<noteq> seen then Some (ReadValue (sd_version s))
      else if sd_closed s then Some WaitDone else None)"
| "wait_for_shutdown s (ReadValue seen) = Some (if sd_value s then WaitDone else AwaitChange seen)"
| "wait_for_shutdown s WaitDone = None"

text \<open>
  \<^verbatim>\<open>shutdown_signal\<close> and the task around it. A signal comes from outside; so does the failure to install the
  handler of \<^verbatim>\<open>SIGTERM\<close>.
\<close>

definition signal_arrives :: "shutdown_state \<Rightarrow> shutdown_state" where
  "signal_arrives s = s\<lparr>sd_signal := SignalSeen\<rparr>"

definition handler_fails :: "shutdown_state \<Rightarrow> shutdown_state" where
  "handler_fails s = s\<lparr>sd_signal := TaskEnded, sd_closed := True\<rparr>"

definition send_true :: "shutdown_state \<Rightarrow> shutdown_state" where
  "send_true s = s\<lparr>sd_value := True, sd_version := Suc (sd_version s), sd_signal := SignalSent\<rparr>"

definition drop_sender :: "shutdown_state \<Rightarrow> shutdown_state" where
  "drop_sender s = s\<lparr>sd_signal := TaskEnded, sd_closed := True\<rparr>"

inductive shutdown_internal :: "shutdown_state \<Rightarrow> shutdown_state \<Rightarrow> bool" where
  sending: "sd_signal s = SignalSeen \<Longrightarrow> shutdown_internal s (send_true s)"
| dropping: "sd_signal s = SignalSent \<Longrightarrow> shutdown_internal s (drop_sender s)"
| waiting: "i < length (sd_waits s) \<Longrightarrow> wait_for_shutdown s (sd_waits s ! i) = Some t \<Longrightarrow>
    shutdown_internal s (s\<lparr>sd_waits := (sd_waits s)[i := t]\<rparr>)"

inductive shutdown_step :: "shutdown_state \<Rightarrow> shutdown_state \<Rightarrow> bool" where
  signal: "sd_signal s = AwaitSignal \<Longrightarrow> shutdown_step s (signal_arrives s)"
| failure: "sd_signal s = AwaitSignal \<Longrightarrow> shutdown_step s (handler_fails s)"
| internal: "shutdown_internal s s' \<Longrightarrow> shutdown_step s s'"

section \<open>The invariant\<close>

text \<open>
  Before the task has seen a signal, nothing is sent and no server stops. A receiver has seen no version
  that does not exist, and one that has seen the last one has read it.
\<close>

fun wait_ok :: "shutdown_state \<Rightarrow> wait_task \<Rightarrow> bool" where
  "wait_ok s (WaitBegin seen) \<longleftrightarrow> seen = 0"
| "wait_ok s (AwaitChange seen) \<longleftrightarrow> seen = 0"
| "wait_ok s (ReadValue seen) \<longleftrightarrow> sd_value s \<and> seen = sd_version s"
| "wait_ok s WaitDone \<longleftrightarrow> sd_signal s \<noteq> AwaitSignal"

definition shutdown_inv :: "shutdown_state \<Rightarrow> bool" where
  "shutdown_inv s \<longleftrightarrow>
     (sd_value s \<longleftrightarrow> 0 < sd_version s)
     \<and> (sd_value s \<longrightarrow> sd_signal s = SignalSent \<or> sd_signal s = TaskEnded)
     \<and> (sd_closed s \<longleftrightarrow> sd_signal s = TaskEnded)
     \<and> (sd_signal s = SignalSent \<longrightarrow> sd_value s)
     \<and> (\<forall>t\<in>set (sd_waits s). wait_ok s t)"

lemma shutdown_inv_new: "shutdown_inv shutdown_new"
  by (simp add: shutdown_inv_def shutdown_new_def)

lemma wait_ok_change:
  assumes "wait_ok s t" and "sd_value s' = sd_value s" "sd_version s' = sd_version s"
    and "sd_signal s' \<noteq> AwaitSignal \<or> sd_signal s = AwaitSignal"
  shows "wait_ok s' t"
  using assms by (cases t) auto

lemma wait_ok_step:
  assumes "shutdown_inv s" and "wait_ok s t" and "wait_for_shutdown s t = Some t'"
  shows "wait_ok s t'"
  using assms by (cases t) (auto simp: shutdown_inv_def split: if_splits)

lemma shutdown_inv_internal:
  assumes "shutdown_internal s s'" and "shutdown_inv s"
  shows "shutdown_inv s'"
  using assms
proof (cases rule: shutdown_internal.cases)
  case sending
  have "wait_ok (send_true s) t" if "t \<in> set (sd_waits s)" for t
    using assms(2) that sending(2) by (cases t) (auto simp: shutdown_inv_def send_true_def)
  then show ?thesis using assms(2) sending by (auto simp: shutdown_inv_def send_true_def)
next
  case dropping
  then show ?thesis
    using assms(2) by (auto simp: shutdown_inv_def drop_sender_def intro: wait_ok_change [of s])
next
  case (waiting i t)
  have "wait_ok s t" using wait_ok_step [OF assms(2) _ waiting(3)] assms(2) waiting(2) by (simp add: shutdown_inv_def)
  then show ?thesis
    using assms(2) waiting(1)
    by (auto simp: shutdown_inv_def intro: wait_ok_change [of s] dest!: set_update_subset_insert [THEN subsetD])
qed

lemma shutdown_inv_step:
  assumes "shutdown_step s s'" and "shutdown_inv s"
  shows "shutdown_inv s'"
  using assms
proof (cases rule: shutdown_step.cases)
  case signal
  then show ?thesis
    using assms(2) by (auto simp: shutdown_inv_def signal_arrives_def intro: wait_ok_change [of s])
next
  case failure
  then show ?thesis
    using assms(2) by (auto simp: shutdown_inv_def handler_fails_def intro: wait_ok_change [of s])
qed (use shutdown_inv_internal assms(2) in blast)

lemma shutdown_reachable_inv:
  assumes "shutdown_step\<^sup>*\<^sup>* s s'" and "shutdown_inv s"
  shows "shutdown_inv s' \<and> length (sd_waits s') = length (sd_waits s)"
  using assms
proof (induction rule: rtranclp_induct)
  case (step s' s'')
  have "length (sd_waits s'') = length (sd_waits s')"
    using step(2)
    by (cases rule: shutdown_step.cases)
      (auto elim!: shutdown_internal.cases simp: signal_arrives_def handler_fails_def send_true_def drop_sender_def)
  then show ?case using step shutdown_inv_step by simp
qed simp

section \<open>Progress\<close>

fun signal_cost :: "signal_task \<Rightarrow> nat" where
  "signal_cost SignalSeen = 2"
| "signal_cost SignalSent = 1"
| "signal_cost _ = 0"

fun wait_cost :: "wait_task \<Rightarrow> nat" where
  "wait_cost (WaitBegin seen) = 3"
| "wait_cost (AwaitChange seen) = 2"
| "wait_cost (ReadValue seen) = 1"
| "wait_cost WaitDone = 0"

definition shutdown_cost :: "shutdown_state \<Rightarrow> nat" where
  "shutdown_cost s = signal_cost (sd_signal s) + sum_list (map wait_cost (sd_waits s))"

lemma wait_cost_le: "wait_cost t \<le> 3"
  by (cases t) simp_all

lemma shutdown_cost_le: "shutdown_cost s \<le> 2 + 3 * length (sd_waits s)"
proof -
  have "sum_list (map wait_cost ts) \<le> 3 * length ts" for ts
    by (induction ts) (use wait_cost_le in \<open>auto simp: add_mono\<close>)
  moreover have "signal_cost t \<le> 2" for t by (cases t) simp_all
  ultimately show ?thesis unfolding shutdown_cost_def by (intro add_mono)
qed

lemma wait_cost_step:
  "wait_ok s t \<Longrightarrow> wait_for_shutdown s t = Some t' \<Longrightarrow> wait_cost t' < wait_cost t"
  by (cases t) (auto split: if_splits)

lemma sum_list_update_less:
  fixes f :: "'a \<Rightarrow> nat"
  shows "i < length xs \<Longrightarrow> f x < f (xs ! i) \<Longrightarrow> sum_list (map f (xs[i := x])) < sum_list (map f xs)"
  by (induction xs arbitrary: i) (auto split: nat.splits)

lemma shutdown_cost_step:
  assumes "shutdown_internal s s'" and "shutdown_inv s"
  shows "shutdown_cost s' < shutdown_cost s"
  using assms(1)
proof (cases rule: shutdown_internal.cases)
  case (waiting i t)
  then have "wait_cost t < wait_cost (sd_waits s ! i)"
    using assms(2) by (intro wait_cost_step) (auto simp: shutdown_inv_def)
  then show ?thesis using waiting sum_list_update_less [of i "sd_waits s"] by (simp add: shutdown_cost_def)
qed (simp_all add: shutdown_cost_def send_true_def drop_sender_def)

lemma shutdown_run_bounded:
  assumes "(shutdown_internal ^^ n) s s'" and "shutdown_inv s"
  shows "shutdown_inv s' \<and> n + shutdown_cost s' \<le> shutdown_cost s"
  using assms(1)
proof (induction n arbitrary: s')
  case 0
  then show ?case using assms(2) by simp
next
  case (Suc n)
  then obtain s1 where s1: "(shutdown_internal ^^ n) s s1" "shutdown_internal s1 s'" by auto
  note inv = Suc.IH [OF s1(1)]
  with shutdown_inv_internal [OF s1(2)] shutdown_cost_step [OF s1(2)] show ?case by auto
qed

lemma signal_stays:
  "(shutdown_internal ^^ n) s s' \<Longrightarrow> sd_signal s \<noteq> AwaitSignal \<Longrightarrow> sd_signal s' \<noteq> AwaitSignal"
proof (induction n arbitrary: s')
  case (Suc n)
  then obtain s1 where s1: "(shutdown_internal ^^ n) s s1" "shutdown_internal s1 s'" by auto
  with Suc have "sd_signal s1 \<noteq> AwaitSignal" by blast
  with s1(2) show ?case by (cases rule: shutdown_internal.cases) (simp_all add: send_true_def drop_sender_def)
qed simp

lemma stuck_done:
  assumes inv: "shutdown_inv s" and sig: "sd_signal s \<noteq> AwaitSignal" and stuck: "\<nexists>s'. shutdown_internal s s'"
  shows "list_all (\<lambda>t. t = WaitDone) (sd_waits s)"
proof -
  have ended: "sd_signal s = TaskEnded"
    using sig stuck sending [of s] dropping [of s] by (cases "sd_signal s") auto
  have "t = WaitDone" if mem: "t \<in> set (sd_waits s)" for t
  proof -
    obtain i where i: "i < length (sd_waits s)" "sd_waits s ! i = t" using mem by (auto simp: in_set_conv_nth)
    have "wait_for_shutdown s t = None" using stuck waiting [OF i(1)] unfolding i(2) by (metis not_None_eq)
    then show ?thesis using inv ended by (cases t) (auto simp: shutdown_inv_def split: if_splits)
  qed
  then show ?thesis by (simp add: list_all_iff)
qed

text \<open>
  C8: the service stops when it is told to, and only then. In every interleaving, neither server begins its
  shutdown before a signal has come or the handler of the signal could not be installed; and once this
  has happened the tasks take at most eight more steps among themselves, and when none can take another
  step both servers have been told to stop. In particular the signal is not lost when it comes before
  a server has begun to wait for it, or between its look at the value and its wait for a change.
\<close>

theorem shutdown_stops_both_servers:
  assumes "shutdown_step\<^sup>*\<^sup>* shutdown_new s"
  shows "(WaitDone \<in> set (sd_waits s) \<longrightarrow> sd_signal s \<noteq> AwaitSignal)
    \<and> (sd_signal s \<noteq> AwaitSignal \<longrightarrow>
        (\<forall>n s'. (shutdown_internal ^^ n) s s' \<longrightarrow>
           n \<le> 8 \<and> ((\<nexists>s''. shutdown_internal s' s'') \<longrightarrow> sd_waits s' = [WaitDone, WaitDone])))"
proof (intro conjI impI allI)
  have inv: "shutdown_inv s" and len: "length (sd_waits s) = 2"
    using shutdown_reachable_inv [OF assms shutdown_inv_new] by (simp_all add: shutdown_new_def)
  show "sd_signal s \<noteq> AwaitSignal" if "WaitDone \<in> set (sd_waits s)"
    using inv that by (auto simp: shutdown_inv_def)
  fix n s'
  assume sig: "sd_signal s \<noteq> AwaitSignal" and run: "(shutdown_internal ^^ n) s s'"
  show "n \<le> 8" using shutdown_run_bounded [OF run inv] shutdown_cost_le [of s] len by linarith
  assume stuck: "\<nexists>s''. shutdown_internal s' s''"
  have "shutdown_step\<^sup>*\<^sup>* s s'"
    using relpowp_imp_rtranclp [OF run] mono_rtranclp [of shutdown_internal shutdown_step] internal by blast
  then have "length (sd_waits s') = 2" using shutdown_reachable_inv [OF _ inv] len by simp
  moreover have "list_all (\<lambda>t. t = WaitDone) (sd_waits s')"
    using stuck_done shutdown_run_bounded [OF run inv] signal_stays [OF run sig] stuck by blast
  ultimately show "sd_waits s' = [WaitDone, WaitDone]"
    by (cases "sd_waits s'" rule: list.exhaust; cases "tl (sd_waits s')") (auto simp: length_Suc_conv numeral_2_eq_2)
qed

section \<open>A signal after one server has begun to wait\<close>

definition signalled :: shutdown_state where
  "signalled =
     \<lparr>sd_value = False, sd_version = 0, sd_closed = False, sd_signal = SignalSeen,
      sd_waits = [AwaitChange 0, WaitBegin 0]\<rparr>"

definition stopped :: shutdown_state where
  "stopped =
     \<lparr>sd_value = True, sd_version = 1, sd_closed = True, sd_signal = TaskEnded, sd_waits = [WaitDone, WaitDone]\<rparr>"

lemma signalled_reached: "shutdown_step\<^sup>*\<^sup>* shutdown_new signalled"
proof -
  let ?s = "shutdown_new\<lparr>sd_waits := [AwaitChange 0, WaitBegin 0]\<rparr>"
  have "shutdown_step shutdown_new ?s"
    using internal [OF waiting [of 0 shutdown_new "AwaitChange 0"]] by (simp add: shutdown_new_def)
  moreover have "shutdown_step ?s signalled"
    using signal [of ?s] by (simp add: shutdown_new_def signal_arrives_def signalled_def)
  ultimately show ?thesis by (meson converse_rtranclp_into_rtranclp rtranclp.rtrancl_refl)
qed

lemma stopped_reached: "(shutdown_internal ^^ 5) signalled stopped"
proof -
  let ?s1 = "send_true signalled"
  let ?s2 = "?s1\<lparr>sd_waits := [ReadValue 1, WaitBegin 0]\<rparr>"
  let ?s3 = "?s1\<lparr>sd_waits := [WaitDone, WaitBegin 0]\<rparr>"
  let ?s4 = "?s1\<lparr>sd_waits := [WaitDone, WaitDone]\<rparr>"
  have "shutdown_internal signalled ?s1" by (rule sending) (simp add: signalled_def)
  moreover have "shutdown_internal ?s1 ?s2"
    using waiting [of 0 ?s1 "ReadValue 1"] by (simp add: send_true_def signalled_def)
  moreover have "shutdown_internal ?s2 ?s3"
    using waiting [of 0 ?s2 WaitDone] by (simp add: send_true_def signalled_def)
  moreover have "shutdown_internal ?s3 ?s4"
    using waiting [of 1 ?s3 WaitDone] by (simp add: send_true_def signalled_def)
  moreover have "shutdown_internal ?s4 stopped"
    using dropping [of ?s4] by (simp add: send_true_def signalled_def drop_sender_def stopped_def)
  ultimately have "(shutdown_internal ^^ Suc (Suc (Suc (Suc (Suc 0))))) signalled stopped"
    by (blast intro: relpowp_Suc_I2 relpowp_0_I)
  then show ?thesis by (simp add: eval_nat_numeral)
qed

lemma stopped_stuck: "\<nexists>s. shutdown_internal stopped s"
  by (auto elim!: shutdown_internal.cases simp: stopped_def nth_Cons split: nat.splits)

theorem shutdown_stops_both_servers_witness:
  "(shutdown_internal ^^ 5) signalled stopped \<and> (5 :: nat) \<le> 8 \<and> sd_waits stopped = [WaitDone, WaitDone]"
proof -
  have "sd_signal signalled \<noteq> AwaitSignal" by (simp add: signalled_def)
  with shutdown_stops_both_servers [OF signalled_reached] stopped_reached stopped_stuck show ?thesis by blast
qed

end
