(* ===== verification/Program.thy ===== *)
theory Program
  imports Unlock_Run End_To_End Shutdown
begin

text \<open>
  The program: its command line and the dispatch of \<^verbatim>\<open>main\<close> in \<^verbatim>\<open>src/main.rs\<close> to the service, the unlock
  command and the two commands of the signing client. What \<^verbatim>\<open>clap\<close> reads from the arguments and the
  environment is the input.
\<close>

record unlock_args =
  ul_key_id :: "string option"
  ul_keyring :: "string option"
  ul_socket :: "string option"

datatype commands =
    ServeCommand
  | UnlockCommand unlock_args
  | SignCommand sign_args
  | PublicKeyCommand string

record cli =
  cli_config :: "string option"
  cli_url :: "string option"
  cli_command :: commands

definition DEFAULT_CONFIG_PATH :: string where
  "DEFAULT_CONFIG_PATH = ''/etc/microtun-signer/config.toml''"

datatype program_error =
    ServeFailed server_error
  | UnlockFailed cli_error
  | UrlRequired
  | ClientFailed client_error

record ('h, 'sk) program_env =
  pg_server :: server_env
  pg_serve :: "config \<Rightarrow> ('h, 'sk) app_state \<Rightarrow> local_fs \<Rightarrow> bool \<times> local_fs"
  pg_unlock :: unlock_env
  pg_client :: client_env

text \<open>The result is what is printed; the world has the files and what the client has sent.\<close>

definition main ::
  "('h, 'sk) program_env \<Rightarrow> cli \<Rightarrow> client_world
   \<Rightarrow> (program_error, string list) outcome \<times> client_world \<times> admin_request list" where
  "main env args w =
     (case cli_command args of
        ServeCommand \<Rightarrow>
          (case run_server (pg_server env) (pg_serve env)
                  (case cli_config args of None \<Rightarrow> DEFAULT_CONFIG_PATH | Some path \<Rightarrow> path) (cw_fs w) of
             (r, fs) \<Rightarrow> (and_then (map_err ServeFailed r) (\<lambda>_. Ok []), w\<lparr>cw_fs := fs\<rparr>, []))
      | UnlockCommand ul \<Rightarrow>
          (case unlock_command (sr_boot (pg_server env)) (pg_unlock env) (sr_fault (pg_server env)) (cw_fs w)
                  (ul_key_id ul) (ul_keyring ul) (ul_socket ul) (cli_config args) of
             (r, requests) \<Rightarrow> (map_err UnlockFailed r, w, requests))
      | SignCommand sign \<Rightarrow>
          (case cli_url args of
             None \<Rightarrow> (Err UrlRequired, w, [])
           | Some url \<Rightarrow>
               (case client_sign (pg_client env) url sign w of
                  (r, w') \<Rightarrow> (and_then (map_err ClientFailed r) (\<lambda>line. Ok [line]), w', [])))
      | PublicKeyCommand key_id \<Rightarrow>
          (case cli_url args of
             None \<Rightarrow> (Err UrlRequired, w, [])
           | Some url \<Rightarrow>
               (case client_public_key (pg_client env) url key_id w of
                  (r, w') \<Rightarrow> (and_then (map_err ClientFailed r) (\<lambda>pem. Ok [pem]), w', []))))"

section \<open>Separation of the commands\<close>

text \<open>
  The unlock command reads the configuration of the service only when it is named explicitly and the socket
  is not: otherwise its run is the same whatever the configuration and the key files are, so that an
  operator needs no access to them.
\<close>

lemma resolve_admin_socket_config:
  assumes "socket \<noteq> None \<or> config_path = None"
  shows "resolve_admin_socket boot fault fs socket config_path = resolve_admin_socket boot' fault fs socket config_path"
  using assms by (cases socket) (auto simp: resolve_admin_socket_def)

lemma unlock_needs_no_config:
  assumes "cli_command args = UnlockCommand ul" and "ul_socket ul \<noteq> None \<or> cli_config args = None"
  shows "main (env\<lparr>pg_server := pg_server env\<lparr>sr_boot := boot'\<rparr>\<rparr>) args w = main env args w"
  using assms resolve_admin_socket_config [OF assms(2), of boot' _ _ "sr_boot (pg_server env)"]
  by (simp add: main_def unlock_command_def)

text \<open>The unlock command changes no file, and the commands of the client make no admin request.\<close>

lemma unlock_changes_no_file:
  "cli_command args = UnlockCommand ul \<Longrightarrow> fst (snd (main env args w)) = w"
  by (simp add: main_def split: prod.split)

lemma client_makes_no_admin_request:
  "cli_command args = SignCommand sign \<or> cli_command args = PublicKeyCommand key_id \<Longrightarrow>
     snd (snd (main env args w)) = []"
  by (auto simp: main_def split: prod.split option.split)

lemma url_required:
  "cli_url args = None \<Longrightarrow> cli_command args = SignCommand sign \<or> cli_command args = PublicKeyCommand key_id \<Longrightarrow>
     main env args w = (Err UrlRequired, w, [])"
  by (auto simp: main_def)

end
