(* ===== verification/Unlock_Queue.thy ===== *)
theory Unlock_Queue
  imports Key_Concurrency
begin

text \<open>
  The state of the admin API (\<^verbatim>\<open>AdminState\<close> of \<^verbatim>\<open>src/api.rs\<close>): the key store and a semaphore with one permit.
  An unlock request waits for the permit, in the order of arrival; the permit goes into the blocking task
  and is given back when that task ends. A client that disconnects takes its request out of the queue; the
  task of a request that holds the permit goes on.

  \<open>Key_Concurrency\<close> allows every interleaving of the tasks. Here the semaphore is part of the state, and the
  tasks are served one after the other: the store and the answers are those of the sequential operations
  in the order of the queue, and the queue is always worked off.
\<close>

section \<open>The state and its steps\<close>

record 'sk admin_world =
  aw_store :: "'sk key_store"
  aw_permits :: nat
  aw_waiting :: "'sk task list"
  aw_running :: "('sk task \<times> 'sk task) list"
  aw_served :: "('sk task \<times> 'sk task) list"

text \<open>
  A running request is kept with the task it has become, a served one with its result; \<open>aw_served\<close> is the
  history that the properties speak of.
\<close>

definition admin_state_new :: "'sk key_store \<Rightarrow> 'sk admin_world" where
  "admin_state_new keys =
     \<lparr>aw_store = keys, aw_permits = 1, aw_waiting = [], aw_running = [], aw_served = []\<rparr>"

inductive internal_step :: "'sk crypto \<Rightarrow> 'sk admin_world \<Rightarrow> 'sk admin_world \<Rightarrow> bool" for cr where
  acquire: "aw_waiting w = t # ts \<Longrightarrow> aw_permits w = Suc n \<Longrightarrow>
     internal_step cr w (w\<lparr>aw_permits := n, aw_waiting := ts, aw_running := aw_running w @ [(t, t)]\<rparr>)"
| advance: "i < length (aw_running w) \<Longrightarrow> aw_running w ! i = (r, t) \<Longrightarrow>
     task_step cr (aw_store w) t = Some (t', store) \<Longrightarrow>
     internal_step cr w (w\<lparr>aw_store := store, aw_running := (aw_running w)[i := (r, t')]\<rparr>)"
| release: "i < length (aw_running w) \<Longrightarrow> aw_running w ! i = (r, t) \<Longrightarrow>
     task_step cr (aw_store w) t = None \<Longrightarrow>
     internal_step cr w (w\<lparr>aw_permits := Suc (aw_permits w),
       aw_running := take i (aw_running w) @ drop (Suc i) (aw_running w), aw_served := aw_served w @ [(r, t)]\<rparr>)"

inductive admin_world_step :: "'sk crypto \<Rightarrow> 'sk admin_world \<Rightarrow> 'sk admin_world \<Rightarrow> bool" for cr where
  arrive: "request_ok (aw_store w) t \<Longrightarrow> admin_world_step cr w (w\<lparr>aw_waiting := aw_waiting w @ [t]\<rparr>)"
| disconnect: "i < length (aw_waiting w) \<Longrightarrow>
     admin_world_step cr w (w\<lparr>aw_waiting := take i (aw_waiting w) @ drop (Suc i) (aw_waiting w)\<rparr>)"
| internal: "internal_step cr w w' \<Longrightarrow> admin_world_step cr w w'"

text \<open>The sequential operations, and a sequence of them.\<close>

fun serve :: "'sk crypto \<Rightarrow> 'sk key_store \<Rightarrow> 'sk task \<Rightarrow> 'sk task \<times> 'sk key_store" where
  "serve cr store (UnlockKey p pw) =
     (let (r, k) = unlock cr (ks_keys store ! p) pw in (UnlockDone r, update_key store p k))"
| "serve cr store (UnlockRing name pw) =
     (let (r, store') = unlock_keyring cr store name pw in (RingDone r, store'))"
| "serve cr store t = (t, store)"

fun serve_all :: "'sk crypto \<Rightarrow> 'sk key_store \<Rightarrow> 'sk task list \<Rightarrow> 'sk task list \<times> 'sk key_store" where
  "serve_all cr store [] = ([], store)"
| "serve_all cr store (t # ts) =
     (let (t', store1) = serve cr store t; (ts', store2) = serve_all cr store1 ts in (t' # ts', store2))"

lemma serve_all_append:
  "serve_all cr store (ts @ us) =
     (let (ts', store1) = serve_all cr store ts; (us', store2) = serve_all cr store1 us in (ts' @ us', store2))"
  by (induction ts arbitrary: store) (auto simp: Let_def split: prod.splits)

section \<open>A task that holds the permit\<close>

fun task_cost :: "'sk key_store \<Rightarrow> 'sk task \<Rightarrow> nat" where
  "task_cost store (UnlockKey p pw) = 3"
| "task_cost store (UnlockDecrypting p pw) = 2"
| "task_cost store (UnlockInstalling p m) = 1"
| "task_cost store (UnlockDone r) = 0"
| "task_cost store (UnlockRing name pw) = length (keyring_positions store name) + 3"
| "task_cost store (RingScanning name pw ps rs) = length ps + 2"
| "task_cost store (RingInstalling name pw rs) = 1"
| "task_cost store (RingDone r) = 0"

lemma task_cost_extends: "store_extends s s' \<Longrightarrow> task_cost s' t = task_cost s t"
  by (cases t) (simp_all add: store_extends_same(2))

lemma task_step_None: "task_step cr s t = None \<longleftrightarrow> task_cost s t = 0"
proof (cases t)
  case (RingScanning name pw ps rs)
  then show ?thesis by (cases ps) simp_all
qed (auto split: prod.splits)

lemma task_step_cost: "task_step cr s t = Some (t', s') \<Longrightarrow> task_cost s t' < task_cost s t"
proof (cases t)
  case (RingScanning name pw ps rs)
  then show "task_step cr s t = Some (t', s') \<Longrightarrow> ?thesis" by (cases ps) auto
qed (auto split: prod.splits option.splits outcome.splits if_splits)

lemma run_task_add: "run_task (j + k) cr s t = (case run_task j cr s t of (t', s') \<Rightarrow> run_task k cr s' t')"
proof (induction j arbitrary: s t)
  case (Suc j)
  then show ?case
  proof (cases "task_step cr s t")
    case None
    then show ?thesis by (cases k) simp_all
  qed (simp split: prod.splits)
qed simp

lemma run_key:
  assumes "p < length (ks_keys store)"
  shows "run_task 3 cr store (UnlockKey p pw) = serve cr store (UnlockKey p pw)"
  using assms
  by (auto simp: numeral_eq_Suc unlock_def update_key_def split: option.splits outcome.splits prod.splits)

lemma run_request:
  assumes "store_wf store" and "request_ok store t" and "task_cost store t \<le> n"
  shows "run_task n cr store t = serve cr store t"
proof -
  from assms(3) obtain d where n: "n = task_cost store t + d" by (metis le_Suc_ex)
  show ?thesis
  proof (cases t)
    case (UnlockKey p pw)
    then show ?thesis
      using run_key [of p store cr pw] assms(2) by (simp add: n run_task_add split: prod.splits)
  next
    case (UnlockRing name pw)
    then show ?thesis using run_ring [OF assms(1), of name d cr pw] by (simp add: n split: prod.split)
  qed (use assms(2) in auto)
qed

lemma run_finished:
  assumes "store_wf s0" and "request_ok s0 r" and "run_task k cr s0 r = (t, s)" and "task_step cr s t = None"
  shows "serve cr s0 r = (t, s)"
proof -
  have "run_task j cr s t = (t, s)" for j using assms(4) by (cases j) simp_all
  then have "run_task (k + task_cost s0 r) cr s0 r = (t, s)" using assms(3) by (simp add: run_task_add)
  then show ?thesis using run_request [OF assms(1,2), of "k + task_cost s0 r" cr] by simp
qed

section \<open>The invariant\<close>

text \<open>
  \<open>store0\<close> is the store the service started with, \<open>s0\<close> the one that the served requests have left.
\<close>

definition running_ok :: "'sk crypto \<Rightarrow> 'sk key_store \<Rightarrow> 'sk admin_world \<Rightarrow> bool" where
  "running_ok cr s0 w \<longleftrightarrow>
     (case aw_running w of
        [] \<Rightarrow> aw_permits w = 1 \<and> aw_store w = s0
      | [(r, t)] \<Rightarrow> aw_permits w = 0 \<and> request_ok s0 r \<and> task_ok cr (aw_store w) t
          \<and> (\<exists>k. run_task k cr s0 r = (t, aw_store w))
      | _ \<Rightarrow> False)"

definition queue_inv :: "'sk crypto \<Rightarrow> 'sk key_store \<Rightarrow> 'sk admin_world \<Rightarrow> bool" where
  "queue_inv cr store0 w \<longleftrightarrow>
     store_inv cr (aw_store w) \<and> list_all (request_ok (aw_store w)) (aw_waiting w)
     \<and> (\<exists>s0. store_inv cr s0 \<and> store_extends s0 (aw_store w) \<and> running_ok cr s0 w
          \<and> serve_all cr store0 (map fst (aw_served w)) = (map snd (aw_served w), s0))"

lemma running_ok_Nil:
  "aw_running w = [] \<Longrightarrow> running_ok cr s0 w \<longleftrightarrow> aw_permits w = 1 \<and> aw_store w = s0"
  by (simp add: running_ok_def)

lemma running_ok_single:
  "aw_running w = [(r, t)] \<Longrightarrow> running_ok cr s0 w \<longleftrightarrow>
     aw_permits w = 0 \<and> request_ok s0 r \<and> task_ok cr (aw_store w) t \<and> (\<exists>k. run_task k cr s0 r = (t, aw_store w))"
  by (simp add: running_ok_def)

lemma running_ok_waiting [simp]: "running_ok cr s0 (w\<lparr>aw_waiting := ts\<rparr>) = running_ok cr s0 w"
  by (cases "aw_running w") (auto simp: running_ok_def split: list.split)

lemma request_ok_extends: "store_extends s s' \<Longrightarrow> request_ok s t \<Longrightarrow> request_ok s' t"
  by (cases t) (simp_all add: store_extends_same(1))

lemma request_task_ok: "request_ok s t \<Longrightarrow> task_ok cr s t"
  by (cases t) simp_all

lemma queue_inv_new: "store_inv cr store \<Longrightarrow> queue_inv cr store (admin_state_new store)"
  by (simp add: queue_inv_def running_ok_def admin_state_new_def)

lemma queue_inv_cases:
  assumes "queue_inv cr store0 w"
  obtains (idle) "aw_running w = []" "aw_permits w = 1"
      "serve_all cr store0 (map fst (aw_served w)) = (map snd (aw_served w), aw_store w)"
    | (busy) s0 r t k where "aw_running w = [(r, t)]" "aw_permits w = 0" "store_inv cr s0"
      "store_extends s0 (aw_store w)" "request_ok s0 r" "task_ok cr (aw_store w) t"
      "run_task k cr s0 r = (t, aw_store w)"
      "serve_all cr store0 (map fst (aw_served w)) = (map snd (aw_served w), s0)"
proof -
  from assms obtain s0 where s0: "store_inv cr s0" "store_extends s0 (aw_store w)" "running_ok cr s0 w"
      "serve_all cr store0 (map fst (aw_served w)) = (map snd (aw_served w), s0)"
    unfolding queue_inv_def by blast
  show ?thesis
  proof (cases "aw_running w")
    case Nil
    with s0 show ?thesis by (intro idle) (simp_all add: running_ok_Nil)
  next
    case (Cons rt rest)
    with s0(3) obtain r t where rt: "aw_running w = [(r, t)]"
      by (cases rt; cases rest) (simp_all add: running_ok_def)
    then show ?thesis using s0 busy by (auto simp: running_ok_single)
  qed
qed

lemma queue_inv_acquire:
  assumes "queue_inv cr store0 w" and "aw_waiting w = t # ts" and "aw_permits w = Suc n"
  shows "queue_inv cr store0 (w\<lparr>aw_permits := n, aw_waiting := ts, aw_running := aw_running w @ [(t, t)]\<rparr>)"
  using assms(1)
proof (cases rule: queue_inv_cases)
  case idle
  have "\<exists>k. run_task k cr (aw_store w) t = (t, aw_store w)" by (rule exI [of _ 0]) simp
  with idle assms show ?thesis
    by (auto simp: queue_inv_def running_ok_single intro: request_task_ok)
qed (use assms(3) in simp)

lemma queue_inv_advance:
  assumes "queue_inv cr store0 w" and "i < length (aw_running w)" and "aw_running w ! i = (r, t)"
    and "task_step cr (aw_store w) t = Some (t', store)"
  shows "queue_inv cr store0 (w\<lparr>aw_store := store, aw_running := (aw_running w)[i := (r, t')]\<rparr>)"
  using assms(1)
proof (cases rule: queue_inv_cases)
  case (busy s0 r' u k)
  have eq: "i = 0" "r' = r" "u = t" using assms(2,3) busy(1) by auto
  have inv: "store_inv cr (aw_store w)" and wait: "list_all (request_ok (aw_store w)) (aw_waiting w)"
    using assms(1) by (auto simp: queue_inv_def)
  note step = task_step_ok [OF inv busy(6) [unfolded eq] assms(4)]
  have "run_task (k + 1) cr s0 r = (t', store)"
    unfolding run_task_add using busy(7) assms(4) by (simp add: eq)
  then have "\<exists>k. run_task k cr s0 r = (t', store)" by blast
  moreover have "store_extends s0 store" using step busy(4) store_extends_trans by blast
  moreover have "list_all (request_ok store) (aw_waiting w)"
    using wait step request_ok_extends by (auto simp: list_all_iff)
  ultimately show ?thesis
    using step busy by (auto simp: queue_inv_def running_ok_single eq)
qed (use assms(2) in simp)

lemma queue_inv_release:
  assumes "queue_inv cr store0 w" and "i < length (aw_running w)" and "aw_running w ! i = (r, t)"
    and "task_step cr (aw_store w) t = None"
  shows "queue_inv cr store0 (w\<lparr>aw_permits := Suc (aw_permits w),
       aw_running := take i (aw_running w) @ drop (Suc i) (aw_running w), aw_served := aw_served w @ [(r, t)]\<rparr>)"
  using assms(1)
proof (cases rule: queue_inv_cases)
  case (busy s0 r' u k)
  have eq: "i = 0" "r' = r" "u = t" using assms(2,3) busy(1) by auto
  have "serve cr s0 r = (t, aw_store w)"
    using run_finished [of s0 r k cr t "aw_store w"] busy assms(4) by (simp add: eq store_inv_def)
  then have "serve_all cr store0 (map fst (aw_served w @ [(r, t)])) = (map snd (aw_served w @ [(r, t)]), aw_store w)"
    using busy(8) by (simp add: serve_all_append)
  then show ?thesis
    using assms(1) busy by (auto simp: queue_inv_def running_ok_Nil eq)
qed (use assms(2) in simp)

lemma queue_inv_internal:
  assumes "internal_step cr w w'" and "queue_inv cr store0 w"
  shows "queue_inv cr store0 w'"
  using assms(1)
proof cases
  case (acquire t ts n)
  then show ?thesis using queue_inv_acquire [OF assms(2)] by simp
next
  case (advance i r t t' store)
  then show ?thesis using queue_inv_advance [OF assms(2)] by simp
next
  case (release i r t)
  then show ?thesis using queue_inv_release [OF assms(2)] by simp
qed

lemma queue_inv_step:
  assumes "admin_world_step cr w w'" and "queue_inv cr store0 w"
  shows "queue_inv cr store0 w'"
  using assms(1)
proof cases
  case (arrive t)
  then show ?thesis using assms(2) by (auto simp: queue_inv_def)
next
  case (disconnect i)
  have "list_all P (take i xs @ drop (Suc i) xs)" if "list_all P xs" for P and xs :: "'a task list"
    using that by (auto simp: list_all_iff dest: in_set_takeD in_set_dropD)
  then show ?thesis using disconnect assms(2) by (auto simp: queue_inv_def)
next
  case internal
  then show ?thesis using queue_inv_internal assms(2) by blast
qed

lemma queue_inv_reachable:
  assumes "(admin_world_step cr)\<^sup>*\<^sup>* (admin_state_new store) w" and "store_inv cr store"
  shows "queue_inv cr store w"
  using assms by (induction rule: rtranclp_induct) (auto intro: queue_inv_new queue_inv_step)

section \<open>Progress\<close>

definition work :: "'sk admin_world \<Rightarrow> nat" where
  "work w = (\<Sum>(r, t)\<leftarrow>aw_running w. task_cost (aw_store w) t + 1)
          + (\<Sum>t\<leftarrow>aw_waiting w. task_cost (aw_store w) t + 2)"

lemma internal_step_work:
  assumes "internal_step cr w w'" and "queue_inv cr store0 w"
  shows "work w' < work w"
  using assms(1)
proof cases
  case (acquire t ts n)
  then show ?thesis by (simp add: work_def)
next
  case (advance i r t t' store)
  from assms(2) show ?thesis
  proof (cases rule: queue_inv_cases)
    case (busy s0 r' u k)
    have eq: "i = 0" "r' = r" "u = t" using advance busy(1) by auto
    have "store_extends (aw_store w) store"
      using task_step_ok [of cr "aw_store w" t t' store] advance busy assms(2) by (simp add: eq queue_inv_def)
    then show ?thesis
      using task_step_cost [OF advance(4)] advance busy(1) by (simp add: work_def eq task_cost_extends)
  qed (use advance in simp)
next
  case (release i r t)
  from assms(2) show ?thesis
  proof (cases rule: queue_inv_cases)
    case (busy s0 r' u k)
    then show ?thesis using release by (auto simp: work_def)
  qed (use release in simp)
qed

lemma internal_run_bounded:
  "(internal_step cr ^^ n) w w' \<Longrightarrow> queue_inv cr store0 w \<Longrightarrow> n + work w' \<le> work w"
proof (induction n arbitrary: w')
  case (Suc n)
  then obtain v where v: "(internal_step cr ^^ n) w v" "internal_step cr v w'" by auto
  have "(internal_step cr)\<^sup>*\<^sup>* w v" using v(1) by (rule relpowp_imp_rtranclp)
  then have "queue_inv cr store0 v" using Suc.prems(2)
    by (induction rule: rtranclp_induct) (auto intro: queue_inv_internal)
  from Suc.IH [OF v(1) Suc.prems(2)] internal_step_work [OF v(2) this] show ?case by simp
qed simp

text \<open>What is to be served, in the order in which it is served.\<close>

definition agenda :: "'sk admin_world \<Rightarrow> 'sk task list" where
  "agenda w = map fst (aw_served w) @ map fst (aw_running w) @ aw_waiting w"

lemma internal_step_agenda:
  assumes "internal_step cr w w'" and "queue_inv cr store0 w"
  shows "agenda w' = agenda w"
  using assms(1)
proof cases
  case (acquire t ts n)
  then show ?thesis by (simp add: agenda_def)
next
  case (advance i r t t' store)
  have "map fst ((aw_running w)[i := (r, t')]) = map fst (aw_running w)"
    using advance by (metis fst_conv list_update_id map_update nth_map)
  then show ?thesis using advance by (simp add: agenda_def)
next
  case (release i r t)
  from assms(2) show ?thesis
    by (cases rule: queue_inv_cases) (use release in \<open>auto simp: agenda_def\<close>)
qed

lemma internal_steps_keep:
  "(internal_step cr)\<^sup>*\<^sup>* w w' \<Longrightarrow> queue_inv cr store0 w \<Longrightarrow> queue_inv cr store0 w' \<and> agenda w' = agenda w"
proof (induction rule: rtranclp_induct)
  case (step w1 w2)
  then show ?case using queue_inv_internal internal_step_agenda by metis
qed simp

lemma internal_step_possible:
  assumes "queue_inv cr store0 w" and "aw_running w \<noteq> [] \<or> aw_waiting w \<noteq> []"
  shows "\<exists>w'. internal_step cr w w'"
  using assms(1)
proof (cases rule: queue_inv_cases)
  case idle
  then obtain t ts where "aw_waiting w = t # ts" using assms(2) by (cases "aw_waiting w") auto
  then show ?thesis using acquire [of w t ts 0 cr] idle by auto
next
  case (busy s0 r t k)
  then have here: "0 < length (aw_running w)" "aw_running w ! 0 = (r, t)" by simp_all
  show ?thesis
  proof (cases "task_step cr (aw_store w) t")
    case None
    then show ?thesis using release [OF here] by blast
  next
    case (Some a)
    then show ?thesis using advance [OF here] by (cases a) blast
  qed
qed

section \<open>Properties\<close>

text \<open>
  C6: unlock requests are serialised. Whatever the order in which requests arrive, clients disconnect and
  tasks advance, at most one request holds the permit and decrypts. The served requests have exactly the
  results of the sequential operations, one after the other in the order of the queue, and have left the
  store that those leave; a request that is under way has changed it only as its own operation does.
\<close>

theorem unlock_requests_serialised:
  assumes "(admin_world_step cr)\<^sup>*\<^sup>* (admin_state_new store) w" and "store_inv cr store"
  shows "length (aw_running w) \<le> 1 \<and> length (aw_running w) + aw_permits w = 1
    \<and> (\<exists>s0. serve_all cr store (map fst (aw_served w)) = (map snd (aw_served w), s0)
         \<and> (if aw_running w = [] then aw_store w = s0
            else \<exists>r t k. aw_running w = [(r, t)] \<and> run_task k cr s0 r = (t, aw_store w)))"
  using queue_inv_reachable [OF assms]
proof (cases rule: queue_inv_cases)
  case (busy s0 r t k)
  then have "\<exists>r t k. aw_running w = [(r, t)] \<and> run_task k cr s0 r = (t, aw_store w)" by blast
  with busy show ?thesis by auto
qed auto

text \<open>
  C7: the queue is worked off. From every reachable state the service takes only a bounded number of steps
  on its own, and however it takes them it can only stop when nobody waits and nobody holds the permit;
  then every request that was running or waiting has been served, in the order of the queue.
\<close>

theorem unlock_queue_drains:
  assumes "(admin_world_step cr)\<^sup>*\<^sup>* (admin_state_new store) w" and "store_inv cr store"
  shows "(\<forall>n w'. (internal_step cr ^^ n) w w' \<longrightarrow> n \<le> work w)
    \<and> (\<forall>w'. (internal_step cr)\<^sup>*\<^sup>* w w' \<and> (\<nexists>w''. internal_step cr w' w'') \<longrightarrow>
         aw_waiting w' = [] \<and> aw_running w' = [] \<and> aw_permits w' = 1
         \<and> map fst (aw_served w') = map fst (aw_served w) @ map fst (aw_running w) @ aw_waiting w)"
proof -
  note inv = queue_inv_reachable [OF assms]
  have "n \<le> work w" if "(internal_step cr ^^ n) w w'" for n w'
    using internal_run_bounded [OF that inv] by simp
  moreover have "aw_waiting w' = [] \<and> aw_running w' = [] \<and> aw_permits w' = 1
         \<and> map fst (aw_served w') = map fst (aw_served w) @ map fst (aw_running w) @ aw_waiting w"
    if run: "(internal_step cr)\<^sup>*\<^sup>* w w'" and stuck: "\<nexists>w''. internal_step cr w' w''" for w'
  proof -
    have keep: "queue_inv cr store w'" "agenda w' = agenda w" using internal_steps_keep [OF run inv] by auto
    then have idle: "aw_running w' = []" "aw_waiting w' = []" using internal_step_possible stuck by blast+
    from keep(1) have "aw_permits w' = 1" by (cases rule: queue_inv_cases) (use idle in auto)
    with keep(2) idle show ?thesis by (simp add: agenda_def)
  qed
  ultimately show ?thesis by blast
qed

section \<open>Two requests\<close>

lemma demo_queue_reached:
  "(admin_world_step demo_crypto)\<^sup>*\<^sup>* (admin_state_new demo_store)
     ((admin_state_new demo_store)\<lparr>aw_waiting := [UnlockRing ''prod'' ''pw'', UnlockKey 0 ''pw'']\<rparr>)"
proof -
  have "request_ok demo_store (UnlockKey 0 ''pw'')" by code_simp
  then have "admin_world_step demo_crypto
      ((admin_state_new demo_store)\<lparr>aw_waiting := [UnlockRing ''prod'' ''pw'']\<rparr>)
      ((admin_state_new demo_store)\<lparr>aw_waiting := [UnlockRing ''prod'' ''pw'', UnlockKey 0 ''pw'']\<rparr>)"
    using arrive [of "(admin_state_new demo_store)\<lparr>aw_waiting := [UnlockRing ''prod'' ''pw'']\<rparr>"
        "UnlockKey 0 ''pw''" demo_crypto]
    by (simp add: admin_state_new_def)
  moreover have "admin_world_step demo_crypto (admin_state_new demo_store)
      ((admin_state_new demo_store)\<lparr>aw_waiting := [UnlockRing ''prod'' ''pw'']\<rparr>)"
    using arrive [of "admin_state_new demo_store" "UnlockRing ''prod'' ''pw''" demo_crypto]
    by (simp add: admin_state_new_def)
  ultimately show ?thesis by (blast intro: converse_rtranclp_into_rtranclp)
qed

lemma drained_exists:
  "queue_inv cr store0 w \<Longrightarrow> \<exists>w'. (internal_step cr)\<^sup>*\<^sup>* w w' \<and> (\<nexists>w''. internal_step cr w' w'')"
proof (induction "work w" arbitrary: w rule: less_induct)
  case less
  show ?case
  proof (cases "\<exists>w1. internal_step cr w w1")
    case True
    then obtain w1 where w1: "internal_step cr w w1" by blast
    from less.hyps [OF internal_step_work [OF w1 less.prems] queue_inv_internal [OF w1 less.prems]] w1
    show ?thesis by (meson converse_rtranclp_into_rtranclp)
  qed blast
qed

lemma internal_steps_admin: "(internal_step cr)\<^sup>*\<^sup>* w w' \<Longrightarrow> (admin_world_step cr)\<^sup>*\<^sup>* w w'"
  by (rule rtranclp_mono [THEN predicate2D]) (auto intro: admin_world_step.internal)

lemma demo_drained:
  obtains w where "(internal_step demo_crypto)\<^sup>*\<^sup>*
      ((admin_state_new demo_store)\<lparr>aw_waiting := [UnlockRing ''prod'' ''pw'', UnlockKey 0 ''pw'']\<rparr>) w"
    "\<nexists>w''. internal_step demo_crypto w w''" "(admin_world_step demo_crypto)\<^sup>*\<^sup>* (admin_state_new demo_store) w"
  using drained_exists [OF queue_inv_reachable [OF demo_queue_reached demo_store_inv]]
    demo_queue_reached internal_steps_admin by (meson rtranclp_trans)

theorem unlock_queue_drains_witness:
  "\<exists>w. (admin_world_step demo_crypto)\<^sup>*\<^sup>* (admin_state_new demo_store) w
     \<and> aw_waiting w = [] \<and> map fst (aw_served w) = [UnlockRing ''prod'' ''pw'', UnlockKey 0 ''pw'']"
proof -
  obtain w where w: "(internal_step demo_crypto)\<^sup>*\<^sup>*
      ((admin_state_new demo_store)\<lparr>aw_waiting := [UnlockRing ''prod'' ''pw'', UnlockKey 0 ''pw'']\<rparr>) w"
    "\<nexists>w''. internal_step demo_crypto w w''" "(admin_world_step demo_crypto)\<^sup>*\<^sup>* (admin_state_new demo_store) w"
    by (rule demo_drained)
  from conjunct2 [OF unlock_queue_drains [OF demo_queue_reached demo_store_inv], rule_format, of w] w
  show ?thesis by (auto simp: admin_state_new_def)
qed

theorem unlock_requests_serialised_witness:
  "\<exists>w. (admin_world_step demo_crypto)\<^sup>*\<^sup>* (admin_state_new demo_store) w
     \<and> length (aw_running w) \<le> 1
     \<and> (\<exists>s0. serve_all demo_crypto demo_store (map fst (aw_served w)) = (map snd (aw_served w), s0))"
proof -
  obtain w where w: "(admin_world_step demo_crypto)\<^sup>*\<^sup>* (admin_state_new demo_store) w" by (rule demo_drained)
  from unlock_requests_serialised [OF w demo_store_inv] w show ?thesis by blast
qed

end
