(* ===== verification/Audit_Log.thy ===== *)
theory Audit_Log
  imports Api_Facts
begin

text \<open>
  The lines of the audit log: what \<^verbatim>\<open>audit_best_effort\<close>, \<^verbatim>\<open>keyring_audit_failure\<close> and the other audit events of
  \<^verbatim>\<open>src/api.rs\<close> hand to the logger, as a level, the named fields in order and the message. The text form of a
  line is the logger's.
\<close>

datatype log_level = LogInfo | LogWarn | LogError

datatype log_value = LogText string | LogFlag bool | LogList "string list"

record audit_line =
  al_level :: log_level
  al_fields :: "(string \<times> log_value) list"
  al_message :: string

definition field_or_empty :: "string option \<Rightarrow> log_value" where
  "field_or_empty x = LogText (case x of None \<Rightarrow> [] | Some text \<Rightarrow> text)"

definition audit_best_effort :: "audit_record \<Rightarrow> audit_line" where
  "audit_best_effort r =
     \<lparr>al_level = LogInfo,
      al_fields =
        [(''request_id'', LogText (ad_request_id r)),
         (''operation'', LogText (ad_operation r)),
         (''success'', LogFlag (ad_success r)),
         (''reason'', LogText (ad_reason r)),
         (''key_id'', field_or_empty (ad_key_id r)),
         (''firmware_digest'', field_or_empty (ad_firmware_digest r)),
         (''identity_id'', field_or_empty (ad_identity_id r)),
         (''principal'', field_or_empty (ad_principal r)),
         (''auth_method'', field_or_empty (ad_auth_method r)),
         (''issuer'', field_or_empty (ad_issuer r)),
         (''audience'', field_or_empty (ad_audience r)),
         (''subject'', field_or_empty (ad_subject r)),
         (''github_login'', field_or_empty (ad_github_login r)),
         (''github_user_id'', field_or_empty (ad_github_user_id r)),
         (''actor'', field_or_empty (ad_actor r)),
         (''actor_id'', field_or_empty (ad_actor_id r)),
         (''repository'', field_or_empty (ad_repository r)),
         (''repository_id'', field_or_empty (ad_repository_id r)),
         (''git_ref'', field_or_empty (ad_git_ref r)),
         (''ref_protected'', LogFlag (case ad_ref_protected r of None \<Rightarrow> False | Some flag \<Rightarrow> flag)),
         (''environment'', field_or_empty (ad_environment r)),
         (''commit_sha'', field_or_empty (ad_commit_sha r)),
         (''event_name'', field_or_empty (ad_event_name r)),
         (''workflow_ref'', field_or_empty (ad_workflow_ref r)),
         (''run_id'', field_or_empty (ad_run_id r)),
         (''run_attempt'', field_or_empty (ad_run_attempt r)),
         (''jti'', field_or_empty (ad_jti r))],
      al_message = ''microtun signer audit event''\<rparr>"

definition unlock_line :: "log_level \<Rightarrow> string \<Rightarrow> string \<Rightarrow> bool \<Rightarrow> string \<Rightarrow> (string \<times> log_value) list \<Rightarrow> audit_line" where
  "unlock_line level rid operation success reason more_fields =
     \<lparr>al_level = level,
      al_fields = [(''request_id'', LogText rid), (''operation'', LogText operation), (''success'', LogFlag success),
                   (''reason'', LogText reason)] @ more_fields,
      al_message = ''microtun signer unlock audit event''\<rparr>"

definition keyring_audit_failure :: "string \<Rightarrow> string \<Rightarrow> string \<Rightarrow> string list \<Rightarrow> audit_line" where
  "keyring_audit_failure rid keyring reason failed_keys =
     unlock_line LogWarn rid ''unlock-keyring'' False reason
       [(''keyring'', LogText keyring), (''failed_key_ids'', LogList failed_keys)]"

fun oauth_flow_error_text :: "oauth_flow_error \<Rightarrow> string" where
  "oauth_flow_error_text FlowTokenValidationFailed =
     ''GitHub OAuth token is invalid or was not issued to this signer application''"
| "oauth_flow_error_text FlowTokenReplayed = ''GitHub OAuth bootstrap token has already been used''"
| "oauth_flow_error_text FlowReplayCacheUnavailable = ''GitHub OAuth replay cache is unavailable''"
| "oauth_flow_error_text FlowScopeNotGranted = ''GitHub OAuth token was not granted the required scope''"
| "oauth_flow_error_text FlowIdentityProviderUnavailable = ''GitHub identity provider is temporarily unavailable''"
| "oauth_flow_error_text FlowTokenRevocationFailed = ''GitHub OAuth token could not be revoked''"
| "oauth_flow_error_text FlowClaimsDenied = ''authenticated GitHub account does not match a configured identity''"
| "oauth_flow_error_text FlowTwoFactorRequired =
     ''authenticated GitHub account does not have two-factor authentication enabled''"
| "oauth_flow_error_text FlowSessionCapacity = ''too many OAuth sessions are active''"

text \<open>The line of each event; an event of a keyring without key is a failure.\<close>

fun line_of :: "audit_event \<Rightarrow> audit_line" where
  "line_of (SignAudit r) = audit_best_effort r"
| "line_of (LoginAudit rid e) =
     \<lparr>al_level = LogWarn,
      al_fields = [(''request_id'', LogText rid), (''operation'', LogText ''oauth-device-login''),
                   (''success'', LogFlag False), (''reason'', LogText (oauth_flow_error_text e))],
      al_message = ''microtun signer login audit event''\<rparr>"
| "line_of (UnlockKeyAudit rid success reason key_id) =
     unlock_line (if success then LogInfo else if reason = ''unlock-task-failed'' then LogError else LogWarn)
       rid ''unlock-key'' success reason [(''key_id'', LogText key_id)]"
| "line_of (UnlockKeyringAudit rid success reason keyring keys) =
     (if success then unlock_line LogInfo rid ''unlock-keyring'' True reason
        [(''keyring'', LogText keyring), (''key_id'', LogText (concat keys))]
      else if reason = ''unlock-task-failed'' then unlock_line LogError rid ''unlock-keyring'' False reason
        [(''keyring'', LogText keyring)]
      else keyring_audit_failure rid keyring reason keys)"

section \<open>What a line tells\<close>

lemma audit_fields_distinct: "distinct (map fst (al_fields (audit_best_effort r)))"
  by (simp add: audit_best_effort_def)

lemma audit_fields_read:
  "map_of (al_fields (audit_best_effort r)) ''request_id'' = Some (LogText (ad_request_id r))"
  "map_of (al_fields (audit_best_effort r)) ''operation'' = Some (LogText (ad_operation r))"
  "map_of (al_fields (audit_best_effort r)) ''success'' = Some (LogFlag (ad_success r))"
  "map_of (al_fields (audit_best_effort r)) ''reason'' = Some (LogText (ad_reason r))"
  "map_of (al_fields (audit_best_effort r)) ''key_id'' = Some (field_or_empty (ad_key_id r))"
  "map_of (al_fields (audit_best_effort r)) ''firmware_digest'' = Some (field_or_empty (ad_firmware_digest r))"
  "map_of (al_fields (audit_best_effort r)) ''identity_id'' = Some (field_or_empty (ad_identity_id r))"
  "map_of (al_fields (audit_best_effort r)) ''principal'' = Some (field_or_empty (ad_principal r))"
  "map_of (al_fields (audit_best_effort r)) ''jti'' = Some (field_or_empty (ad_jti r))"
  by (simp_all add: audit_best_effort_def)

text \<open>
  C24: a signature leaves exactly one line in the audit log, and the line attributes it. Its field names are
  distinct, and they hold the request identifier of the answer, the identity that the authenticated
  requester was matched with, the account or token behind it, the key, and the digest over which that key
  made the signature that is in the answer.
\<close>

theorem signature_attributed:
  assumes "store_wf (ap_keys st)" and "create_signature env key_id headers body st = (Ok sig, st', audit)"
  shows "\<exists>who digest line. fst (authenticate (sg_sha256 env) (sg_actions env) headers (ap_auth st)) = Ok who
    \<and> map line_of audit = [line] \<and> distinct (map fst (al_fields line))
    \<and> map_of (al_fields line) ''request_id'' = Some (LogText (sg_request_id env))
    \<and> map_of (al_fields line) ''success'' = Some (LogFlag True)
    \<and> map_of (al_fields line) ''identity_id'' = Some (LogText (pr_identity_id who))
    \<and> map_of (al_fields line) ''principal'' = Some (LogText (pr_principal_key who))
    \<and> map_of (al_fields line) ''jti'' = Some (field_or_empty (pr_jti who))
    \<and> map_of (al_fields line) ''key_id'' = Some (LogText key_id)
    \<and> map_of (al_fields line) ''firmware_digest'' = Some (LogText (sg_hex_encode env digest))
    \<and> (\<exists>key raw. ks_get (ap_keys st) key_id = (Ok (Some key) :: (api_error, _) outcome)
         \<and> sign_digest (sg_crypto env) (sg_rng env) key digest = Ok raw \<and> sig = sg_b64_encode env raw)"
proof -
  obtain a auth where auth: "authenticate (sg_sha256 env) (sg_actions env) headers (ap_auth st) = (a, auth)"
    by fastforce
  obtain who where who: "a = Ok who"
    using assms(2) auth by (cases a) (auto simp: create_signature_def Let_def split: if_splits)
  then have "sign_authenticated env key_id body who (ap_keys st) (ap_authz st) = (Ok sig, audit)"
    using assms(2) auth by (auto simp: create_signature_def Let_def split: if_splits prod.splits)
  from sign_authenticated_audit [OF assms(1) this] obtain digest key raw where
      audit: "audit = [sign_audit env True ''ok'' who key_id (Some (sg_hex_encode env digest))]"
    and key: "ks_get (ap_keys st) key_id = (Ok (Some key) :: (api_error, _) outcome)"
      "sign_digest (sg_crypto env) (sg_rng env) key digest = Ok raw" "sig = sg_b64_encode env raw"
    by auto
  let ?r = "make_audit_record (sg_request_id env) ''sign'' True ''ok'' (Some who)
     \<lparr>dt_key_id = Some key_id, dt_firmware_digest = Some (sg_hex_encode env digest)\<rparr>"
  have line: "map line_of audit = [audit_best_effort ?r]" by (simp add: audit sign_audit_def)
  have fields: "ad_request_id ?r = sg_request_id env" "ad_success ?r" "ad_identity_id ?r = Some (pr_identity_id who)"
    "ad_principal ?r = Some (pr_principal_key who)" "ad_jti ?r = pr_jti who" "ad_key_id ?r = Some key_id"
    "ad_firmware_digest ?r = Some (sg_hex_encode env digest)"
    by (simp_all add: make_audit_record_def Let_def)
  have shown: "field_or_empty (Some t) = LogText t" for t by (simp add: field_or_empty_def)
  show ?thesis
    using auth who line key audit_fields_distinct [of ?r] audit_fields_read [of ?r] unfolding fields shown
    by (intro exI conjI) (assumption | simp add: fields)+
qed

theorem signature_attributed_witness:
  "\<exists>st' audit line. create_signature demo_sign_env ''microtun-firmware-prod'' json_headers demo_digest demo_app
       = (Ok demo_digest, st', audit)
     \<and> map line_of audit = [line] \<and> map_of (al_fields line) ''key_id'' = Some (LogText ''microtun-firmware-prod'')"
proof -
  let ?run = "create_signature demo_sign_env ''microtun-firmware-prod'' json_headers demo_digest demo_app"
  have "fst ?run = Ok demo_digest"
    unfolding create_signature_Ok [OF demo_app_wf]
    by (simp add: demo_sign_simps validate_signing_context_def)
  then obtain st' audit where run: "?run = (Ok demo_digest, st', audit)" by (metis prod.collapse)
  from signature_attributed [OF demo_app_wf run] obtain line where
      "map line_of audit = [line]" "map_of (al_fields line) ''key_id'' = Some (LogText ''microtun-firmware-prod'')"
    by (elim exE conjE) (erule (1) that)
  with run show ?thesis by (intro exI conjI)
qed

end
