(* ===== verification/Secret_Files.thy ===== *)
theory Secret_Files
  imports Service Local_Files
begin

unbundle bit_operations_syntax

text \<open>
  The secrets of the service on the file system: \<open>open_no_follow\<close> of \<^verbatim>\<open>src/key.rs\<close> opens the files of
  \<open>Local_Files\<close>, and the readers of key files and credentials get their \<open>file_system\<close> from it. The property is what
  the files of a started service were when it read them.
\<close>

section \<open>Opening a file\<close>

definition opened :: "faults \<Rightarrow> string \<Rightarrow> node \<Rightarrow> bool \<Rightarrow> string \<Rightarrow> open_file" where
  "opened fault path nd is_file contents =
     \<lparr>of_metadata = (if fault SysFstat path then None
        else Some \<lparr>md_is_file = is_file, md_uid = nd_uid nd, md_mode = nd_mode nd, md_len = of_nat (length contents)\<rparr>),
      of_bytes = contents, of_io_error = \<not> is_file\<rparr>"

definition open_no_follow :: "faults \<Rightarrow> local_fs \<Rightarrow> file_system" where
  \<comment> \<open>\<^verbatim>\<open>O_NOFOLLOW\<close> refuses a symbolic link, and a socket cannot be opened; a directory opens, but cannot be read\<close>
  "open_no_follow fault fs path =
     (if fault SysOpen path then None else
      case fs path of
        None \<Rightarrow> None
      | Some nd \<Rightarrow>
          (case nd_kind nd of
             Regular contents \<Rightarrow> Some (opened fault path nd True contents)
           | Directory \<Rightarrow> Some (opened fault path nd False [])
           | OtherKind \<Rightarrow> Some (opened fault path nd False [])
           | Symlink target \<Rightarrow> None
           | SocketFile \<Rightarrow> None))"

text \<open>A regular file that was opened and could be inspected.\<close>

lemma open_no_follow_regular:
  "open_no_follow fault fs path = Some file \<and> of_metadata file = Some md \<and> md_is_file md \<longleftrightarrow>
     (\<exists>nd contents. \<not> fault SysOpen path \<and> \<not> fault SysFstat path \<and> fs path = Some nd
        \<and> nd_kind nd = Regular contents \<and> file = opened fault path nd True contents
        \<and> md = \<lparr>md_is_file = True, md_uid = nd_uid nd, md_mode = nd_mode nd, md_len = of_nat (length contents)\<rparr>)"
  by (auto simp: open_no_follow_def opened_def split: option.splits file_kind.splits if_splits)

lemma len_bound: "n \<le> 1048576 \<Longrightarrow> unat (of_nat n :: u64) \<le> 1048576"
  by (simp add: unat_of_nat)

definition protected_node :: "u32 \<Rightarrow> u32 \<Rightarrow> string \<Rightarrow> node \<Rightarrow> bool" where
  "protected_node euid forbidden contents nd \<longleftrightarrow>
     nd_kind nd = Regular contents \<and> nd_uid nd \<in> {0, euid} \<and> nd_mode nd AND 0b111111111 AND forbidden = 0
     \<and> length contents \<le> 2 ^ 20 \<and> valid_utf8 contents"

lemma read_protected_file_tree:
  "read_protected_file (open_no_follow fault fs) euid path forbidden = Ok s \<longleftrightarrow>
     \<not> fault SysOpen path \<and> \<not> fault SysFstat path \<and> (\<exists>nd. fs path = Some nd \<and> protected_node euid forbidden s nd)"
proof -
  have "read_protected_file (open_no_follow fault fs) euid path forbidden = Ok s \<longleftrightarrow>
      (\<exists>file md. (open_no_follow fault fs path = Some file \<and> of_metadata file = Some md \<and> md_is_file md)
        \<and> md_uid md \<in> {0, euid} \<and> md_mode md AND 0b111111111 AND forbidden = 0
        \<and> unat (md_len md) \<le> 2 ^ 20 \<and> length (of_bytes file) \<le> 2 ^ 20
        \<and> \<not> of_io_error file \<and> valid_utf8 (of_bytes file) \<and> s = of_bytes file)"
    by (auto simp: read_protected_file_def validate_protected_metadata_Ok read_limited_Ok)
  also have "\<dots> \<longleftrightarrow> \<not> fault SysOpen path \<and> \<not> fault SysFstat path
      \<and> (\<exists>nd. fs path = Some nd \<and> protected_node euid forbidden s nd)"
    unfolding open_no_follow_regular by (auto simp: protected_node_def opened_def len_bound)
  finally show ?thesis .
qed

lemma load_credential_tree:
  assumes "load_systemd_credential (open_no_follow fault fs) dir name = Ok secret"
  shows "\<exists>d nd contents. dir = Some d \<and> d \<noteq> [] \<and> fs (path_join d name) = Some nd \<and> nd_kind nd = Regular contents
    \<and> length contents \<le> 2 ^ 20 \<and> secret = pop_newlines contents \<and> secret \<noteq> []"
proof -
  from assms obtain d f md where d: "dir = Some d" "d \<noteq> []"
      "open_no_follow fault fs (path_join d name) = Some f \<and> of_metadata f = Some md \<and> md_is_file md"
    and s: "length (of_bytes f) \<le> 2 ^ 20" "secret = pop_newlines (of_bytes f)" "secret \<noteq> []"
    by (auto simp: load_systemd_credential_def load_credential_from_def read_limited_Ok Let_def
        split: option.splits if_splits)
  from d(3) [unfolded open_no_follow_regular] s d(1,2) show ?thesis by (auto simp: opened_def)
qed

lemma key_material_load_tree:
  assumes "key_material_load (open_no_follow fault fs) euid from_pem parse_epki config = Ok key"
  shows "\<exists>nd. fs (kc_pem_path config) = Some nd \<and> protected_node euid 0b000011111 (km_encrypted_pem key) nd"
    and "enforce_key_encryption_policy from_pem parse_epki (km_encrypted_pem key) = Ok ()" and "km_id key = kc_id config"
  using assms by (auto simp: key_material_load_def read_protected_file_tree split: if_splits)

section \<open>What a started service has read\<close>

text \<open>
  C10: the secrets of a started service come from protected files. For every configured key the path of the
  configuration was a regular file and no symbolic link, owned by root or the service user, without any
  permission for others and without write or execute permission for the group, and its whole contents are
  the encrypted key that the store holds, locked and encrypted as the policy demands. The OAuth client
  secret is the nonempty contents, without line ends at the end, of a regular file in the credentials
  directory.
\<close>

theorem service_secrets_protected:
  assumes start: "start_service boot config_path = Ok (c, st)" and tree: "bo_files boot = open_no_follow fault fs"
  shows "(\<forall>config\<in>set (cfg_keys c). \<exists>nd pem key.
        fs (kc_pem_path config) = Some nd \<and> protected_node (bo_euid boot) 0b000011111 pem nd
        \<and> enforce_key_encryption_policy (bo_from_pem boot) (bo_parse_epki boot) pem = Ok ()
        \<and> key \<in> set (ks_keys (ap_keys st)) \<and> km_id key = kc_id config \<and> km_encrypted_pem key = pem
        \<and> \<not> is_unlocked key)
    \<and> (\<exists>directory nd contents. bo_credentials_directory boot = Some directory
        \<and> fs (path_join directory (gh_oauth_client_secret_credential (cfg_github c))) = Some nd
        \<and> nd_kind nd = Regular contents
        \<and> in_github_oauth_client_secret (ap_auth st) = pop_newlines contents
        \<and> in_github_oauth_client_secret (ap_auth st) \<noteq> [])"
proof (intro conjI ballI)
  fix config assume config: "config \<in> set (cfg_keys c)"
  have loaded: "list_all2 (\<lambda>config k. key_material_load (open_no_follow fault fs) (bo_euid boot) (bo_from_pem boot)
        (bo_parse_epki boot) config = Ok k) (cfg_keys c) (ks_keys (ap_keys st))"
    and locked: "\<forall>k\<in>set (ks_keys (ap_keys st)). \<not> is_unlocked k"
    using start_service_Ok [OF start] unfolding tree by blast+
  obtain i where i: "i < length (cfg_keys c)" "config = cfg_keys c ! i" using config by (metis in_set_conv_nth)
  with loaded obtain key where key: "key \<in> set (ks_keys (ap_keys st))"
      "key_material_load (open_no_follow fault fs) (bo_euid boot) (bo_from_pem boot) (bo_parse_epki boot) config = Ok key"
    using list_all2_nthD [OF loaded i(1)] list_all2_lengthD [OF loaded] by (metis nth_mem)
  then show "\<exists>nd pem key. fs (kc_pem_path config) = Some nd \<and> protected_node (bo_euid boot) 0b000011111 pem nd
      \<and> enforce_key_encryption_policy (bo_from_pem boot) (bo_parse_epki boot) pem = Ok ()
      \<and> key \<in> set (ks_keys (ap_keys st)) \<and> km_id key = kc_id config \<and> km_encrypted_pem key = pem \<and> \<not> is_unlocked key"
    using locked key_material_load_tree [OF key(2)] by blast
next
  obtain auth where auth: "authenticator_new (open_no_follow fault fs) (bo_credentials_directory boot) (cfg_github c)
      (cfg_github_actions c) (cfg_identities c) = Ok auth" and st: "ap_auth st = auth"
    using start tree by (auto simp: start_service_def app_state_new_def)
  then have "load_systemd_credential (open_no_follow fault fs) (bo_credentials_directory boot)
      (gh_oauth_client_secret_credential (cfg_github c)) = Ok (in_github_oauth_client_secret (ap_auth st))"
    unfolding st by (auto simp: authenticator_new_def)
  from load_credential_tree [OF this] show "\<exists>directory nd contents. bo_credentials_directory boot = Some directory
      \<and> fs (path_join directory (gh_oauth_client_secret_credential (cfg_github c))) = Some nd
      \<and> nd_kind nd = Regular contents \<and> in_github_oauth_client_secret (ap_auth st) = pop_newlines contents
      \<and> in_github_oauth_client_secret (ap_auth st) \<noteq> []"
    by blast
qed

section \<open>A service on a tree of files\<close>

definition secret_fs :: local_fs where
  "secret_fs path =
     Some (if path = ''/run/credentials/github-oauth-client-secret''
           then \<lparr>nd_kind = Regular ''secret'', nd_uid = 0, nd_gid = 0, nd_mode = 0\<rparr>
           else \<lparr>nd_kind = Regular demo_pem, nd_uid = 0, nd_gid = 0, nd_mode = 0b110100000\<rparr>)"

lemma demo_boot_tree: "bo_files demo_boot = open_no_follow (\<lambda>call path. False) secret_fs"
proof
  fix path
  have "length demo_pem = 74" by (simp add: demo_pem_def)
  then show "bo_files demo_boot path = open_no_follow (\<lambda>call path. False) secret_fs path"
    by (simp add: demo_boot_def demo_key_files_def open_no_follow_def secret_fs_def opened_def)
qed

theorem service_secrets_protected_witness:
  "\<exists>nd. secret_fs (kc_pem_path example_key) = Some nd \<and> protected_node 1000 0b000011111 demo_pem nd
     \<and> demo_pem \<in> km_encrypted_pem ` set (ks_keys (ap_keys demo_start))"
proof -
  have "example_key \<in> set (cfg_keys example_config)" "bo_euid demo_boot = 1000"
    by (simp_all add: example_config_def demo_boot_def)
  with conjunct1 [OF service_secrets_protected [OF demo_started demo_boot_tree]] obtain nd pem key where
      nd: "secret_fs (kc_pem_path example_key) = Some nd" "protected_node 1000 0b000011111 pem nd"
        "key \<in> set (ks_keys (ap_keys demo_start))" "km_encrypted_pem key = pem"
    by metis
  have "kc_pem_path example_key \<noteq> ''/run/credentials/github-oauth-client-secret''" by (simp add: example_key_def)
  then have "nd_kind nd = Regular demo_pem" using nd(1) by (auto simp: secret_fs_def)
  then have "pem = demo_pem" using nd(2) by (simp add: protected_node_def)
  then show ?thesis using nd by (auto intro: rev_image_eqI)
qed

end
