(* ===== verification/Config_Decode.thy ===== *)
theory Config_Decode
  imports Config_Spec
begin

text \<open>
  From a TOML document to a \<open>config\<close>: what the \<^verbatim>\<open>Deserialize\<close> attributes of \<^verbatim>\<open>src/config.rs\<close> say. A document is a
  tree of values; the parser of the TOML text is a library. Each structure is written as a table: a field
  has the name of its \<^verbatim>\<open>rename\<close> attribute, a missing field has the value of its \<^verbatim>\<open>default\<close> attribute or is an
  error, an unknown field is an error (\<^verbatim>\<open>deny_unknown_fields\<close>), and an enum is written as the name of its
  variant. \<open>None\<close> is an error; which one is reported first is the library's. The library also admits a
  structure as an array of its fields and a variant as a table with one entry; documents of that kind
  are outside the model.

  The text of a socket address is read by the standard library, \<open>parse_addr\<close>.
\<close>

section \<open>Documents\<close>

datatype toml =
    TomlString string
  | TomlInteger int
  | TomlBoolean bool
  | TomlArray "toml list"
  | TomlTable "(string \<times> toml) list"
  | TomlOther

type_synonym toml_table = "(string \<times> toml) list"

fun de_string :: "toml \<Rightarrow> string option" where
  "de_string (TomlString s) = Some s"
| "de_string _ = None"

fun de_bool :: "toml \<Rightarrow> bool option" where
  "de_bool (TomlBoolean b) = Some b"
| "de_bool _ = None"

fun de_u32 :: "toml \<Rightarrow> u32 option" where
  "de_u32 (TomlInteger n) = (if 0 \<le> n \<and> n < 2 ^ 32 then Some (word_of_int n) else None)"
| "de_u32 _ = None"

fun de_u64 :: "toml \<Rightarrow> u64 option" where
  "de_u64 (TomlInteger n) = (if 0 \<le> n \<and> n < 2 ^ 64 then Some (word_of_int n) else None)"
| "de_u64 _ = None"

definition de_vec :: "(toml \<Rightarrow> 'a option) \<Rightarrow> toml \<Rightarrow> 'a list option" where
  "de_vec de v = (case v of TomlArray vs \<Rightarrow> all_some (map de vs) | _ \<Rightarrow> None)"

text \<open>Fields of a table.\<close>

definition required_field :: "(toml \<Rightarrow> 'a option) \<Rightarrow> toml_table \<Rightarrow> string \<Rightarrow> 'a option" where
  "required_field de t name = Option.bind (map_of t name) de"

definition default_field :: "(toml \<Rightarrow> 'a option) \<Rightarrow> 'a \<Rightarrow> toml_table \<Rightarrow> string \<Rightarrow> 'a option" where
  "default_field de fallback t name = (case map_of t name of None \<Rightarrow> Some fallback | Some v \<Rightarrow> de v)"

definition optional_field :: "(toml \<Rightarrow> 'a option) \<Rightarrow> toml_table \<Rightarrow> string \<Rightarrow> 'a option option" where
  "optional_field de t name = (case map_of t name of None \<Rightarrow> Some None | Some v \<Rightarrow> map_option Some (de v))"

definition de_struct :: "string list \<Rightarrow> (toml_table \<Rightarrow> 'a option) \<Rightarrow> toml \<Rightarrow> 'a option" where
  \<comment> \<open>\<^verbatim>\<open>deny_unknown_fields\<close>\<close>
  "de_struct names de v =
     (case v of
        TomlTable t \<Rightarrow> if list_all (\<lambda>f. fst f \<in> set names) t then de t else None
      | _ \<Rightarrow> None)"

section \<open>The sections of the configuration\<close>

definition de_microtun_config :: "toml \<Rightarrow> microtun_config option" where
  "de_microtun_config = de_struct [''ApiVersion'', ''Kind''] (\<lambda>t.
     Option.bind (required_field de_string t ''ApiVersion'') (\<lambda>api_version.
     Option.bind (required_field de_string t ''Kind'') (\<lambda>kind.
     Some \<lparr>mc_api_version = api_version, mc_kind = kind\<rparr>)))"

definition de_server_config :: "(string \<Rightarrow> socket_addr option) \<Rightarrow> toml \<Rightarrow> server_config option" where
  "de_server_config parse_addr = de_struct
     [''Listen'', ''AdminSocketPath'', ''AdminSocketMode'', ''AdminSocketGroup'', ''AllowNonLoopbackListen''] (\<lambda>t.
     Option.bind (required_field (\<lambda>v. Option.bind (de_string v) parse_addr) t ''Listen'') (\<lambda>listen.
     Option.bind (default_field de_string default_admin_socket_path t ''AdminSocketPath'') (\<lambda>path.
     Option.bind (default_field de_u32 default_admin_socket_mode t ''AdminSocketMode'') (\<lambda>mode.
     Option.bind (optional_field de_string t ''AdminSocketGroup'') (\<lambda>group.
     Option.bind (default_field de_bool False t ''AllowNonLoopbackListen'') (\<lambda>allow.
     Some \<lparr>sc_listen = listen, sc_admin_socket_path = path, sc_admin_socket_mode = mode,
           sc_admin_socket_group = group, sc_allow_non_loopback_listen = allow\<rparr>))))))"

definition de_key_algorithm :: "toml \<Rightarrow> key_algorithm option" where
  "de_key_algorithm v = Option.bind (de_string v) (\<lambda>name.
     if name = ''p256'' \<or> name = ''secp256r1'' then Some P256
     else if name = ''secp256k1'' then Some Secp256k1
     else if name = ''rsa-pss'' then Some RsaPss else None)"

definition de_key_state :: "toml \<Rightarrow> key_state option" where
  "de_key_state v = Option.bind (de_string v) (\<lambda>name.
     if name = ''active'' then Some Active
     else if name = ''disabled'' then Some Disabled
     else if name = ''retired'' then Some Retired else None)"

definition de_key_config :: "toml \<Rightarrow> key_config option" where
  "de_key_config = de_struct [''ID'', ''Algorithm'', ''PEMPath'', ''State'', ''PassphraseCredential''] (\<lambda>t.
     Option.bind (required_field de_string t ''ID'') (\<lambda>key_id.
     Option.bind (required_field de_key_algorithm t ''Algorithm'') (\<lambda>algorithm.
     Option.bind (required_field de_string t ''PEMPath'') (\<lambda>pem_path.
     Option.bind (default_field de_key_state Active t ''State'') (\<lambda>state.
     Option.bind (optional_field de_string t ''PassphraseCredential'') (\<lambda>credential.
     Some \<lparr>kc_id = key_id, kc_algorithm = algorithm, kc_pem_path = pem_path, kc_state = state,
           kc_passphrase_credential = credential\<rparr>))))))"

definition de_keyring_config :: "toml \<Rightarrow> keyring_config option" where
  "de_keyring_config = de_struct [''ID'', ''Keys''] (\<lambda>t.
     Option.bind (required_field de_string t ''ID'') (\<lambda>keyring_id.
     Option.bind (required_field (de_vec de_string) t ''Keys'') (\<lambda>keys.
     Some \<lparr>kr_id = keyring_id, kr_keys = keys\<rparr>)))"

definition de_github_config :: "toml \<Rightarrow> github_config option" where
  "de_github_config = de_struct
     [''APIURL'', ''APIVersion'', ''OAuthAccessTokenURL'', ''OAuthDeviceCodeURL'', ''OAuthClientID'',
      ''OAuthClientSecretCredential'', ''OAuthSessionTTLSeconds''] (\<lambda>t.
     Option.bind (default_field de_string default_github_api_url t ''APIURL'') (\<lambda>api_url.
     Option.bind (default_field de_string default_github_api_version t ''APIVersion'') (\<lambda>api_version.
     Option.bind (default_field de_string default_github_oauth_access_token_url t ''OAuthAccessTokenURL'') (\<lambda>token_url.
     Option.bind (default_field de_string default_github_oauth_device_code_url t ''OAuthDeviceCodeURL'') (\<lambda>code_url.
     Option.bind (required_field de_string t ''OAuthClientID'') (\<lambda>client_id.
     Option.bind (default_field de_string default_github_oauth_client_secret_credential t
                    ''OAuthClientSecretCredential'') (\<lambda>credential.
     Option.bind (default_field de_u64 default_oauth_session_ttl_seconds t ''OAuthSessionTTLSeconds'') (\<lambda>ttl.
     Some \<lparr>gh_api_url = api_url, gh_api_version = api_version, gh_oauth_access_token_url = token_url,
           gh_oauth_device_code_url = code_url, gh_oauth_client_id = client_id,
           gh_oauth_client_secret_credential = credential, gh_oauth_session_ttl_seconds = ttl\<rparr>))))))))"

definition de_github_actions_config :: "toml \<Rightarrow> github_actions_config option" where
  "de_github_actions_config = de_struct [''Audience'', ''JWKSURL'', ''JWKSTTLSeconds''] (\<lambda>t.
     Option.bind (default_field de_string default_audience t ''Audience'') (\<lambda>audience.
     Option.bind (default_field de_string default_jwks_url t ''JWKSURL'') (\<lambda>jwks_url.
     Option.bind (default_field de_u64 default_jwks_ttl_seconds t ''JWKSTTLSeconds'') (\<lambda>ttl.
     Some \<lparr>ga_audience = audience, ga_jwks_url = jwks_url, ga_jwks_ttl_seconds = ttl\<rparr>))))"

definition de_identity_kind :: "toml \<Rightarrow> identity_kind option" where
  "de_identity_kind v = Option.bind (de_string v) (\<lambda>name.
     if name = ''github-account'' then Some GithubAccountKind
     else if name = ''github-actions'' then Some GithubActionsKind else None)"

definition identity_fields :: "string list" where
  "identity_fields =
     [''ID'', ''Type'', ''GitHubUserID'', ''GitHubLogin'', ''RepositoryID'', ''Repository'', ''WorkflowPath'',
      ''AllowedEventNames'', ''AllowedRefTypes'', ''RequiredEnvironment'', ''RequiredRunnerEnvironment'',
      ''AllowedWorkflowSHAs'']"

definition de_identity_config :: "toml \<Rightarrow> identity_config option" where
  "de_identity_config = de_struct identity_fields (\<lambda>t.
     Option.bind (required_field de_string t ''ID'') (\<lambda>identity_id.
     Option.bind (required_field de_identity_kind t ''Type'') (\<lambda>kind.
     Option.bind (optional_field de_string t ''GitHubUserID'') (\<lambda>user_id.
     Option.bind (optional_field de_string t ''GitHubLogin'') (\<lambda>login.
     Option.bind (optional_field de_string t ''RepositoryID'') (\<lambda>repository_id.
     Option.bind (optional_field de_string t ''Repository'') (\<lambda>repository.
     Option.bind (optional_field de_string t ''WorkflowPath'') (\<lambda>workflow_path.
     Option.bind (optional_field (de_vec de_string) t ''AllowedEventNames'') (\<lambda>event_names.
     Option.bind (optional_field (de_vec de_string) t ''AllowedRefTypes'') (\<lambda>ref_types.
     Option.bind (optional_field de_string t ''RequiredEnvironment'') (\<lambda>environment.
     Option.bind (optional_field de_string t ''RequiredRunnerEnvironment'') (\<lambda>runner.
     Option.bind (optional_field (de_vec de_string) t ''AllowedWorkflowSHAs'') (\<lambda>shas.
     Some \<lparr>ic_id = identity_id, ic_kind = kind, ic_github_user_id = user_id, ic_github_login = login,
           ic_repository_id = repository_id, ic_repository = repository, ic_workflow_path = workflow_path,
           ic_allowed_event_names = event_names, ic_allowed_ref_types = ref_types,
           ic_required_environment = environment, ic_required_runner_environment = runner,
           ic_allowed_workflow_shas = shas\<rparr>)))))))))))))"

definition de_policy_action :: "toml \<Rightarrow> policy_action option" where
  "de_policy_action v = Option.bind (de_string v) (\<lambda>name. if name = ''sign'' then Some Sign else None)"

definition de_policy_config :: "toml \<Rightarrow> policy_config option" where
  "de_policy_config = de_struct [''Identity'', ''Actions'', ''Keys''] (\<lambda>t.
     Option.bind (required_field de_string t ''Identity'') (\<lambda>identity.
     Option.bind (required_field (de_vec de_policy_action) t ''Actions'') (\<lambda>actions.
     Option.bind (required_field (de_vec de_string) t ''Keys'') (\<lambda>keys.
     Some \<lparr>pc_identity = identity, pc_actions = actions, pc_keys = keys\<rparr>))))"

definition de_config :: "(string \<Rightarrow> socket_addr option) \<Rightarrow> toml \<Rightarrow> config option" where
  "de_config parse_addr = de_struct
     [''Microtun'', ''Server'', ''Key'', ''Keyring'', ''GitHub'', ''GitHubActions'', ''Identity'', ''Policy''] (\<lambda>t.
     Option.bind (required_field de_microtun_config t ''Microtun'') (\<lambda>microtun.
     Option.bind (required_field (de_server_config parse_addr) t ''Server'') (\<lambda>server.
     Option.bind (required_field (de_vec de_key_config) t ''Key'') (\<lambda>keys.
     Option.bind (default_field (de_vec de_keyring_config) [] t ''Keyring'') (\<lambda>keyrings.
     Option.bind (required_field de_github_config t ''GitHub'') (\<lambda>github.
     Option.bind (required_field de_github_actions_config t ''GitHubActions'') (\<lambda>github_actions.
     Option.bind (default_field (de_vec de_identity_config) [] t ''Identity'') (\<lambda>identities.
     Option.bind (default_field (de_vec de_policy_config) [] t ''Policy'') (\<lambda>policies.
     Some \<lparr>cfg_microtun = microtun, cfg_server = server, cfg_keys = keys, cfg_keyrings = keyrings,
           cfg_github = github, cfg_github_actions = github_actions, cfg_identities = identities,
           cfg_policies = policies\<rparr>)))))))))"

section \<open>Writing a configuration\<close>

definition optional_entry :: "string \<Rightarrow> ('a \<Rightarrow> toml) \<Rightarrow> 'a option \<Rightarrow> toml_table" where
  "optional_entry name en x = (case x of None \<Rightarrow> [] | Some a \<Rightarrow> [(name, en a)])"

definition en_strings :: "string list \<Rightarrow> toml" where
  "en_strings xs = TomlArray (map TomlString xs)"

definition en_microtun_config :: "microtun_config \<Rightarrow> toml" where
  "en_microtun_config m =
     TomlTable [(''ApiVersion'', TomlString (mc_api_version m)), (''Kind'', TomlString (mc_kind m))]"

definition en_server_config :: "(socket_addr \<Rightarrow> string) \<Rightarrow> server_config \<Rightarrow> toml" where
  "en_server_config print_addr s =
     TomlTable ([(''Listen'', TomlString (print_addr (sc_listen s))),
                 (''AdminSocketPath'', TomlString (sc_admin_socket_path s)),
                 (''AdminSocketMode'', TomlInteger (uint (sc_admin_socket_mode s))),
                 (''AllowNonLoopbackListen'', TomlBoolean (sc_allow_non_loopback_listen s))]
                @ optional_entry ''AdminSocketGroup'' TomlString (sc_admin_socket_group s))"

definition en_key_config :: "key_config \<Rightarrow> toml" where
  "en_key_config k =
     TomlTable ([(''ID'', TomlString (kc_id k)), (''Algorithm'', TomlString (key_algorithm_as_str (kc_algorithm k))),
                 (''PEMPath'', TomlString (kc_pem_path k)), (''State'', TomlString (key_state_as_str (kc_state k)))]
                @ optional_entry ''PassphraseCredential'' TomlString (kc_passphrase_credential k))"

definition en_keyring_config :: "keyring_config \<Rightarrow> toml" where
  "en_keyring_config r = TomlTable [(''ID'', TomlString (kr_id r)), (''Keys'', en_strings (kr_keys r))]"

definition en_github_config :: "github_config \<Rightarrow> toml" where
  "en_github_config g =
     TomlTable [(''APIURL'', TomlString (gh_api_url g)), (''APIVersion'', TomlString (gh_api_version g)),
                (''OAuthAccessTokenURL'', TomlString (gh_oauth_access_token_url g)),
                (''OAuthDeviceCodeURL'', TomlString (gh_oauth_device_code_url g)),
                (''OAuthClientID'', TomlString (gh_oauth_client_id g)),
                (''OAuthClientSecretCredential'', TomlString (gh_oauth_client_secret_credential g)),
                (''OAuthSessionTTLSeconds'', TomlInteger (uint (gh_oauth_session_ttl_seconds g)))]"

definition en_github_actions_config :: "github_actions_config \<Rightarrow> toml" where
  "en_github_actions_config a =
     TomlTable [(''Audience'', TomlString (ga_audience a)), (''JWKSURL'', TomlString (ga_jwks_url a)),
                (''JWKSTTLSeconds'', TomlInteger (uint (ga_jwks_ttl_seconds a)))]"

definition en_identity_config :: "identity_config \<Rightarrow> toml" where
  "en_identity_config i =
     TomlTable ([(''ID'', TomlString (ic_id i)),
                 (''Type'', TomlString (case ic_kind i of GithubAccountKind \<Rightarrow> ''github-account''
                                                        | GithubActionsKind \<Rightarrow> ''github-actions''))]
                @ optional_entry ''GitHubUserID'' TomlString (ic_github_user_id i)
                @ optional_entry ''GitHubLogin'' TomlString (ic_github_login i)
                @ optional_entry ''RepositoryID'' TomlString (ic_repository_id i)
                @ optional_entry ''Repository'' TomlString (ic_repository i)
                @ optional_entry ''WorkflowPath'' TomlString (ic_workflow_path i)
                @ optional_entry ''AllowedEventNames'' en_strings (ic_allowed_event_names i)
                @ optional_entry ''AllowedRefTypes'' en_strings (ic_allowed_ref_types i)
                @ optional_entry ''RequiredEnvironment'' TomlString (ic_required_environment i)
                @ optional_entry ''RequiredRunnerEnvironment'' TomlString (ic_required_runner_environment i)
                @ optional_entry ''AllowedWorkflowSHAs'' en_strings (ic_allowed_workflow_shas i))"

definition en_policy_config :: "policy_config \<Rightarrow> toml" where
  "en_policy_config p =
     TomlTable [(''Identity'', TomlString (pc_identity p)),
                (''Actions'', en_strings (map policy_action_as_str (pc_actions p))),
                (''Keys'', en_strings (pc_keys p))]"

definition en_config :: "(socket_addr \<Rightarrow> string) \<Rightarrow> config \<Rightarrow> toml" where
  "en_config print_addr c =
     TomlTable [(''Microtun'', en_microtun_config (cfg_microtun c)),
                (''Server'', en_server_config print_addr (cfg_server c)),
                (''Key'', TomlArray (map en_key_config (cfg_keys c))),
                (''Keyring'', TomlArray (map en_keyring_config (cfg_keyrings c))),
                (''GitHub'', en_github_config (cfg_github c)),
                (''GitHubActions'', en_github_actions_config (cfg_github_actions c)),
                (''Identity'', TomlArray (map en_identity_config (cfg_identities c))),
                (''Policy'', TomlArray (map en_policy_config (cfg_policies c)))]"

section \<open>Lemmas\<close>

lemma de_vec_map: "(\<And>x. de (en x) = Some x) \<Longrightarrow> de_vec de (TomlArray (map en xs)) = Some xs"
  using all_some_map [of de en xs] by (simp add: de_vec_def)

lemma de_strings [simp]: "de_vec de_string (en_strings xs) = Some xs"
  unfolding en_strings_def by (rule de_vec_map) simp

lemma map_of_optional [simp]:
  "map_of (optional_entry name en x @ t) n =
     (if n = name then (case x of None \<Rightarrow> map_of t n | Some a \<Rightarrow> Some (en a)) else map_of t n)"
  "map_of (optional_entry name en x) n = (if n = name then map_option en x else None)"
  by (auto simp: optional_entry_def split: option.split)

lemma list_all_optional [simp]:
  "list_all P (optional_entry name en x) \<longleftrightarrow> (\<forall>a. x = Some a \<longrightarrow> P (name, en a))"
  by (simp add: optional_entry_def split: option.split)

lemma optional_written:
  "(\<And>a. de (en a) = Some a) \<Longrightarrow> 
     (case (case x of None \<Rightarrow> None | Some a \<Rightarrow> Some (en a)) of None \<Rightarrow> Some None | Some v \<Rightarrow> map_option Some (de v)) = Some x"
  "(\<And>a. de (en a) = Some a) \<Longrightarrow>
     (case map_option en x of None \<Rightarrow> Some None | Some v \<Rightarrow> map_option Some (de v)) = Some x"
  by (cases x; simp)+

lemma de_u32_uint: "de_u32 (TomlInteger (uint w)) = Some w"
  using uint_lt2p [of w] by simp

lemma de_u64_uint: "de_u64 (TomlInteger (uint w)) = Some w"
  using uint_lt2p [of w] by simp

lemmas field_defs = required_field_def default_field_def optional_field_def de_struct_def

lemma de_microtun [simp]: "de_microtun_config (en_microtun_config m) = Some m"
  by (simp add: de_microtun_config_def en_microtun_config_def field_defs)

lemma de_server:
  assumes "\<And>a. parse_addr (print_addr a) = Some a"
  shows "de_server_config parse_addr (en_server_config print_addr s) = Some s"
  using assms
  by (cases "sc_admin_socket_group s")
    (simp_all add: de_server_config_def en_server_config_def field_defs de_u32_uint del: de_u32.simps)

lemma de_key [simp]: "de_key_config (en_key_config k) = Some k"
proof -
  have "de_key_algorithm (TomlString (key_algorithm_as_str a)) = Some a" for a
    by (cases a) (simp_all add: de_key_algorithm_def)
  moreover have "de_key_state (TomlString (key_state_as_str s)) = Some s" for s
    by (cases s) (simp_all add: de_key_state_def)
  ultimately show ?thesis
    by (cases "kc_passphrase_credential k") (simp_all add: de_key_config_def en_key_config_def field_defs)
qed

lemma de_keyring [simp]: "de_keyring_config (en_keyring_config r) = Some r"
  by (simp add: de_keyring_config_def en_keyring_config_def field_defs)

lemma de_github [simp]: "de_github_config (en_github_config g) = Some g"
  by (simp add: de_github_config_def en_github_config_def field_defs de_u64_uint del: de_u64.simps)

lemma de_github_actions [simp]: "de_github_actions_config (en_github_actions_config a) = Some a"
  by (simp add: de_github_actions_config_def en_github_actions_config_def field_defs de_u64_uint del: de_u64.simps)

lemma de_identity [simp]: "de_identity_config (en_identity_config i) = Some i"
proof -
  have "de_identity_kind (TomlString (case k of GithubAccountKind \<Rightarrow> ''github-account''
      | GithubActionsKind \<Rightarrow> ''github-actions'')) = Some k" for k
    by (cases k) (simp_all add: de_identity_kind_def)
  then show ?thesis
    by (cases "ic_allowed_workflow_shas i")
      (simp_all add: de_identity_config_def identity_fields_def en_identity_config_def field_defs optional_written del: map_of_append cong: option.case_cong)
qed

lemma de_policy [simp]: "de_policy_config (en_policy_config p) = Some p"
proof -
  have "de_vec de_policy_action (en_strings (map policy_action_as_str as)) = Some as" for as
  proof -
    have "de_policy_action (TomlString (policy_action_as_str a)) = Some a" for a
      by (cases a) (simp add: de_policy_action_def)
    then show ?thesis
      using de_vec_map [of de_policy_action "\<lambda>a. TomlString (policy_action_as_str a)" as]
      by (simp add: en_strings_def comp_def)
  qed
  then show ?thesis by (simp add: de_policy_config_def en_policy_config_def field_defs)
qed

lemma de_struct_Some:
  "de_struct names de v = Some a \<longleftrightarrow> (\<exists>t. v = TomlTable t \<and> fst ` set t \<subseteq> set names \<and> de t = Some a)"
  by (auto simp: de_struct_def list_all_iff split: toml.split)

lemma de_vec_Some:
  "de_vec de v = Some xs \<longleftrightarrow> (\<exists>vs. v = TomlArray vs \<and> list_all2 (\<lambda>v x. de v = Some x) vs xs)"
proof -
  have "all_some (map de vs) = Some xs \<longleftrightarrow> list_all2 (\<lambda>v x. de v = Some x) vs xs" for vs
    by (induction vs arbitrary: xs) (auto simp: list_all2_Cons1 bind_eq_Some_conv)
  then show ?thesis by (auto simp: de_vec_def split: toml.split)
qed

lemma identity_unknown_field:
  "name \<in> fst ` set f \<Longrightarrow> name \<notin> set identity_fields \<Longrightarrow> de_identity_config (TomlTable f) = None"
  by (auto simp: de_identity_config_def de_struct_def list_all_iff)

lemma de_vec_None: "v \<in> set vs \<Longrightarrow> de v = None \<Longrightarrow> de_vec de (TomlArray vs) = None"
proof -
  have "v \<in> set vs \<Longrightarrow> de v = None \<Longrightarrow> all_some (map de vs) = None" by (induction vs) (auto split: bind_splits)
  then show "v \<in> set vs \<Longrightarrow> de v = None \<Longrightarrow> de_vec de (TomlArray vs) = None" by (simp add: de_vec_def)
qed

lemma de_config_identities:
  assumes "map_of t ''Identity'' = Some v" and "de_vec de_identity_config v = None"
  shows "de_config parse_addr (TomlTable t) = None"
  using assms by (auto simp: de_config_def de_struct_def default_field_def bind_eq_None_conv)

section \<open>Reading what was written\<close>


section \<open>The example configuration as a document\<close>

text \<open>A plain notation of socket addresses, with the number of the address in place of its parts.\<close>

definition plain_addr :: "socket_addr \<Rightarrow> string" where
  "plain_addr a =
     (case sa_ip a of V4 w \<Rightarrow> CHR ''4'' # decimal (unat w) | V6 w \<Rightarrow> CHR ''6'' # decimal (unat w))
       @ '':'' @ decimal (unat (sa_port a))"

definition parse_plain_addr :: "string \<Rightarrow> socket_addr option" where
  "parse_plain_addr s =
     (case s of
        [] \<Rightarrow> None
      | kind # rest \<Rightarrow> map_option (\<lambda>(number, port).
          \<lparr>sa_ip = (if kind = CHR ''4'' then V4 (of_nat (undecimal number)) else V6 (of_nat (undecimal number))),
           sa_port = of_nat (undecimal port)\<rparr>) (split_once (CHR '':'') rest))"

lemma parse_plain: "parse_plain_addr (plain_addr a) = Some a"
proof -
  have "CHR '':'' \<notin> set (decimal n)" for n using decimal_digits [of "CHR '':''" n] by (auto simp: is_ascii_digit_def)
  then have "split_once (CHR '':'') (decimal n @ CHR '':'' # s) = Some (decimal n, s)" for n s
    by (simp add: split_once_Some)
  then show ?thesis by (cases a; cases "sa_ip a") (auto simp: plain_addr_def parse_plain_addr_def)
qed


end
