(* ===== verification/Config_Tests.thy ===== *)
theory Config_Tests
  imports Config_Decode
begin

text \<open>
  The unit tests of \<^verbatim>\<open>src/config.rs\<close> on the model. Each test is a predicate that evaluates the model on the
  configuration of the test, and a lemma that it holds. The TOML texts of the tests are written as
  documents, replacements in a text as changes of the document, and a check of an error message as a check
  of the error it belongs to. The addresses of the tests are read by \<open>test_addr\<close>.
\<close>

section \<open>Fixtures\<close>

definition test_addr :: "string \<Rightarrow> socket_addr option" where
  "test_addr s =
     (if s = ''127.0.0.1:8080'' then Some \<lparr>sa_ip = V4 0x7F000001, sa_port = 8080\<rparr>
      else if s = ''0.0.0.0:8080'' then Some \<lparr>sa_ip = V4 0, sa_port = 8080\<rparr>
      else if s = ''[::1]:8080'' then Some \<lparr>sa_ip = V6 1, sa_port = 8080\<rparr> else None)"

definition base_config_with :: "toml_table \<Rightarrow> toml_table \<Rightarrow> toml_table \<Rightarrow> toml_table \<Rightarrow> toml" where
  "base_config_with server key github extra =
     TomlTable
       ([(''Microtun'', TomlTable [(''ApiVersion'', TomlString ''microtun.dev/v1alpha1''), (''Kind'', TomlString ''SignerConfig'')]),
         (''Server'', TomlTable server), (''Key'', TomlArray [TomlTable key]),
         (''GitHub'', TomlTable ((''OAuthClientID'', TomlString ''Iv1.test-client-id'') # github)),
         (''GitHubActions'', TomlTable [])] @ extra)"

definition listen :: "string \<Rightarrow> toml_table" where
  "listen addr = [(''Listen'', TomlString addr)]"

definition test_key_with :: "toml_table \<Rightarrow> toml_table" where
  "test_key_with algorithm =
     (''ID'', TomlString ''test-key'') # algorithm @ [(''PEMPath'', TomlString ''/tmp/test-key.pem'')]"

definition algorithm :: "string \<Rightarrow> toml_table" where
  "algorithm name = [(''Algorithm'', TomlString name)]"

definition base_config :: "toml_table \<Rightarrow> toml" where
  "base_config extra = base_config_with (listen ''127.0.0.1:8080'') (test_key_with (algorithm ''p256'')) [] extra"

definition account :: "string \<Rightarrow> string \<Rightarrow> toml_table \<Rightarrow> toml" where
  "account name user_id more_fields =
     TomlTable ([(''ID'', TomlString name), (''Type'', TomlString ''github-account''),
                 (''GitHubUserID'', TomlString user_id)] @ more_fields)"

definition sign_policy :: "string \<Rightarrow> string \<Rightarrow> toml" where
  "sign_policy identity key =
     TomlTable [(''Identity'', TomlString identity), (''Actions'', en_strings [''sign'']), (''Keys'', en_strings [key])]"

definition maintainer_extra :: toml_table where
  "maintainer_extra =
     [(''Identity'', TomlArray [account ''maintainer'' ''42'' []]),
      (''Policy'', TomlArray [sign_policy ''maintainer'' ''test-key''])]"

definition account_config :: toml where
  "account_config = base_config maintainer_extra"

definition actions_identity :: "string \<Rightarrow> toml_table \<Rightarrow> toml" where
  "actions_identity name more_fields =
     TomlTable ([(''ID'', TomlString name), (''Type'', TomlString ''github-actions''),
                 (''RepositoryID'', TomlString ''123'')] @ more_fields)"

definition actions_config :: "toml_table \<Rightarrow> toml" where
  "actions_config identity_extra =
     base_config
       [(''Identity'', TomlArray [actions_identity ''release-actions''
           ([(''WorkflowPath'', TomlString ''.github/workflows/release.yml''),
             (''AllowedEventNames'', en_strings [''push''])] @ identity_extra)]),
        (''Policy'', TomlArray [sign_policy ''release-actions'' ''test-key''])]"

definition validate :: "toml \<Rightarrow> (config_error option, config) outcome" where
  "validate doc =
     (case de_config test_addr doc of
        None \<Rightarrow> Err None
      | Some config \<Rightarrow>
          and_then (map_err Some (normalize_and_validate https_parser config)) (\<lambda>_. Ok config))"

definition signing_environment :: toml_table where
  "signing_environment = [(''RequiredEnvironment'', TomlString ''firmware-signing'')]"

section \<open>Tests\<close>

definition key_ids_match_protocol :: bool where
  "key_ids_match_protocol \<longleftrightarrow>
     valid_key_id ''microtun-firmware-prod-2026-01'' \<and> \<not> valid_key_id [] \<and> \<not> valid_key_id ''bad/key''
     \<and> \<not> valid_key_id (replicate 129 (CHR ''a''))"

lemma key_ids_match_protocol_passes: key_ids_match_protocol
  by code_simp

definition with_algorithm :: "toml_table \<Rightarrow> key_algorithm option" where
  "with_algorithm field =
     map_option (\<lambda>c. kc_algorithm (cfg_keys c ! 0))
       (de_config test_addr (base_config_with (listen ''127.0.0.1:8080'') (test_key_with field) [] maintainer_extra))"

definition signing_key_algorithm_is_required_and_accepts_supported_values :: bool where
  "signing_key_algorithm_is_required_and_accepts_supported_values \<longleftrightarrow>
     with_algorithm (algorithm ''p256'') = Some P256 \<and> with_algorithm (algorithm ''secp256k1'') = Some Secp256k1
     \<and> with_algorithm (algorithm ''rsa-pss'') = Some RsaPss \<and> with_algorithm (algorithm ''secp256r1'') = Some P256
     \<and> with_algorithm (algorithm ''ed25519'') = None \<and> with_algorithm [] = None"

lemma signing_key_algorithm_passes: signing_key_algorithm_is_required_and_accepts_supported_values
  by code_simp

definition server_admin_socket_defaults_to_local_runtime_path :: bool where
  "server_admin_socket_defaults_to_local_runtime_path =
     (case validate account_config of
        Ok c \<Rightarrow> sc_admin_socket_path (cfg_server c) = ''/run/microtun-signer/admin.sock''
          \<and> sc_admin_socket_mode (cfg_server c) = 0b110110000
      | _ \<Rightarrow> False)"

lemma server_admin_socket_defaults_passes: server_admin_socket_defaults_to_local_runtime_path
  by code_simp

definition legacy_server_socket_fields_are_rejected :: bool where
  "legacy_server_socket_fields_are_rejected \<longleftrightarrow>
     de_config test_addr (base_config_with
       (listen ''127.0.0.1:8080'' @ [(''SocketPath'', TomlString ''/run/microtun-signer/unlock.sock''),
                                     (''SocketMode'', TomlInteger 432)])
       (test_key_with (algorithm ''p256'')) [] maintainer_extra) = None"

lemma legacy_server_socket_fields_passes: legacy_server_socket_fields_are_rejected
  by code_simp

definition legacy_unlock_block_is_rejected :: bool where
  "legacy_unlock_block_is_rejected \<longleftrightarrow>
     de_config test_addr (base_config (maintainer_extra
       @ [(''Unlock'', TomlTable [(''SocketPath'', TomlString ''/run/microtun-signer/unlock.sock'')])])) = None"

lemma legacy_unlock_block_passes: legacy_unlock_block_is_rejected
  by code_simp

definition keyring :: "string \<Rightarrow> string list \<Rightarrow> toml" where
  "keyring name keys = TomlTable [(''ID'', TomlString name), (''Keys'', en_strings keys)]"

definition with_rings :: "toml list \<Rightarrow> toml" where
  "with_rings rings = base_config (maintainer_extra @ [(''Keyring'', TomlArray rings)])"

definition keyrings_are_optional_and_declared_at_the_top_level :: bool where
  "keyrings_are_optional_and_declared_at_the_top_level \<longleftrightarrow>
     (case validate account_config of Ok c \<Rightarrow> cfg_keyrings c = [] | _ \<Rightarrow> False)
     \<and> (case validate (with_rings [keyring ''firmware-prod'' [''test-key'']]) of
          Ok c \<Rightarrow> cfg_keyrings c = [\<lparr>kr_id = ''firmware-prod'', kr_keys = [''test-key'']\<rparr>]
        | _ \<Rightarrow> False)"

lemma keyrings_are_optional_passes: keyrings_are_optional_and_declared_at_the_top_level
  by code_simp

definition ring_error :: "toml list \<Rightarrow> keyring_config_error \<Rightarrow> bool" where
  "ring_error rings e \<longleftrightarrow> validate (with_rings rings) = Err (Some (KeyringError e))"

definition top_level_keyrings_validate_names_and_membership :: bool where
  "top_level_keyrings_validate_names_and_membership \<longleftrightarrow>
     ring_error [keyring [] [''test-key'']] InvalidKeyringId
     \<and> ring_error [keyring ''bad/name'' [''test-key'']] InvalidKeyringId
     \<and> ring_error [keyring ''fw'' []] (EmptyKeyring ''fw'')
     \<and> ring_error [keyring ''fw'' [''missing'']] (KeyringUnknownKey ''fw'' ''missing'')
     \<and> ring_error [keyring ''fw'' [''test-key'', ''test-key'']] (KeyListedTwice ''test-key'' ''fw'' ''fw'')
     \<and> ring_error [keyring ''fw'' [''test-key''], keyring ''fw'' [''test-key'']] (DuplicateKeyringId ''fw'')
     \<and> ring_error [keyring ''fw'' [''test-key''], keyring ''fw2'' [''test-key'']] (KeyListedTwice ''test-key'' ''fw'' ''fw2'')"

lemma top_level_keyrings_passes: top_level_keyrings_validate_names_and_membership
  by code_simp

definition per_key_keyring_membership_is_rejected :: bool where
  "per_key_keyring_membership_is_rejected \<longleftrightarrow>
     de_config test_addr (base_config_with (listen ''127.0.0.1:8080'')
       (test_key_with (algorithm ''p256'') @ [(''Keyring'', TomlString ''firmware-prod'')]) [] maintainer_extra) = None"

lemma per_key_keyring_membership_passes: per_key_keyring_membership_is_rejected
  by code_simp

definition key_passphrase_credential_is_rejected :: bool where
  "key_passphrase_credential_is_rejected \<longleftrightarrow>
     validate (base_config_with (listen ''127.0.0.1:8080'')
       (test_key_with (algorithm ''p256'') @ [(''PassphraseCredential'', TomlString ''signing-key-passphrase'')])
       [] maintainer_extra) = Err (Some (KeyError PassphraseCredentialUnsupported))"

lemma key_passphrase_credential_passes: key_passphrase_credential_is_rejected
  by code_simp

definition account_identity_and_key_policy_validate :: bool where
  "account_identity_and_key_policy_validate \<longleftrightarrow>
     is_ok (validate (base_config
       [(''Identity'', TomlArray [account ''maintainer'' ''42'' [(''GitHubLogin'', TomlString ''octocat'')]]),
        (''Policy'', TomlArray [sign_policy ''maintainer'' ''test-key''])]))"

lemma account_identity_and_key_policy_passes: account_identity_and_key_policy_validate
  by code_simp

definition get_key_is_not_a_policy_action :: bool where
  "get_key_is_not_a_policy_action \<longleftrightarrow>
     de_config test_addr (base_config
       [(''Identity'', TomlArray [account ''maintainer'' ''42'' []]),
        (''Policy'', TomlArray [TomlTable [(''Identity'', TomlString ''maintainer''),
           (''Actions'', en_strings [''get-key'']), (''Keys'', en_strings [''test-key''])]])]) = None"

lemma get_key_is_not_a_policy_action_passes: get_key_is_not_a_policy_action
  by code_simp

definition actions_sign_policy_requires_identity_conditions :: bool where
  "actions_sign_policy_requires_identity_conditions \<longleftrightarrow>
     validate (base_config
       [(''Identity'', TomlArray [actions_identity ''release-actions'' []]),
        (''Policy'', TomlArray [sign_policy ''release-actions'' ''test-key''])])
     = Err (Some (PolicyError (SignRequiresWorkflowPath ''release-actions'')))"

lemma actions_sign_policy_requires_identity_conditions_passes: actions_sign_policy_requires_identity_conditions
  by code_simp

definition actions_identity_with_conditions_validates :: bool where
  "actions_identity_with_conditions_validates \<longleftrightarrow>
     is_ok (validate (base_config
       [(''Identity'', TomlArray [actions_identity ''release-actions''
           ([(''Repository'', TomlString ''owner/repo''), (''WorkflowPath'', TomlString ''.github/workflows/release.yml''),
             (''AllowedEventNames'', en_strings [''push'']), (''AllowedRefTypes'', en_strings [''tag''])]
            @ signing_environment)]),
        (''Policy'', TomlArray [sign_policy ''release-actions'' ''test-key''])]))"

lemma actions_identity_with_conditions_passes: actions_identity_with_conditions_validates
  by code_simp

definition policy_cannot_reference_unknown_key :: bool where
  "policy_cannot_reference_unknown_key \<longleftrightarrow>
     \<not> is_ok (validate (base_config
       [(''Identity'', TomlArray [account ''maintainer'' ''42'' []]),
        (''Policy'', TomlArray [sign_policy ''maintainer'' ''missing''])]))"

lemma policy_cannot_reference_unknown_key_passes: policy_cannot_reference_unknown_key
  by code_simp

definition actions_identities_may_share_repository_id :: bool where
  "actions_identities_may_share_repository_id \<longleftrightarrow>
     is_ok (validate (base_config
       [(''Identity'', TomlArray
           [actions_identity ''release-actions''
              ([(''WorkflowPath'', TomlString ''.github/workflows/release.yml''),
                (''AllowedEventNames'', en_strings [''push'']), (''AllowedRefTypes'', en_strings [''tag''])]
               @ signing_environment),
            actions_identity ''hotfix-actions''
              ([(''WorkflowPath'', TomlString ''.github/workflows/hotfix.yml''),
                (''AllowedEventNames'', en_strings [''workflow_dispatch''])] @ signing_environment)]),
        (''Policy'', TomlArray [sign_policy ''release-actions'' ''test-key'', sign_policy ''hotfix-actions'' ''test-key''])]))"

lemma actions_identities_may_share_repository_id_passes: actions_identities_may_share_repository_id
  by code_simp

definition duplicate_external_identities_are_rejected :: bool where
  "duplicate_external_identities_are_rejected \<longleftrightarrow>
     \<not> is_ok (validate (base_config
       [(''Identity'', TomlArray [account ''one'' ''42'' [], account ''two'' ''42'' []]),
        (''Policy'', TomlArray [sign_policy ''one'' ''test-key''])]))"

lemma duplicate_external_identities_passes: duplicate_external_identities_are_rejected
  by code_simp

definition actions_sign_policy_requires_protected_environment :: bool where
  "actions_sign_policy_requires_protected_environment \<longleftrightarrow>
     validate (actions_config []) = Err (Some (PolicyError (SignRequiresEnvironment ''release-actions'')))
     \<and> is_ok (validate (actions_config signing_environment))"

lemma actions_sign_policy_requires_protected_environment_passes: actions_sign_policy_requires_protected_environment
  by code_simp

definition actions_sign_policy_rejects_branch_ref_types :: bool where
  "actions_sign_policy_rejects_branch_ref_types \<longleftrightarrow>
     validate (actions_config (signing_environment @ [(''AllowedRefTypes'', en_strings [''tag'', ''branch''])]))
     = Err (Some (PolicyError (SignRequiresTagRefs ''release-actions'')))"

lemma actions_sign_policy_rejects_branch_ref_types_passes: actions_sign_policy_rejects_branch_ref_types
  by code_simp

definition with_shas :: "string list \<Rightarrow> (config_error option, config) outcome" where
  "with_shas shas = validate (actions_config (signing_environment @ [(''AllowedWorkflowSHAs'', en_strings shas)]))"

definition empty_workflow_sha_pin_list_is_rejected :: bool where
  "empty_workflow_sha_pin_list_is_rejected \<longleftrightarrow>
     with_shas [] = Err (Some (ConstraintError EmptyAllowedWorkflowShas))
     \<and> \<not> is_ok (with_shas [''abc'']) \<and> is_ok (with_shas [replicate 40 (CHR ''a'')])"

lemma empty_workflow_sha_pin_list_passes: empty_workflow_sha_pin_list_is_rejected
  by code_simp

definition oauth_session_ttl_defaults_short_and_is_capped :: bool where
  "oauth_session_ttl_defaults_short_and_is_capped \<longleftrightarrow>
     (case validate account_config of Ok c \<Rightarrow> gh_oauth_session_ttl_seconds (cfg_github c) = 900 | _ \<Rightarrow> False)
     \<and> validate (base_config_with (listen ''127.0.0.1:8080'') (test_key_with (algorithm ''p256''))
          [(''OAuthSessionTTLSeconds'', TomlInteger 28800)] maintainer_extra) = Err (Some (GithubError InvalidSessionTtl))"

lemma oauth_session_ttl_passes: oauth_session_ttl_defaults_short_and_is_capped
  by code_simp

definition with_server :: "toml_table \<Rightarrow> (config_error option, config) outcome" where
  "with_server server = validate (base_config_with server (test_key_with (algorithm ''p256'')) [] maintainer_extra)"

definition non_loopback_listen_requires_opt_in :: bool where
  "non_loopback_listen_requires_opt_in \<longleftrightarrow>
     with_server (listen ''0.0.0.0:8080'')
       = Err (Some (ServerError (NonLoopbackListen \<lparr>sa_ip = V4 0, sa_port = 8080\<rparr>)))
     \<and> is_ok (with_server (listen ''0.0.0.0:8080'' @ [(''AllowNonLoopbackListen'', TomlBoolean True)]))
     \<and> is_ok (with_server (listen ''[::1]:8080''))"

lemma non_loopback_listen_passes: non_loopback_listen_requires_opt_in
  by code_simp

definition with_group :: "string \<Rightarrow> (config_error option, config) outcome" where
  "with_group name = with_server (listen ''127.0.0.1:8080'' @ [(''AdminSocketGroup'', TomlString name)])"

definition admin_socket_group_is_validated :: bool where
  "admin_socket_group_is_validated \<longleftrightarrow>
     (case with_group ''microtun-signer-operators'' of
        Ok c \<Rightarrow> sc_admin_socket_group (cfg_server c) = Some ''microtun-signer-operators''
      | _ \<Rightarrow> False)
     \<and> \<not> is_ok (with_group ''../etc'') \<and> \<not> is_ok (with_group [])"

lemma admin_socket_group_passes: admin_socket_group_is_validated
  by code_simp

end
