(* ===== verification/Auth_Tests.thy ===== *)
theory Auth_Tests
  imports Config_Decode Wire_Format
begin

text \<open>
  The unit tests of \<^verbatim>\<open>src/auth.rs\<close> on the model: a predicate per test and a lemma that it holds. The mock
  GitHub server of the tests is a \<open>github_api\<close> built from the state of the mock, with its answers as JSON
  documents, and the number of revocations is the number of DELETE requests among the requests of an exchange. A digest is the first
  32 characters of the padded input, which has the length of a SHA-256 digest and tells the tokens of the
  tests apart. The random bytes of a session token are a fixed text of 43 characters after encoding.
\<close>

section \<open>Fixtures\<close>

definition test_sha256 :: "string \<Rightarrow> string" where
  "test_sha256 s = take 32 (s @ replicate 32 CHR ''0'')"

definition test_random :: string where
  "test_random = ''0123456789abcdefghijABCDEFGHIJ0123456789xyz''"

record mock_github_state =
  mg_check_status :: nat
  mg_token_client_id :: string
  mg_scopes :: "string list"
  mg_user_status :: nat
  mg_user_id :: u64
  mg_login :: string
  mg_two_factor_authentication :: "bool option"
  mg_revoke_status :: nat

definition mock_default :: mock_github_state where
  "mock_default =
     \<lparr>mg_check_status = 200, mg_token_client_id = ''Iv1.test'', mg_scopes = [''read:user''],
      mg_user_status = 200, mg_user_id = 42, mg_login = ''octocat'',
      mg_two_factor_authentication = Some True, mg_revoke_status = 204\<rparr>"

definition mock_token_json :: "mock_github_state \<Rightarrow> json" where
  "mock_token_json s =
     JsonObject [(''scopes'', JsonArray (map JsonString (mg_scopes s))),
                 (''app'', JsonObject [(''client_id'', JsonString (mg_token_client_id s))])]"

definition mock_user_json :: "mock_github_state \<Rightarrow> json" where
  "mock_user_json s =
     JsonObject [(''login'', JsonString (mg_login s)), (''id'', JsonInteger (uint (mg_user_id s))),
                 (''two_factor_authentication'',
                    case mg_two_factor_authentication s of None \<Rightarrow> JsonNull | Some b \<Rightarrow> JsonBool b)]"

definition mock_token_check :: "mock_github_state \<Rightarrow> http_response" where
  "mock_token_check s =
     (if mg_check_status s \<noteq> 200 then \<lparr>hs_status = mg_check_status s, hs_body = []\<rparr>
      else \<lparr>hs_status = 200, hs_body = jt_print plain_json (mock_token_json s)\<rparr>)"

definition mock_user :: "mock_github_state \<Rightarrow> http_response" where
  "mock_user s =
     (if mg_user_status s \<noteq> 200 then \<lparr>hs_status = mg_user_status s, hs_body = []\<rparr>
      else \<lparr>hs_status = 200, hs_body = jt_print plain_json (mock_user_json s)\<rparr>)"

definition mock_revoke :: "mock_github_state \<Rightarrow> http_response" where
  "mock_revoke s = \<lparr>hs_status = mg_revoke_status s, hs_body = []\<rparr>"

definition spawn_mock_github :: "mock_github_state \<Rightarrow> github_api" where
  "spawn_mock_github s =
     \<lparr>api_http = (\<lambda>rq. Some (case hq_method rq of
          HttpPost \<Rightarrow> mock_token_check s | HttpGet \<Rightarrow> mock_user s | HttpDelete \<Rightarrow> mock_revoke s)),
      api_parse_check = from_slice plain_json de_token_check_response,
      api_parse_user = from_slice plain_json de_github_user_response\<rparr>"

definition for_tests_with_github :: "string \<Rightarrow> identity_config list \<Rightarrow> string inner option" where
  "for_tests_with_github api_url identities =
     Option.bind (de_github_config (TomlTable [(''APIURL'', TomlString api_url),
                                               (''OAuthClientID'', TomlString ''Iv1.test'')])) (\<lambda>github.
     Option.bind (de_github_actions_config (TomlTable [])) (\<lambda>actions.
     Some \<lparr>in_github = github, in_github_oauth_client_secret = ''secret'', in_actions = actions,
           in_identities = identities, in_jwks = jwks_cache_default,
           in_device_token_replay = mutex_new \<lparr>dr_in_flight = [], dr_used = hm_new\<rparr>,
           in_oauth_sessions = hm_new, in_seen_jtis = mutex_new hm_new\<rparr>))"

definition for_tests :: "string inner option" where
  "for_tests = for_tests_with_github ''https://api.github.com'' []"

definition with_auth :: "string inner option \<Rightarrow> (string inner \<Rightarrow> bool) \<Rightarrow> bool" where
  "with_auth auth test = (case auth of None \<Rightarrow> False | Some st \<Rightarrow> test st)"

definition account_identity :: identity_config where
  "account_identity =
     \<lparr>ic_id = ''maintainer'', ic_kind = GithubAccountKind, ic_github_user_id = Some ''42'',
      ic_github_login = Some ''OctoCat'', ic_repository_id = None, ic_repository = None,
      ic_workflow_path = None, ic_allowed_event_names = None, ic_allowed_ref_types = None,
      ic_required_environment = None, ic_required_runner_environment = None,
      ic_allowed_workflow_shas = None\<rparr>"

definition test_actions_identity :: identity_config where
  "test_actions_identity =
     \<lparr>ic_id = ''release-actions'', ic_kind = GithubActionsKind, ic_github_user_id = None,
      ic_github_login = None, ic_repository_id = Some ''123'', ic_repository = Some ''owner/repo'',
      ic_workflow_path = Some ''.github/workflows/release.yml'', ic_allowed_event_names = Some [''push''],
      ic_allowed_ref_types = Some [''tag''], ic_required_environment = Some ''firmware-signing'',
      ic_required_runner_environment = None, ic_allowed_workflow_shas = Some [''fedcba9876543210'']\<rparr>"

definition actions_claims :: github_actions_claims where
  "actions_claims =
     \<lparr>cl_iss = GITHUB_ACTIONS_ISSUER, cl_aud = One ''aud'', cl_sub = ''repo:owner/repo:ref:refs/tags/v1.2.3'',
      cl_exp = 4102444800, cl_jti = Some ''jti-1'', cl_actor = Some ''release-user'', cl_actor_id = Some ''456'',
      cl_repository = ''owner/repo'', cl_repository_id = ''123'', cl_git_ref = ''refs/tags/v1.2.3'',
      cl_ref_type = ''tag'', cl_ref_protected = Some (JBool True), cl_sha = ''0123456789abcdef'',
      cl_workflow_ref = ''owner/repo/.github/workflows/release.yml@refs/tags/v1.2.3'',
      cl_workflow_sha = Some ''fedcba9876543210'', cl_event_name = ''push'', cl_run_id = ''42'',
      cl_run_attempt = ''1'', cl_environment = Some ''firmware-signing'',
      cl_runner_environment = Some ''github-hosted''\<rparr>"

text \<open>An exchange at the instants \<open>t\<close>, \<open>t + 1\<close> and \<open>t + 2\<close> against the mock.\<close>

definition exchange_at :: "mock_github_state \<Rightarrow> instant \<Rightarrow> string exchange_env" where
  "exchange_at s t = \<lparr>xe_sha256 = test_sha256, xe_api = spawn_mock_github s, xe_begin = t, xe_consume = t + 1,
     xe_mint = t + 2, xe_token = session_token (\<lambda>b. b) test_random\<rparr>"

definition revocations :: "http_request list \<Rightarrow> nat" where
  "revocations requests = length (filter (\<lambda>rq. hq_method rq = HttpDelete) requests)"

text \<open>The tests of a refused exchange share their shape: the error and the number of revocations.\<close>

definition exchange_refused :: "mock_github_state \<Rightarrow> string \<Rightarrow> oauth_flow_error \<Rightarrow> nat \<Rightarrow> bool" where
  "exchange_refused s token e n =
     with_auth (for_tests_with_github ''http://mock'' [account_identity]) (\<lambda>auth.
       case complete_github_device_oauth (exchange_at s 10) token auth of
         (result, auth', requests) \<Rightarrow> result = Err e \<and> revocations requests = n)"

section \<open>Identities and scopes\<close>

definition account_identity_uses_immutable_numeric_id :: bool where
  "account_identity_uses_immutable_numeric_id \<longleftrightarrow>
     matches_github_account_identity account_identity ''42'' ''octocat''
     \<and> \<not> matches_github_account_identity account_identity ''43'' ''octocat''"

lemma account_identity_uses_immutable_numeric_id_passes: "account_identity_uses_immutable_numeric_id"
  by code_simp

definition actions_identity_uses_repository_numeric_id :: bool where
  "actions_identity_uses_repository_numeric_id \<longleftrightarrow>
     matches_github_actions_identity test_actions_identity actions_claims
     \<and> \<not> matches_github_actions_identity test_actions_identity (actions_claims\<lparr>cl_repository_id := ''124''\<rparr>)
     \<and> \<not> matches_github_actions_identity test_actions_identity
           (actions_claims\<lparr>cl_workflow_ref := ''owner/repo/.github/workflows/other.yml@refs/tags/v1.2.3''\<rparr>)
     \<and> \<not> matches_github_actions_identity test_actions_identity
           (actions_claims\<lparr>cl_environment := Some ''other''\<rparr>)"

lemma actions_identity_uses_repository_numeric_id_passes: "actions_identity_uses_repository_numeric_id"
  by code_simp

definition actions_identities_can_share_repository_when_workflows_differ :: bool where
  "actions_identities_can_share_repository_when_workflows_differ \<longleftrightarrow>
     (let nightly = test_actions_identity\<lparr>ic_id := ''nightly-actions'',
                      ic_workflow_path := Some ''.github/workflows/nightly.yml''\<rparr> in
      case resolve_github_actions_identity [test_actions_identity, nightly] actions_claims of
        Ok resolved \<Rightarrow> ic_id resolved = ''release-actions'' | _ \<Rightarrow> False)"

lemma actions_identities_can_share_repository_when_workflows_differ_passes:
  "actions_identities_can_share_repository_when_workflows_differ"
  by code_simp

definition overlapping_actions_identities_are_rejected_as_ambiguous :: bool where
  "overlapping_actions_identities_are_rejected_as_ambiguous \<longleftrightarrow>
     resolve_github_actions_identity
       [test_actions_identity, test_actions_identity\<lparr>ic_id := ''also-release-actions''\<rparr>] actions_claims
     = Err ClaimsDenied"

lemma overlapping_actions_identities_are_rejected_as_ambiguous_passes:
  "overlapping_actions_identities_are_rejected_as_ambiguous"
  by code_simp

definition oauth_device_config_exposes_only_public_flow_parameters :: bool where
  "oauth_device_config_exposes_only_public_flow_parameters \<longleftrightarrow>
     with_auth for_tests (\<lambda>auth.
       github_oauth_device_config auth
       = \<lparr>od_client_id = ''Iv1.test'', od_device_code_url = ''https://github.com/login/device/code'',
          od_access_token_url = ''https://github.com/login/oauth/access_token'', od_scope = ''read:user''\<rparr>)"

lemma oauth_device_config_exposes_only_public_flow_parameters_passes:
  "oauth_device_config_exposes_only_public_flow_parameters"
  by code_simp

definition read_user_scope_is_required :: bool where
  "read_user_scope_is_required \<longleftrightarrow>
     scope_grants_read_user [''read:user''] \<and> scope_grants_read_user [''gist'', ''user'']
     \<and> \<not> scope_grants_read_user [] \<and> \<not> scope_grants_read_user [''read:org'']"

lemma read_user_scope_is_required_passes: "read_user_scope_is_required"
  by code_simp

definition ref_protected_accepts_bool_or_string :: bool where
  "ref_protected_accepts_bool_or_string \<longleftrightarrow>
     claim_is_true (Some (JBool True)) \<and> claim_is_true (Some (JString ''true''))
     \<and> \<not> claim_is_true (Some (JString ''false'')) \<and> \<not> claim_is_true (Some (JBool False))
     \<and> \<not> claim_is_true None"

lemma ref_protected_accepts_bool_or_string_passes: "ref_protected_accepts_bool_or_string"
  by code_simp

section \<open>Device tokens\<close>

text \<open>The authenticator of the tests, evaluated.\<close>

definition test_inner :: "string \<Rightarrow> identity_config list \<Rightarrow> string inner" where
  "test_inner api_url identities =
     \<lparr>in_github = \<lparr>gh_api_url = api_url, gh_api_version = default_github_api_version,
        gh_oauth_access_token_url = default_github_oauth_access_token_url,
        gh_oauth_device_code_url = default_github_oauth_device_code_url,
        gh_oauth_client_id = ''Iv1.test'',
        gh_oauth_client_secret_credential = default_github_oauth_client_secret_credential,
        gh_oauth_session_ttl_seconds = default_oauth_session_ttl_seconds\<rparr>,
      in_github_oauth_client_secret = ''secret'',
      in_actions = \<lparr>ga_audience = default_audience, ga_jwks_url = default_jwks_url,
        ga_jwks_ttl_seconds = default_jwks_ttl_seconds\<rparr>,
      in_identities = identities, in_jwks = jwks_cache_default,
      in_device_token_replay = mutex_new \<lparr>dr_in_flight = [], dr_used = hm_new\<rparr>,
      in_oauth_sessions = hm_new, in_seen_jtis = mutex_new hm_new\<rparr>"

lemma for_tests_with_github_eq: "for_tests_with_github api_url identities = Some (test_inner api_url identities)"
  by (simp add: for_tests_with_github_def test_inner_def de_github_config_def de_github_actions_config_def
      field_defs)

lemma for_tests_eq: "for_tests = Some (test_inner ''https://api.github.com'' [])"
  by (simp add: for_tests_def for_tests_with_github_eq)

lemma user_42: "u64_to_string 42 = ''42''"
  by (simp add: u64_to_string_def decimal.simps, code_simp)

lemma user_99: "u64_to_string 99 = ''99''"
  by (simp add: u64_to_string_def decimal.simps, code_simp)

lemmas hm_defs = hm_new_def hm_get_def hm_insert_def hm_retain_def hm_len_def hm_contains_key_def

lemmas clock_defs = instant_add_def from_secs_def NANOS_def INSTANT_LIMIT_def

definition device_bootstrap_tokens_are_single_use :: bool where
  "device_bootstrap_tokens_are_single_use \<longleftrightarrow>
     with_auth for_tests (\<lambda>auth.
       case begin_device_token_use test_sha256 1 ''gho_test'' (in_device_token_replay auth) of
         (Ok first, replay1) \<Rightarrow>
           (case begin_device_token_use test_sha256 2 ''gho_test'' replay1 of (second, replay2) \<Rightarrow>
            second = Err FlowTokenReplayed
            \<and> (case mark_consumed 3 first replay2 of (marked, replay3) \<Rightarrow>
               marked = Ok ()
               \<and> fst (begin_device_token_use test_sha256 4 ''gho_test'' (drop_guard first replay3))
                 = Err FlowTokenReplayed))
       | _ \<Rightarrow> False)"

lemma device_bootstrap_tokens_are_single_use_passes: "device_bootstrap_tokens_are_single_use"
  by (simp add: device_bootstrap_tokens_are_single_use_def with_auth_def for_tests_eq test_inner_def
      begin_device_token_use_def mark_consumed_def drop_guard_def mutex_new_def hm_defs clock_defs
      DEVICE_TOKEN_REPLAY_TTL_def MAX_USED_DEVICE_TOKENS_def Let_def)

section \<open>The exchange\<close>

text \<open>What the mock answers to the requests of an exchange.\<close>

lemma no_body_read: "from_slice plain_json de [] = None"
  by (simp add: from_slice_def plain_json_def)

lemma mock_token_read:
  "from_slice plain_json de_token_check_response (jt_print plain_json (mock_token_json s)) =
     Some \<lparr>tc_scopes = mg_scopes s, tc_client_id = mg_token_client_id s\<rparr>"
  by (simp add: from_slice_print plain_json_laws mock_token_json_def de_token_check_response_def struct_simps
      de_token_check_app_def one_field_object)

lemma mock_user_read:
  "from_slice plain_json de_github_user_response (jt_print plain_json (mock_user_json s)) =
     Some \<lparr>gu_login = mg_login s, gu_id = mg_user_id s, gu_two_factor_authentication = mg_two_factor_authentication s\<rparr>"
proof -
  have "writable 127 (mock_user_json s)"
    by (auto simp: mock_user_json_def writable_uint simp del: writable.simps(1) split: option.split)
  then show ?thesis
    by (simp add: from_slice_print plain_json_laws) (simp add: mock_user_json_def de_github_user_response_def
        struct_simps json_u64_uint del: json_u64.simps split: option.split)
qed

lemma mock_check:
  "check_github_oauth_token (spawn_mock_github s) st token =
     (if mg_check_status s = 404 then Err FlowTokenValidationFailed
      else if mg_check_status s \<noteq> 200 then Err FlowIdentityProviderUnavailable
      else if mg_token_client_id s \<noteq> gh_oauth_client_id (in_github st) then Err FlowTokenValidationFailed
      else Ok (mg_scopes s))"
  by (simp add: check_github_oauth_token_def spawn_mock_github_def mock_token_check_def check_request_def
      is_success_def mock_token_read no_body_read)

lemma mock_account:
  "github_account_from_token (spawn_mock_github s) st token scopes =
     (if \<not> scope_grants_read_user scopes then Err FlowScopeNotGranted
      else if mg_user_status s = 401 then Err FlowTokenValidationFailed
      else if mg_user_status s \<noteq> 200 then Err FlowIdentityProviderUnavailable
      else case find (\<lambda>i. matches_github_account_identity i (u64_to_string (mg_user_id s)) (mg_login s))
                  (in_identities st) of
             None \<Rightarrow> Err FlowClaimsDenied
           | Some i \<Rightarrow>
               if mg_two_factor_authentication s \<noteq> Some True then Err FlowTwoFactorRequired
               else Ok (ic_id i, \<lparr>gu_login = mg_login s, gu_id = mg_user_id s,
                                  gu_two_factor_authentication = mg_two_factor_authentication s\<rparr>))"
  by (simp add: github_account_from_token_def resolve_github_user_def spawn_mock_github_def mock_user_def
      user_request_def is_success_def mock_user_read no_body_read split: option.split)

lemma mock_revocation:
  "revoke_github_token (spawn_mock_github s) st token =
     (if mg_revoke_status s = 204 \<or> mg_revoke_status s = 404 then Ok () else Err FlowTokenRevocationFailed)"
  by (simp add: revoke_github_token_def spawn_mock_github_def mock_revoke_def revoke_request_def check_request_def)

lemma mock_identities:
  "matches_github_account_identity account_identity ''42'' ''octocat''"
  "\<not> matches_github_account_identity account_identity ''99'' ''octocat''"
  by code_simp+

lemma account_identity_id: "ic_id account_identity = ''maintainer''"
  by (simp add: account_identity_def)

lemma mock_scopes: "scope_grants_read_user [''read:user'']" "\<not> scope_grants_read_user [''read:org'']"
  by code_simp+

lemma request_methods:
  "hq_method (check_request st token) = HttpPost" "hq_method (user_request st token) = HttpGet"
  "hq_method (revoke_request st token) = HttpDelete"
  by (simp_all add: check_request_def user_request_def revoke_request_def)

lemmas exchange_defs = complete_github_device_oauth_def exchange_at_def MAX_BEARER_TOKEN_BYTES_def
  begin_device_token_use_def finish_device_oauth_def mark_consumed_def mint_github_account_session_def
  drop_use_guard_def drop_guard_def with_replay_def mutex_new_def hm_defs clock_defs Let_def
  DEVICE_TOKEN_REPLAY_TTL_def MAX_USED_DEVICE_TOKENS_def MAX_OAUTH_SESSIONS_def
  default_oauth_session_ttl_seconds_def revocations_def

lemmas mock_rules = mock_check mock_account mock_revocation mock_identities mock_scopes request_methods
  mock_default_def account_identity_id user_42 user_99

lemmas refusal_rules = exchange_refused_def with_auth_def for_tests_with_github_eq test_inner_def
  exchange_defs mock_rules

definition device_exchange_rejects_token_for_another_oauth_app :: bool where
  "device_exchange_rejects_token_for_another_oauth_app \<longleftrightarrow>
     exchange_refused (mock_default\<lparr>mg_token_client_id := ''Iv1.someone-else''\<rparr>) ''gho_wrong_app''
       FlowTokenValidationFailed 0"

lemma device_exchange_rejects_token_for_another_oauth_app_passes:
  "device_exchange_rejects_token_for_another_oauth_app"
  by (simp add: device_exchange_rejects_token_for_another_oauth_app_def refusal_rules)

definition device_exchange_revokes_token_when_scope_is_missing :: bool where
  "device_exchange_revokes_token_when_scope_is_missing \<longleftrightarrow>
     exchange_refused (mock_default\<lparr>mg_scopes := [''read:org'']\<rparr>) ''gho_no_scope'' FlowScopeNotGranted 1"

lemma device_exchange_revokes_token_when_scope_is_missing_passes:
  "device_exchange_revokes_token_when_scope_is_missing"
  by (simp add: device_exchange_revokes_token_when_scope_is_missing_def refusal_rules)

definition device_exchange_revokes_token_for_unauthorized_account :: bool where
  "device_exchange_revokes_token_for_unauthorized_account \<longleftrightarrow>
     exchange_refused (mock_default\<lparr>mg_user_id := 99\<rparr>) ''gho_unauthorized'' FlowClaimsDenied 1"

lemma device_exchange_revokes_token_for_unauthorized_account_passes:
  "device_exchange_revokes_token_for_unauthorized_account"
  by (simp add: device_exchange_revokes_token_for_unauthorized_account_def refusal_rules)

definition device_exchange_requires_two_factor_authentication :: bool where
  "device_exchange_requires_two_factor_authentication \<longleftrightarrow>
     exchange_refused (mock_default\<lparr>mg_two_factor_authentication := Some False\<rparr>) ''gho_no_2fa''
       FlowTwoFactorRequired 1"

lemma device_exchange_requires_two_factor_authentication_passes:
  "device_exchange_requires_two_factor_authentication"
  by (simp add: device_exchange_requires_two_factor_authentication_def refusal_rules)

definition device_exchange_handles_github_token_check_failure :: bool where
  "device_exchange_handles_github_token_check_failure \<longleftrightarrow>
     exchange_refused (mock_default\<lparr>mg_check_status := 500\<rparr>) ''gho_github_failure''
       FlowIdentityProviderUnavailable 0"

lemma device_exchange_handles_github_token_check_failure_passes:
  "device_exchange_handles_github_token_check_failure"
  by (simp add: device_exchange_handles_github_token_check_failure_def refusal_rules)

definition device_exchange_fails_closed_when_revocation_fails :: bool where
  "device_exchange_fails_closed_when_revocation_fails \<longleftrightarrow>
     with_auth (for_tests_with_github ''http://mock'' [account_identity]) (\<lambda>auth.
       let s = mock_default\<lparr>mg_revoke_status := 500\<rparr> in
       case complete_github_device_oauth (exchange_at s 10) ''gho_revoke_failure'' auth of
         (first, auth1, requests1) \<Rightarrow>
           first = Err FlowTokenRevocationFailed \<and> in_oauth_sessions auth1 = []
           \<and> (case complete_github_device_oauth (exchange_at s 20) ''gho_revoke_failure'' auth1 of
                (second, auth2, requests2) \<Rightarrow>
                  second = Err FlowTokenRevocationFailed \<and> revocations (requests1 @ requests2) = 2))"

lemma device_exchange_fails_closed_when_revocation_fails_passes:
  "device_exchange_fails_closed_when_revocation_fails"
  by (simp add: device_exchange_fails_closed_when_revocation_fails_def refusal_rules)

section \<open>Sessions\<close>

text \<open>The requests of the tests carry no JSON web token, so its library decodes none of them.\<close>

definition no_jwt_env :: "instant \<Rightarrow> unit actions_env" where
  "no_jwt_env now = demo_actions_env\<lparr>ae_now := now\<rparr>"

definition bearer_headers :: "string \<Rightarrow> header_map" where
  "bearer_headers token = \<lparr>authorization = Some (Visible (''Bearer '' @ token)), content_type = None\<rparr>"

definition device_exchange_mints_session_only_after_successful_revocation :: bool where
  "device_exchange_mints_session_only_after_successful_revocation \<longleftrightarrow>
     with_auth (for_tests_with_github ''http://mock'' [account_identity]) (\<lambda>auth.
       case complete_github_device_oauth (exchange_at mock_default 10) ''gho_valid'' auth of
         (Ok grant, auth1, requests) \<Rightarrow>
           starts_with Auth_Flow.SESSION_TOKEN_PREFIX (og_access_token grant) \<and> revocations requests = 1
           \<and> (case authenticate test_sha256 (no_jwt_env 20) (bearer_headers (og_access_token grant)) auth1 of
                (Ok who, auth2) \<Rightarrow>
                  pr_identity_id who = ''maintainer''
                  \<and> fst (complete_github_device_oauth (exchange_at mock_default 30) ''gho_valid'' auth2)
                    = Err FlowTokenReplayed
              | _ \<Rightarrow> False)
       | _ \<Rightarrow> False)"

lemma mts_bearer:
  "bearer_token (bearer_headers (session_token (\<lambda>b. b) test_random)) = Ok (session_token (\<lambda>b. b) test_random)"
proof -
  have "\<not> has_whitespace (session_token (\<lambda>b. b) test_random)" by code_simp
  moreover have "eq_ignore_ascii_case ''Bearer'' ''bearer''" by code_simp
  ultimately show ?thesis
    by (simp add: bearer_token_def bearer_headers_def MAX_BEARER_TOKEN_BYTES_def session_token_def
        Auth_Flow.SESSION_TOKEN_PREFIX_def test_random_def)
qed

lemma mts_prefixed: "starts_with Auth_Flow.SESSION_TOKEN_PREFIX (session_token (\<lambda>b. b) test_random)"
  by code_simp

lemmas session_rules = authenticate_def mts_bearer mts_prefixed is_github_actions_jwt_def no_jwt_env_def
  demo_actions_env_def authenticate_github_account_session_def session_principal_def

lemma device_exchange_mints_session_only_after_successful_revocation_passes:
  "device_exchange_mints_session_only_after_successful_revocation"
  by (simp add: device_exchange_mints_session_only_after_successful_revocation_def with_auth_def
      for_tests_with_github_eq test_inner_def exchange_defs mock_rules session_rules)

definition session_tokens_are_random_and_stored_hashed :: bool where
  "session_tokens_are_random_and_stored_hashed \<longleftrightarrow>
     with_auth for_tests (\<lambda>auth.
       let token = session_token (\<lambda>b. b) test_random;
           auth1 = auth\<lparr>in_oauth_sessions := hm_insert (test_sha256 token)
             \<lparr>se_expires_at = 60000000000, se_identity_id = ''maintainer'', se_user_id = ''42'',
              se_login = ''octocat''\<rparr> (in_oauth_sessions auth)\<rparr> in
       length token = 4 + 43
       \<and> is_ok (fst (authenticate test_sha256 (no_jwt_env 1) (bearer_headers token) auth1))
       \<and> \<not> list_ex (\<lambda>key. key = token) (map fst (in_oauth_sessions auth1)))"

lemma token_not_its_hash: "test_sha256 (session_token (\<lambda>b. b) test_random) \<noteq> session_token (\<lambda>b. b) test_random"
  by code_simp

lemma session_tokens_are_random_and_stored_hashed_passes: "session_tokens_are_random_and_stored_hashed"
proof -
  have "length (session_token (\<lambda>b. b) test_random) = 4 + 43" by code_simp
  then show ?thesis
    by (simp add: session_tokens_are_random_and_stored_hashed_def with_auth_def for_tests_eq test_inner_def
        hm_defs session_rules token_not_its_hash Let_def)
qed

section \<open>GitHub Actions tokens and keys\<close>

definition github_actions_jti_is_single_use :: bool where
  "github_actions_jti_is_single_use \<longleftrightarrow>
     with_auth for_tests (\<lambda>auth.
       case record_jti 1 1000 ''abc'' 1300 (in_seen_jtis auth) of (first, seen1) \<Rightarrow>
         first = Ok ()
         \<and> (case record_jti 2 1000 ''abc'' 1300 seen1 of (second, seen2) \<Rightarrow>
              second = Err TokenReplayed \<and> fst (record_jti 3 1000 ''def'' 1300 seen2) = Ok ()))"

lemma github_actions_jti_is_single_use_passes: "github_actions_jti_is_single_use"
proof -
  have "unat (jti_remaining 1000 1300) = 360" by (simp add: jti_remaining_unat)
  then have "from_secs (jti_remaining 1000 1300) = 360 * NANOS" by (simp add: from_secs_def)
  then show ?thesis
    by (simp add: github_actions_jti_is_single_use_def with_auth_def for_tests_eq test_inner_def record_jti_def
        mutex_new_def hm_defs instant_add_def NANOS_def INSTANT_LIMIT_def MAX_SEEN_JTIS_def)
qed

text \<open>The clock readings of a lookup at the instant \<open>t\<close>; a fetch would fail with \<open>KeyDiscovery\<close>.\<close>

definition clock_at :: "instant \<Rightarrow> jwk_clock" where
  "clock_at t = \<lparr>ck_check = t, ck_recheck = t, ck_elapsed = t, ck_attempt = t, ck_fetched = t, ck_usable = t\<rparr>"

definition test_jwk_for :: "instant \<Rightarrow> string \<Rightarrow> string inner \<Rightarrow> (auth_error, rsa_jwk) outcome" where
  "test_jwk_for t kid auth =
     fst (jwk_for (clock_at t) (Err KeyDiscovery) (ga_jwks_ttl_seconds (in_actions auth)) kid (in_jwks auth))"

definition unknown_kid_does_not_refetch_within_the_refresh_interval :: bool where
  "unknown_kid_does_not_refetch_within_the_refresh_interval \<longleftrightarrow>
     with_auth for_tests (\<lambda>auth.
       test_jwk_for 3 ''unknown-kid''
         (auth\<lparr>in_jwks := (in_jwks auth)\<lparr>jw_fetched_at := Some 1, jw_last_attempt := Some 2\<rparr>\<rparr>)
       = Err InvalidToken)"

definition stale_keys_are_served_when_refresh_is_not_allowed :: bool where
  "stale_keys_are_served_when_refresh_is_not_allowed \<longleftrightarrow>
     with_auth for_tests (\<lambda>auth.
       is_ok (test_jwk_for 3 ''kid''
         (auth\<lparr>in_jwks := \<lparr>jw_fetched_at = checked_sub 1 (from_secs 7200), jw_last_attempt = Some 2,
            jw_keys = hm_insert ''kid'' \<lparr>jk_kty = ''RSA'', jk_kid = ''kid'', jk_alg = Some ''RS256'', jk_n = ''AQAB'',
              jk_e = ''AQAB'', jk_use = Some ''sig''\<rparr> (jw_keys (in_jwks auth))\<rparr>\<rparr>)))"

lemmas jwks_rules = with_auth_def for_tests_eq test_inner_def test_jwk_for_def clock_at_def jwk_for_def
  cached_jwk_def refresh_jwks_def may_fetch_def lookup_jwk_def jwks_cache_default_def elapsed_def hm_defs
  duration_saturating_add_def DURATION_MAX_def JWKS_MIN_REFRESH_INTERVAL_def JWKS_MAX_STALENESS_def
  default_jwks_ttl_seconds_def from_secs_def NANOS_def checked_sub_def INSTANT_LIMIT_def

lemma unknown_kid_does_not_refetch_within_the_refresh_interval_passes:
  "unknown_kid_does_not_refetch_within_the_refresh_interval"
  by (simp add: unknown_kid_does_not_refetch_within_the_refresh_interval_def jwks_rules)

lemma stale_keys_are_served_when_refresh_is_not_allowed_passes:
  "stale_keys_are_served_when_refresh_is_not_allowed"
  by (simp add: stale_keys_are_served_when_refresh_is_not_allowed_def jwks_rules)

end
