(* ===== verification/Spec2Isabelle.thy ===== *)
theory Spec2Isabelle
  imports Program Unlock_Queue Audit_Log Secret_Files Config_Tests Auth_Tests Api_Tests
begin

text \<open>
  \<^bold>\<open>A verification library for the Microtun signer.\<close>

  The signer is one Rust program with four commands. \<^verbatim>\<open>serve\<close> runs a service that keeps encrypted
  firmware signing keys, lets an operator unlock them over a local Unix socket and signs 32-byte digests for
  GitHub users and GitHub Actions runs that its configuration allows. \<^verbatim>\<open>unlock\<close>, \<^verbatim>\<open>sign\<close> and
  \<^verbatim>\<open>public-key\<close> are its clients. This development translates the program's own code into HOL functions and
  proves what the parts promise and what they promise together.

  \<^bold>\<open>Conventions.\<close> A computation is an \<open>outcome\<close>: \<open>Ok\<close>, \<open>Err\<close> (a \<^verbatim>\<open>Result::Err\<close> or an early return) or \<open>Panic\<close>. State
  is passed explicitly: an operation returns its result and the new state. Strings are lists of bytes,
  machine integers are words, \<^verbatim>\<open>Duration\<close> is a number of nanoseconds and \<^verbatim>\<open>Instant\<close> an integer with a bound
  beyond which additions panic. A \<^verbatim>\<open>Mutex\<close> is its contents with a poison flag. Clock readings, random bytes
  and request identifiers are arguments. Code that is not in the repository (cryptography, the JWT library,
  the HTTP client, the texts of JSON and TOML, PEM and URL parsing, the \<^verbatim>\<open>oauth2\<close> crate, system calls) is a
  parameter; where a theorem needs a law of such a parameter, it is a named hypothesis that states its
  documented behaviour: \<open>json_text_laws\<close>, \<open>url_parser_laws\<close>, \<open>append_pair_law\<close>, \<open>codec\<close>, \<open>atomic_write\<close>,
  \<open>codecs_agree\<close>, \<open>admin_laws\<close>. The witnesses instantiate the parameters by
  concrete functions.

  \<^bold>\<open>Parts, theories and sources.\<close>

  \<^item> Foundations. \<open>Signer_Prelude\<close>: outcomes, loops, \<^verbatim>\<open>str\<close> methods, saturating arithmetic, clocks. \<open>Hash_Map\<close>:
    \<^verbatim>\<open>HashMap\<close> behind the locale \<open>hash_map\<close> and its extension \<open>expiring_map\<close> for caches with deadlines, interpreted
    on the model's maps. \<open>Url_Model\<close>: what is read of URLs and headers. \<open>Local_Files\<close>: the file system as a map from
    paths to nodes, with failing calls chosen by a parameter. \<open>Json_Decode\<close>: JSON documents and how derived decoders
    read structures from them.
  \<^item> Configuration (\<^verbatim>\<open>src/config.rs\<close>). \<open>Config_Model\<close> has the records, the defaults and \<^verbatim>\<open>normalize_and_validate\<close>
    section by section in the order of the code; \<open>Config_Spec\<close> a declarative contract \<open>config_ok\<close> and the proof that
    the validator accepts exactly the configurations that meet it. \<open>Config_Decode\<close> decodes a document (a tree of TOML
    values) as the serde attributes say: names, defaults, aliases and the refusal of unknown fields.
  \<^item> Keys (\<^verbatim>\<open>src/key.rs\<close>). \<open>Key_Policy\<close>: protected files, credentials and the cost bounds of key files, with
    products at 128 bits. \<open>Secret_Files\<close>: the same files on the file system of \<open>Local_Files\<close>, opened without
    following links, up to what a started service has read. \<open>Key_Material\<close>: one key, loaded, unlocked, signing. \<open>Key_Store\<close>, \<open>Key_Store_Facts\<close>: the indexed
    store and its keyrings. \<open>Key_Vault\<close>: an abstract vault on identifiers that the store refines.
    \<open>Key_Concurrency\<close>: concurrent unlock requests as a step relation over the locks of the code, and the
    locale \<open>key_history\<close> (an invariant under which keys only gain material), interpreted there and for the
    service. \<open>Unlock_Queue\<close>: the admin state of \<^verbatim>\<open>src/api.rs\<close> with its semaphore, around those tasks.
  \<^item> Authentication and authorization (\<^verbatim>\<open>src/auth.rs\<close>, \<^verbatim>\<open>src/authorization.rs\<close>). \<open>Auth_Identity\<close>: claims,
    principals, bearer tokens. \<open>Auth_Replay\<close>: the one-time use of token identifiers. \<open>Auth_Jwks\<close>: the cache of
    GitHub's signing keys. \<open>Auth_Flow\<close>: device login, sessions and \<^verbatim>\<open>authenticate\<close>, with the requests to GitHub in
    order. \<open>Auth_Facts\<close>: their correctness. \<open>Authorization_Model\<close>: the policy decision.
  \<^item> HTTP interface (\<^verbatim>\<open>src/api.rs\<close>). \<open>Api_Limiter\<close>: the limiter of the login endpoint. \<open>Api_Model\<close>: the handlers
    with their errors and audit events. \<open>Api_Facts\<close>: their correctness, over the locale \<open>key_table\<close>. \<open>Audit_Log\<close>: the
    lines of the audit log.
  \<^item> Program (\<^verbatim>\<open>src/main.rs\<close>). \<open>Service\<close>: the start of the service and its two routers as step relations
    \<open>public_step\<close> and \<open>admin_step\<close> with the invariant \<open>service_inv\<close>. \<open>Admin_Socket\<close>: group lookup, creation and removal of
    the Unix socket, the unlock command. \<open>Server_Run\<close>: \<^verbatim>\<open>run_server\<close> from its start to the removal of the socket.
    \<open>Http_Router\<close>: the public and the admin router with routes, body limits and panic layer, as refinements of
    those step relations. \<open>Shutdown\<close>: the signal task, the watch channel and the waits of the two servers. \<open>Program\<close>:
    the command line and \<^verbatim>\<open>main\<close>.
  \<^item> Client (\<^verbatim>\<open>src/session_cache.rs\<close>, \<^verbatim>\<open>src/client.rs\<close>). \<open>Session_Cache\<close>: the cached session.
    \<open>Client_Model\<close>: the commands \<^verbatim>\<open>sign\<close> and \<^verbatim>\<open>public-key\<close> as functions on files and sent requests.
    \<open>Client_Facts\<close>: what they send, counted by \<open>budget\<close>, and what they accept.
  \<^item> Bodies. \<open>Wire_Format\<close>: the documents that service, client, unlock command, session cache and GitHub exchange,
    by the \<^verbatim>\<open>Serialize\<close> and \<^verbatim>\<open>Deserialize\<close> types of both sides.
  \<^item> Compositions. \<open>End_To_End\<close>: the signing client against the public router of a running service. \<open>Unlock_Run\<close>: the
    unlock command against its admin router. This theory: the document from which a service starts, and
    the login that the one offers and the other accepts.
  \<^item> Conformance. \<open>Config_Tests\<close>, \<open>Key_Tests\<close>, \<open>Auth_Tests\<close>, \<open>Api_Tests\<close>: the unit tests of the repository as predicates on the
    model, each with the lemma that it holds. They check the definitions, not the program: where the
    program and the model agree on a test, the translation is confirmed there.

  \<^bold>\<open>What is shown.\<close>

  \<^item> The chain from the configuration file to a signature: in every state reachable by requests, a signature
    implies an active key of the configuration that was unlocked with the contents of its own file, one
    policy for one identity, and a requester that is that identity; the public API alone never unlocks
    anything (\<open>Service\<close>). The chain goes on to the user: a signature that the client prints was made by the
    named key over the given digest for a requester that one policy allows (\<open>End_To_End\<close>), and what the unlock
    command prints is what happened to the keys (\<open>Unlock_Run\<close>).
  \<^item> Exactness: the signing handler, the validator, the key-file policy, protected files and the group
    lookup accept exactly what their contracts say, the audit trail records each answer, and its line
    attributes a signature to identity, key and digest.
  \<^item> One-time use and lifetimes: device tokens, token identifiers, sessions, the rate limits of logins
    and of key-set fetches.
  \<^item> Atomicity: unlocking a keyring is all or nothing, sequentially as a refinement of the vault and under
    every interleaving of concurrent requests. Behind the semaphore the requests are served one after
    the other with the results of the sequential operations, and the queue is always worked off.
  \<^item> Shutdown: no server stops before a signal, and after it both do, in every interleaving.
  \<^item> Bodies: each side reads what the other wrote, and the service reads nothing else as a request. The two
    end-to-end properties and the one on the login run over these documents.
  \<^item> Local security: the key files and the client secret of a started service were protected regular files
    (\<open>Secret_Files\<close>); the admin socket and the session cache are never open to others, also in the
    intermediate states of the file system.
  \<^item> The client: bounded requests, confined credentials, a printed signature that the signer answered; and,
    in this theory, that the login the service offers is one the client accepts.
  \<^item> Three observations on the code are theorems as well: the last second of a token identifier
    (\<open>jti_forgotten_in_last_second\<close>), an expiry beyond the range of the clock (\<open>huge_expiry_poisons_cache\<close>) and the
    outcome of signing that is not audited (\<open>create_signature_audited\<close>).

  \<^bold>\<open>Bounds and fuel.\<close> Every function of the model is total. Loops of the code are structural recursions or
  have a measure; the group lookup has at most six doublings, from 16 KiB to 1 MiB. Following symbolic
  links has the fuel 40 of the Linux kernel, after which the call fails as it does there. Waiting for GitHub
  in the device login is inside the parameter for the \<^verbatim>\<open>oauth2\<close> crate, which gets the time limit.

  Outside the tasks of \<open>Unlock_Queue\<close> and \<open>Shutdown\<close>, which are interleaved step by step, a handler is one step of the
  service. In \<open>Unlock_Queue\<close> the number of steps is bounded by \<open>work\<close>, in \<open>Shutdown\<close> by eight.

  \<^bold>\<open>Not modelled.\<close> The derivation of the command line by \<^verbatim>\<open>clap\<close>; the set-up of the tracing subscriber; the
  HTTP and TCP servers and their connections; the text of TOML files, JSON bodies and log lines; the unit
  tests of libraries alone, of elapsed time and of free permits; the erasure of secrets
  from memory (\<^verbatim>\<open>Zeroizing\<close>); messages on standard error; packaging and build files. They are library
  calls, have no state of the program or nothing that can be observed in HOL.
\<close>

section \<open>From the document of the configuration to the service\<close>

text \<open>\<^verbatim>\<open>toml::from_str\<close> in \<^verbatim>\<open>Config::load\<close>: the crate reads a tree of values, which the sections decode.\<close>

definition toml_from_str ::
  "(string \<Rightarrow> toml option) \<Rightarrow> (string \<Rightarrow> socket_addr option) \<Rightarrow> string \<Rightarrow> config option" where
  "toml_from_str parse_toml parse_addr text = Option.bind (parse_toml text) (de_config parse_addr)"

lemma started_from_document:
  assumes "start_service boot path = Ok (c, st)" and "bo_toml boot = toml_from_str parse_toml parse_addr"
  shows "\<exists>text doc. bo_read_to_string boot path = Some text \<and> parse_toml text = Some doc
    \<and> de_config parse_addr doc = Some c \<and> config_ok (bo_parse_url boot) c"
  using assms
  by (auto simp: start_service_def config_load_def toml_from_str_def ok_or_eq_Ok and_then_eq_Ok map_err_eq_Ok
      bind_eq_Some_conv normalize_and_validate_iff)

text \<open>A document with a misspelt constraint of an identity does not start a service.\<close>

lemma misspelt_identity_refused:
  assumes "bo_read_to_string boot path = Some text" and "bo_toml boot = toml_from_str parse_toml parse_addr"
    and "parse_toml text = Some (TomlTable t)" and "map_of t ''Identity'' = Some (TomlArray ids)"
    and "TomlTable f \<in> set ids" and "name \<in> fst ` set f" and "name \<notin> set identity_fields"
  shows "start_service boot path = Err (ConfigUnparsable path)"
proof -
  have "de_vec de_identity_config (TomlArray ids) = None"
    using assms(5-7) identity_unknown_field de_vec_None by blast
  then have "bo_toml boot text = None"
    using assms(2-4) de_config_identities by (simp add: toml_from_str_def)
  then show ?thesis using assms(1) by (simp add: start_service_def config_load_def)
qed

section \<open>The login offered by the service and the login of the client\<close>

text \<open>
  What is documented of \<^verbatim>\<open>Url::parse\<close>: an https URL is hierarchical, and the text of a URL parses again.
\<close>

definition url_parser_laws :: "url_parser \<Rightarrow> bool" where
  "url_parser_laws parse \<longleftrightarrow>
     (\<forall>s u. parse s = Some u \<longrightarrow>
        (url_scheme u = ''https'' \<longrightarrow> \<not> url_cannot_be_a_base u) \<and> parse (url_as_str u) \<noteq> None)"

lemma https_oauth_url_accepts:
  assumes "url_parser_laws (cn_parse_url env)" and "https_url_ok (cn_parse_url env) s"
  shows "\<exists>u v. cn_parse_url env s = Some u \<and> https_oauth_url env s = Ok u \<and> cn_parse_url env (url_as_str u) = Some v"
  using assms by (fastforce simp: url_parser_laws_def https_url_ok_def https_oauth_url_def)

lemma reachable_settings:
  assumes "start_service boot config_path = Ok (c, st0)" and "(service_step lib cr)\<^sup>*\<^sup>* st0 st"
  shows "config_ok (bo_parse_url boot) c \<and> in_github (ap_auth st) = cfg_github c"
proof -
  have "normalize_and_validate (bo_parse_url boot) c = Ok ()" "service_inv c cr st0"
    using start_service_Ok [OF assms(1)] by blast+
  moreover from this have "service_inv c cr st" using sv.history [OF assms(2)] by blast
  ultimately show ?thesis by (simp add: normalize_and_validate_iff service_inv_def)
qed

lemma valid_key_id_nonempty: "valid_key_id s \<Longrightarrow> s \<noteq> []"
  by (auto simp: valid_key_id_def)

text \<open>
  C16: Whatever requests a started service has handled, the login parameters it serves pass every check of the
  client that reads them from the JSON text of the answer: with the same URL parser the client goes on to ask the two configured GitHub endpoints, for the
  configured application and the scope \<^verbatim>\<open>read:user\<close>, and fails only where GitHub does.
\<close>

theorem served_login_accepted_by_client:
  assumes "start_service boot config_path = Ok (c, st0)" and "(service_step lib cr)\<^sup>*\<^sup>* st0 st"
    and "cn_parse_url env = bo_parse_url boot" and "url_parser_laws (bo_parse_url boot)" and "json_text_laws text"
  shows "\<exists>offer code token.
      from_slice text de_device_config_response
        (web_body_text text (DeviceConfigBody (fst (github_oauth_device_config_handler st)))) = Some offer
    \<and> cn_parse_url env (gh_oauth_device_code_url (cfg_github c)) = Some code
    \<and> cn_parse_url env (gh_oauth_access_token_url (cfg_github c)) = Some token
    \<and> device_flow env offer
      = and_then (ok_or DeviceFlowFailed (cn_device_code env (github_oauth_http_request env)
          (gh_oauth_client_id (cfg_github c)) (url_as_str code) [''read:user''])) (\<lambda>device.
        and_then (ok_or DeviceFlowFailed (cn_device_token env (github_oauth_http_request env)
          (gh_oauth_client_id (cfg_github c)) (url_as_str token) device
          (da_expires_in device - da_interval device))) (\<lambda>access.
        if access = [] then Err EmptyGithubToken else Ok access))"
proof -
  have ok: "config_ok (cn_parse_url env) c" "in_github (ap_auth st) = cfg_github c"
    using reachable_settings [OF assms(1,2)] assms(3) by simp_all
  then have gh: "https_url_ok (cn_parse_url env) (gh_oauth_device_code_url (cfg_github c))"
      "https_url_ok (cn_parse_url env) (gh_oauth_access_token_url (cfg_github c))"
      "gh_oauth_client_id (cfg_github c) \<noteq> []"
    by (auto simp: config_ok_def github_ok_def dest: valid_key_id_nonempty)
  have laws: "url_parser_laws (cn_parse_url env)" using assms(3,4) by simp
  obtain code code' where code: "cn_parse_url env (gh_oauth_device_code_url (cfg_github c)) = Some code"
      "https_oauth_url env (gh_oauth_device_code_url (cfg_github c)) = Ok code"
      "cn_parse_url env (url_as_str code) = Some code'"
    using https_oauth_url_accepts [OF laws gh(1)] by blast
  obtain token token' where token: "cn_parse_url env (gh_oauth_access_token_url (cfg_github c)) = Some token"
      "https_oauth_url env (gh_oauth_access_token_url (cfg_github c)) = Ok token"
      "cn_parse_url env (url_as_str token) = Some token'"
    using https_oauth_url_accepts [OF laws gh(2)] by blast
  have "split_ascii_whitespace OAUTH_SCOPE = [''read:user'']" "OAUTH_SCOPE \<noteq> []" by code_simp+
  then show ?thesis
    using gh(3) code token ok(2)
    by (simp add: device_config_read [OF assms(5)] github_oauth_device_config_handler_def
        github_oauth_device_config_def device_flow_def)
qed

lemma https_parser_laws: "url_parser_laws https_parser"
  by (auto simp: url_parser_laws_def https_parser_def)

definition login_client :: "url \<Rightarrow> client_env" where
  "login_client code =
     demo_client_env\<lparr>cn_parse_url := https_parser,
       cn_device_code := (\<lambda>http client url scopes. if url = url_as_str code \<and> scopes = [''read:user'']
          then Some \<lparr>da_device_code = ''dc'', da_interval = 5, da_expires_in = 900\<rparr> else None),
       cn_device_token := (\<lambda>http client url device limit. if limit = 895 then Some ''gho'' else None)\<rparr>"

theorem served_login_accepted_by_client_witness:
  "\<exists>code offer. https_parser ''https://github.com/login/device/code'' = Some code
     \<and> from_slice plain_json de_device_config_response
         (web_body_text plain_json (DeviceConfigBody (fst (github_oauth_device_config_handler demo_start)))) = Some offer
     \<and> device_flow (login_client code) offer = Ok ''gho''"
proof -
  have url: "gh_oauth_device_code_url (cfg_github example_config) = ''https://github.com/login/device/code''"
    by (simp add: example_config_def default_github_oauth_device_code_url_def)
  have parser: "cn_parse_url (login_client code) = bo_parse_url demo_boot" "url_parser_laws (bo_parse_url demo_boot)"
      "bo_parse_url demo_boot = https_parser" for code
    by (simp_all add: demo_boot_def login_client_def https_parser_laws)
  note login = served_login_accepted_by_client [OF demo_started rtranclp.rtrancl_refl parser(1,2) plain_json_laws]
  from login [of undefined] obtain code where
      code: "https_parser ''https://github.com/login/device/code'' = Some code"
    by (auto simp: parser url)
  from login [of code] code show ?thesis by (auto simp: parser url login_client_def)
qed

end
